(* ===== verification/GoPrelude.thy ===== *)
theory GoPrelude
  imports Main "HOL-Library.Word" "HOL-Library.AList" "HOL-Library.Sublist"
begin

text \<open>
  The part of Go and of its standard library that the components share: byte strings
  (\<open>strings.HasPrefix\<close>, \<open>Split\<close>, \<open>Trim\<close> and their kin), \<open>strconv.Itoa\<close> and \<open>Atoi\<close>,
  \<open>cmp.Or\<close>, nil-safe field access, \<open>sync.Map\<close>, channels with a non-blocking send, and
  \<open>time.Time\<close>. A Go string is a sequence of bytes, which is HOL's \<^typ>\<open>string\<close> (a list of
  8-bit characters). The two interfaces used everywhere, a key-value store and a bounded
  queue, are locales; \<open>sync.Map\<close> and the buffered channel are their interpretations.
\<close>

section \<open>Collections of rewrite rules\<close>

named_theorems go_simps \<open>equations of the Go run-time model used by the component proofs\<close>
named_theorems store_simps \<open>lookup after an update of a sync.Map\<close>

section \<open>Results\<close>

text \<open>
  A Go function returns \<open>(value, error)\<close> or panics. Failures are values: \<open>EOF\<close> is
  \<open>io.EOF\<close>, which callers test for, \<open>Error\<close> carries the text of any other error and
  \<open>Panic\<close> is a run-time panic (index out of range, negative \<open>Repeat\<close> count, a slice
  beyond its capacity).
\<close>

datatype gofail = EOF | Error string | Panic string

type_synonym 'a result = "gofail + 'a"

section \<open>Strings\<close>

definition HasPrefix :: "string \<Rightarrow> string \<Rightarrow> bool" where
  "HasPrefix s p \<longleftrightarrow> take (length p) s = p"

definition HasSuffix :: "string \<Rightarrow> string \<Rightarrow> bool" where
  "HasSuffix s p \<longleftrightarrow> length p \<le> length s \<and> drop (length s - length p) s = p"

definition TrimPrefix :: "string \<Rightarrow> string \<Rightarrow> string" where
  "TrimPrefix s p = (if HasPrefix s p then drop (length p) s else s)"

definition TrimSuffix :: "string \<Rightarrow> string \<Rightarrow> string" where
  "TrimSuffix s p = (if HasSuffix s p then take (length s - length p) s else s)"

text \<open>\<open>strings.TrimLeft\<close>, \<open>TrimRight\<close> and \<open>Trim\<close> with an ASCII cut set.\<close>

definition TrimLeft :: "string \<Rightarrow> string \<Rightarrow> string" where
  "TrimLeft s cs = dropWhile (\<lambda>c. c \<in> set cs) s"

definition TrimRight :: "string \<Rightarrow> string \<Rightarrow> string" where
  "TrimRight s cs = rev (dropWhile (\<lambda>c. c \<in> set cs) (rev s))"

definition Trim :: "string \<Rightarrow> string \<Rightarrow> string" where
  "Trim s cs = TrimRight (TrimLeft s cs) cs"

text \<open>\<open>strings.Split\<close> with a one-byte separator, and \<open>strings.Join\<close>.\<close>

fun Split :: "string \<Rightarrow> char \<Rightarrow> string list" where
  "Split [] c = [[]]"
| "Split (x # s) c =
     (if x = c then [] # Split s c
      else (case Split s c of [] \<Rightarrow> [[x]] | t # ts \<Rightarrow> (x # t) # ts))"

fun Join :: "string list \<Rightarrow> string \<Rightarrow> string" where
  "Join [] sep = []"
| "Join [t] sep = t"
| "Join (t # ts) sep = t @ sep @ Join ts sep"

definition Repeat :: "string \<Rightarrow> int \<Rightarrow> string result" where
  "Repeat s n = (if n < 0 then Inl (Panic ''strings: negative Repeat count'')
                 else Inr (concat (replicate (nat n) s)))"

text \<open>\<open>cmp.Or\<close> on two strings: the first that is not the zero value.\<close>

definition cmp_Or :: "string \<Rightarrow> string \<Rightarrow> string" where
  "cmp_Or a b = (if a \<noteq> [] then a else b)"

text \<open>A field read through a pointer that may be nil, as the generated getters do it.\<close>

definition pget :: "'b \<Rightarrow> ('a \<Rightarrow> 'b) \<Rightarrow> 'a option \<Rightarrow> 'b" where
  "pget d f p = (case p of None \<Rightarrow> d | Some x \<Rightarrow> f x)"

lemma pget_simps [simp]: "pget d f None = d" "pget d f (Some x) = f x"
  by (simp_all add: pget_def)

lemma cmp_Or_simps [simp]: "cmp_Or [] b = b" "cmp_Or a [] = a" "a \<noteq> [] \<Longrightarrow> cmp_Or a b = a"
  by (simp_all add: cmp_Or_def)

lemma HasPrefix_iff: "HasPrefix s p \<longleftrightarrow> (\<exists>r. s = p @ r)"
  unfolding HasPrefix_def by (metis append_eq_conv_conj append_take_drop_id)

lemma HasPrefix_append [simp]: "HasPrefix (p @ r) p"
  by (auto simp: HasPrefix_iff)

lemma HasPrefix_Nil [simp]: "HasPrefix s []"
  by (simp add: HasPrefix_def)

lemma HasPrefix_Cons [simp]:
  "HasPrefix (x # s) (y # p) \<longleftrightarrow> x = y \<and> HasPrefix s p" "\<not> HasPrefix [] (y # p)"
  by (auto simp: HasPrefix_def)

lemma HasSuffix_iff: "HasSuffix s p \<longleftrightarrow> (\<exists>r. s = r @ p)"
  unfolding HasSuffix_def by (metis append_take_drop_id diff_add_inverse2
      append_eq_conv_conj length_append le_add2)

lemma HasSuffix_append [simp]: "HasSuffix (r @ p) p"
  by (auto simp: HasSuffix_iff)

lemma HasSuffix_snoc: "HasSuffix s [c] \<longleftrightarrow> s \<noteq> [] \<and> last s = c"
  by (auto simp: HasSuffix_iff intro: append_butlast_last_id [symmetric])

lemma TrimSuffix_append [simp]: "TrimSuffix (s @ p) p = s"
  by (simp add: TrimSuffix_def)

lemma TrimPrefix_append [simp]: "TrimPrefix (p @ s) p = s"
  by (simp add: TrimPrefix_def)

lemma Split_not_Nil [simp]: "Split s c \<noteq> []"
  by (cases s) (auto split: list.splits)

lemma Split_no_sep: "c \<notin> set s \<Longrightarrow> Split s c = [s]"
  by (induction s) auto

lemma Split_app_sep: "c \<notin> set t \<Longrightarrow> Split (t @ c # s) c = t # Split s c"
  by (induction t) (auto split: list.splits)

lemma Split_Join:
  "ts \<noteq> [] \<Longrightarrow> (\<And>t. t \<in> set ts \<Longrightarrow> c \<notin> set t) \<Longrightarrow> Split (Join ts [c]) c = ts"
  by (induction ts "[c]" rule: Join.induct) (auto simp: Split_no_sep Split_app_sep)

lemma Split_token: "t \<in> set (Split s c) \<Longrightarrow> c \<notin> set t"
proof (induction s arbitrary: t)
  case (Cons x s)
  then show ?case by (auto split: if_splits list.splits)
qed simp

lemma Join_Split [simp]: "Join (Split s c) [c] = s"
proof (induction s)
  case (Cons x s)
  then show ?case
    by (cases "Split s c" rule: list.exhaust [case_names Nil Cons]; cases "tl (Split s c)")
      (auto split: list.splits)
qed simp

lemma Join_Cons: "ts \<noteq> [] \<Longrightarrow> Join (t # ts) sep = t @ sep @ Join ts sep"
  by (cases ts) auto

lemma Join_snoc: "ts \<noteq> [] \<Longrightarrow> Join (ts @ [t]) sep = Join ts sep @ sep @ t"
  by (induction ts sep rule: Join.induct) (auto simp: Join_Cons)

lemma set_TrimRight: "set (TrimRight s cs) \<subseteq> set s"
  using set_dropWhileD by (fastforce simp: TrimRight_def)

lemma TrimRight_id: "s = [] \<or> last s \<notin> set cs \<Longrightarrow> TrimRight s cs = s"
  by (cases s rule: rev_cases) (auto simp: TrimRight_def)

lemma TrimRight_snoc: "c \<in> set cs \<Longrightarrow> TrimRight (s @ [c]) cs = TrimRight s cs"
  by (simp add: TrimRight_def)

section \<open>Decimal integers\<close>

text \<open>\<open>strconv.Itoa\<close> of an \<open>int\<close>, and \<open>strconv.Atoi\<close> with its 64-bit range check.\<close>

definition digit :: "nat \<Rightarrow> char" where
  "digit d = char_of (48 + d)"

fun digits_of :: "nat \<Rightarrow> string" where
  "digits_of n = (if n < 10 then [digit n] else digits_of (n div 10) @ [digit (n mod 10)])"

declare digits_of.simps [simp del]

definition Itoa :: "int \<Rightarrow> string" where
  "Itoa n = (if n < 0 then CHR ''-'' # digits_of (nat (- n)) else digits_of (nat n))"

definition is_digit :: "char \<Rightarrow> bool" where
  "is_digit c \<longleftrightarrow> 48 \<le> (of_char c :: nat) \<and> (of_char c :: nat) \<le> 57"

definition digit_val :: "char \<Rightarrow> nat" where
  "digit_val c = of_char c - 48"

fun read_digits :: "nat \<Rightarrow> string \<Rightarrow> nat option" where
  "read_digits acc [] = Some acc"
| "read_digits acc (c # s) = (if is_digit c then read_digits (10 * acc + digit_val c) s else None)"

definition Atoi :: "string \<Rightarrow> int option" where
  "Atoi s =
     (let neg = HasPrefix s ''-'';
          ds = (if neg \<or> HasPrefix s ''+'' then tl s else s)
      in if ds = [] then None
         else (case read_digits 0 ds of
                 None \<Rightarrow> None
               | Some n \<Rightarrow>
                   (let v = (if neg then - int n else int n)
                    in if - (2 ^ 63) \<le> v \<and> v < 2 ^ 63 then Some v else None)))"

lemma digit_props:
  assumes "d < 10"
  shows "is_digit (digit d)" "digit_val (digit d) = d" "digit d \<noteq> CHR ''-''" "digit d \<noteq> CHR ''+''"
proof -
  have *: "(of_char (digit d) :: nat) = 48 + d"
    using assms by (simp add: digit_def)
  show "is_digit (digit d)" "digit_val (digit d) = d"
    using assms * by (simp_all add: is_digit_def digit_val_def)
  show "digit d \<noteq> CHR ''-''"
  proof
    assume "digit d = CHR ''-''"
    with * have "48 + d = (45 :: nat)" by simp
    then show False by simp
  qed
  show "digit d \<noteq> CHR ''+''"
  proof
    assume "digit d = CHR ''+''"
    with * have "48 + d = (43 :: nat)" by simp
    then show False by simp
  qed
qed

lemma read_digits_append:
  "read_digits a (s @ t) = (case read_digits a s of None \<Rightarrow> None | Some n \<Rightarrow> read_digits n t)"
  by (induction a s rule: read_digits.induct) auto

lemma read_digits_of: "read_digits 0 (digits_of n) = Some n"
proof (induction n rule: digits_of.induct)
  case (1 n)
  show ?case
  proof (cases "n < 10")
    case True
    then show ?thesis by (subst digits_of.simps) (simp add: digit_props)
  next
    case False
    with 1 show ?thesis
      by (subst digits_of.simps) (simp add: read_digits_append digit_props)
  qed
qed

lemma digits_of_hd: "\<exists>d r. d < 10 \<and> digits_of n = digit d # r"
proof (induction n rule: digits_of.induct)
  case (1 n)
  show ?case
  proof (cases "n < 10")
    case True
    then show ?thesis by (subst digits_of.simps) auto
  next
    case False
    with 1 obtain d r where "d < 10" "digits_of (n div 10) = digit d # r" by blast
    with False show ?thesis by (subst digits_of.simps) auto
  qed
qed

lemma Atoi_Itoa:
  assumes "- (2 ^ 63) \<le> n" "n < 2 ^ 63"
  shows "Atoi (Itoa n) = Some n"
proof (cases "n < 0")
  case True
  obtain d r where d: "d < 10" "digits_of (nat (- n)) = digit d # r"
    using digits_of_hd by blast
  then have "read_digits 0 (digit d # r) = Some (nat (- n))"
    using read_digits_of [of "nat (- n)"] by simp
  then show ?thesis using True assms d by (simp add: Itoa_def Atoi_def)
next
  case False
  obtain d r where d: "d < 10" "digits_of (nat n) = digit d # r"
    using digits_of_hd by blast
  then have "read_digits 0 (digit d # r) = Some (nat n)"
    using read_digits_of [of "nat n"] by simp
  then show ?thesis using False assms d digit_props(3,4) [OF d(1)]
    by (simp add: Itoa_def Atoi_def)
qed

end
