(* ===== verification/CotFilter.thy ===== *)
theory CotFilter
  imports GoPrelude
begin

text \<open>
  \<open>pkg/cot/filter.go\<close>: matching a CoT type such as \<open>a-f-G-U-C\<close> against a pattern. A
  pattern is a list of dash-separated tokens, \<open>.\<close> stands for any one token, and a trailing
  dash asks for at least one further token. The code mixes string and token tests;
  \<open>tokens_match\<close> is the token-wise meaning it is proved to have.
\<close>

section \<open>The code\<close>

definition MatchPattern :: "string \<Rightarrow> string \<Rightarrow> bool" where
  "MatchPattern a pattern =
     (if pattern = ''.-'' then True
      else if a = pattern then True
      else if HasPrefix a pattern \<and> HasSuffix pattern ''-'' then True
      else if CHR ''.'' \<notin> set pattern then False
      else let at = Split a CHR ''-'';
               pt = Split (TrimRight pattern ''-'') CHR ''-''
           in if length at < length pt then False
              else if list_ex (\<lambda>(s, x). s \<noteq> x \<and> s \<noteq> ''.'') (zip pt at) then False
              else if HasSuffix pattern ''-'' then length at > length pt
              else length at = length pt)"

definition MatchAnyPattern :: "string \<Rightarrow> string list \<Rightarrow> bool" where
  "MatchAnyPattern a patterns = list_ex (MatchPattern a) patterns"

section \<open>The token-wise meaning\<close>

definition token_ok :: "string \<Rightarrow> string \<Rightarrow> bool" where
  "token_ok s x \<longleftrightarrow> s = x \<or> s = ''.''"

definition tokens_match :: "bool \<Rightarrow> string list \<Rightarrow> string list \<Rightarrow> bool" where
  "tokens_match deep pt at \<longleftrightarrow>
     (if deep then pt = [''.''] \<or> (\<exists>pre rest. at = pre @ rest \<and> rest \<noteq> [] \<and> list_all2 token_ok pt pre)
      else list_all2 token_ok pt at)"

text \<open>A list of tokens that a type or a pattern can be split into.\<close>

definition tokens :: "string list \<Rightarrow> bool" where
  "tokens ts \<longleftrightarrow> ts \<noteq> [] \<and> (\<forall>t \<in> set ts. CHR ''-'' \<notin> set t)"

lemma tokens_Split [simp]: "tokens (Split s CHR ''-'')"
  by (auto simp: tokens_def dest: Split_token)

lemma Split_tokens: "tokens ts \<Longrightarrow> Split (Join ts ''-'') CHR ''-'' = ts"
  by (rule Split_Join) (auto simp: tokens_def)

lemma last_Join: "ts \<noteq> [] \<Longrightarrow> last ts \<noteq> [] \<Longrightarrow> Join ts sep \<noteq> [] \<and> last (Join ts sep) = last (last ts)"
proof (induction ts rule: rev_induct)
  case (snoc t ts)
  then show ?case by (cases "ts = []") (auto simp: Join_snoc)
qed simp

lemma set_Join: "t \<in> set ts \<Longrightarrow> set t \<subseteq> set (Join ts sep)"
  by (induction ts sep rule: Join.induct) auto

lemma last_Join_dash:
  assumes "tokens pt" "last pt \<noteq> []"
  shows "Join pt ''-'' \<noteq> []" "last (Join pt ''-'') \<noteq> CHR ''-''"
proof -
  have "last pt \<in> set pt" using assms(1) by (simp add: tokens_def)
  then have "CHR ''-'' \<notin> set (last pt)" using assms(1) by (auto simp: tokens_def)
  then have "last (last pt) \<noteq> CHR ''-''" using last_in_set [OF assms(2)] by metis
  then show "Join pt ''-'' \<noteq> []" "last (Join pt ''-'') \<noteq> CHR ''-''"
    using last_Join [of pt "''-''"] assms by (simp_all add: tokens_def)
qed

lemma Join_append: "xs \<noteq> [] \<Longrightarrow> ys \<noteq> [] \<Longrightarrow> Join (xs @ ys) sep = Join xs sep @ sep @ Join ys sep"
proof (induction xs)
  case (Cons x xs)
  then show ?case by (cases "xs = []") (simp_all add: Join_Cons)
qed simp

lemma Join_inject:
  assumes "tokens xs" "tokens ys" "Join xs ''-'' = Join ys ''-''"
  shows "xs = ys"
  using Split_tokens [OF assms(1)] Split_tokens [OF assms(2)] assms(3) by metis

lemma no_wildcard:
  assumes "CHR ''.'' \<notin> set (Join pt ''-'')"
  shows "list_all2 token_ok pt at \<longleftrightarrow> pt = at"
proof -
  have "''.'' \<notin> set pt" using set_Join [of "''.''" pt "''-''"] assms by auto
  then have "list_all2 token_ok pt at \<longleftrightarrow> list_all2 (=) pt at"
    by (auto simp: token_ok_def list_all2_conv_all_nth in_set_conv_nth)
  then show ?thesis by (simp add: list.rel_eq)
qed

lemma zip_tokens:
  "length pt \<le> length at \<Longrightarrow>
   \<not> list_ex (\<lambda>(s, x). s \<noteq> x \<and> s \<noteq> ''.'') (zip pt at) \<longleftrightarrow> list_all2 token_ok pt (take (length pt) at)"
  by (auto simp: list_ex_iff list_all2_conv_all_nth token_ok_def set_zip)

lemma prefix_tokens:
  assumes "tokens at" "tokens pt" "HasPrefix (Join at ''-'') (Join pt ''-'' @ ''-'')"
  obtains rest where "rest \<noteq> []" "at = pt @ rest"
proof -
  obtain r where r: "Join at ''-'' = Join pt ''-'' @ ''-'' @ r"
    using assms(3) by (auto simp: HasPrefix_iff)
  have "Join at ''-'' = Join (pt @ Split r CHR ''-'') ''-''"
    using assms(2) by (simp add: r Join_append tokens_def)
  moreover have "tokens (pt @ Split r CHR ''-'')"
    using assms(2) by (auto simp: tokens_def dest: Split_token)
  ultimately have "at = pt @ Split r CHR ''-''"
    using Join_inject assms(1) by blast
  then show ?thesis by (rule that [rotated]) simp
qed

lemma tokens_match_deep:
  "tokens_match True pt at \<longleftrightarrow>
   pt = [''.''] \<or> (length pt < length at \<and> list_all2 token_ok pt (take (length pt) at))"
proof -
  have "(\<exists>pre rest. at = pre @ rest \<and> rest \<noteq> [] \<and> list_all2 token_ok pt pre) \<longleftrightarrow>
        length pt < length at \<and> list_all2 token_ok pt (take (length pt) at)" (is "?l \<longleftrightarrow> ?r")
  proof
    assume ?r
    then show ?l
      by (intro exI [of _ "take (length pt) at"] exI [of _ "drop (length pt) at"]) simp
  next
    assume ?l
    then obtain pre rest where *: "at = pre @ rest" "rest \<noteq> []" "list_all2 token_ok pt pre"
      by blast
    then have "length pt = length pre" by (simp add: list_all2_lengthD)
    with * show ?r by simp
  qed
  then show ?thesis by (simp add: tokens_match_def)
qed

text \<open>The pattern without a trailing dash, and with one.\<close>

lemma match_flat:
  assumes at: "tokens at" and pt: "tokens pt" "last pt \<noteq> []"
  shows "MatchPattern (Join at ''-'') (Join pt ''-'') \<longleftrightarrow> tokens_match False pt at"
proof -
  let ?a = "Join at ''-''" and ?p = "Join pt ''-''"
  have last: "?p \<noteq> []" "last ?p \<noteq> CHR ''-''"
    using last_Join_dash [OF pt] by simp_all
  then have suf: "\<not> HasSuffix ?p ''-''" and tr: "TrimRight ?p ''-'' = ?p"
    by (auto simp: HasSuffix_snoc TrimRight_id)
  then have np: "?p \<noteq> ''.-''" by (auto simp: HasSuffix_iff)
  show ?thesis
  proof (cases "CHR ''.'' \<in> set ?p")
    case False
    then show ?thesis
      using np suf Join_inject [OF at pt(1)]
      by (auto simp: MatchPattern_def tokens_match_def no_wildcard)
  next
    case True
    have eq: "tokens_match False pt at" if "?a = ?p"
      using Join_inject [OF at pt(1) that]
      by (simp add: tokens_match_def list_all2_conv_all_nth token_ok_def)
    have z: "list_ex (\<lambda>(s, x). s \<noteq> x \<and> s \<noteq> ''.'') (zip pt at) \<longleftrightarrow> \<not> list_all2 token_ok pt at"
      if "length pt = length at"
      using zip_tokens [of pt at] that by auto
    show ?thesis
    proof (cases "length pt = length at")
      case len: True
      show ?thesis
        using eq np suf tr True len z [OF len]
        by (auto simp: MatchPattern_def tokens_match_def Split_tokens at pt Let_def)
    next
      case False
      then have "\<not> tokens_match False pt at" by (auto simp: tokens_match_def dest: list_all2_lengthD)
      then show ?thesis
        using eq np suf tr True False
        by (auto simp: MatchPattern_def Split_tokens at pt Let_def)
    qed
  qed
qed

lemma MatchPattern_dash:
  assumes p: "p = q @ ''-''"
  shows "MatchPattern a p \<longleftrightarrow> p = ''.-'' \<or> HasPrefix a p \<or>
     (CHR ''.'' \<in> set p \<and>
      length (Split (TrimRight p ''-'') CHR ''-'') < length (Split a CHR ''-'') \<and>
      \<not> list_ex (\<lambda>(s, x). s \<noteq> x \<and> s \<noteq> ''.'')
         (zip (Split (TrimRight p ''-'') CHR ''-'') (Split a CHR ''-'')))"
proof -
  have "HasSuffix p ''-''" using p by simp
  moreover have "a = p \<Longrightarrow> HasPrefix a p" by (simp add: HasPrefix_iff)
  ultimately show ?thesis by (auto simp: MatchPattern_def Let_def)
qed

lemma match_deep:
  assumes at: "tokens at" and pt: "tokens pt" "last pt \<noteq> []"
  shows "MatchPattern (Join at ''-'') (Join pt ''-'' @ ''-'') \<longleftrightarrow> tokens_match True pt at"
proof -
  let ?a = "Join at ''-''" and ?p = "Join pt ''-'' @ ''-''"
  have "TrimRight (Join pt ''-'') ''-'' = Join pt ''-''"
    using last_Join_dash [OF pt] by (intro TrimRight_id) simp
  then have tr: "TrimRight ?p ''-'' = Join pt ''-''" by (simp add: TrimRight_snoc)
  have dot: "?p = ''.-'' \<longleftrightarrow> pt = [''.'']"
    using Join_inject [OF pt(1), of "[''.'']"] by (auto simp: tokens_def)
  have pre: "HasPrefix ?a ?p \<longleftrightarrow> (\<exists>rest. rest \<noteq> [] \<and> at = pt @ rest)"
  proof
    assume "HasPrefix ?a ?p"
    then show "\<exists>rest. rest \<noteq> [] \<and> at = pt @ rest"
      by (rule prefix_tokens [OF at pt(1)]) blast
  next
    assume "\<exists>rest. rest \<noteq> [] \<and> at = pt @ rest"
    then obtain rest where "rest \<noteq> []" "at = pt @ rest" by blast
    then have "?a = ?p @ Join rest ''-''" using pt(1) by (simp add: Join_append tokens_def)
    then show "HasPrefix ?a ?p" by (simp only: HasPrefix_append)
  qed
  have refl: "list_all2 token_ok pt pt" by (simp add: list_all2_conv_all_nth token_ok_def)
  show ?thesis
  proof (cases "CHR ''.'' \<in> set ?p")
    case False
    then have dotfree: "CHR ''.'' \<notin> set (Join pt ''-'')" by simp
    then have "pt \<noteq> [''.'']" by auto
    then have "tokens_match True pt at \<longleftrightarrow> HasPrefix ?a ?p"
      unfolding pre tokens_match_def no_wildcard [OF dotfree] by metis
    then show ?thesis
      using dot False \<open>pt \<noteq> [''.'']\<close> unfolding MatchPattern_dash [OF HOL.refl] by simp
  next
    case True
    have pm0: "HasPrefix ?a ?p \<Longrightarrow> tokens_match True pt at"
      unfolding pre tokens_match_def using refl by metis
    have spl: "Split (TrimRight ?p ''-'') CHR ''-'' = pt" "Split ?a CHR ''-'' = at"
      by (simp_all only: tr Split_tokens at pt)
    show ?thesis
    proof (cases "?p = ''.-'' \<or> HasPrefix ?a ?p")
      case True
      then have "MatchPattern ?a ?p" unfolding MatchPattern_dash [OF HOL.refl] by blast
      moreover have "tokens_match True pt at"
        using True dot pm0 tokens_match_deep [of pt at] by metis
      ultimately show ?thesis by simp
    next
      case False
      then have "MatchPattern ?a ?p \<longleftrightarrow> length pt < length at \<and>
          \<not> list_ex (\<lambda>(s, x). s \<noteq> x \<and> s \<noteq> ''.'') (zip pt at)"
        using True unfolding MatchPattern_dash [OF HOL.refl] spl by simp
      also have "\<dots> \<longleftrightarrow> tokens_match True pt at"
      proof (cases "length pt < length at")
        case lt: True
        show ?thesis
          using zip_tokens [OF less_imp_le [OF lt]] False dot lt unfolding tokens_match_deep by blast
      next
        case ge: False
        then show ?thesis using False dot unfolding tokens_match_deep by blast
      qed
      finally show ?thesis .
    qed
  qed
qed

section \<open>Properties\<close>

text \<open>
  C1: \<open>MatchPattern\<close> is the token-wise match. For a type and a pattern given by their
  dash-separated tokens, the mixture of string equality, string prefix and token comparison
  in the code accepts exactly when every token of the pattern is \<open>.\<close> or equal to the type's
  token at its position, with equal length, or, when the pattern ends in a dash, with at
  least one more token in the type (\<open>.-\<close> alone matches everything).
\<close>

theorem MatchPattern_tokens:
  assumes "tokens at" "tokens pt" "last pt \<noteq> []"
  shows "MatchPattern (Join at ''-'') (Join pt ''-'' @ (if deep then ''-'' else [])) \<longleftrightarrow>
         tokens_match deep pt at"
  using match_flat [OF assms] match_deep [OF assms] by (cases deep) auto

theorem MatchPattern_tokens_witness:
  "MatchPattern ''a-f-G-U'' ''a-.-G-'' \<and> \<not> MatchPattern ''a-f-G'' ''a-.-G-''"
proof -
  have "tokens [''a'', ''f'', ''G'', ''U'']" "tokens [''a'', ''f'', ''G'']" "tokens [''a'', ''.'', ''G'']"
    by (simp_all add: tokens_def)
  then show ?thesis
    using MatchPattern_tokens [of "[''a'', ''f'', ''G'', ''U'']" "[''a'', ''.'', ''G'']" True]
      MatchPattern_tokens [of "[''a'', ''f'', ''G'']" "[''a'', ''.'', ''G'']" True]
    by (simp add: tokens_match_deep token_ok_def)
qed

end
