(* ===== verification/GoRuntime.thy ===== *)
theory GoRuntime
  imports GoPrelude
begin

text \<open>
  The run-time objects whose state the components hold: \<open>sync.Map\<close>, a channel used with a
  non-blocking send (\<open>select { case ch <- x: default: }\<close>), \<open>time.Time\<close> and \<open>float64\<close>.
  \<open>kv_store\<close> and \<open>bounded_queue\<close> are the two interfaces the clients rely on; each is
  interpreted on the model of the Go object.
\<close>

section \<open>Maps over keys\<close>

text \<open>Every value a partial map holds satisfies \<open>P\<close>: the shape of most map invariants.\<close>

definition map_all :: "('k \<Rightarrow> 'v \<Rightarrow> bool) \<Rightarrow> ('k \<Rightarrow> 'v option) \<Rightarrow> bool" where
  "map_all P m \<longleftrightarrow> (\<forall>k v. m k = Some v \<longrightarrow> P k v)"

lemma map_all_D: "map_all P m \<Longrightarrow> m k = Some v \<Longrightarrow> P k v"
  by (simp add: map_all_def)

lemma map_all_empty [simp]: "map_all P (\<lambda>_. None)" "map_all P Map.empty"
  by (simp_all add: map_all_def)

lemma map_all_upd [intro]: "map_all P m \<Longrightarrow> P k v \<Longrightarrow> map_all P (m(k \<mapsto> v))"
  by (simp add: map_all_def)

lemma map_all_del [intro]: "map_all P m \<Longrightarrow> map_all P (m(k := None))"
  by (simp add: map_all_def)

lemma map_all_mono: "map_all P m \<Longrightarrow> (\<And>k v. m k = Some v \<Longrightarrow> P k v \<Longrightarrow> Q k v) \<Longrightarrow> map_all Q m"
  by (simp add: map_all_def)

section \<open>The key-value interface\<close>

locale kv_store =
  fixes load :: "'m \<Rightarrow> 'k \<Rightarrow> 'v option"
    and store :: "'k \<Rightarrow> 'v \<Rightarrow> 'm \<Rightarrow> 'm"
    and del :: "'k \<Rightarrow> 'm \<Rightarrow> 'm"
    and range :: "'m \<Rightarrow> ('k \<times> 'v) list"
    and wf :: "'m \<Rightarrow> bool"
  assumes load_store: "load (store k v m) = (load m)(k \<mapsto> v)"
    and load_del: "load (del k m) = (load m)(k := None)"
    and wf_store: "wf m \<Longrightarrow> wf (store k v m)"
    and wf_del: "wf m \<Longrightarrow> wf (del k m)"
    and range_load: "wf m \<Longrightarrow> (k, v) \<in> set (range m) \<longleftrightarrow> load m k = Some v"
    and range_distinct: "wf m \<Longrightarrow> distinct (map fst (range m))"
begin

lemma load_same: "load (store k v m) k = Some v" "load (del k m) k = None"
  by (simp_all add: load_store load_del)

lemma load_other:
  "k \<noteq> k' \<Longrightarrow> load (store k' v m) k = load m k"
  "k \<noteq> k' \<Longrightarrow> load (del k' m) k = load m k"
  by (simp_all add: load_store load_del)

lemma store_all: "map_all P (load m) \<Longrightarrow> P k v \<Longrightarrow> map_all P (load (store k v m))"
  by (auto simp: load_store)

lemma del_all: "map_all P (load m) \<Longrightarrow> map_all P (load (del k m))"
  by (auto simp: load_del)

text \<open>Deleting a list of keys, as the cleaners do after a \<open>Range\<close>.\<close>

lemma load_dels: "load (fold del ks m) = (\<lambda>k. if k \<in> set ks then None else load m k)"
  by (induction ks arbitrary: m) (auto simp: load_del fun_eq_iff)

lemma wf_dels: "wf m \<Longrightarrow> wf (fold del ks m)"
  by (induction ks arbitrary: m) (auto intro: wf_del)

text \<open>A \<open>Range\<close> visits each key once, with the value a \<open>Load\<close> returns.\<close>

lemma range_all: "wf m \<Longrightarrow> (\<forall>(k, v) \<in> set (range m). P k v) \<longleftrightarrow> map_all P (load m)"
  by (auto simp: map_all_def range_load)

lemma range_unique:
  "wf m \<Longrightarrow> (k, v) \<in> set (range m) \<Longrightarrow> (k, v') \<in> set (range m) \<Longrightarrow> v = v'"
  by (simp add: range_load)

end

section \<open>sync.Map\<close>

text \<open>
  A \<open>sync.Map\<close> is an association list with distinct keys. Go leaves the order in which
  \<open>Range\<close> visits the entries open; the list order is one such order, and no property of
  the development depends on it.
\<close>

type_synonym ('k, 'v) smap = "('k \<times> 'v) list"

definition smLoad :: "('k, 'v) smap \<Rightarrow> 'k \<Rightarrow> 'v option" where
  "smLoad m = map_of m"

definition smStore :: "'k \<Rightarrow> 'v \<Rightarrow> ('k, 'v) smap \<Rightarrow> ('k, 'v) smap" where
  "smStore k v m = AList.update k v m"

definition smDelete :: "'k \<Rightarrow> ('k, 'v) smap \<Rightarrow> ('k, 'v) smap" where
  "smDelete k m = AList.delete k m"

definition smRange :: "('k, 'v) smap \<Rightarrow> ('k \<times> 'v) list" where
  "smRange m = m"

definition smap_wf :: "('k, 'v) smap \<Rightarrow> bool" where
  "smap_wf m \<longleftrightarrow> distinct (map fst m)"

text \<open>
  Go changes the object a stored pointer refers to; in the model that is an update of the
  entry under its key.
\<close>

definition smModify :: "'k \<Rightarrow> ('v \<Rightarrow> 'v) \<Rightarrow> ('k, 'v) smap \<Rightarrow> ('k, 'v) smap" where
  "smModify k f m = (case smLoad m k of None \<Rightarrow> m | Some v \<Rightarrow> smStore k (f v) m)"

interpretation syncmap: kv_store smLoad smStore smDelete smRange smap_wf
  by unfold_locales
    (auto simp: smLoad_def smStore_def smDelete_def smRange_def smap_wf_def
      AList.update_conv' AList.delete_conv' AList.distinct_update AList.distinct_delete)

lemmas smap_simps [store_simps] = syncmap.load_store syncmap.load_del syncmap.load_dels

lemma smLoad_Nil [simp]: "smLoad [] = Map.empty"
  by (simp add: smLoad_def fun_eq_iff)

lemma smap_wf_Nil [simp]: "smap_wf []"
  by (simp add: smap_wf_def)

lemma smLoad_modify [store_simps]:
  "smLoad (smModify k f m) = (smLoad m)(k := map_option f (smLoad m k))"
  by (auto simp: smModify_def syncmap.load_store fun_eq_iff split: option.splits)

lemma smap_wf_modify: "smap_wf m \<Longrightarrow> smap_wf (smModify k f m)"
  by (auto simp: smModify_def intro: syncmap.wf_store split: option.splits)

text \<open>
  Updating every value in place (each visited object is changed through its pointer) keeps
  the keys.
\<close>

definition smMap :: "('k \<Rightarrow> 'v \<Rightarrow> 'v) \<Rightarrow> ('k, 'v) smap \<Rightarrow> ('k, 'v) smap" where
  "smMap f m = map (\<lambda>(k, v). (k, f k v)) m"

lemma smLoad_smMap [store_simps]: "smLoad (smMap f m) k = map_option (f k) (smLoad m k)"
  by (induction m) (auto simp: smLoad_def smMap_def)

lemma smap_wf_smMap [simp]: "smap_wf (smMap f m) \<longleftrightarrow> smap_wf m"
  by (simp add: smap_wf_def smMap_def case_prod_beta o_def)

lemma set_smRange: "smap_wf m \<Longrightarrow> (k, v) \<in> set m \<longleftrightarrow> smLoad m k = Some v"
  using syncmap.range_load by (fastforce simp: smRange_def)

section \<open>Bounded queues\<close>

locale bounded_queue =
  fixes send :: "'a \<Rightarrow> 'q \<Rightarrow> 'q \<times> bool"
    and recv :: "'q \<Rightarrow> ('a \<times> 'q) option"
    and items :: "'q \<Rightarrow> 'a list"
    and cap :: nat
  assumes send_room: "length (items q) < cap \<Longrightarrow> items (fst (send x q)) = items q @ [x] \<and> snd (send x q)"
    and send_full: "\<not> length (items q) < cap \<Longrightarrow> items (fst (send x q)) = items q \<and> \<not> snd (send x q)"
    and recv_None: "recv q = None \<longleftrightarrow> items q = []"
    and recv_Some: "recv q = Some (x, q') \<Longrightarrow> items q = x # items q'"
begin

lemma send_bound: "length (items q) \<le> cap \<Longrightarrow> length (items (fst (send x q))) \<le> cap"
  by (cases "length (items q) < cap") (simp_all add: send_room send_full)

text \<open>The queue keeps what it has: a full queue drops the newest element, never an old one.\<close>

lemma send_prefix: "prefix (items q) (items (fst (send x q)))"
  by (cases "length (items q) < cap") (simp_all add: send_room send_full)

lemma send_set: "set (items (fst (send x q))) \<subseteq> insert x (set (items q))"
  by (cases "length (items q) < cap") (auto simp: send_room send_full)

lemma sends_items:
  "length (items q) \<le> cap \<Longrightarrow>
   items (fold (\<lambda>x q. fst (send x q)) xs q) = items q @ take (cap - length (items q)) xs"
proof (induction xs arbitrary: q)
  case (Cons x xs)
  show ?case
  proof (cases "length (items q) < cap")
    case True
    with Cons show ?thesis
      by (simp add: send_room take_Cons' Suc_diff_Suc)
  next
    case False
    with Cons show ?thesis by (simp add: send_full)
  qed
qed simp

lemma recv_bound: "length (items q) \<le> cap \<Longrightarrow> recv q = Some (x, q') \<Longrightarrow> length (items q') \<le> cap"
  by (auto dest: recv_Some)

end

definition chan_send :: "nat \<Rightarrow> 'a \<Rightarrow> 'a list \<Rightarrow> 'a list \<times> bool" where
  "chan_send n x q = (if length q < n then (q @ [x], True) else (q, False))"

definition chan_recv :: "'a list \<Rightarrow> ('a \<times> 'a list) option" where
  "chan_recv q = (case q of [] \<Rightarrow> None | x # q' \<Rightarrow> Some (x, q'))"

interpretation chan: bounded_queue "chan_send n" chan_recv "\<lambda>q. q" n for n
  by unfold_locales (auto simp: chan_send_def chan_recv_def split: list.splits)

section \<open>Time\<close>

text \<open>
  A \<open>time.Time\<close> is the number of nanoseconds since the Unix epoch; its zero value is the
  first instant of year 1. \<open>time.Now()\<close> is an argument of the operations that read the
  clock. A \<open>time.Duration\<close> is a signed 64-bit number of nanoseconds, at which \<open>Sub\<close>
  and \<open>Since\<close> saturate.
\<close>

type_synonym time = int

definition zero_time :: time where
  "zero_time = - 62135596800 * 10 ^ 9"

definition second :: int where "second = 10 ^ 9"
definition minute :: int where "minute = 60 * second"
definition hour :: int where "hour = 60 * minute"

definition max_duration :: int where "max_duration = 2 ^ 63 - 1"

definition Sub :: "time \<Rightarrow> time \<Rightarrow> int" where
  "Sub t u = max (- (2 ^ 63)) (min max_duration (t - u))"

abbreviation Since :: "time \<Rightarrow> time \<Rightarrow> int" where
  "Since now t \<equiv> Sub now t"

lemma Sub_gt: "d < max_duration \<Longrightarrow> - (2 ^ 63) \<le> d \<Longrightarrow> Sub t u > d \<longleftrightarrow> t - u > d"
  by (auto simp: Sub_def)

lemma duration_consts: "second = 1000000000" "minute = 60000000000" "hour = 3600000000000"
    "max_duration = 9223372036854775807"
  by (simp_all add: second_def minute_def hour_def max_duration_def)

section \<open>float64\<close>

text \<open>
  A \<open>float64\<close> is its IEEE 754 bit pattern. The code compares coordinates with 0 (true of
  both zeros, false of NaN), tests for NaN and prints with \<open>%f\<close>.
\<close>

unbundle bit_operations_syntax

type_synonym f64 = "64 word"

definition f_sign :: "f64 \<Rightarrow> bool" where "f_sign x \<longleftrightarrow> bit x 63"
definition f_exp :: "f64 \<Rightarrow> nat" where "f_exp x = unat (drop_bit 52 x AND 0x7FF)"
definition f_man :: "f64 \<Rightarrow> nat" where "f_man x = unat (x AND 0xFFFFFFFFFFFFF)"

definition f_is_zero :: "f64 \<Rightarrow> bool" where
  "f_is_zero x \<longleftrightarrow> f_exp x = 0 \<and> f_man x = 0"

definition f_is_nan :: "f64 \<Rightarrow> bool" where
  "f_is_nan x \<longleftrightarrow> f_exp x = 2047 \<and> f_man x \<noteq> 0"

text \<open>The bit pattern of 999999, the value CoT uses for an unknown height or error.\<close>

definition NotNum :: f64 where
  "NotNum = 0x412E847E00000000"

text \<open>\<open>fmt.Sprintf("%f", x)\<close>: six decimals of the exact value, ties to even.\<close>

definition pad6 :: "nat \<Rightarrow> string" where
  "pad6 n = (let s = digits_of n in replicate (6 - length s) CHR ''0'' @ s)"

definition FmtF :: "f64 \<Rightarrow> string" where
  "FmtF x =
     (let sg = (if f_sign x then ''-'' else '''');
          e = f_exp x; m = f_man x
      in if e = 2047 then (if m = 0 then (if f_sign x then ''-Inf'' else ''+Inf'') else ''NaN'')
         else let mant = (if e = 0 then m else 2 ^ 52 + m);
                  ex = (if e = 0 then - 1074 else int e - 1075);
                  num = mant * 10 ^ 6 * 2 ^ nat ex;
                  den = 2 ^ nat (- ex);
                  q = num div den; r = num mod den;
                  n = (if 2 * r > den \<or> (2 * r = den \<and> odd q) then q + 1 else q)
              in sg @ digits_of (n div 10 ^ 6) @ ''.'' @ pad6 (n mod 10 ^ 6))"

lemma NotNum_parts: "f_exp NotNum = 1042" "f_man NotNum = 475711 * 2 ^ 33" "\<not> f_sign NotNum"
  by (simp_all add: NotNum_def f_exp_def f_man_def f_sign_def)

lemma f_is_zero_0 [simp]: "f_is_zero 0"
  by (simp add: f_is_zero_def f_exp_def f_man_def)

end
