(* ===== verification/CotTypes.thy ===== *)
theory CotTypes
  imports GoRuntime "HOL-Library.Char_ord" "HOL-Library.List_Lexorder" "HOL-Library.Multiset"
begin

text \<open>
  \<open>pkg/cot/types.go\<close> and \<open>messages.go\<close>: the table of CoT type codes and the tree
  \<open>init\<close> builds over it, and the names of the message types. A \<open>*CotType\<close> points to an
  entry of the table \<open>types\<close>, so \<open>Next\<close> is a list of keys; the embedded file is the argument
  \<open>strTypes\<close>, and the order in which Go ranges over the table is the argument \<open>order\<close>.
\<close>

section \<open>The tree of types\<close>

record CotType =
  ctCode :: string
  ctName :: string
  ctNext :: "string list"

type_synonym types = "(string, CotType) smap"

fun parse_types :: "string list \<Rightarrow> types \<Rightarrow> types result" where
  "parse_types [] tbl = Inr tbl"
| "parse_types (s # ls) tbl =
     (let ss = Trim s [CHR '' '', CHR 0x0A, CHR 0x0D, CHR 0x09]
      in if ss = [] then parse_types ls tbl
         else let n = Split ss CHR '';''
              in if length n < 2 then Inl (Panic ''index out of range [1]'')
                 else parse_types ls (smStore (n ! 0) \<lparr>ctCode = n ! 0, ctName = n ! 1, ctNext = []\<rparr> tbl))"

text \<open>\<open>for i := len(n) - 1; i > 0; i--\<close>: the nearest ancestor code the table has.\<close>

fun find_parent :: "types \<Rightarrow> string list \<Rightarrow> nat \<Rightarrow> string option" where
  "find_parent tbl n 0 = None"
| "find_parent tbl n (Suc i) =
     (let t1 = Join (take (Suc i) n) ''-''
      in if smLoad tbl t1 \<noteq> None then Some t1 else find_parent tbl n i)"

definition link_one :: "string \<Rightarrow> types \<times> string list \<Rightarrow> types \<times> string list" where
  "link_one code = (\<lambda>(tbl, root).
     let n = Split code CHR ''-''
     in if length n = 1 then (tbl, root @ [code])
        else (case find_parent tbl n (length n - 1) of
                Some t1 \<Rightarrow> (smModify t1 (\<lambda>ct1. ct1\<lparr>ctNext := ctNext ct1 @ [code]\<rparr>) tbl, root)
              | None \<Rightarrow> (tbl, root @ [code])))"

definition sort_next :: "types \<Rightarrow> types" where
  "sort_next tbl = smMap (\<lambda>_ ct. ct\<lparr>ctNext := sort (ctNext ct)\<rparr>) tbl"

definition build_tree :: "string list \<Rightarrow> types \<Rightarrow> types \<times> string list" where
  "build_tree order tbl =
     (let (tbl', root) = fold link_one order (tbl, []) in (sort_next tbl', sort root))"

definition init_types :: "string list \<Rightarrow> string \<Rightarrow> (types \<times> string list) result" where
  "init_types order strTypes =
     (case parse_types (Split strTypes (CHR 0x0A)) [] of
        Inl e \<Rightarrow> Inl e
      | Inr tbl \<Rightarrow> Inr (build_tree order tbl))"

definition Level :: "CotType option \<Rightarrow> nat" where
  "Level t = (case t of None \<Rightarrow> 0 | Some ct \<Rightarrow> count_list (ctCode ct) CHR ''-'' + 1)"

definition GetNext :: "types \<Rightarrow> string \<Rightarrow> string list result" where
  "GetNext tbl s = (case smLoad tbl s of
     None \<Rightarrow> Inl (Panic ''nil pointer dereference'') | Some ct \<Rightarrow> Inr (ctNext ct))"

section \<open>What the loops compute\<close>

text \<open>The ancestor under which a code is filed; it depends on the keys of the table only.\<close>

definition parent :: "types \<Rightarrow> string \<Rightarrow> string option" where
  "parent tbl code =
     (let n = Split code CHR ''-''
      in if length n = 1 then None else find_parent tbl n (length n - 1))"

lemma find_parent_cong:
  "dom (smLoad tbl) = dom (smLoad tbl') \<Longrightarrow> find_parent tbl n i = find_parent tbl' n i"
proof (induction i)
  case (Suc i)
  then have "smLoad tbl (Join (take (Suc i) n) ''-'') \<noteq> None \<longleftrightarrow>
             smLoad tbl' (Join (take (Suc i) n) ''-'') \<noteq> None"
    by (metis domIff)
  with Suc show ?case by (simp add: Let_def)
qed simp

lemma parent_cong: "dom (smLoad tbl) = dom (smLoad tbl') \<Longrightarrow> parent tbl code = parent tbl' code"
  using find_parent_cong [of tbl tbl'] by (auto simp: parent_def Let_def)

text \<open>Read declaratively: the longest proper prefix of the code's tokens that is in the table.\<close>

definition nearest :: "types \<Rightarrow> string \<Rightarrow> string \<Rightarrow> bool" where
  "nearest tbl code p \<longleftrightarrow>
     (\<exists>i. 0 < i \<and> i < length (Split code CHR ''-'') \<and>
          p = Join (take i (Split code CHR ''-'')) ''-'' \<and> p \<in> dom (smLoad tbl) \<and>
          (\<forall>j. i < j \<and> j < length (Split code CHR ''-'') \<longrightarrow>
               Join (take j (Split code CHR ''-'')) ''-'' \<notin> dom (smLoad tbl)))"

lemma last_index_Suc:
  "(\<exists>j. 0 < j \<and> j \<le> Suc i \<and> p = T j \<and> P p \<and> (\<forall>l. j < l \<and> l \<le> Suc i \<longrightarrow> \<not> P (T l))) \<longleftrightarrow>
   (if P (T (Suc i)) then p = T (Suc i)
    else \<exists>j. 0 < j \<and> j \<le> i \<and> p = T j \<and> P p \<and> (\<forall>l. j < l \<and> l \<le> i \<longrightarrow> \<not> P (T l)))"
proof (cases "P (T (Suc i))")
  case True
  have "j = Suc i" if "j \<le> Suc i" "\<forall>l. j < l \<and> l \<le> Suc i \<longrightarrow> \<not> P (T l)" for j
    using that True by (meson le_neq_implies_less order_refl)
  then have "(\<exists>j. 0 < j \<and> j \<le> Suc i \<and> p = T j \<and> P p \<and> (\<forall>l. j < l \<and> l \<le> Suc i \<longrightarrow> \<not> P (T l))) \<Longrightarrow>
      p = T (Suc i)" by blast
  moreover have "p = T (Suc i) \<Longrightarrow>
      \<exists>j. 0 < j \<and> j \<le> Suc i \<and> p = T j \<and> P p \<and> (\<forall>l. j < l \<and> l \<le> Suc i \<longrightarrow> \<not> P (T l))"
    using True by (intro exI [of _ "Suc i"]) auto
  ultimately show ?thesis using True by argo
next
  case False
  then show ?thesis by (auto simp: le_Suc_eq)
qed

lemma find_parent_Some:
  "find_parent tbl n i = Some p \<longleftrightarrow>
   (\<exists>j. 0 < j \<and> j \<le> i \<and> p = Join (take j n) ''-'' \<and> p \<in> dom (smLoad tbl) \<and>
        (\<forall>l. j < l \<and> l \<le> i \<longrightarrow> Join (take l n) ''-'' \<notin> dom (smLoad tbl)))"
proof (induction i)
  case (Suc i)
  show ?case
    unfolding last_index_Suc [of i p "\<lambda>j. Join (take j n) ''-''" "\<lambda>t. t \<in> dom (smLoad tbl)"] Suc.IH [symmetric]
    by (auto simp: Let_def domIff)
qed simp

lemma parent_nearest: "parent tbl code = Some p \<longleftrightarrow> nearest tbl code p"
proof -
  let ?n = "Split code CHR ''-''"
  obtain m where m: "length ?n = Suc m" by (metis Split_not_Nil length_0_conv not0_implies_Suc)
  then have "parent tbl code = find_parent tbl ?n m" by (simp add: parent_def Let_def)
  then show ?thesis by (simp add: find_parent_Some nearest_def m less_Suc_eq_le)
qed

lemma parent_None: "parent tbl code = None \<longleftrightarrow> (\<nexists>p. nearest tbl code p)"
  using parent_nearest by (metis not_None_eq)

lemma link_one_parent:
  "link_one code (tbl, root) =
     (case parent tbl code of
        None \<Rightarrow> (tbl, root @ [code])
      | Some p \<Rightarrow> (smModify p (\<lambda>ct. ct\<lparr>ctNext := ctNext ct @ [code]\<rparr>) tbl, root))"
  by (simp add: link_one_def parent_def Let_def)

lemma dom_modify: "dom (smLoad (smModify k f tbl)) = dom (smLoad tbl)"
  by (auto simp: smLoad_modify split: if_splits)

text \<open>After linking a list of codes, the children of a code are those codes with it as parent.\<close>

definition children :: "types \<Rightarrow> string option \<Rightarrow> string list \<Rightarrow> string list" where
  "children tbl p cs = filter (\<lambda>c. parent tbl c = p) cs"

lemma links:
  "fold link_one cs (tbl, root) = (tbl', root') \<Longrightarrow>
   dom (smLoad tbl') = dom (smLoad tbl) \<and>
   root' = root @ children tbl None cs \<and>
   smLoad tbl' k = map_option (\<lambda>ct. ct\<lparr>ctNext := ctNext ct @ children tbl (Some k) cs\<rparr>) (smLoad tbl k)"
proof (induction cs arbitrary: tbl root)
  case Nil
  then show ?case by (auto simp: children_def option.map_ident)
next
  case (Cons c cs)
  show ?case
  proof (cases "parent tbl c")
    case None
    with Cons.prems Cons.IH [of tbl "root @ [c]"] show ?thesis
      by (simp add: link_one_parent children_def)
  next
    case (Some p)
    let ?t = "smModify p (\<lambda>ct. ct\<lparr>ctNext := ctNext ct @ [c]\<rparr>) tbl"
    have par: "parent ?t = parent tbl"
      by (rule ext, rule parent_cong, rule dom_modify)
    from Some Cons.prems have "fold link_one cs (?t, root) = (tbl', root')"
      by (simp add: link_one_parent)
    note l = Cons.IH [OF this, unfolded par children_def dom_modify]
    have "smLoad ?t k = (if k = p then map_option (\<lambda>ct. ct\<lparr>ctNext := ctNext ct @ [c]\<rparr>) (smLoad tbl k)
                         else smLoad tbl k)"
      by (simp add: smLoad_modify)
    then have "smLoad tbl' k =
        map_option (\<lambda>ct. ct\<lparr>ctNext := ctNext ct @ children tbl (Some k) (c # cs)\<rparr>) (smLoad tbl k)"
      using l Some unfolding par children_def by (auto simp: option.map_comp o_def)
    then show ?thesis using l Some unfolding par children_def by simp
  qed
qed

text \<open>A table just parsed has no children, and its keys are its codes.\<close>

definition fresh :: "types \<Rightarrow> bool" where
  "fresh tbl \<longleftrightarrow> smap_wf tbl \<and> map_all (\<lambda>k ct. ctCode ct = k \<and> ctNext ct = []) (smLoad tbl)"

lemma fresh_store:
  "fresh tbl \<Longrightarrow> fresh (smStore k \<lparr>ctCode = k, ctName = n, ctNext = []\<rparr> tbl)"
  by (auto simp: fresh_def syncmap.load_store map_all_def intro: syncmap.wf_store)

lemma parse_fresh: "fresh tbl \<Longrightarrow> parse_types ls tbl = Inr tbl' \<Longrightarrow> fresh tbl'"
  by (induction ls tbl rule: parse_types.induct)
    (auto simp: Let_def split: if_splits intro: fresh_store)

lemma build_tree_spec:
  assumes "fresh tbl" "build_tree order tbl = (tbl', root)"
  shows "root = sort (children tbl None order)"
    and "smLoad tbl' k = map_option (\<lambda>ct. ct\<lparr>ctNext := sort (children tbl (Some k) order)\<rparr>) (smLoad tbl k)"
proof -
  obtain t r where *: "fold link_one order (tbl, []) = (t, r)" by fastforce
  note l = links [OF this]
  show "root = sort (children tbl None order)"
    using assms(2) * l by (auto simp: build_tree_def)
  have "smLoad tbl' k = map_option (\<lambda>ct. ct\<lparr>ctNext := sort (ctNext ct)\<rparr>) (smLoad t k)"
    using assms(2) * by (auto simp: build_tree_def sort_next_def smLoad_smMap)
  then show "smLoad tbl' k = map_option (\<lambda>ct. ct\<lparr>ctNext := sort (children tbl (Some k) order)\<rparr>) (smLoad tbl k)"
    using l [of k] assms(1)
    by (cases "smLoad tbl k") (auto simp: fresh_def map_all_def)
qed

text \<open>
  With each code visited once, sorting the children is sorting a set of codes: the order in
  which Go visits the table does not matter.
\<close>

lemma sort_children_set:
  "distinct order \<Longrightarrow> sort (children tbl p order) = sorted_list_of_set {c \<in> set order. parent tbl c = p}"
  by (simp add: children_def sorted_list_of_set_sort_remdups distinct_remdups_id flip: set_filter)

section \<open>Message names\<close>

text \<open>The UTF-8 bytes of the dash some names contain.\<close>

definition en_dash :: string where
  "en_dash = [CHR 0xE2, CHR 0x80, CHR 0x93]"

definition messages :: "(string \<times> string) list" where
  "messages = [
    (''b-a-g'', ''Alert: GeoFenceBreach''),
    (''b-a-o-can'', ''Alert: Cancel''),
    (''b-a-o-opn'', ''Alert: TroopsInContact''),
    (''b-a-o-pan'', ''Alert: RingTheBell''),
    (''b-a-o-tbl'', ''Alert: 911''),
    (''b-d'', ''Detection''),
    (''b-d-a'', ''Detection/Acoustic''),
    (''b-d-a-c'', ''Detection/Acoustic/Cyclostationary''),
    (''b-d-a-i'', ''Detection/Acoustic/Impulsive''),
    (''b-d-a-v'', ''Detection/Acoustic/Voice''),
    (''b-d-c'', ''Detection/CBRNE''),
    (''b-d-c-b'', ''Detection/CBRNE/BioChem''),
    (''b-d-c-b-b'', ''Detection/CBRNE/BioChem/Biological''),
    (''b-d-c-b-c'', ''Detection/CBRNE/BioChem/Chemical''),
    (''b-d-c-e'', ''Detection/CBRNE/Explosive''),
    (''b-d-c-e-d'', ''Detection/CBRNE/Explosive/Device''),
    (''b-d-c-n'', ''Detection/CBRNE/NuclearRadiological''),
    (''b-d-c-n-n'', ''Detection/CBRNE/NuclearRadiological/Nuclear''),
    (''b-d-c-n-n-b'', ''Detection/CBRNE/NuclearRadiological/Nuclear/Bomb''),
    (''b-d-c-n-n-sm'', ''Detection/CBRNE/NuclearRadiological/Nuclear/Special Nuclear Material''),
    (''b-d-c-n-r'', ''Detection/CBRNE/NuclearRadiological/Radiation''),
    (''b-d-c-n-r-dd'', ''Detection/CBRNE/NuclearRadiological/Radiological/Dispersal Device (Dirty Bomb)''),
    (''b-d-i'', ''Detection/Impact''),
    (''b-d-i-m'', ''Detection/Impact/Mortar''),
    (''b-d-l'', ''Detection/Launch''),
    (''b-d-l-b'', ''Detection/Launch/Bullet''),
    (''b-d-l-m'', ''Detection/Launch/Mortar''),
    (''b-d-m'', ''Detection/Motion''),
    (''b-d-s'', ''Detection/Seismic''),
    (''b-f-t-a'', ''File send receipt''),
    (''b-f-t-r'', ''File send''),
    (''b-i'', ''Imagery''),
    (''b-i-v'', ''Video feed''),
    (''b-i-x-i'', ''Photo''),
    (''b-l'', ''Alarm''),
    (''b-m'', ''Mapping''),
    (''b-m-c'', ''Chemlight''),
    (''b-m-c-b'', ''Chemlight Blue''),
    (''b-m-c-g'', ''Chemlight Green''),
    (''b-m-c-r'', ''Chemlight Red''),
    (''b-m-c-y'', ''Chemlight Yellow''),
    (''b-m-d'', ''Map drawing''),
    (''b-m-p'', ''Designated point''),
    (''b-m-p-a'', ''Aimpoint''),
    (''b-m-p-c'', ''Control point''),
    (''b-m-p-c-cp'', ''Contact point''),
    (''b-m-p-c-ip'', ''Initial point''),
    (''b-m-p-c-z'', ''Black triangle''),
    (''b-m-p-i'', ''Initial point''),
    (''b-m-p-s'', ''Sensor point''),
    (''b-m-p-s-m'', ''Spot point''),
    (''b-m-p-s-p-i'', ''Point of interest''),
    (''b-m-p-s-p-loc'', ''Sensor''),
    (''b-m-p-s-p-op'', ''Observation point''),
    (''b-m-p-t'', ''Target point''),
    (''b-m-p-w'', ''Checkpoint''),
    (''b-m-p-w-GOTO'', ''Waypoint flag''),
    (''b-m-r'', ''Route''),
    (''b-r'', ''Report''),
    (''b-r-f-h-c'', ''Casevac''),
    (''b-t-f'', ''Chat message''),
    (''b-t-f-d'', ''Chat delivery receipt''),
    (''b-t-f-p'', ''Chat pending receipt''),
    (''b-t-f-r'', ''Chat read receipt''),
    (''b-t-f-s'', ''Chat delivery failure''),
    (''b-t-f-u'', ''Chat ??''),
    (''b-w'', ''Weather''),
    (''c'', ''Capability''),
    (''r'', ''Area restrictions''),
    (''r-c'', ''Contaminated''),
    (''r-c-x-b'', ''Biological attack''),
    (''r-c-x-c'', ''Chemical attack''),
    (''r-f'', ''Flight restrictions''),
    (''r-o'', ''Occupied''),
    (''r-u'', ''Unsafe''),
    (''t'', ''Tasking''),
    (''t-a'', ''Air request''),
    (''t-b'', ''Add Subscription''),
    (''t-b-c'', ''Delete Subscription''),
    (''t-b-q'', ''durable messaging control message''),
    (''t-k'', ''Strike request''),
    (''t-k-d'', ''Strike destroy''),
    (''t-k-i'', ''Strike investigate''),
    (''t-k-t'', ''Strike target''),
    (''t-s'', ''ISR''),
    (''t-p'', ''Pairing request''),
    (''t-x'', ''Extended request''),
    (''t-x-c-g-d'', ''dgps message''),
    (''t-x-c-i-d'', ''Unset incognito mode''),
    (''t-x-c-i-e'', ''Set incognito mode''),
    (''t-x-c-m'', ''Metrics message''),
    (''t-x-c-t'', ''Ping''),
    (''t-x-c-t-r'', ''Pong''),
    (''t-x-d-d'', ''Delete by link''),
    (''t-x-m-c'', ''Mission Change Notification''),
    (''t-x-m-c-l'', ''Mission Log Added Notification''),
    (''t-x-m-n'', ''Mission Creation Notification''),
    (''u-d'', ''Drawing''),
    (''u-d-c-c'', ''Drawing Shapes '' @ en_dash @ '' Circle''),
    (''u-d-c-e'', ''Drawing Shapes '' @ en_dash @ '' Ellipse''),
    (''u-d-f'', ''Drawing Shapes - Multiline''),
    (''u-d-f-m'', ''Drawing Shapes '' @ en_dash @ '' Freehand''),
    (''u-d-r'', ''Drawing Shapes '' @ en_dash @ '' Rectangle''),
    (''u-d-v-m'', ''Drawing: model''),
    (''u-r-b-c-c'', ''Range & Bearing - Circle''),
    (''u-rb-a'', ''Range & Bearing '' @ en_dash @ '' Line''),
    (''y'', ''Task Reply''),
    (''y-a'', ''Ack''),
    (''y-a-r'', ''Rcvd''),
    (''y-a-w'', ''Wilco''),
    (''y-c'', ''Tasking Complete''),
    (''y-c-f'', ''Fail''),
    (''y-c-s'', ''Complete: Success''),
    (''y-s'', ''Status'')
   ]"

definition GetMsgType :: "string \<Rightarrow> string" where
  "GetMsgType t =
     (if HasPrefix t ''a-'' then ''Atom''
      else case map_of messages t of Some tt \<Rightarrow> tt | None \<Rightarrow> ''Unknown'')"

section \<open>Properties\<close>

text \<open>
  The tree \<open>init\<close> builds does not depend on the order in which Go ranges over the table
  of types. Each code is filed under the longest proper prefix of its tokens that is in the
  table, at the root when there is none, and every \<open>Next\<close> list is sorted by code; names and
  codes are those of the table.
\<close>

theorem init_types_tree:
  assumes parse: "parse_types (Split strTypes (CHR 0x0A)) [] = Inr tbl"
    and order: "set order = dom (smLoad tbl)" "distinct order"
    and init: "init_types order strTypes = Inr (tbl', root)"
  shows "root = sorted_list_of_set {c \<in> dom (smLoad tbl). \<nexists>p. nearest tbl c p} \<and>
    (\<forall>k. smLoad tbl' k = map_option
       (\<lambda>ct. ct\<lparr>ctNext := sorted_list_of_set {c \<in> dom (smLoad tbl). nearest tbl c k}\<rparr>) (smLoad tbl k))"
proof -
  have "fresh tbl"
    using parse_fresh [OF _ parse] by (simp add: fresh_def)
  moreover have "build_tree order tbl = (tbl', root)"
    using init parse by (simp add: init_types_def)
  ultimately show ?thesis
    using build_tree_spec [of tbl order tbl' root] sort_children_set [OF order(2)]
    by (simp add: order(1) parent_nearest parent_None)
qed

lemma dom_smLoad: "dom (smLoad m) = set (map fst m)"
  by (simp add: smLoad_def dom_map_of_conv_image_fst)

theorem init_types_tree_witness:
  "\<exists>tbl' root.
     init_types [''a-c'', ''b'', ''a-c-z'', ''a'']
       (Join [''a;A'', ''b;B'', [], ''a-c;AC'', ''a-c-z;Z''] [CHR 0x0A]) = Inr (tbl', root) \<and>
     set root = {''a'', ''b''} \<and>
     map_option (set \<circ> ctNext) (smLoad tbl' ''a-c'') = Some {''a-c-z''}"
proof -
  let ?s = "Join [''a;A'', ''b;B'', [], ''a-c;AC'', ''a-c-z;Z''] [CHR 0x0A]"
  let ?o = "[''a-c'', ''b'', ''a-c-z'', ''a'']"
  obtain tbl where p: "parse_types (Split ?s (CHR 0x0A)) [] = Inr tbl" and
    d: "map fst tbl = [''a'', ''b'', ''a-c'', ''a-c-z'']"
    by (simp add: Trim_def TrimLeft_def TrimRight_def smStore_def)
  have o: "set ?o = dom (smLoad tbl)" "distinct ?o" by (simp_all add: dom_smLoad d insert_commute)
  obtain tbl' root where i: "init_types ?o ?s = Inr (tbl', root)"
    using p by (cases "build_tree ?o tbl") (simp add: init_types_def)
  note * = init_types_tree [OF p o i, folded o(1) parent_nearest parent_None, folded set_filter]
  have dm: "smLoad tbl k \<noteq> None \<longleftrightarrow> k \<in> set ?o" for k using o(1) by (simp add: domIff)
  then have par: "parent tbl ''a-c'' = Some ''a''" "parent tbl ''b'' = None"
      "parent tbl ''a-c-z'' = Some ''a-c''" "parent tbl ''a'' = None"
    by (simp_all add: parent_def Let_def del: not_None_eq)
  obtain ct where "smLoad tbl ''a-c'' = Some ct" using dm [of "''a-c''"] by auto
  with * par i show ?thesis by (auto simp: comp_def)
qed

end
