(* ===== verification/XmlNode.thy ===== *)
theory XmlNode
  imports GoRuntime
begin

text \<open>
  \<open>pkg/cot/node.go\<close>: the XML tree in which a CoT detail is read and changed. A \<open>*Node\<close>
  that may be nil is a \<^typ>\<open>'a option\<close>. A Go map given as parameters is an association list in
  the order in which \<open>range\<close> visits it. An attribute's name is its local part, the only part
  the code reads. Operations that change a node through its pointer return the changed node;
  those that return a pointer to a child return the child's index.

  \<open>xml.Encoder\<close> is translated for these nodes: \<open>EscapeText\<close> with UTF-8 decoding, and the
  element syntax. \<open>xml.Decoder\<close> is the argument \<open>decode\<close> of the operations that parse.
\<close>

datatype Node = Node (nSpace: string) (nLocal: string) (nAttrs: "(string \<times> string) list")
  (nContent: string) (nNodes: "Node list")

section \<open>encoding/xml: text\<close>

definition byte :: "string \<Rightarrow> nat \<Rightarrow> nat" where
  "byte s i = of_char (s ! i)"

text \<open>\<open>utf8.DecodeRune\<close> of a non-empty string: the rune and its width, (FFFD, 1) if invalid.\<close>

definition DecodeRune :: "string \<Rightarrow> nat \<times> nat" where
  "DecodeRune s =
     (let b0 = byte s 0; n = length s;
          cont = (\<lambda>i lo hi. i < n \<and> lo \<le> byte s i \<and> byte s i \<le> hi)
      in if b0 < 0x80 then (b0, 1)
         else if 0xC2 \<le> b0 \<and> b0 \<le> 0xDF \<and> cont 1 0x80 0xBF then
           ((b0 mod 0x20) * 0x40 + byte s 1 mod 0x40, 2)
         else if 0xE0 \<le> b0 \<and> b0 \<le> 0xEF \<and>
              cont 1 (if b0 = 0xE0 then 0xA0 else 0x80) (if b0 = 0xED then 0x9F else 0xBF) \<and> cont 2 0x80 0xBF then
           ((b0 mod 0x10) * 0x1000 + (byte s 1 mod 0x40) * 0x40 + byte s 2 mod 0x40, 3)
         else if 0xF0 \<le> b0 \<and> b0 \<le> 0xF4 \<and>
              cont 1 (if b0 = 0xF0 then 0x90 else 0x80) (if b0 = 0xF4 then 0x8F else 0xBF) \<and> cont 2 0x80 0xBF \<and>
              cont 3 0x80 0xBF then
           ((b0 mod 8) * 0x40000 + (byte s 1 mod 0x40) * 0x1000 + (byte s 2 mod 0x40) * 0x40 + byte s 3 mod 0x40, 4)
         else (0xFFFD, 1))"

definition isInCharacterRange :: "nat \<Rightarrow> bool" where
  "isInCharacterRange r \<longleftrightarrow> r = 0x09 \<or> r = 0x0A \<or> r = 0x0D \<or> (0x20 \<le> r \<and> r \<le> 0xD7FF) \<or>
     (0xE000 \<le> r \<and> r \<le> 0xFFFD) \<or> (0x10000 \<le> r \<and> r \<le> 0x10FFFF)"

text \<open>The replacement of one rune, \<open>raw\<close> being its bytes.\<close>

definition esc :: "nat \<Rightarrow> nat \<Rightarrow> string \<Rightarrow> string" where
  "esc r w raw =
     (if r = 0x22 then ''&#34;'' else if r = 0x27 then ''&#39;''
      else if r = 0x26 then ''&amp;'' else if r = 0x3C then ''&lt;'' else if r = 0x3E then ''&gt;''
      else if r = 0x09 then ''&#x9;'' else if r = 0x0A then ''&#xA;'' else if r = 0x0D then ''&#xD;''
      else if \<not> isInCharacterRange r \<or> (r = 0xFFFD \<and> w = 1) then [CHR 0xEF, CHR 0xBF, CHR 0xBD]
      else raw)"

lemma if_both: "P a \<Longrightarrow> P b \<Longrightarrow> P (if c then a else b)"
  by simp

lemma DecodeRune_width: "1 \<le> snd (DecodeRune s)"
  unfolding DecodeRune_def Let_def
  by (rule if_both [where P = "\<lambda>p. 1 \<le> snd p"] | simp)+

function EscapeText :: "string \<Rightarrow> string" where
  "EscapeText [] = []"
| "EscapeText (c # s) =
     (let (r, w) = DecodeRune (c # s)
      in esc r w (take w (c # s)) @ EscapeText (drop w (c # s)))"
  by pat_completeness auto
termination
proof (relation "measure length")
  fix c :: char and s x and xa y :: nat
  assume "x = DecodeRune (c # s)" "(xa, y) = x"
  then have "1 \<le> y" using DecodeRune_width [of "c # s"] by (metis snd_conv)
  then show "(drop y (c # s), c # s) \<in> measure length" by simp
qed simp

section \<open>encoding/xml: elements\<close>

definition enc_attr :: "string \<times> string \<Rightarrow> string" where
  "enc_attr a = (if fst a = [] then []
     else '' '' @ fst a @ ''='' @ [CHR 0x22] @ EscapeText (snd a) @ [CHR 0x22])"

text \<open>
  An element without a name takes that of its field (\<open>Nodes\<close>) or, at the top, of its type.
\<close>

fun enc_node :: "string \<Rightarrow> Node \<Rightarrow> string" where
  "enc_node dflt (Node sp lc at ct ns) =
     (let nm = (if lc = [] then dflt else lc);
          xmlns = (if lc \<noteq> [] \<and> sp \<noteq> [] then '' xmlns='' @ [CHR 0x22] @ EscapeText sp @ [CHR 0x22] else [])
      in ''<'' @ nm @ xmlns @ concat (map enc_attr at) @ ''>'' @ EscapeText ct @
         concat (map (enc_node ''Nodes'') ns) @ ''</'' @ nm @ ''>'')"

definition Encode :: "Node option \<Rightarrow> string" where
  "Encode n = (case n of None \<Rightarrow> [] | Some x \<Rightarrow> enc_node ''Node'' x)"

section \<open>node.go\<close>

definition nonempty_attrs :: "(string \<times> string) list \<Rightarrow> (string \<times> string) list" where
  "nonempty_attrs ps = filter (\<lambda>(k, v). v \<noteq> []) ps"

definition NewNode :: "string \<Rightarrow> (string \<times> string) list \<Rightarrow> Node" where
  "NewNode name attrs = Node [] name (nonempty_attrs attrs) [] []"

definition NewXMLDetails :: Node where
  "NewXMLDetails = NewNode ''detail'' []"

text \<open>
  \<open>Decode\<close> fills the node it is given and may fail halfway: from that node and the text, it
  returns the node and the error.
\<close>

type_synonym decoder = "Node \<Rightarrow> string \<Rightarrow> Node \<times> string option"

definition new_Node :: Node where
  "new_Node = Node [] [] [] [] []"

definition DetailsFromString :: "decoder \<Rightarrow> string \<Rightarrow> Node \<times> string option" where
  "DetailsFromString decode s =
     decode new_Node
            (if HasPrefix s ''<Detail>'' \<or> HasPrefix s ''<detail>'' then s
             else ''<detail>'' @ s @ ''</detail>'')"

definition AsXMLString :: "Node option \<Rightarrow> string" where
  "AsXMLString n = TrimPrefix (TrimSuffix (Encode n) ''</detail>'') ''<detail>''"

fun print_node :: "string \<Rightarrow> Node \<Rightarrow> string" where
  "print_node pre (Node sp lc at ct ns) =
     pre @ lc @
     (if at \<noteq> [] then '' ['' @ Join (map (\<lambda>(k, v). k @ ''='' @ [CHR 0x22] @ v @ [CHR 0x22]) at) '','' @ '']''
      else []) @ [CHR 0x0A] @
     (if ct \<noteq> [] then pre @ ''> '' @ ct @ [CHR 0x0A] else []) @
     concat (map (print_node (pre @ ''    '')) ns)"

definition Node_String :: "Node \<Rightarrow> string" where
  "Node_String n = (if nNodes n = [] then ''*empty*'' else concat (map (print_node []) (nNodes n)))"

definition GetFirst :: "string \<Rightarrow> Node option \<Rightarrow> Node option" where
  "GetFirst name n = (case n of None \<Rightarrow> None | Some x \<Rightarrow> find (\<lambda>c. nLocal c = name) (nNodes x))"

definition Has :: "string \<Rightarrow> Node option \<Rightarrow> bool" where
  "Has name n \<longleftrightarrow> GetFirst name n \<noteq> None"

definition GetAll :: "string \<Rightarrow> Node option \<Rightarrow> Node list" where
  "GetAll name n = (case n of None \<Rightarrow> [] | Some x \<Rightarrow> filter (\<lambda>c. nLocal c = name) (nNodes x))"

definition first_attr :: "string \<Rightarrow> (string \<times> string) list \<Rightarrow> string" where
  "first_attr name ps = (case map_of ps name of Some v \<Rightarrow> v | None \<Rightarrow> [])"

definition GetAttr :: "string \<Rightarrow> Node option \<Rightarrow> string" where
  "GetAttr name n = (case n of None \<Rightarrow> [] | Some x \<Rightarrow> first_attr name (nAttrs x))"

definition GetAttrs :: "Node option \<Rightarrow> (string, string) smap" where
  "GetAttrs n = (case n of None \<Rightarrow> [] | Some x \<Rightarrow> fold (\<lambda>(k, v). smStore k v) (nAttrs x) [])"

definition GetText :: "Node option \<Rightarrow> string" where
  "GetText n = pget [] nContent n"

definition getDestFor :: "string \<Rightarrow> Node option \<Rightarrow> string list" where
  "getDestFor name n =
     (case GetFirst ''marti'' n of
        None \<Rightarrow> []
      | Some marti \<Rightarrow> filter (\<lambda>c. c \<noteq> []) (map (\<lambda>d. GetAttr name (Some d)) (GetAll ''dest'' (Some marti))))"

definition GetDestCallsign :: "Node option \<Rightarrow> string list" where
  "GetDestCallsign = getDestFor ''callsign''"

definition GetDestUid :: "Node option \<Rightarrow> string list" where
  "GetDestUid = getDestFor ''uid''"

definition GetDestMission :: "Node option \<Rightarrow> string list" where
  "GetDestMission = getDestFor ''mission''"

definition getSensor :: "Node option \<Rightarrow> (string, string) smap" where
  "getSensor n = GetAttrs (GetFirst ''sensor'' n)"

definition RemoveTags :: "string list \<Rightarrow> Node option \<Rightarrow> Node option" where
  "RemoveTags tags n = (case n of None \<Rightarrow> None
     | Some (Node sp lc at ct ns) \<Rightarrow> Some (Node sp lc at [] (filter (\<lambda>x. nLocal x \<notin> set tags) ns)))"

definition AddChild :: "string \<Rightarrow> (string \<times> string) list \<Rightarrow> string \<Rightarrow> Node option \<Rightarrow> Node option \<times> nat option" where
  "AddChild name params text n =
     (case n of None \<Rightarrow> (None, None)
      | Some (Node sp lc at ct ns) \<Rightarrow>
          (Some (Node sp lc at ct (ns @ [Node [] name (nonempty_attrs params) text []])), Some (length ns)))"

text \<open>The index of the first child with a name, for a change through \<open>GetFirst\<close>'s pointer.\<close>

fun first_index :: "string \<Rightarrow> Node list \<Rightarrow> nat option" where
  "first_index name [] = None"
| "first_index name (x # xs) =
     (if nLocal x = name then Some 0 else map_option Suc (first_index name xs))"

definition add_attrs :: "(string \<times> string) list \<Rightarrow> Node \<Rightarrow> Node" where
  "add_attrs ps n = Node (nSpace n) (nLocal n) (nAttrs n @ ps) (nContent n) (nNodes n)"

definition AddOrChangeChild :: "string \<Rightarrow> (string \<times> string) list \<Rightarrow> Node option \<Rightarrow> Node option \<times> nat option" where
  "AddOrChangeChild name params n =
     (case n of None \<Rightarrow> (None, None)
      | Some (Node sp lc at ct ns) \<Rightarrow>
          (case first_index name ns of
             Some i \<Rightarrow> (Some (Node sp lc at ct (ns[i := add_attrs params (ns ! i)])), Some i)
           | None \<Rightarrow> AddChild name params [] n))"

definition AddPpLink :: "string \<Rightarrow> string \<Rightarrow> string \<Rightarrow> Node option \<Rightarrow> Node option" where
  "AddPpLink uid typ callsign n =
     fst (AddChild ''link''
       ((if uid \<noteq> [] then [(''uid'', uid)] else []) @
        (if typ \<noteq> [] then [(''type'', typ)] else []) @
        (if callsign \<noteq> [] then [(''parent_callsign'', callsign)] else []) @
        [(''relation'', ''p-p'')]) [] n)"

text \<open>Children changed through the pointer that \<open>AddOrChangeChild\<close> or \<open>AddChild\<close> returns.\<close>

definition set_nodes :: "Node list \<Rightarrow> Node \<Rightarrow> Node" where
  "set_nodes ns n = Node (nSpace n) (nLocal n) (nAttrs n) (nContent n) ns"

definition with_child :: "string \<Rightarrow> (string \<times> string) list \<Rightarrow> (Node option \<Rightarrow> Node option) \<Rightarrow> Node option \<Rightarrow> Node option" where
  "with_child name ps f n =
     (case AddOrChangeChild name ps n of
        (Some x, Some i) \<Rightarrow>
          (case f (Some (nNodes x ! i)) of
             Some c \<Rightarrow> Some (set_nodes ((nNodes x)[i := c]) x) | None \<Rightarrow> Some x)
      | (x, _) \<Rightarrow> x)"

definition with_new_child ::
    "string \<Rightarrow> (string \<times> string) list \<Rightarrow> string \<Rightarrow> (Node option \<Rightarrow> Node option) \<Rightarrow> Node option \<Rightarrow> Node option" where
  "with_new_child name ps text f n =
     (case AddChild name ps text n of
        (Some x, Some i) \<Rightarrow>
          (case f (Some (nNodes x ! i)) of
             Some c \<Rightarrow> Some (set_nodes ((nNodes x)[i := c]) x) | None \<Rightarrow> Some x)
      | (x, _) \<Rightarrow> x)"

section \<open>Escaping\<close>

text \<open>A decoded rune is one ASCII byte, invalid, or a run of bytes that are all above 7F.\<close>

definition rune_ok :: "string \<Rightarrow> nat \<times> nat \<Rightarrow> bool" where
  "rune_ok s p \<longleftrightarrow> (snd p = 1 \<and> fst p = byte s 0 \<and> fst p < 0x80) \<or> (snd p = 1 \<and> fst p = 0xFFFD) \<or>
     (snd p \<le> length s \<and> (\<forall>i < snd p. 0x80 \<le> byte s i) \<and> 0x80 \<le> fst p)"

lemma all_less_nums:
  "(\<forall>i<2. P i) \<longleftrightarrow> P 0 \<and> P (1 :: nat)" "(\<forall>i<3. P i) \<longleftrightarrow> P 0 \<and> P (1 :: nat) \<and> P 2"
  "(\<forall>i<4. P i) \<longleftrightarrow> P 0 \<and> P (1 :: nat) \<and> P 2 \<and> P 3"
  by (auto simp: less_Suc_eq numeral_eq_Suc)

lemma if_case: "(c \<Longrightarrow> P a) \<Longrightarrow> (\<not> c \<Longrightarrow> P b) \<Longrightarrow> P (if c then a else b)"
  by simp

lemma if_le: "k \<le> a \<Longrightarrow> k \<le> b \<Longrightarrow> (if c then a else b) \<le> (x :: nat) \<Longrightarrow> k \<le> x"
  by (simp split: if_split_asm)

lemma mod_block: "k * n \<le> b \<Longrightarrow> b < (k + 1) * n \<Longrightarrow> b mod n = b - k * (n :: nat)"
proof -
  assume b: "k * n \<le> b" "b < (k + 1) * n"
  then have "b mod n = (b - k * n + k * n) mod n" by simp
  also have "\<dots> = (b - k * n) mod n" by (simp only: mod_mult_self1)
  also have "\<dots> = b - k * n" using b by (intro mod_less) (simp add: algebra_simps)
  finally show ?thesis .
qed

text \<open>The value of a sequence of two, three or four bytes.\<close>

lemma rune2:
  assumes "1 < length s" "0xC2 \<le> byte s 0" "byte s 0 \<le> 0xDF" "0x80 \<le> byte s 1"
  shows "rune_ok s ((byte s 0 mod 0x20) * 0x40 + byte s 1 mod 0x40, 2)"
proof -
  have "2 \<le> byte s 0 mod 0x20" using assms(2,3) mod_block [of 6 32 "byte s 0"] by simp
  then have "0x80 \<le> (byte s 0 mod 0x20) * 0x40 + byte s 1 mod 0x40" by simp
  then show ?thesis using assms by (simp add: rune_ok_def all_less_nums)
qed

lemma rune3:
  assumes "2 < length s" "0xE0 \<le> byte s 0" "byte s 0 \<le> 0xEF"
    and "0x80 \<le> byte s 1" "byte s 1 \<le> 0xBF" "byte s 0 = 0xE0 \<Longrightarrow> 0xA0 \<le> byte s 1" "0x80 \<le> byte s 2"
  shows "rune_ok s ((byte s 0 mod 0x10) * 0x1000 + (byte s 1 mod 0x40) * 0x40 + byte s 2 mod 0x40, 3)"
proof -
  have "1 \<le> byte s 0 mod 0x10 \<or> 0x20 \<le> byte s 1 mod 0x40"
  proof (cases "byte s 0 = 0xE0")
    case True
    then show ?thesis using assms(5,6) mod_block [of 2 64 "byte s 1"] by simp
  next
    case False
    then show ?thesis using assms(2,3) mod_block [of 14 16 "byte s 0"] by (intro disjI1) simp
  qed
  then have "0x80 \<le> (byte s 0 mod 0x10) * 0x1000 + (byte s 1 mod 0x40) * 0x40 + byte s 2 mod 0x40"
    by linarith
  then show ?thesis using assms by (simp add: rune_ok_def all_less_nums)
qed

lemma rune4:
  assumes "3 < length s" "0xF0 \<le> byte s 0" "byte s 0 \<le> 0xF4"
    and "0x80 \<le> byte s 1" "byte s 1 \<le> 0xBF" "byte s 0 = 0xF0 \<Longrightarrow> 0x90 \<le> byte s 1"
    and "0x80 \<le> byte s 2" "0x80 \<le> byte s 3"
  shows "rune_ok s ((byte s 0 mod 8) * 0x40000 + (byte s 1 mod 0x40) * 0x1000 + (byte s 2 mod 0x40) * 0x40
    + byte s 3 mod 0x40, 4)"
proof -
  have "1 \<le> byte s 0 mod 8 \<or> 0x10 \<le> byte s 1 mod 0x40"
  proof (cases "byte s 0 = 0xF0")
    case True
    then show ?thesis using assms(5,6) mod_block [of 2 64 "byte s 1"] by simp
  next
    case False
    then show ?thesis using assms(2,3) mod_block [of 30 8 "byte s 0"] by (intro disjI1) simp
  qed
  then have "0x80 \<le> (byte s 0 mod 8) * 0x40000 + (byte s 1 mod 0x40) * 0x1000
      + (byte s 2 mod 0x40) * 0x40 + byte s 3 mod 0x40"
    by linarith
  then show ?thesis using assms by (simp add: rune_ok_def all_less_nums)
qed

lemma DecodeRune_bytes: "rune_ok s (DecodeRune s)"
  unfolding DecodeRune_def Let_def
  apply (rule if_case [where P = "rune_ok s"])
  subgoal by (simp add: rune_ok_def)
  apply (rule if_case [where P = "rune_ok s"])
  subgoal by (rule rune2) simp_all
  apply (rule if_case [where P = "rune_ok s"])
  subgoal by (rule rune3) (simp_all split: if_split_asm)
  apply (rule if_case [where P = "rune_ok s"])
  subgoal by (rule rune4) (simp_all split: if_split_asm)
  subgoal by (simp add: rune_ok_def)
  done

lemma raw_bytes:
  assumes "DecodeRune s = (r, w)" "s \<noteq> []" "x \<in> set (take w s)" "of_char x < (0x80 :: nat)"
  shows "w = 1 \<and> ((r = of_char x \<and> r < 0x80) \<or> r = 0xFFFD)"
proof -
  obtain i where "i < w" "i < length s" "x = s ! i"
    using assms(3) by (auto simp: in_set_conv_nth)
  then show ?thesis
    using DecodeRune_bytes [of s] assms(1,4) by (auto simp: rune_ok_def byte_def)
qed

text \<open>No byte that delimits markup survives escaping.\<close>

definition markup :: "char set" where
  "markup = {CHR ''<'', CHR ''>'', CHR 0x22, CHR 0x27}"

lemma esc_markup:
  assumes "DecodeRune s = (r, w)" "s \<noteq> []"
  shows "set (esc r w (take w s)) \<inter> markup = {}"
proof -
  have "x \<notin> markup"
    if "x \<in> set (take w s)" "r \<noteq> 0x22" "r \<noteq> 0x27" "r \<noteq> 0x3C" "r \<noteq> 0x3E" "\<not> (r = 0xFFFD \<and> w = 1)" for x
  proof
    assume "x \<in> markup"
    then have x: "of_char x \<in> {0x3C, 0x3E, 0x22, 0x27 :: nat}" by (auto simp: markup_def)
    then have "of_char x < (0x80 :: nat)" by auto
    from raw_bytes [OF assms that(1) this] x that show False by auto
  qed
  then show ?thesis
    unfolding esc_def by (auto simp: markup_def split: if_split)
qed

lemma EscapeText_markup: "set (EscapeText s) \<inter> markup = {}"
proof (induction s rule: EscapeText.induct)
  case (2 c s)
  obtain r w where d: "DecodeRune (c # s) = (r, w)" by fastforce
  from 2 [OF d [symmetric] refl] esc_markup [OF d] d show ?case
    by (simp add: Int_Un_distrib2)
qed simp

text \<open>
  What the escapes stand for, and the texts that escape without loss: every rune valid and
  in the range of XML characters.
\<close>

fun Unescape :: "string \<Rightarrow> string" where
  "Unescape [] = []"
| "Unescape (c # s) =
     (if c \<noteq> CHR ''&'' then c # Unescape s
      else if HasPrefix s ''#34;'' then CHR 0x22 # Unescape (drop 4 s)
      else if HasPrefix s ''#39;'' then CHR 0x27 # Unescape (drop 4 s)
      else if HasPrefix s ''amp;'' then CHR ''&'' # Unescape (drop 4 s)
      else if HasPrefix s ''lt;'' then CHR ''<'' # Unescape (drop 3 s)
      else if HasPrefix s ''gt;'' then CHR ''>'' # Unescape (drop 3 s)
      else if HasPrefix s ''#x9;'' then CHR 0x09 # Unescape (drop 4 s)
      else if HasPrefix s ''#xA;'' then CHR 0x0A # Unescape (drop 4 s)
      else if HasPrefix s ''#xD;'' then CHR 0x0D # Unescape (drop 4 s)
      else c # Unescape s)"

function xml_clean :: "string \<Rightarrow> bool" where
  "xml_clean [] \<longleftrightarrow> True"
| "xml_clean (c # s) \<longleftrightarrow>
     (let (r, w) = DecodeRune (c # s)
      in isInCharacterRange r \<and> \<not> (r = 0xFFFD \<and> w = 1) \<and> xml_clean (drop w (c # s)))"
  by pat_completeness auto
termination
proof (relation "measure length")
  fix c :: char and s x and xa y :: nat
  assume "x = DecodeRune (c # s)" "(xa, y) = x"
  then have "1 \<le> y" using DecodeRune_width [of "c # s"] by (metis snd_conv)
  then show "(drop y (c # s), c # s) \<in> measure length" by simp
qed simp

lemma Unescape_plain: "CHR ''&'' \<notin> set p \<Longrightarrow> Unescape (p @ s) = p @ Unescape s"
  by (induction p) auto

lemma char_is:
  "(of_char c = (34 :: nat)) = (c = CHR 0x22)" "(of_char c = (39 :: nat)) = (c = CHR 0x27)"
  "(of_char c = (38 :: nat)) = (c = CHR 0x26)" "(of_char c = (60 :: nat)) = (c = CHR 0x3C)"
  "(of_char c = (62 :: nat)) = (c = CHR 0x3E)" "(of_char c = (9 :: nat)) = (c = CHR 0x09)"
  "(of_char c = (10 :: nat)) = (c = CHR 0x0A)" "(of_char c = (13 :: nat)) = (c = CHR 0x0D)"
  using of_char_eq_iff [of c "CHR 0x22", where ?'a = nat] of_char_eq_iff [of c "CHR 0x27", where ?'a = nat]
    of_char_eq_iff [of c "CHR 0x26", where ?'a = nat] of_char_eq_iff [of c "CHR 0x3C", where ?'a = nat]
    of_char_eq_iff [of c "CHR 0x3E", where ?'a = nat] of_char_eq_iff [of c "CHR 0x09", where ?'a = nat]
    of_char_eq_iff [of c "CHR 0x0A", where ?'a = nat] of_char_eq_iff [of c "CHR 0x0D", where ?'a = nat]
  by simp_all

lemma Unescape_esc:
  assumes d: "DecodeRune (c # s) = (r, w)" and ok: "isInCharacterRange r" "\<not> (r = 0xFFFD \<and> w = 1)"
  shows "Unescape (esc r w (take w (c # s)) @ t) = take w (c # s) @ Unescape t"
proof (cases "r < 0x80 \<and> w = 1 \<and> r = byte (c # s) 0")
  case True
  then have r: "r = of_char c" "w = 1" by (simp_all add: byte_def)
  show ?thesis
  proof (cases "r \<in> {0x22, 0x27, 0x26, 0x3C, 0x3E, 0x09, 0x0A, 0x0D}")
    case special: True
    then have "c \<in> {CHR 0x22, CHR 0x27, CHR ''&'', CHR ''<'', CHR ''>'', CHR 0x09, CHR 0x0A, CHR 0x0D}"
      unfolding r(1) char_is insert_iff empty_iff .
    then show ?thesis unfolding r by (elim insertE emptyE) (simp_all add: esc_def)
  next
    case False
    then have "esc r w (take w (c # s)) = [c]" using ok r by (simp add: esc_def)
    moreover have "c \<noteq> CHR ''&''" using False r by auto
    ultimately show ?thesis using r by simp
  qed
next
  case False
  then have r: "0x80 \<le> r" and bytes: "\<forall>i < w. 0x80 \<le> byte (c # s) i"
    using DecodeRune_bytes [of "c # s"] d ok(2) by (auto simp: rune_ok_def)
  have "esc r w (take w (c # s)) = take w (c # s)" using r ok by (simp add: esc_def)
  moreover have "CHR ''&'' \<notin> set (take w (c # s))"
  proof
    assume "CHR ''&'' \<in> set (take w (c # s))"
    from raw_bytes [OF d _ this] ok(2) r show False by simp
  qed
  ultimately show ?thesis using Unescape_plain by simp
qed

lemma Unescape_EscapeText: "xml_clean s \<Longrightarrow> Unescape (EscapeText s) = s"
proof (induction s rule: EscapeText.induct)
  case (2 c s)
  obtain r w where d: "DecodeRune (c # s) = (r, w)" by fastforce
  with 2 Unescape_esc [OF d] show ?case by simp
qed simp

section \<open>Encoding\<close>

text \<open>Names are written as they are; these are the trees whose names hold no markup.\<close>

fun plain_names :: "Node \<Rightarrow> bool" where
  "plain_names (Node sp lc at ct ns) \<longleftrightarrow>
     set lc \<inter> markup = {} \<and> (\<forall>a \<in> set at. set (fst a) \<inter> markup = {}) \<and> (\<forall>x \<in> set ns. plain_names x)"

fun elements :: "Node \<Rightarrow> nat" where
  "elements (Node sp lc at ct ns) = Suc (sum_list (map elements ns))"

lemma count_plain: "set s \<inter> markup = {} \<Longrightarrow> count_list s CHR ''<'' = 0 \<and> count_list s CHR ''>'' = 0"
  by (auto simp: markup_def count_list_0_iff)

lemma count_EscapeText [simp]:
  "count_list (EscapeText s) CHR ''<'' = 0" "count_list (EscapeText s) CHR ''>'' = 0"
  using count_plain [OF EscapeText_markup] by simp_all

lemma count_concat: "count_list (concat xss) x = sum_list (map (\<lambda>xs. count_list xs x) xss)"
  by (induction xss) simp_all

lemma count_attrs:
  assumes "\<forall>a \<in> set at. set (fst a) \<inter> markup = {}"
  shows "count_list (concat (map enc_attr at)) CHR ''<'' = 0 \<and> count_list (concat (map enc_attr at)) CHR ''>'' = 0"
proof -
  have "count_list (enc_attr a) CHR ''<'' = 0 \<and> count_list (enc_attr a) CHR ''>'' = 0" if "a \<in> set at" for a
    using count_plain [of "fst a"] assms that by (auto simp: enc_attr_def)
  then show ?thesis by (auto simp: count_concat)
qed

lemma enc_node_markup:
  "plain_names n \<Longrightarrow> set dflt \<inter> markup = {} \<Longrightarrow>
   count_list (enc_node dflt n) CHR ''<'' = 2 * elements n \<and>
   count_list (enc_node dflt n) CHR ''>'' = 2 * elements n"
proof (induction dflt n rule: enc_node.induct)
  case (1 dflt sp lc at ct ns)
  have nm: "set (if lc = [] then dflt else lc) \<inter> markup = {}" using 1(2,3) by simp
  have kids: "count_list (enc_node ''Nodes'' x) CHR ''<'' = 2 * elements x \<and>
        count_list (enc_node ''Nodes'' x) CHR ''>'' = 2 * elements x" if "x \<in> set ns" for x
    using 1(1) [OF refl refl that] 1(2) that by (auto simp: markup_def)
  have "map (\<lambda>x. count_list (enc_node ''Nodes'' x) c) ns = map (\<lambda>x. 2 * elements x) ns"
    if "c \<in> {CHR ''<'', CHR ''>''}" for c
    using kids that by auto
  then have "count_list (concat (map (enc_node ''Nodes'') ns)) c = 2 * sum_list (map elements ns)"
    if "c \<in> {CHR ''<'', CHR ''>''}" for c
    using that by (simp only: count_concat map_map o_def sum_list_const_mult)
  moreover have "count_list (concat (map enc_attr at)) CHR ''<'' = 0 \<and> count_list (concat (map enc_attr at)) CHR ''>'' = 0"
    using 1(2) by (intro count_attrs) simp
  ultimately show ?case using count_plain [OF nm] by (simp add: Let_def)
qed

section \<open>Lookup and change\<close>

lemma first_index_find:
  "find (\<lambda>c. nLocal c = name) ns = map_option (\<lambda>i. ns ! i) (first_index name ns)"
  by (induction ns) (auto simp: option.map_comp o_def)

lemma first_index_bound: "first_index name ns = Some i \<Longrightarrow> i < length ns \<and> nLocal (ns ! i) = name"
  by (induction ns arbitrary: i) (auto split: if_splits)

lemma first_index_None: "first_index name ns = None \<longleftrightarrow> (\<forall>x \<in> set ns. nLocal x \<noteq> name)"
  by (induction ns) auto

lemma first_index_update:
  "first_index name ns = Some i \<Longrightarrow> nLocal x = name \<Longrightarrow> first_index name (ns[i := x]) = Some i"
  by (induction ns arbitrary: i) (auto split: if_splits)

lemma first_index_append:
  "first_index name (ns @ ms) =
     (case first_index name ns of Some i \<Rightarrow> Some i | None \<Rightarrow> map_option (\<lambda>i. length ns + i) (first_index name ms))"
  by (induction ns; cases "first_index name ms") (auto simp: option.map_comp o_def split: option.splits)

lemma nLocal_add_attrs [simp]: "nLocal (add_attrs ps n) = nLocal n"
  by (simp add: add_attrs_def)

lemma GetFirst_index: "GetFirst name (Some n) = map_option ((!) (nNodes n)) (first_index name (nNodes n))"
  by (simp add: GetFirst_def first_index_find)

text \<open>The child \<open>AddOrChangeChild\<close> leaves under the name.\<close>

lemma GetFirst_AddOrChangeChild:
  "GetFirst name (fst (AddOrChangeChild name ps (Some n))) =
     Some (case GetFirst name (Some n) of
             Some c \<Rightarrow> add_attrs ps c | None \<Rightarrow> Node [] name (nonempty_attrs ps) [] [])"
  by (cases n) (auto simp: AddOrChangeChild_def AddChild_def GetFirst_index first_index_update
      first_index_append first_index_bound split: option.splits)

text \<open>Children under other names are not touched.\<close>

lemma first_index_other:
  "first_index name ns = Some i \<Longrightarrow> nLocal x = name \<Longrightarrow> name' \<noteq> name \<Longrightarrow>
   find (\<lambda>c. nLocal c = name') (ns[i := x]) = find (\<lambda>c. nLocal c = name') ns"
  by (induction ns arbitrary: i) (auto split: if_splits)

lemma find_append: "find P (xs @ ys) = (case find P xs of None \<Rightarrow> find P ys | Some x \<Rightarrow> Some x)"
  by (induction xs) auto

lemma GetFirst_other:
  "name' \<noteq> name \<Longrightarrow> GetFirst name' (fst (AddOrChangeChild name ps (Some n))) = GetFirst name' (Some n)"
  by (cases n) (auto simp: AddOrChangeChild_def AddChild_def GetFirst_def first_index_other
      first_index_bound find_append split: option.splits)

lemma GetAttr_AddOrChangeChild:
  assumes "GetFirst name (Some n) = Some c"
  shows "GetAttr a (GetFirst name (fst (AddOrChangeChild name ps (Some n)))) =
    (case map_of (nAttrs c) a of Some v \<Rightarrow> v | None \<Rightarrow> first_attr a ps)"
  by (simp add: GetFirst_AddOrChangeChild assms GetAttr_def first_attr_def add_attrs_def map_add_def
      split: option.splits)

lemma GetFirst_RemoveTags:
  "GetFirst name (RemoveTags tags n) = (if name \<in> set tags then None else GetFirst name n)"
proof -
  have "find (\<lambda>c. nLocal c = name) (filter (\<lambda>x. nLocal x \<notin> set tags) ns) =
        (if name \<in> set tags then None else find (\<lambda>c. nLocal c = name) ns)" for ns
    by (induction ns) auto
  then show ?thesis by (auto simp: GetFirst_def RemoveTags_def split: option.splits Node.splits)
qed

lemma getDestFor_nonempty: "[] \<notin> set (getDestFor name n)"
  by (auto simp: getDestFor_def split: option.splits)

section \<open>Properties\<close>

text \<open>
  Escaping is lossless and safe. The output of \<open>EscapeText\<close> holds no \<open><\<close>, \<open>>\<close> or quote,
  and for a text of valid XML characters, resolving the references gives the text back.
\<close>

theorem EscapeText_safe_lossless:
  "set (EscapeText s) \<inter> markup = {} \<and> (xml_clean s \<longrightarrow> Unescape (EscapeText s) = s)"
  using EscapeText_markup Unescape_EscapeText by blast

theorem EscapeText_safe_lossless_witness:
  "Unescape (EscapeText ''<a> & ]]></a>'') = ''<a> & ]]></a>''"
proof -
  have "xml_clean ''<a> & ]]></a>''"
    by (simp add: DecodeRune_def byte_def isInCharacterRange_def)
  then show ?thesis using EscapeText_safe_lossless by blast
qed



text \<open>
  \<open>AddOrChangeChild\<close> adds a missing child, but on a child that is there it appends the
  parameters to its attributes, so an attribute the child already has keeps its old value for
  every reader (\<open>GetAttr\<close> returns the first one) and is written twice. Children of another
  name are not changed.
\<close>

theorem AddOrChangeChild_keeps_old:
  assumes "GetFirst name (Some n) = Some c"
  shows "nAttrs (the (GetFirst name (fst (AddOrChangeChild name ps (Some n))))) = nAttrs c @ ps \<and>
    (map_of (nAttrs c) a = Some v \<longrightarrow>
       GetAttr a (GetFirst name (fst (AddOrChangeChild name ps (Some n)))) = v) \<and>
    (name' \<noteq> name \<longrightarrow> GetFirst name' (fst (AddOrChangeChild name ps (Some n))) = GetFirst name' (Some n))"
  using GetAttr_AddOrChangeChild [OF assms, of a ps] GetFirst_other [of name' name ps n]
  by (simp add: GetFirst_AddOrChangeChild assms add_attrs_def)

theorem AddOrChangeChild_keeps_old_witness:
  "GetAttr ''callsign'' (GetFirst ''contact'' (fst (AddOrChangeChild ''contact'' [(''callsign'', ''new'')]
     (Some (Node [] ''detail'' [] [] [Node [] ''contact'' [(''callsign'', ''old'')] [] []]))))) = ''old''"
  using AddOrChangeChild_keeps_old [of "''contact''"
      "Node [] ''detail'' [] [] [Node [] ''contact'' [(''callsign'', ''old'')] [] []]"
      "Node [] ''contact'' [(''callsign'', ''old'')] [] []" _ "''callsign''" "''old''"]
  by (simp add: GetFirst_def)

end
