(* ===== verification/CotProto.thy ===== *)
theory CotProto
  imports GoRuntime
begin

text \<open>
  \<open>pkg/cotproto\<close>: the protobuf messages as the Go code sees them. A message is a record, a
  pointer to one an option; a getter of the generated code reads a field through a pointer
  that may be nil and returns the zero value then. A getter is named by its message and
  field (\<open>CotEvent_Uid\<close> for \<open>(*CotEvent).GetUid\<close>). The wire format is the protobuf run-time's:
  \<open>proto.Marshal\<close> and \<open>Unmarshal\<close> are arguments of the code that uses them.
\<close>

section \<open>Contact\<close>

record Contact =
  conEndpoint :: string
  conCallsign :: string

definition new_Contact :: Contact where
  "new_Contact = \<lparr>conEndpoint = [], conCallsign = []\<rparr>"

definition Contact_Endpoint :: "Contact option \<Rightarrow> string" where
  "Contact_Endpoint x = pget [] conEndpoint x"
definition Contact_Callsign :: "Contact option \<Rightarrow> string" where
  "Contact_Callsign x = pget [] conCallsign x"

section \<open>Group\<close>

record Group =
  grpName :: string
  grpRole :: string

definition new_Group :: Group where
  "new_Group = \<lparr>grpName = [], grpRole = []\<rparr>"

definition Group_Name :: "Group option \<Rightarrow> string" where
  "Group_Name x = pget [] grpName x"
definition Group_Role :: "Group option \<Rightarrow> string" where
  "Group_Role x = pget [] grpRole x"

section \<open>PrecisionLocation\<close>

record PrecisionLocation =
  plGeopointsrc :: string
  plAltsrc :: string

definition new_PrecisionLocation :: PrecisionLocation where
  "new_PrecisionLocation = \<lparr>plGeopointsrc = [], plAltsrc = []\<rparr>"

definition PrecisionLocation_Geopointsrc :: "PrecisionLocation option \<Rightarrow> string" where
  "PrecisionLocation_Geopointsrc x = pget [] plGeopointsrc x"
definition PrecisionLocation_Altsrc :: "PrecisionLocation option \<Rightarrow> string" where
  "PrecisionLocation_Altsrc x = pget [] plAltsrc x"

section \<open>Status\<close>

record Status =
  stBattery :: "32 word"

definition new_Status :: Status where
  "new_Status = \<lparr>stBattery = 0\<rparr>"

definition Status_Battery :: "Status option \<Rightarrow> 32 word" where
  "Status_Battery x = pget 0 stBattery x"

section \<open>Takv\<close>

record Takv =
  tvDevice :: string
  tvPlatform :: string
  tvOs :: string
  tvVersion :: string

definition new_Takv :: Takv where
  "new_Takv = \<lparr>tvDevice = [], tvPlatform = [], tvOs = [], tvVersion = []\<rparr>"

definition Takv_Device :: "Takv option \<Rightarrow> string" where
  "Takv_Device x = pget [] tvDevice x"
definition Takv_Platform :: "Takv option \<Rightarrow> string" where
  "Takv_Platform x = pget [] tvPlatform x"
definition Takv_Os :: "Takv option \<Rightarrow> string" where
  "Takv_Os x = pget [] tvOs x"
definition Takv_Version :: "Takv option \<Rightarrow> string" where
  "Takv_Version x = pget [] tvVersion x"

section \<open>Track\<close>

record Track =
  trSpeed :: f64
  trCourse :: f64

definition new_Track :: Track where
  "new_Track = \<lparr>trSpeed = 0, trCourse = 0\<rparr>"

definition Track_Speed :: "Track option \<Rightarrow> f64" where
  "Track_Speed x = pget 0 trSpeed x"
definition Track_Course :: "Track option \<Rightarrow> f64" where
  "Track_Course x = pget 0 trCourse x"

section \<open>Detail\<close>

record Detail =
  dXmlDetail :: string
  dContact :: "Contact option"
  dGroup :: "Group option"
  dPrecisionLocation :: "PrecisionLocation option"
  dStatus :: "Status option"
  dTakv :: "Takv option"
  dTrack :: "Track option"

definition new_Detail :: Detail where
  "new_Detail = \<lparr>dXmlDetail = [], dContact = None, dGroup = None, dPrecisionLocation = None, dStatus = None, dTakv = None, dTrack = None\<rparr>"

definition Detail_XmlDetail :: "Detail option \<Rightarrow> string" where
  "Detail_XmlDetail x = pget [] dXmlDetail x"
definition Detail_Contact :: "Detail option \<Rightarrow> Contact option" where
  "Detail_Contact x = pget None dContact x"
definition Detail_Group :: "Detail option \<Rightarrow> Group option" where
  "Detail_Group x = pget None dGroup x"
definition Detail_PrecisionLocation :: "Detail option \<Rightarrow> PrecisionLocation option" where
  "Detail_PrecisionLocation x = pget None dPrecisionLocation x"
definition Detail_Status :: "Detail option \<Rightarrow> Status option" where
  "Detail_Status x = pget None dStatus x"
definition Detail_Takv :: "Detail option \<Rightarrow> Takv option" where
  "Detail_Takv x = pget None dTakv x"
definition Detail_Track :: "Detail option \<Rightarrow> Track option" where
  "Detail_Track x = pget None dTrack x"

section \<open>CotEvent\<close>

record CotEvent =
  ceType :: string
  ceAccess :: string
  ceQos :: string
  ceOpex :: string
  ceCaveat :: string
  ceReleaseableTo :: string
  ceUid :: string
  ceSendTime :: "64 word"
  ceStartTime :: "64 word"
  ceStaleTime :: "64 word"
  ceHow :: string
  ceLat :: f64
  ceLon :: f64
  ceHae :: f64
  ceCe :: f64
  ceLe :: f64
  ceDetail :: "Detail option"

definition new_CotEvent :: CotEvent where
  "new_CotEvent = \<lparr>ceType = [], ceAccess = [], ceQos = [], ceOpex = [], ceCaveat = [], ceReleaseableTo = [], ceUid = [], ceSendTime = 0, ceStartTime = 0, ceStaleTime = 0, ceHow = [], ceLat = 0, ceLon = 0, ceHae = 0, ceCe = 0, ceLe = 0, ceDetail = None\<rparr>"

definition CotEvent_Type :: "CotEvent option \<Rightarrow> string" where
  "CotEvent_Type x = pget [] ceType x"
definition CotEvent_Access :: "CotEvent option \<Rightarrow> string" where
  "CotEvent_Access x = pget [] ceAccess x"
definition CotEvent_Qos :: "CotEvent option \<Rightarrow> string" where
  "CotEvent_Qos x = pget [] ceQos x"
definition CotEvent_Opex :: "CotEvent option \<Rightarrow> string" where
  "CotEvent_Opex x = pget [] ceOpex x"
definition CotEvent_Caveat :: "CotEvent option \<Rightarrow> string" where
  "CotEvent_Caveat x = pget [] ceCaveat x"
definition CotEvent_ReleaseableTo :: "CotEvent option \<Rightarrow> string" where
  "CotEvent_ReleaseableTo x = pget [] ceReleaseableTo x"
definition CotEvent_Uid :: "CotEvent option \<Rightarrow> string" where
  "CotEvent_Uid x = pget [] ceUid x"
definition CotEvent_SendTime :: "CotEvent option \<Rightarrow> 64 word" where
  "CotEvent_SendTime x = pget 0 ceSendTime x"
definition CotEvent_StartTime :: "CotEvent option \<Rightarrow> 64 word" where
  "CotEvent_StartTime x = pget 0 ceStartTime x"
definition CotEvent_StaleTime :: "CotEvent option \<Rightarrow> 64 word" where
  "CotEvent_StaleTime x = pget 0 ceStaleTime x"
definition CotEvent_How :: "CotEvent option \<Rightarrow> string" where
  "CotEvent_How x = pget [] ceHow x"
definition CotEvent_Lat :: "CotEvent option \<Rightarrow> f64" where
  "CotEvent_Lat x = pget 0 ceLat x"
definition CotEvent_Lon :: "CotEvent option \<Rightarrow> f64" where
  "CotEvent_Lon x = pget 0 ceLon x"
definition CotEvent_Hae :: "CotEvent option \<Rightarrow> f64" where
  "CotEvent_Hae x = pget 0 ceHae x"
definition CotEvent_Ce :: "CotEvent option \<Rightarrow> f64" where
  "CotEvent_Ce x = pget 0 ceCe x"
definition CotEvent_Le :: "CotEvent option \<Rightarrow> f64" where
  "CotEvent_Le x = pget 0 ceLe x"
definition CotEvent_Detail :: "CotEvent option \<Rightarrow> Detail option" where
  "CotEvent_Detail x = pget None ceDetail x"

section \<open>TakControl\<close>

record TakControl =
  tcMinProtoVersion :: "32 word"
  tcMaxProtoVersion :: "32 word"

definition new_TakControl :: TakControl where
  "new_TakControl = \<lparr>tcMinProtoVersion = 0, tcMaxProtoVersion = 0\<rparr>"

definition TakControl_MinProtoVersion :: "TakControl option \<Rightarrow> 32 word" where
  "TakControl_MinProtoVersion x = pget 0 tcMinProtoVersion x"
definition TakControl_MaxProtoVersion :: "TakControl option \<Rightarrow> 32 word" where
  "TakControl_MaxProtoVersion x = pget 0 tcMaxProtoVersion x"

section \<open>TakMessage\<close>

record TakMessage =
  tmTakControl :: "TakControl option"
  tmCotEvent :: "CotEvent option"
  tmSubmissionTime :: "64 word"
  tmCreationTime :: "64 word"

definition new_TakMessage :: TakMessage where
  "new_TakMessage = \<lparr>tmTakControl = None, tmCotEvent = None, tmSubmissionTime = 0, tmCreationTime = 0\<rparr>"

definition TakMessage_TakControl :: "TakMessage option \<Rightarrow> TakControl option" where
  "TakMessage_TakControl x = pget None tmTakControl x"
definition TakMessage_CotEvent :: "TakMessage option \<Rightarrow> CotEvent option" where
  "TakMessage_CotEvent x = pget None tmCotEvent x"
definition TakMessage_SubmissionTime :: "TakMessage option \<Rightarrow> 64 word" where
  "TakMessage_SubmissionTime x = pget 0 tmSubmissionTime x"
definition TakMessage_CreationTime :: "TakMessage option \<Rightarrow> 64 word" where
  "TakMessage_CreationTime x = pget 0 tmCreationTime x"

lemmas getters [simp] =
  Contact_Endpoint_def Contact_Callsign_def Group_Name_def Group_Role_def
  PrecisionLocation_Geopointsrc_def PrecisionLocation_Altsrc_def Status_Battery_def
  Takv_Device_def Takv_Platform_def Takv_Os_def Takv_Version_def Track_Speed_def
  Track_Course_def Detail_XmlDetail_def Detail_Contact_def Detail_Group_def
  Detail_PrecisionLocation_def Detail_Status_def Detail_Takv_def Detail_Track_def
  CotEvent_Type_def CotEvent_Access_def CotEvent_Qos_def CotEvent_Opex_def CotEvent_Caveat_def
  CotEvent_ReleaseableTo_def CotEvent_Uid_def CotEvent_SendTime_def CotEvent_StartTime_def
  CotEvent_StaleTime_def CotEvent_How_def CotEvent_Lat_def CotEvent_Lon_def CotEvent_Hae_def
  CotEvent_Ce_def CotEvent_Le_def CotEvent_Detail_def TakControl_MinProtoVersion_def
  TakControl_MaxProtoVersion_def TakMessage_TakControl_def
  TakMessage_CotEvent_def TakMessage_SubmissionTime_def TakMessage_CreationTime_def

lemmas new_messages = new_Contact_def new_Group_def new_PrecisionLocation_def new_Status_def new_Takv_def new_Track_def new_Detail_def new_CotEvent_def new_TakControl_def new_TakMessage_def

end
