(* ===== verification/CotMsg.thy ===== *)
theory CotMsg
  imports XmlNode CotProto CotFilter
begin

text \<open>
  \<open>pkg/cot/cotmessage.go\<close> and \<open>util.go\<close>: a message as the server routes it, the protobuf
  message with its parsed XML detail, where it came from and in which scope it is visible;
  and the constructors of the messages the server makes itself. The receiver of a method may
  be nil, so it is an option; \<open>time.Now()\<close> and a fresh uuid are arguments.
\<close>

section \<open>Time stamps\<close>

definition TimeFromMillis :: "64 word \<Rightarrow> time" where
  "TimeFromMillis ms = sint ms * 10 ^ 6"

definition TimeToMillis :: "time \<Rightarrow> 64 word" where
  "TimeToMillis t = word_of_int (t div 10 ^ 6)"

lemma TimeToMillis_inverse [simp]: "TimeToMillis (TimeFromMillis ms) = ms"
  by (simp add: TimeToMillis_def TimeFromMillis_def)

lemma TimeFromMillis_ToMillis:
  assumes "- (2 ^ 63) * 10 ^ 6 \<le> t" "t < 2 ^ 63 * 10 ^ 6"
  shows "TimeFromMillis (TimeToMillis t) = t - t mod 10 ^ 6"
proof -
  have "- (2 ^ 63) \<le> t div 10 ^ 6" "t div 10 ^ 6 < 2 ^ 63"
    using assms by (simp_all add: div_le_dividend zdiv_mono1 int_div_less_self less_le_trans
        pos_imp_zdiv_nonneg_iff)
  then have "sint (word_of_int (t div 10 ^ 6) :: 64 word) = t div 10 ^ 6"
    by (simp add: signed_of_int signed_take_bit_int_eq_self_iff)
  then show ?thesis
    by (simp add: TimeFromMillis_def TimeToMillis_def minus_mod_eq_div_mult)
qed

section \<open>CotMessage\<close>

definition LocalFrom :: string where "LocalFrom = ''local''"
definition LocalScope :: string where "LocalScope = ''local''"
definition BroadcastScope :: string where "BroadcastScope = ''broadcast''"

record CotMessage =
  cmFrom :: string
  cmScope :: string
  cmTakMessage :: "TakMessage option"
  cmDetail :: "Node option"

definition CotFromProto ::
    "decoder \<Rightarrow> TakMessage option \<Rightarrow> string \<Rightarrow> string \<Rightarrow> CotMessage option \<times> string option" where
  "CotFromProto decode msg from scope =
     (case msg of
        None \<Rightarrow> (None, None)
      | Some _ \<Rightarrow>
          (let (d, err) = DetailsFromString decode (Detail_XmlDetail (CotEvent_Detail (TakMessage_CotEvent msg)))
           in (Some \<lparr>cmFrom = from, cmScope = scope, cmTakMessage = msg, cmDetail = Some d\<rparr>, err)))"

definition LocalCotMessage :: "decoder \<Rightarrow> TakMessage option \<Rightarrow> CotMessage option" where
  "LocalCotMessage decode msg = fst (CotFromProto decode msg LocalFrom LocalScope)"

definition GetTakMessage :: "CotMessage option \<Rightarrow> TakMessage option" where
  "GetTakMessage m = pget None cmTakMessage m"

text \<open>\<open>GetUpdatedTakMessage\<close> writes the parsed detail back into the shared protobuf message.\<close>

definition GetUpdatedTakMessage :: "CotMessage option \<Rightarrow> TakMessage option" where
  "GetUpdatedTakMessage m =
     (case m of
        None \<Rightarrow> None
      | Some cm \<Rightarrow>
          (let msg = GetTakMessage m
           in if cmDetail cm \<noteq> None then
                (case TakMessage_CotEvent msg of
                   None \<Rightarrow> msg
                 | Some cot \<Rightarrow>
                     (let det = (case CotEvent_Detail (Some cot) of None \<Rightarrow> new_Detail | Some d \<Rightarrow> d);
                          det' = det\<lparr>dXmlDetail := AsXMLString (cmDetail cm)\<rparr>
                      in map_option (\<lambda>tm. tm\<lparr>tmCotEvent := Some (cot\<lparr>ceDetail := Some det'\<rparr>)\<rparr>) msg))
              else msg))"

abbreviation cot_of :: "CotMessage option \<Rightarrow> CotEvent option" where
  "cot_of m \<equiv> TakMessage_CotEvent (GetTakMessage m)"

abbreviation det_of :: "CotMessage option \<Rightarrow> Detail option" where
  "det_of m \<equiv> CotEvent_Detail (cot_of m)"

definition GetDetail :: "CotMessage option \<Rightarrow> Node option" where
  "GetDetail m = pget None cmDetail m"

definition GetSendTime :: "CotMessage option \<Rightarrow> time" where
  "GetSendTime m = (case m of None \<Rightarrow> zero_time | Some _ \<Rightarrow> TimeFromMillis (CotEvent_SendTime (cot_of m)))"

definition GetStartTime :: "CotMessage option \<Rightarrow> time" where
  "GetStartTime m = (case m of None \<Rightarrow> zero_time | Some _ \<Rightarrow> TimeFromMillis (CotEvent_StartTime (cot_of m)))"

definition GetStaleTime :: "CotMessage option \<Rightarrow> time" where
  "GetStaleTime m = (case m of None \<Rightarrow> zero_time | Some _ \<Rightarrow> TimeFromMillis (CotEvent_StaleTime (cot_of m)))"

definition GetUID :: "CotMessage option \<Rightarrow> string" where
  "GetUID m = (case m of None \<Rightarrow> [] | Some _ \<Rightarrow> CotEvent_Uid (cot_of m))"

definition GetType :: "CotMessage option \<Rightarrow> string" where
  "GetType m = (case m of None \<Rightarrow> [] | Some _ \<Rightarrow> CotEvent_Type (cot_of m))"

definition GetCallsign :: "CotMessage option \<Rightarrow> string" where
  "GetCallsign m = (case m of None \<Rightarrow> []
     | Some _ \<Rightarrow> cmp_Or (Contact_Callsign (Detail_Contact (det_of m)))
                       (GetAttr ''callsign'' (GetFirst ''contact'' (GetDetail m))))"

definition GetEndpoint :: "CotMessage option \<Rightarrow> string" where
  "GetEndpoint m = (case m of None \<Rightarrow> []
     | Some _ \<Rightarrow> cmp_Or (Contact_Endpoint (Detail_Contact (det_of m)))
                       (GetAttr ''endpoint'' (GetFirst ''contact'' (GetDetail m))))"

definition GetTakv :: "CotMessage option \<Rightarrow> Takv option" where
  "GetTakv m = (case m of None \<Rightarrow> None
     | Some cm \<Rightarrow>
         (case Detail_Takv (det_of m) of
            Some s \<Rightarrow> Some s
          | None \<Rightarrow>
              (case GetFirst ''takv'' (cmDetail cm) of
                 None \<Rightarrow> None
               | Some c \<Rightarrow> Some \<lparr>tvDevice = GetAttr ''device'' (Some c), tvPlatform = GetAttr ''platform'' (Some c),
                                tvOs = GetAttr ''os'' (Some c), tvVersion = GetAttr ''version'' (Some c)\<rparr>)))"

definition GetTeam :: "CotMessage option \<Rightarrow> string" where
  "GetTeam m = (case m of None \<Rightarrow> []
     | Some _ \<Rightarrow> cmp_Or (Group_Name (Detail_Group (det_of m)))
                       (GetAttr ''name'' (GetFirst ''__group'' (GetDetail m))))"

definition GetRole :: "CotMessage option \<Rightarrow> string" where
  "GetRole m = (case m of None \<Rightarrow> []
     | Some _ \<Rightarrow> cmp_Or (Group_Role (Detail_Group (det_of m)))
                       (GetAttr ''role'' (GetFirst ''__group'' (GetDetail m))))"

definition GetExRole :: "CotMessage option \<Rightarrow> string" where
  "GetExRole m = (case m of None \<Rightarrow> []
     | Some _ \<Rightarrow> GetAttr ''exrole'' (GetFirst ''__group'' (GetDetail m)))"

definition IsContact :: "CotMessage option \<Rightarrow> bool" where
  "IsContact m \<longleftrightarrow> m \<noteq> None \<and> GetTakMessage m \<noteq> None \<and> HasPrefix (GetType m) ''a-f-'' \<and> GetEndpoint m \<noteq> []"

definition IsChat :: "CotMessage option \<Rightarrow> bool" where
  "IsChat m \<longleftrightarrow> m \<noteq> None \<and> GetTakMessage m \<noteq> None \<and> GetType m = ''b-t-f''"

definition IsChatReceipt :: "CotMessage option \<Rightarrow> bool" where
  "IsChatReceipt m \<longleftrightarrow> m \<noteq> None \<and>
     GetType m \<in> {''b-t-f-d'', ''b-t-f-p'', ''b-t-f-r'', ''b-t-f-s'', ''b-t-f-u''}"

definition IsFileTransfer :: "CotMessage option \<Rightarrow> bool" where
  "IsFileTransfer m \<longleftrightarrow> m \<noteq> None \<and> GetType m \<in> {''b-f-t-r'', ''b-f-t-a''}"

definition IsPing :: "CotMessage option \<Rightarrow> bool" where
  "IsPing m \<longleftrightarrow> GetType m = ''t-x-c-t'' \<or> GetType m = ''t-x-c-t-r''"

definition IsControl :: "CotMessage option \<Rightarrow> bool" where
  "IsControl m = MatchAnyPattern (GetType m)
     [''t-b'', ''t-b-a'', ''t-b-c'', ''t-b-q'', ''t-x-takp-q'', ''t-x-c-m'', ''t-x-c-i-e'', ''t-x-c-i-d'']"

text \<open>\<open>IsLocal\<close> reads \<open>m.Scope\<close> without a nil check.\<close>

definition IsLocal :: "CotMessage \<Rightarrow> bool" where
  "IsLocal m \<longleftrightarrow> cmScope m = LocalScope"

definition GetLat :: "CotMessage option \<Rightarrow> f64" where
  "GetLat m = (case m of None \<Rightarrow> 0 | Some _ \<Rightarrow> CotEvent_Lat (cot_of m))"

definition GetLon :: "CotMessage option \<Rightarrow> f64" where
  "GetLon m = (case m of None \<Rightarrow> 0 | Some _ \<Rightarrow> CotEvent_Lon (cot_of m))"

definition GetLatLon :: "CotMessage option \<Rightarrow> f64 \<times> f64" where
  "GetLatLon m = (case m of None \<Rightarrow> (0, 0) | Some _ \<Rightarrow> (CotEvent_Lat (cot_of m), CotEvent_Lon (cot_of m)))"

definition IsMapItem :: "CotMessage option \<Rightarrow> bool" where
  "IsMapItem m =
     (if MatchAnyPattern (GetType m) [''a-'', ''u-''] then True
      else if IsChat m \<or> IsChatReceipt m \<or> IsFileTransfer m then False
      else (\<not> f_is_zero (GetLat m) \<and> \<not> f_is_zero (GetLon m)) \<and> MatchAnyPattern (GetType m) [''b-''])"

definition GetParent :: "CotMessage option \<Rightarrow> string \<times> string" where
  "GetParent m =
     (if GetDetail m = None then ([], [])
      else case find (\<lambda>link. GetAttr ''relation'' (Some link) = ''p-p'') (GetAll ''link'' (GetDetail m)) of
             Some link \<Rightarrow> (GetAttr ''uid'' (Some link), GetAttr ''parent_callsign'' (Some link))
           | None \<Rightarrow> ([], []))"

definition GetIconsetPath :: "CotMessage option \<Rightarrow> string" where
  "GetIconsetPath m = GetAttr ''iconsetpath'' (GetFirst ''usericon'' (GetDetail m))"

definition GetColor :: "CotMessage option \<Rightarrow> string" where
  "GetColor m = GetAttr ''argb'' (GetFirst ''color'' (GetDetail m))"

definition GetFirstLink :: "string \<Rightarrow> CotMessage option \<Rightarrow> Node option" where
  "GetFirstLink relation m =
     (if GetDetail m = None then None
      else find (\<lambda>link. relation = [] \<or> GetAttr ''relation'' (Some link) = relation)
             (GetAll ''link'' (GetDetail m)))"

section \<open>Messages the server makes\<close>

text \<open>The three readings of the clock in \<open>BasicMsg\<close>.\<close>

type_synonym clock3 = "time \<times> time \<times> time"

definition BasicMsg :: "clock3 \<Rightarrow> string \<Rightarrow> string \<Rightarrow> int \<Rightarrow> TakMessage" where
  "BasicMsg now typ uid stale =
     (case now of (t1, t2, t3) \<Rightarrow>
        new_TakMessage\<lparr>tmCotEvent := Some (new_CotEvent
          \<lparr>ceType := typ, ceUid := uid,
           ceSendTime := TimeToMillis t1, ceStartTime := TimeToMillis t2,
           ceStaleTime := TimeToMillis (t3 + stale), ceHow := ''m-g'',
           ceHae := NotNum, ceCe := NotNum, ceLe := NotNum\<rparr>)\<rparr>)"

definition set_event :: "(CotEvent \<Rightarrow> CotEvent) \<Rightarrow> TakMessage \<Rightarrow> TakMessage" where
  "set_event f m = m\<lparr>tmCotEvent := map_option f (tmCotEvent m)\<rparr>"

definition MakePing :: "clock3 \<Rightarrow> string \<Rightarrow> TakMessage" where
  "MakePing now uid = BasicMsg now ''t-x-c-t'' (uid @ ''-ping'') (10 * second)"

definition MakePong :: "clock3 \<Rightarrow> TakMessage" where
  "MakePong now = set_event (\<lambda>e. e\<lparr>ceHow := ''h-g-i-g-o''\<rparr>)
     (BasicMsg now ''t-x-c-t-r'' ''takPong'' (20 * second))"

definition MakeOfflineMsg :: "clock3 \<Rightarrow> string \<Rightarrow> string \<Rightarrow> string \<Rightarrow> TakMessage" where
  "MakeOfflineMsg now uuid uid typ =
     (let xd = AddPpLink uid typ [] (Some NewXMLDetails)
      in set_event (\<lambda>e. e\<lparr>ceHow := ''h-g-i-g-o'', ceDetail := Some (new_Detail\<lparr>dXmlDetail := AsXMLString xd\<rparr>)\<rparr>)
           (BasicMsg now ''t-x-d-d'' uuid (3 * minute)))"

definition MakeDpMsg :: "clock3 \<Rightarrow> string \<Rightarrow> string \<Rightarrow> string \<Rightarrow> f64 \<Rightarrow> f64 \<Rightarrow> TakMessage" where
  "MakeDpMsg now uid typ name lat lon =
     (let xd = AddPpLink uid typ [] (Some NewXMLDetails)
      in set_event (\<lambda>e. e\<lparr>ceHow := ''h-e'', ceLat := lat, ceLon := lon,
             ceDetail := Some (new_Detail\<lparr>dXmlDetail := AsXMLString xd,
                                         dContact := Some (new_Contact\<lparr>conCallsign := name\<rparr>)\<rparr>)\<rparr>)
           (BasicMsg now ''b-m-p-s-p-i'' (uid @ ''.SPI1'') (20 * second)))"

section \<open>Classes of messages\<close>

lemma MatchPattern_exact:
  "CHR ''.'' \<notin> set p \<Longrightarrow> \<not> HasSuffix p ''-'' \<Longrightarrow> MatchPattern a p \<longleftrightarrow> a = p"
  by (auto simp: MatchPattern_def)

lemma MatchPattern_prefix:
  "CHR ''.'' \<notin> set p \<Longrightarrow> HasSuffix p ''-'' \<Longrightarrow> MatchPattern a p \<longleftrightarrow> HasPrefix a p"
  by (auto simp: MatchPattern_def HasPrefix_iff)

lemma IsControl_iff:
  "IsControl m \<longleftrightarrow> GetType m \<in> {''t-b'', ''t-b-a'', ''t-b-c'', ''t-b-q'', ''t-x-takp-q'', ''t-x-c-m'',
     ''t-x-c-i-e'', ''t-x-c-i-d''}"
  by (simp add: IsControl_def MatchAnyPattern_def MatchPattern_exact HasSuffix_def)

lemma IsMapItem_iff:
  "IsMapItem m \<longleftrightarrow> HasPrefix (GetType m) ''a-'' \<or> HasPrefix (GetType m) ''u-'' \<or>
     (HasPrefix (GetType m) ''b-'' \<and> \<not> IsChat m \<and> \<not> IsChatReceipt m \<and> \<not> IsFileTransfer m \<and>
      \<not> f_is_zero (GetLat m) \<and> \<not> f_is_zero (GetLon m))"
  by (auto simp: IsMapItem_def MatchAnyPattern_def MatchPattern_prefix HasSuffix_def)

lemma GetType_simps [simp]: "GetType None = []" "GetUID None = []"
  by (simp_all add: GetType_def GetUID_def)

lemma class_types:
  "IsControl m \<Longrightarrow> HasPrefix (GetType m) ''t-''"
  "IsPing m \<Longrightarrow> HasPrefix (GetType m) ''t-''"
  "IsChat m \<Longrightarrow> HasPrefix (GetType m) ''b-t-f''"
  "IsChatReceipt m \<Longrightarrow> HasPrefix (GetType m) ''b-t-f-''"
  "IsFileTransfer m \<Longrightarrow> HasPrefix (GetType m) ''b-f-t-''"
  "IsContact m \<Longrightarrow> HasPrefix (GetType m) ''a-f-''"
  by (auto simp: IsControl_iff IsPing_def IsChat_def IsChatReceipt_def IsFileTransfer_def IsContact_def)

lemma prefix_hd: "HasPrefix t (c # p) \<Longrightarrow> t \<noteq> [] \<and> hd t = c"
  by (auto simp: HasPrefix_iff)

lemma GetType_Basic:
  "GetType (Some \<lparr>cmFrom = f, cmScope = s, cmTakMessage = Some (BasicMsg now typ uid st), cmDetail = d\<rparr>) = typ"
  by (cases now) (simp add: GetType_def GetTakMessage_def BasicMsg_def)

section \<open>Properties\<close>

text \<open>
  The classes of messages the server routes by are exclusive. A message that is stored as
  a map item is never a control message, a ping, a chat, a receipt or a file transfer; a
  control message is never a ping; a contact is always a map item; and the pattern tests of
  \<open>IsMapItem\<close> amount to tests of the first token.
\<close>

theorem message_classes:
  "(IsMapItem m \<longrightarrow> \<not> IsControl m \<and> \<not> IsPing m \<and> \<not> IsChat m \<and> \<not> IsChatReceipt m \<and> \<not> IsFileTransfer m) \<and>
   (IsControl m \<longrightarrow> \<not> IsPing m) \<and> (IsContact m \<longrightarrow> IsMapItem m) \<and>
   (IsMapItem m \<longrightarrow> hd (GetType m) \<in> {CHR ''a'', CHR ''u'', CHR ''b''})"
proof -
  have "IsMapItem m \<Longrightarrow> hd (GetType m) \<in> {CHR ''a'', CHR ''u'', CHR ''b''}"
    by (auto simp: IsMapItem_iff dest: prefix_hd)
  moreover have "IsControl m \<Longrightarrow> hd (GetType m) = CHR ''t''" "IsPing m \<Longrightarrow> hd (GetType m) = CHR ''t''"
    by (auto dest!: class_types prefix_hd)
  moreover have "IsMapItem m \<Longrightarrow> \<not> IsChat m \<and> \<not> IsChatReceipt m \<and> \<not> IsFileTransfer m"
    by (auto simp: IsMapItem_iff dest!: class_types(3-5) prefix_hd)
  moreover have "IsControl m \<Longrightarrow> \<not> IsPing m"
    by (auto simp: IsControl_iff IsPing_def)
  moreover have "IsContact m \<Longrightarrow> IsMapItem m"
    by (auto simp: IsMapItem_iff IsContact_def HasPrefix_iff)
  ultimately show ?thesis by auto
qed

theorem message_classes_witness:
  "\<not> IsControl (Some \<lparr>cmFrom = [], cmScope = [],
     cmTakMessage = Some (BasicMsg (0, 0, 0) ''a-f-G'' ''u1'' 0), cmDetail = None\<rparr>)"
proof -
  have "IsMapItem (Some \<lparr>cmFrom = [], cmScope = [], cmTakMessage = Some (BasicMsg (0, 0, 0) ''a-f-G'' ''u1'' 0),
     cmDetail = None\<rparr>)"
    by (simp add: IsMapItem_iff GetType_Basic)
  then show ?thesis using message_classes by blast
qed

end
