(* ===== verification/CotConvert.thy ===== *)
theory CotConvert
  imports CotMsg
begin

text \<open>
  \<open>pkg/cot/xmlevent.go\<close> and \<open>converter.go\<close>: the XML form of a CoT event and its conversion to
  and from the protobuf form. \<open>Decode\<close> and \<open>strconv.ParseFloat\<close> are arguments. The XML name of
  an event is fixed by its struct tag and not kept. The attribute lists stand in the order of
  the Go literals, one of the orders in which \<open>range\<close> may visit them.
\<close>

section \<open>Events\<close>

record Point =
  ptLat :: f64
  ptLon :: f64
  ptHae :: f64
  ptCe :: f64
  ptLe :: f64

record Event =
  evVersion :: string
  evType :: string
  evAccess :: string
  evQos :: string
  evOpex :: string
  evUID :: string
  evTime :: time
  evStart :: time
  evStale :: time
  evHow :: string
  evDetail :: "Node option"
  evPoint :: Point

definition add_detail :: "Event \<Rightarrow> Event" where
  "add_detail e = (case evDetail e of None \<Rightarrow> e\<lparr>evDetail := Some (Node [] ''detail'' [] [] [])\<rparr> | Some _ \<Rightarrow> e)"

text \<open>\<open>e.AddDetail().AddOrChangeChild(name, params)\<close>.\<close>

definition add_to_detail :: "string \<Rightarrow> (string \<times> string) list \<Rightarrow> Event \<Rightarrow> Event" where
  "add_to_detail name ps e =
     (let e' = add_detail e in e'\<lparr>evDetail := fst (AddOrChangeChild name ps (evDetail e'))\<rparr>)"

definition AddGroup :: "string \<Rightarrow> string \<Rightarrow> Event option \<Rightarrow> Event option" where
  "AddGroup team role e = map_option (add_to_detail ''__group'' [(''name'', team), (''role'', role)]) e"

definition AddCallsign :: "string \<Rightarrow> string \<Rightarrow> bool \<Rightarrow> Event option \<Rightarrow> Event option" where
  "AddCallsign callsign endpoint addDroid e =
     map_option (\<lambda>ev.
       (let ev1 = add_to_detail ''contact'' [(''callsign'', callsign), (''endpoint'', endpoint)] ev
        in if addDroid then add_to_detail ''uid'' [(''Droid'', callsign)] ev1 else ev1)) e"

definition AddTrack :: "string \<Rightarrow> string \<Rightarrow> Event option \<Rightarrow> Event option" where
  "AddTrack speed course e = map_option (add_to_detail ''track'' [(''speed'', speed), (''course'', course)]) e"

definition AddVersion :: "string \<Rightarrow> string \<Rightarrow> string \<Rightarrow> string \<Rightarrow> Event option \<Rightarrow> Event option" where
  "AddVersion device platform os version e =
     map_option (add_to_detail ''takv''
       [(''device'', device), (''platform'', platform), (''os'', os), (''version'', version)]) e"

definition XMLBasicMsg :: "clock3 \<Rightarrow> string \<Rightarrow> string \<Rightarrow> int \<Rightarrow> Event" where
  "XMLBasicMsg now typ uid stale =
     (case now of (t1, t2, t3) \<Rightarrow>
        \<lparr>evVersion = ''2.0'', evType = typ, evAccess = [], evQos = [], evOpex = [], evUID = uid,
         evTime = t1, evStart = t2, evStale = t3 + stale, evHow = [], evDetail = None,
         evPoint = \<lparr>ptLat = 0, ptLon = 0, ptHae = 0, ptCe = NotNum, ptLe = NotNum\<rparr>\<rparr>)"

text \<open>The protocol messages: \<open>TakControl\<close> with one child below it.\<close>

definition tak_control :: "string \<Rightarrow> (string \<times> string) list \<Rightarrow> Event \<Rightarrow> Event" where
  "tak_control name ps e =
     (let e' = add_detail e
      in e'\<lparr>evDetail := with_child ''TakControl'' [] (\<lambda>c. fst (AddOrChangeChild name ps c)) (evDetail e')\<rparr>)"

definition VersionSupportMsg :: "clock3 \<Rightarrow> int \<Rightarrow> Event" where
  "VersionSupportMsg now ver = tak_control ''TakProtocolSupport'' [(''version'', Itoa ver)]
     ((XMLBasicMsg now ''t-x-takp-v'' ''protouid'' minute)\<lparr>evHow := ''m-g''\<rparr>)"

definition VersionReqMsg :: "clock3 \<Rightarrow> int \<Rightarrow> Event" where
  "VersionReqMsg now ver = tak_control ''TakRequest'' [(''version'', Itoa ver)]
     ((XMLBasicMsg now ''t-x-takp-q'' ''protouid'' minute)\<lparr>evHow := ''m-g''\<rparr>)"

definition ProtoChangeOkMsg :: "clock3 \<Rightarrow> Event" where
  "ProtoChangeOkMsg now = tak_control ''TakResponse'' [(''status'', ''true'')]
     ((XMLBasicMsg now ''t-x-takp-r'' ''protouid'' minute)\<lparr>evHow := ''m-g''\<rparr>)"

section \<open>From protobuf to XML\<close>

definition change_child :: "string \<Rightarrow> (string \<times> string) list \<Rightarrow> Node \<Rightarrow> Node" where
  "change_child name ps n = the (fst (AddOrChangeChild name ps (Some n)))"

definition detail_nodes :: "Detail \<Rightarrow> Node \<Rightarrow> Node" where
  "detail_nodes d n0 =
     (let c = dContact d;
          n1 = (if Contact_Callsign c \<noteq> [] then change_child ''contact''
                  [(''callsign'', Contact_Callsign c), (''endpoint'', Contact_Endpoint c)] n0 else n0);
          n2 = (case dStatus d of None \<Rightarrow> n1
                | Some s \<Rightarrow> change_child ''status'' [(''battery'', Itoa (uint (stBattery s)))] n1);
          n3 = (case dTrack d of None \<Rightarrow> n2
                | Some t \<Rightarrow> change_child ''track'' [(''course'', FmtF (trCourse t)), (''speed'', FmtF (trSpeed t))] n2);
          n4 = (case dTakv d of None \<Rightarrow> n3
                | Some tv \<Rightarrow> change_child ''takv'' [(''os'', tvOs tv), (''version'', tvVersion tv),
                    (''device'', tvDevice tv), (''platform'', tvPlatform tv)] n3);
          n5 = (case dGroup d of None \<Rightarrow> n4
                | Some g \<Rightarrow> change_child ''__group'' [(''name'', grpName g), (''role'', grpRole g)] n4)
      in case dPrecisionLocation d of None \<Rightarrow> n5
         | Some p \<Rightarrow> change_child ''precisionlocation''
             [(''altsrc'', plAltsrc p), (''geopointsrc'', plGeopointsrc p)] n5)"

definition CotToEvent :: "decoder \<Rightarrow> CotEvent option \<Rightarrow> Event option" where
  "CotToEvent decode c =
     (case c of None \<Rightarrow> None
      | Some ce \<Rightarrow>
          (let n = (case ceDetail ce of
                      None \<Rightarrow> NewXMLDetails
                    | Some d \<Rightarrow>
                        (let n0 = (if dXmlDetail d \<noteq> [] then
                                     fst (decode NewXMLDetails (''<detail>'' @ dXmlDetail d @ ''</detail>''))
                                   else NewXMLDetails)
                         in detail_nodes d n0))
           in Some \<lparr>evVersion = ''2.0'', evType = ceType ce, evAccess = ceAccess ce, evQos = ceQos ce,
                evOpex = ceOpex ce, evUID = ceUid ce, evTime = TimeFromMillis (ceSendTime ce),
                evStart = TimeFromMillis (ceStartTime ce), evStale = TimeFromMillis (ceStaleTime ce),
                evHow = ceHow ce, evDetail = Some n,
                evPoint = \<lparr>ptLat = ceLat ce, ptLon = ceLon ce, ptHae = ceHae ce, ptCe = ceCe ce, ptLe = ceLe ce\<rparr>\<rparr>))"

definition ProtoToEvent :: "decoder \<Rightarrow> TakMessage option \<Rightarrow> Event option" where
  "ProtoToEvent decode msg = (case msg of None \<Rightarrow> None | Some m \<Rightarrow> CotToEvent decode (tmCotEvent m))"

section \<open>From XML to protobuf\<close>

definition getFloat :: "(string \<Rightarrow> f64 option) \<Rightarrow> string \<Rightarrow> f64" where
  "getFloat ParseFloat s =
     (case ParseFloat (map (\<lambda>c. if c = CHR '','' then CHR ''.'' else c) s) of Some f \<Rightarrow> f | None \<Rightarrow> 0)"

definition removeFields :: "string list" where
  "removeFields = [''contact'', ''__group'', ''precisionlocation'', ''status'', ''takv'', ''track'']"

definition GetXMLDetails :: "decoder \<Rightarrow> Node option \<Rightarrow> bool \<Rightarrow> Node option \<times> string option" where
  "GetXMLDetails decode d withContacts =
     (if d = None then (None, None)
      else case DetailsFromString decode (Encode d) of
             (_, Some err) \<Rightarrow> (None, Some err)
           | (details, None) \<Rightarrow>
               (RemoveTags (if withContacts then tl removeFields else removeFields) (Some details), None))"

definition EventToProto ::
    "decoder \<Rightarrow> (string \<Rightarrow> f64 option) \<Rightarrow> Event option \<Rightarrow> CotMessage option \<times> string option" where
  "EventToProto decode ParseFloat ev =
     (case ev of None \<Rightarrow> (None, None)
      | Some e \<Rightarrow>
          (let det = evDetail e;
               at = (\<lambda>name. GetAttr name);
               contact = GetFirst ''contact'' det;
               extContact = (case contact of None \<Rightarrow> False | Some c \<Rightarrow> \<not> length (GetAttrs (Some c)) < 3);
               (xd, err) = GetXMLDetails decode det extContact;
               d = \<lparr>dXmlDetail = AsXMLString xd,
                 dContact = (if contact \<noteq> None \<and> \<not> extContact
                   then Some \<lparr>conEndpoint = at ''endpoint'' contact, conCallsign = at ''callsign'' contact\<rparr> else None),
                 dGroup = map_option (\<lambda>c. \<lparr>grpName = at ''name'' (Some c), grpRole = at ''role'' (Some c)\<rparr>)
                   (GetFirst ''__group'' det),
                 dPrecisionLocation = map_option (\<lambda>c. \<lparr>plGeopointsrc = at ''geopointsrc'' (Some c),
                     plAltsrc = at ''altsrc'' (Some c)\<rparr>) (GetFirst ''precisionlocation'' det),
                 dStatus = (case GetFirst ''status'' det of None \<Rightarrow> None
                   | Some c \<Rightarrow> map_option (\<lambda>n. \<lparr>stBattery = word_of_int n\<rparr>) (Atoi (at ''battery'' (Some c)))),
                 dTakv = map_option (\<lambda>c. \<lparr>tvDevice = at ''device'' (Some c), tvPlatform = at ''platform'' (Some c),
                     tvOs = at ''os'' (Some c), tvVersion = at ''version'' (Some c)\<rparr>) (GetFirst ''takv'' det),
                 dTrack = map_option (\<lambda>c. \<lparr>trSpeed = getFloat ParseFloat (at ''speed'' (Some c)),
                     trCourse = getFloat ParseFloat (at ''course'' (Some c))\<rparr>) (GetFirst ''track'' det)\<rparr>;
               ce = new_CotEvent\<lparr>ceType := evType e, ceAccess := evAccess e, ceQos := evQos e, ceOpex := evOpex e,
                 ceUid := evUID e, ceSendTime := TimeToMillis (evTime e), ceStartTime := TimeToMillis (evStart e),
                 ceStaleTime := TimeToMillis (evStale e), ceHow := evHow e, ceLat := ptLat (evPoint e),
                 ceLon := ptLon (evPoint e), ceHae := ptHae (evPoint e), ceCe := ptCe (evPoint e),
                 ceLe := ptLe (evPoint e), ceDetail := Some d\<rparr>
           in (Some \<lparr>cmFrom = [], cmScope = [], cmTakMessage = Some (new_TakMessage\<lparr>tmCotEvent := Some ce\<rparr>),
                 cmDetail = xd\<rparr>, err)))"

definition EventToProtoExt ::
    "decoder \<Rightarrow> (string \<Rightarrow> f64 option) \<Rightarrow> Event option \<Rightarrow> string \<Rightarrow> string \<Rightarrow> CotMessage option \<times> string option" where
  "EventToProtoExt decode ParseFloat ev from scope =
     (case EventToProto decode ParseFloat ev of
        (c, err) \<Rightarrow> (map_option (\<lambda>m. m\<lparr>cmScope := scope, cmFrom := from\<rparr>) c, err))"

section \<open>The conversions undo each other\<close>

text \<open>An optional child appended to the detail.\<close>

definition add_opt :: "string \<Rightarrow> (string \<times> string) list option \<Rightarrow> Node \<Rightarrow> Node" where
  "add_opt name ops n = (case ops of None \<Rightarrow> n | Some ps \<Rightarrow> change_child name ps n)"

lemma change_child_new:
  "GetFirst name (Some n) = None \<Longrightarrow>
   change_child name ps n = set_nodes (nNodes n @ [Node [] name (nonempty_attrs ps) [] []]) n"
  by (cases n) (auto simp: change_child_def AddOrChangeChild_def AddChild_def GetFirst_index set_nodes_def
      split: option.splits)

lemma GetFirst_add_opt:
  "GetFirst name (Some n) = None \<Longrightarrow>
   GetFirst name (Some (add_opt name ops n)) = map_option (\<lambda>ps. Node [] name (nonempty_attrs ps) [] []) ops"
  by (cases ops) (auto simp: add_opt_def change_child_new set_nodes_def GetFirst_def find_append)

lemma GetFirst_add_opt_other:
  "GetFirst name (Some n) = None \<Longrightarrow> name' \<noteq> name \<Longrightarrow>
   GetFirst name' (Some (add_opt name ops n)) = GetFirst name' (Some n)"
  by (cases ops) (auto simp: add_opt_def change_child_new set_nodes_def GetFirst_def find_append
      split: option.splits)

lemma add_opt_keeps:
  assumes "GetFirst name (Some n) = None"
  shows "nSpace (add_opt name ops n) = nSpace n" "nLocal (add_opt name ops n) = nLocal n"
    "nAttrs (add_opt name ops n) = nAttrs n" "nContent (add_opt name ops n) = nContent n"
  using assms by (cases ops; simp add: add_opt_def change_child_new set_nodes_def)+

lemma RemoveTags_add_opt:
  "GetFirst name (Some n) = None \<Longrightarrow> name \<in> set tags \<Longrightarrow>
   RemoveTags tags (Some (add_opt name ops n)) = RemoveTags tags (Some n)"
  by (cases ops; cases n) (auto simp: add_opt_def change_child_new set_nodes_def RemoveTags_def)

definition contact_attrs :: "Detail \<Rightarrow> (string \<times> string) list option" where
  "contact_attrs d = (if Contact_Callsign (dContact d) \<noteq> [] then
     Some [(''callsign'', Contact_Callsign (dContact d)), (''endpoint'', Contact_Endpoint (dContact d))] else None)"

lemma add_opt_map:
  "add_opt name (map_option f x) n = (case x of None \<Rightarrow> n | Some y \<Rightarrow> change_child name (f y) n)"
  by (cases x) (simp_all add: add_opt_def)

lemma add_opt_if: "add_opt name (if c then Some ps else None) n = (if c then change_child name ps n else n)"
  by (simp add: add_opt_def)

lemma detail_nodes_opts:
  "detail_nodes d n0 =
     add_opt ''precisionlocation'' (map_option (\<lambda>p. [(''altsrc'', plAltsrc p), (''geopointsrc'', plGeopointsrc p)])
       (dPrecisionLocation d))
     (add_opt ''__group'' (map_option (\<lambda>g. [(''name'', grpName g), (''role'', grpRole g)]) (dGroup d))
     (add_opt ''takv'' (map_option (\<lambda>tv. [(''os'', tvOs tv), (''version'', tvVersion tv),
        (''device'', tvDevice tv), (''platform'', tvPlatform tv)]) (dTakv d))
     (add_opt ''track'' (map_option (\<lambda>t. [(''course'', FmtF (trCourse t)), (''speed'', FmtF (trSpeed t))]) (dTrack d))
     (add_opt ''status'' (map_option (\<lambda>s. [(''battery'', Itoa (uint (stBattery s)))]) (dStatus d))
     (add_opt ''contact'' (contact_attrs d) n0)))))"
  unfolding detail_nodes_def Let_def add_opt_map contact_attrs_def add_opt_if by (rule refl)

text \<open>A detail whose XML part is what the encoder writes and does not repeat a protobuf part.\<close>

definition canonical_detail :: "decoder \<Rightarrow> Detail \<Rightarrow> Node \<Rightarrow> bool" where
  "canonical_detail decode d n0 \<longleftrightarrow>
     n0 = (if dXmlDetail d \<noteq> [] then fst (decode NewXMLDetails (''<detail>'' @ dXmlDetail d @ ''</detail>''))
           else NewXMLDetails) \<and>
     nSpace n0 = [] \<and> nLocal n0 = ''detail'' \<and> nAttrs n0 = [] \<and> nContent n0 = [] \<and>
     AsXMLString (Some n0) = dXmlDetail d \<and> (\<forall>f \<in> set removeFields. GetFirst f (Some n0) = None)"

lemma detail_nodes_facts:
  fixes d :: Detail
  assumes "\<forall>f \<in> set removeFields. GetFirst f (Some n0) = None"
  defines "n \<equiv> detail_nodes d n0"
  shows "GetFirst ''contact'' (Some n) = map_option (\<lambda>ps. Node [] ''contact'' (nonempty_attrs ps) [] []) (contact_attrs d)"
    and "GetFirst ''status'' (Some n) = map_option (\<lambda>s. Node [] ''status''
          (nonempty_attrs [(''battery'', Itoa (uint (stBattery s)))]) [] []) (dStatus d)"
    and "GetFirst ''track'' (Some n) = map_option (\<lambda>t. Node [] ''track''
          (nonempty_attrs [(''course'', FmtF (trCourse t)), (''speed'', FmtF (trSpeed t))]) [] []) (dTrack d)"
    and "GetFirst ''takv'' (Some n) = map_option (\<lambda>tv. Node [] ''takv'' (nonempty_attrs [(''os'', tvOs tv),
          (''version'', tvVersion tv), (''device'', tvDevice tv), (''platform'', tvPlatform tv)]) [] []) (dTakv d)"
    and "GetFirst ''__group'' (Some n) = map_option (\<lambda>g. Node [] ''__group''
          (nonempty_attrs [(''name'', grpName g), (''role'', grpRole g)]) [] []) (dGroup d)"
    and "GetFirst ''precisionlocation'' (Some n) = map_option (\<lambda>p. Node [] ''precisionlocation''
          (nonempty_attrs [(''altsrc'', plAltsrc p), (''geopointsrc'', plGeopointsrc p)]) [] []) (dPrecisionLocation d)"
    and "nSpace n = nSpace n0" "nLocal n = nLocal n0" "nAttrs n = nAttrs n0" "nContent n = nContent n0"
    and "RemoveTags removeFields (Some n) = RemoveTags removeFields (Some n0)"
  using assms(1) unfolding n_def detail_nodes_opts removeFields_def
  by (simp_all add: GetFirst_add_opt GetFirst_add_opt_other add_opt_keeps RemoveTags_add_opt
      option.map_comp o_def)

lemma first_attr_nonempty:
  "distinct (map fst ps) \<Longrightarrow> first_attr k (nonempty_attrs ps) = (case map_of ps k of Some v \<Rightarrow> v | None \<Rightarrow> [])"
proof -
  assume d: "distinct (map fst ps)"
  let ?f = "nonempty_attrs ps"
  have sub: "(k, w) \<in> set ?f \<longleftrightarrow> (k, w) \<in> set ps \<and> w \<noteq> []" for w
    by (simp add: nonempty_attrs_def)
  have d': "distinct (map fst ?f)"
    using d by (simp add: nonempty_attrs_def distinct_map_filter)
  have m: "map_of ?f k = Some w \<longleftrightarrow> map_of ps k = Some w \<and> w \<noteq> []" for w
    by (simp add: map_of_eq_Some_iff [OF d'] map_of_eq_Some_iff [OF d] sub)
  show ?thesis
  proof (cases "map_of ?f k")
    case None
    then have "map_of ps k = Some w \<Longrightarrow> w = []" for w using m [of w] by auto
    then show ?thesis using None by (auto simp: first_attr_def split: option.split)
  next
    case (Some w)
    then have "map_of ps k = Some w" using m [of w] by simp
    then show ?thesis using Some by (simp add: first_attr_def)
  qed
qed

text \<open>What a conversion to XML and back makes of a message.\<close>

definition converted :: "(string \<Rightarrow> f64 option) \<Rightarrow> CotEvent \<Rightarrow> Detail \<Rightarrow> CotEvent" where
  "converted ParseFloat ce d = ce\<lparr>ceCaveat := [], ceReleaseableTo := [], ceDetail := Some (d\<lparr>
     dContact := (if Contact_Callsign (dContact d) = [] then None else dContact d),
     dTrack := map_option (\<lambda>t. \<lparr>trSpeed = getFloat ParseFloat (FmtF (trSpeed t)),
                                trCourse = getFloat ParseFloat (FmtF (trCourse t))\<rparr>) (dTrack d)\<rparr>)\<rparr>"

lemma GetAttrs_bound: "length (GetAttrs (Some n)) \<le> length (nAttrs n)"
proof -
  have "length (fold (\<lambda>(k, v). smStore k v) xs m) \<le> length m + length xs" for xs :: "(string \<times> string) list" and m
  proof (induction xs arbitrary: m)
    case (Cons x xs)
    have "length (AList.update k v m) \<le> Suc (length m)" for k :: string and v :: string
      by (induction m) auto
    then have "length (smStore (fst x) (snd x) m) \<le> Suc (length m)" by (simp add: smStore_def)
    with Cons [of "smStore (fst x) (snd x) m"] show ?case by (simp add: case_prod_beta)
  qed simp
  then show ?thesis by (simp add: GetAttrs_def)
     (metis add_0 list.size(3))
qed

lemma RemoveTags_none:
  "\<forall>f \<in> set tags. GetFirst f (Some n) = None \<Longrightarrow> nContent n = [] \<Longrightarrow> RemoveTags tags (Some n) = Some n"
proof -
  have "\<forall>f \<in> set tags. find (\<lambda>c. nLocal c = f) ns = None \<Longrightarrow> filter (\<lambda>x. nLocal x \<notin> set tags) ns = ns" for ns
    by (intro filter_True) (auto simp: find_None_iff)
  then show "\<forall>f \<in> set tags. GetFirst f (Some n) = None \<Longrightarrow> nContent n = [] \<Longrightarrow> RemoveTags tags (Some n) = Some n"
    by (cases n) (auto simp: RemoveTags_def GetFirst_def)
qed

lemma Encode_detail_prefix:
  "nSpace n = [] \<Longrightarrow> nLocal n = ''detail'' \<Longrightarrow> nAttrs n = [] \<Longrightarrow> HasPrefix (Encode (Some n)) ''<detail>''"
  by (cases n) (simp add: Encode_def)

lemma canonical_detailD:
  assumes "canonical_detail decode d n0"
  shows "n0 = (if dXmlDetail d \<noteq> [] then fst (decode NewXMLDetails (''<detail>'' @ dXmlDetail d @ ''</detail>''))
           else NewXMLDetails)"
    and "nSpace n0 = []" "nLocal n0 = ''detail''" "nAttrs n0 = []" "nContent n0 = []"
    and "AsXMLString (Some n0) = dXmlDetail d" "\<forall>f \<in> set removeFields. GetFirst f (Some n0) = None"
proof -
  note c = assms [unfolded canonical_detail_def]
  show "n0 = (if dXmlDetail d \<noteq> [] then fst (decode NewXMLDetails (''<detail>'' @ dXmlDetail d @ ''</detail>''))
           else NewXMLDetails)"
    by (rule c [THEN conjunct1])
  show "nSpace n0 = []" "nLocal n0 = ''detail''" "nAttrs n0 = []" "nContent n0 = []"
    "AsXMLString (Some n0) = dXmlDetail d" "\<forall>f \<in> set removeFields. GetFirst f (Some n0) = None"
    using c [THEN conjunct2] by blast+
qed

text \<open>The XML detail of a converted message is the canonical part.\<close>

lemma GetXMLDetails_canonical:
  assumes can: "canonical_detail decode d n0"
    and dec: "decode new_Node (Encode (Some (detail_nodes d n0))) = (detail_nodes d n0, None)"
  shows "GetXMLDetails decode (Some (detail_nodes d n0)) False = (Some n0, None)"
proof -
  note c = canonical_detailD [OF can]
  note f = detail_nodes_facts [OF c(7), of d]
  have "HasPrefix (Encode (Some (detail_nodes d n0))) ''<detail>''"
    by (intro Encode_detail_prefix) (simp_all only: c(2-4) f(7-9))
  moreover have "RemoveTags removeFields (Some (detail_nodes d n0)) = Some n0"
    unfolding f(11) by (rule RemoveTags_none [OF c(7,5)])
  ultimately show ?thesis by (simp add: GetXMLDetails_def DetailsFromString_def dec)
qed

lemma battery_back: "Atoi (Itoa (uint (w :: 32 word))) = Some (uint w)"
proof -
  have "uint w < 2 ^ 32" using uint_bounded [of w] by simp
  then show ?thesis by (intro Atoi_Itoa) (simp_all add: order_trans [of _ 0])
qed

lemma attr_new:
  "GetAttr k (Some (Node sp l (nonempty_attrs ps) c ns)) = first_attr k (nonempty_attrs ps)"
  by (simp add: GetAttr_def)

lemmas converted_attrs = attr_new first_attr_nonempty

lemma converted_contact:
  "GetFirst ''contact'' n = map_option (\<lambda>ps. Node [] ''contact'' (nonempty_attrs ps) [] []) (contact_attrs d) \<Longrightarrow>
   (if GetFirst ''contact'' n \<noteq> None \<and> \<not> False
    then Some \<lparr>conEndpoint = GetAttr ''endpoint'' (GetFirst ''contact'' n),
               conCallsign = GetAttr ''callsign'' (GetFirst ''contact'' n)\<rparr> else None) =
   (if Contact_Callsign (dContact d) = [] then None else dContact d)"
  by (cases "dContact d") (auto simp: contact_attrs_def converted_attrs)

lemma converted_status:
  "GetFirst ''status'' n = map_option (\<lambda>s. Node [] ''status''
          (nonempty_attrs [(''battery'', Itoa (uint (stBattery s)))]) [] []) (dStatus d) \<Longrightarrow>
   (case GetFirst ''status'' n of None \<Rightarrow> None
    | Some c \<Rightarrow> map_option (\<lambda>n. \<lparr>stBattery = word_of_int n\<rparr>) (Atoi (GetAttr ''battery'' (Some c)))) = dStatus d"
  by (cases "dStatus d") (auto simp: converted_attrs battery_back)

lemma converted_parts:
  assumes "GetFirst ''contact'' (Some n) = map_option (\<lambda>ps. Node [] ''contact'' (nonempty_attrs ps) [] []) (contact_attrs d)"
    and "GetFirst ''status'' (Some n) = map_option (\<lambda>s. Node [] ''status''
          (nonempty_attrs [(''battery'', Itoa (uint (stBattery s)))]) [] []) (dStatus d)"
    and "GetFirst ''track'' (Some n) = map_option (\<lambda>t. Node [] ''track''
          (nonempty_attrs [(''course'', FmtF (trCourse t)), (''speed'', FmtF (trSpeed t))]) [] []) (dTrack d)"
    and "GetFirst ''takv'' (Some n) = map_option (\<lambda>tv. Node [] ''takv'' (nonempty_attrs [(''os'', tvOs tv),
          (''version'', tvVersion tv), (''device'', tvDevice tv), (''platform'', tvPlatform tv)]) [] []) (dTakv d)"
    and "GetFirst ''__group'' (Some n) = map_option (\<lambda>g. Node [] ''__group''
          (nonempty_attrs [(''name'', grpName g), (''role'', grpRole g)]) [] []) (dGroup d)"
    and "GetFirst ''precisionlocation'' (Some n) = map_option (\<lambda>p. Node [] ''precisionlocation''
          (nonempty_attrs [(''altsrc'', plAltsrc p), (''geopointsrc'', plGeopointsrc p)]) [] []) (dPrecisionLocation d)"
  shows "(if GetFirst ''contact'' (Some n) \<noteq> None \<and> \<not> False
      then Some \<lparr>conEndpoint = GetAttr ''endpoint'' (GetFirst ''contact'' (Some n)),
                 conCallsign = GetAttr ''callsign'' (GetFirst ''contact'' (Some n))\<rparr> else None) =
      (if Contact_Callsign (dContact d) = [] then None else dContact d)"
    and "(case GetFirst ''status'' (Some n) of None \<Rightarrow> None
      | Some c \<Rightarrow> map_option (\<lambda>n. \<lparr>stBattery = word_of_int n\<rparr>) (Atoi (GetAttr ''battery'' (Some c)))) = dStatus d"
    and "map_option (\<lambda>c. \<lparr>trSpeed = getFloat ParseFloat (GetAttr ''speed'' (Some c)),
        trCourse = getFloat ParseFloat (GetAttr ''course'' (Some c))\<rparr>) (GetFirst ''track'' (Some n)) =
      map_option (\<lambda>t. \<lparr>trSpeed = getFloat ParseFloat (FmtF (trSpeed t)),
        trCourse = getFloat ParseFloat (FmtF (trCourse t))\<rparr>) (dTrack d)"
    and "map_option (\<lambda>c. \<lparr>tvDevice = GetAttr ''device'' (Some c), tvPlatform = GetAttr ''platform'' (Some c),
        tvOs = GetAttr ''os'' (Some c), tvVersion = GetAttr ''version'' (Some c)\<rparr>) (GetFirst ''takv'' (Some n)) = dTakv d"
    and "map_option (\<lambda>c. \<lparr>grpName = GetAttr ''name'' (Some c), grpRole = GetAttr ''role'' (Some c)\<rparr>)
        (GetFirst ''__group'' (Some n)) = dGroup d"
    and "map_option (\<lambda>c. \<lparr>plGeopointsrc = GetAttr ''geopointsrc'' (Some c), plAltsrc = GetAttr ''altsrc'' (Some c)\<rparr>)
        (GetFirst ''precisionlocation'' (Some n)) = dPrecisionLocation d"
  subgoal by (rule converted_contact [OF assms(1)])
  subgoal by (rule converted_status [OF assms(2)])
  subgoal unfolding assms(3) by (cases "dTrack d") (simp_all add: converted_attrs)
  subgoal unfolding assms(4) by (cases "dTakv d") (simp_all add: converted_attrs)
  subgoal unfolding assms(5) by (cases "dGroup d") (simp_all add: converted_attrs)
  subgoal unfolding assms(6) by (cases "dPrecisionLocation d") (simp_all add: converted_attrs)
  done

lemma convert_back:
  assumes c: "ceDetail ce = Some d" and can: "canonical_detail decode d n0"
    and dec: "decode new_Node (Encode (Some (detail_nodes d n0))) = (detail_nodes d n0, None)"
  shows "EventToProto decode ParseFloat (CotToEvent decode (Some ce)) =
    (Some \<lparr>cmFrom = [], cmScope = [],
       cmTakMessage = Some (new_TakMessage\<lparr>tmCotEvent := Some (converted ParseFloat ce d)\<rparr>),
       cmDetail = Some n0\<rparr>, None)"
proof -
  let ?n = "detail_nodes d n0"
  note c0 = canonical_detailD [OF can]
  note f = detail_nodes_facts(1-6) [OF c0(7), of d]
  have "length (GetAttrs (Some (Node [] ''contact'' (nonempty_attrs ps) [] []))) < 3" if "contact_attrs d = Some ps" for ps
    using GetAttrs_bound [of "Node [] ''contact'' (nonempty_attrs ps) [] []"] that
    by (auto simp: contact_attrs_def nonempty_attrs_def split: if_splits)
  then have ext: "(case GetFirst ''contact'' (Some ?n) of None \<Rightarrow> False | Some c \<Rightarrow> \<not> length (GetAttrs (Some c)) < 3) = False"
    unfolding f(1) by (cases "contact_attrs d") auto
  note xd = GetXMLDetails_canonical [OF can dec]
  have ev: "CotToEvent decode (Some ce) = Some e" if "e = \<lparr>evVersion = ''2.0'', evType = ceType ce, evAccess = ceAccess ce, evQos = ceQos ce,
                evOpex = ceOpex ce, evUID = ceUid ce, evTime = TimeFromMillis (ceSendTime ce),
                evStart = TimeFromMillis (ceStartTime ce), evStale = TimeFromMillis (ceStaleTime ce),
                evHow = ceHow ce, evDetail = Some ?n,
                evPoint = \<lparr>ptLat = ceLat ce, ptLon = ceLon ce, ptHae = ceHae ce, ptCe = ceCe ce, ptLe = ceLe ce\<rparr>\<rparr>" for e
    unfolding CotToEvent_def that using c by (simp add: Let_def flip: c0(1))
  note parts = converted_parts [OF f]
  show ?thesis
    unfolding ev [OF refl] EventToProto_def option.case Event.select_convs Point.select_convs Let_def ext xd
      prod.case parts c0(6) converted_def
    by (cases d; cases ce) (simp add: new_CotEvent_def new_TakMessage_def)
qed

section \<open>Properties\<close>

text \<open>
  C3: converting a CoT message to an XML event and back keeps every field the XML form has,
  time stamps and the 32-bit battery level included, for every message whose XML detail is
  canonical and does not repeat a protobuf part, and a decoder that reads back what the
  encoder wrote. What is lost is exactly \<open>converted\<close>: \<open>caveat\<close> and \<open>releaseableTo\<close>, a contact
  without callsign, and the digits of speed and course beyond the sixth decimal.
\<close>

theorem event_roundtrip:
  assumes "ceDetail ce = Some d" "canonical_detail decode d n0"
    and "decode new_Node (Encode (Some (detail_nodes d n0))) = (detail_nodes d n0, None)"
  shows "\<exists>m. EventToProto decode ParseFloat (CotToEvent decode (Some ce)) = (Some m, None) \<and>
     TakMessage_CotEvent (cmTakMessage m) = Some (converted ParseFloat ce d) \<and> cmDetail m = Some n0"
  using convert_back [OF assms] by (simp add: new_TakMessage_def)

definition example_detail :: Detail where
  "example_detail = new_Detail\<lparr>dXmlDetail := ''<remarks></remarks>'',
     dGroup := Some \<lparr>grpName = ''Red'', grpRole = ''HQ''\<rparr>\<rparr>"

definition example_node :: Node where
  "example_node = Node [] ''detail'' [] [] [Node [] ''remarks'' [] [] []]"

definition example_decode :: decoder where
  "example_decode i s =
     (if s = Encode (Some (detail_nodes example_detail example_node))
      then (detail_nodes example_detail example_node, None)
      else if s = ''<detail><remarks></remarks></detail>'' then (example_node, None)
      else (i, Some ''syntax error''))"

lemma example_nodes:
  "detail_nodes example_detail example_node =
     Node [] ''detail'' [] [] [Node [] ''remarks'' [] [] [],
       Node [] ''__group'' [(''name'', ''Red''), (''role'', ''HQ'')] [] []]"
  by (simp add: detail_nodes_def example_detail_def example_node_def new_Detail_def change_child_def
      AddOrChangeChild_def AddChild_def nonempty_attrs_def)

theorem event_roundtrip_witness:
  "\<exists>m. EventToProto example_decode (\<lambda>_. None)
     (CotToEvent example_decode (Some (new_CotEvent\<lparr>ceUid := ''u1'', ceDetail := Some example_detail\<rparr>))) = (Some m, None) \<and>
     CotEvent_Uid (TakMessage_CotEvent (cmTakMessage m)) = ''u1''"
proof -
  have enc: "Encode (Some example_node) = ''<detail><remarks></remarks></detail>''"
    by (simp add: Encode_def example_node_def)
  have "Encode (Some (detail_nodes example_detail example_node)) \<noteq> ''<detail><remarks></remarks></detail>''"
    unfolding example_nodes by (simp add: Encode_def)
  then have can: "canonical_detail example_decode example_detail example_node"
    unfolding canonical_detail_def AsXMLString_def enc
    by (simp add: example_decode_def example_detail_def new_Detail_def removeFields_def GetFirst_def
        TrimPrefix_def TrimSuffix_def HasPrefix_def HasSuffix_def)
      (simp add: example_node_def)
  let ?ce = "new_CotEvent\<lparr>ceUid := ''u1'', ceDetail := Some example_detail\<rparr>"
  have "ceDetail ?ce = Some example_detail" by simp
  moreover have "example_decode new_Node (Encode (Some (detail_nodes example_detail example_node))) =
      (detail_nodes example_detail example_node, None)"
    by (simp add: example_decode_def)
  ultimately show ?thesis
    using event_roundtrip [of ?ce example_detail example_decode example_node "\<lambda>_. None"] can
    by (force simp: converted_def)
qed

end
