(* ===== verification/ProtoFraming.thy ===== *)
theory ProtoFraming
  imports CotProto
begin

text \<open>
  \<open>pkg/cot/protoreader.go\<close>: the framing of protobuf messages on a TAK stream, a magic byte,
  the length as a varint, the message. A reader is the list of bytes still to come, with
  \<open>io.EOF\<close> at its end; \<open>proto.Marshal\<close> and \<open>proto.Unmarshal\<close> are arguments. The varint routines
  of \<open>encoding/binary\<close> are translated with the code.
\<close>

type_synonym marshal = "TakMessage option \<Rightarrow> string result"
type_synonym unmarshal = "string \<Rightarrow> TakMessage result"

definition magic :: char where "magic = CHR 0xBF"

section \<open>Varints\<close>

fun PutUvarint :: "nat \<Rightarrow> string" where
  "PutUvarint n = (if n < 0x80 then [char_of n] else char_of (n mod 0x80 + 0x80) # PutUvarint (n div 0x80))"

declare PutUvarint.simps [simp del]

text \<open>\<open>binary.ReadUvarint\<close> at the loop index \<open>i\<close> with the value \<open>x\<close> read so far.\<close>

definition overflow :: gofail where
  "overflow = Error ''binary: varint overflows a 64-bit integer''"

definition unexpected_EOF :: gofail where
  "unexpected_EOF = Error ''unexpected EOF''"

fun ReadUvarint :: "nat \<Rightarrow> 64 word \<Rightarrow> string \<Rightarrow> 64 word result \<times> string" where
  "ReadUvarint i x [] =
     (if i \<ge> 10 then (Inl overflow, []) else (Inl (if i > 0 then unexpected_EOF else EOF), []))"
| "ReadUvarint i x (c # r) =
     (if i \<ge> 10 then (Inl overflow, c # r)
      else let b = (of_char c :: 64 word)
           in if b < 0x80 then
                (if i = 9 \<and> b > 1 then (Inl overflow, r) else (Inr (x OR push_bit (7 * i) b), r))
              else ReadUvarint (Suc i) (x OR push_bit (7 * i) (b AND 0x7F)) r)"

section \<open>Packets\<close>

text \<open>
  \<open>make([]byte, size)\<close> panics beyond the address space the run-time allocates from; a smaller
  size may still exhaust the memory.
\<close>

definition maxAlloc :: nat where "maxAlloc = 2 ^ 48"

text \<open>
  The buffer has five bytes more than the message; a slice of it that is longer than that
  panics.
\<close>

definition MakeProtoPacket :: "marshal \<Rightarrow> TakMessage option \<Rightarrow> string result" where
  "MakeProtoPacket Marshal msg =
     (case Marshal msg of
        Inl err \<Rightarrow> Inl err
      | Inr buf1 \<Rightarrow>
          (let sz = length buf1 + 5;
               v = PutUvarint (length buf1);
               n = length v;
               buf = magic # v @ buf1 @ replicate (sz - (1 + n + length buf1)) (CHR 0x00);
               stop = 1 + n + length buf1 + 1
           in if stop > sz then Inl (Panic ''slice bounds out of range'') else Inr (take stop buf)))"

fun skip_to_magic :: "string \<Rightarrow> string option" where
  "skip_to_magic [] = None"
| "skip_to_magic (b # r) = (if b = magic then Some r else skip_to_magic r)"

definition ReadProto :: "unmarshal \<Rightarrow> string \<Rightarrow> TakMessage result \<times> string" where
  "ReadProto Unmarshal s =
     (case skip_to_magic s of
        None \<Rightarrow> (Inl EOF, [])
      | Some r \<Rightarrow>
          (case ReadUvarint 0 0 r of
             (Inl err, r') \<Rightarrow> (Inl err, r')
           | (Inr sz, r') \<Rightarrow>
               (if unat sz > maxAlloc then (Inl (Panic ''makeslice: len out of range''), r')
                else if length r' < unat sz then (Inl (if r' = [] then EOF else unexpected_EOF), [])
                else (Unmarshal (take (unat sz) r'), drop (unat sz) r'))))"

definition ReadProtoBuf :: "unmarshal \<Rightarrow> string \<Rightarrow> TakMessage result \<times> string" where
  "ReadProtoBuf Unmarshal r = ReadProto Unmarshal r"

text \<open>Reading on until an error, as the clients' loops do.\<close>

fun read_packets :: "nat \<Rightarrow> unmarshal \<Rightarrow> string \<Rightarrow> TakMessage list \<times> string" where
  "read_packets 0 Unmarshal s = ([], s)"
| "read_packets (Suc k) Unmarshal s =
     (case ReadProto Unmarshal s of
        (Inl _, r) \<Rightarrow> ([], r)
      | (Inr m, r) \<Rightarrow> (let (ms, r') = read_packets k Unmarshal r in (m # ms, r')))"

section \<open>Varints are read back\<close>

lemma PutUvarint_length:
  "n < 2 ^ (7 * Suc k) \<Longrightarrow> length (PutUvarint n) \<le> Suc k"
proof (induction k arbitrary: n)
  case 0
  then show ?case by (subst PutUvarint.simps) simp
next
  case (Suc k)
  have "n div 0x80 < 2 ^ (7 * Suc k)"
    using Suc.prems by (simp add: less_mult_imp_div_less power_add)
  then show ?case using Suc.IH [of "n div 0x80"] by (subst PutUvarint.simps) simp
qed

lemma PutUvarint_length_ge:
  "2 ^ (7 * k) \<le> n \<Longrightarrow> k < length (PutUvarint n)"
proof (induction k arbitrary: n)
  case 0
  then show ?case by (subst PutUvarint.simps) simp
next
  case (Suc k)
  have "(2 :: nat) ^ (7 * Suc k) = 2 ^ (7 * k) * 0x80" by (simp add: power_add)
  with Suc.prems have le: "2 ^ (7 * k) * 0x80 \<le> n" by simp
  then have "2 ^ (7 * k) \<le> n div 0x80" by (simp add: less_eq_div_iff_mult_less_eq)
  moreover have "\<not> n < 0x80"
    using le order_trans [OF mult_le_mono1 [of 1 "2 ^ (7 * k)" "0x80 :: nat"] le] by (simp add: not_less)
  moreover note Suc.IH [of "n div 0x80"]
  ultimately show ?case by (subst PutUvarint.simps) simp
qed

lemma PutUvarint_ne [simp]: "PutUvarint n \<noteq> []"
  by (subst PutUvarint.simps) simp

text \<open>The next seven bits go above those read so far.\<close>

lemma take_bit_and_push_bit: "take_bit s a AND push_bit s b = (0 :: nat)"
  by (rule bit_eqI) (auto simp: bit_and_iff bit_take_bit_iff bit_push_bit_iff)

lemma or_push_bit:
  fixes x :: "64 word"
  assumes "unat x < 2 ^ s" "k * 2 ^ s + unat x < 2 ^ 64" "s < 64"
  shows "unat (x OR push_bit s (word_of_nat k)) = unat x + k * 2 ^ s"
proof -
  have k: "k * 2 ^ s < 2 ^ 64" "k < 2 ^ 64"
  proof -
    show "k * 2 ^ s < 2 ^ 64" using assms(2) by linarith
    moreover have "k * 1 \<le> k * 2 ^ s" by (intro mult_le_mono2) simp
    ultimately show "k < 2 ^ 64" by linarith
  qed
  have p: "unat (push_bit s (word_of_nat k :: 64 word)) = push_bit s k"
    using k by (simp add: unsigned_push_bit_eq unsigned_of_nat take_bit_nat_eq_self push_bit_nat_def)
  have "unat x = take_bit s (unat x)" using assms(1) by (simp add: take_bit_nat_eq_self)
  then have "unat x AND push_bit s k = 0"
    by (metis take_bit_and_push_bit)
  then have "unat x OR push_bit s k = unat x + push_bit s k" by (simp add: disjunctive_add_eq_or)
  then show ?thesis by (simp add: unsigned_or_eq p push_bit_nat_def)
qed

text \<open>The bytes \<open>PutUvarint\<close> writes, as the reader sees them.\<close>

lemma of_char_word: "n < 0x80 \<Longrightarrow> (of_char (char_of n) :: 64 word) = word_of_nat n"
proof -
  assume "n < 0x80"
  then have "(of_char (char_of n) :: nat) = n" by simp
  then show ?thesis by (metis of_nat_of_char)
qed

lemma byte_of_digit:
  assumes "k < 0x80"
  shows "(of_char (char_of (k + 0x80)) :: 64 word) AND 0x7F = word_of_nat k"
    and "\<not> (of_char (char_of (k + 0x80)) :: 64 word) < 0x80"
proof -
  have "(of_char (char_of (k + 0x80)) :: nat) = k + 0x80" using assms by simp
  then have b: "(of_char (char_of (k + 0x80)) :: 64 word) = word_of_nat (k + 0x80)" by (metis of_nat_of_char)
  show "(of_char (char_of (k + 0x80)) :: 64 word) AND 0x7F = word_of_nat k"
  proof -
    have "(of_char (char_of (k + 0x80)) :: 64 word) AND 0x7F = take_bit 7 (word_of_nat (k + 0x80))"
      unfolding b by (simp add: take_bit_eq_mask mask_eq_exp_minus_1)
    also have "\<dots> = word_of_nat (take_bit 7 (k + 0x80))" by (simp only: take_bit_of_nat)
    also have "take_bit 7 (k + 0x80) = k" using assms by (simp add: take_bit_eq_mod)
    finally show ?thesis .
  qed
  show "\<not> (of_char (char_of (k + 0x80)) :: 64 word) < 0x80"
  proof -
    have "unat (word_of_nat (k + 0x80) :: 64 word) = k + 0x80"
      using assms by (simp only: unsigned_of_nat) (simp add: take_bit_nat_eq_self)
    then show ?thesis unfolding b by (simp add: word_less_nat_alt)
  qed
qed

lemma ReadUvarint_Put:
  assumes "unat x < 2 ^ (7 * i)" "length (PutUvarint n) + i \<le> 9" "n * 2 ^ (7 * i) + unat x < 2 ^ 63"
  shows "\<exists>v. ReadUvarint i x (PutUvarint n @ r) = (Inr v, r) \<and> unat v = unat x + n * 2 ^ (7 * i)"
  using assms
proof (induction n arbitrary: i x rule: PutUvarint.induct)
  case (1 n)
  have i: "\<not> i \<ge> 10" "7 * i < 64" "i \<noteq> 9"
  proof -
    have "0 < length (PutUvarint n)" by simp
    then have "i \<le> 8" using 1(3) by linarith
    then show "\<not> i \<ge> 10" "7 * i < 64" "i \<noteq> 9" by simp_all
  qed
  show ?case
  proof (cases "n < 0x80")
    case True
    have b: "(of_char (char_of n) :: 64 word) = word_of_nat n"
      using True by (rule of_char_word)
    have "unat (x OR push_bit (7 * i) (word_of_nat n)) = unat x + n * 2 ^ (7 * i)"
      using 1(2,4) i by (intro or_push_bit) simp_all
    moreover have "(word_of_nat n :: 64 word) < 0x80"
      using True by (simp add: word_less_nat_alt unsigned_of_nat take_bit_nat_eq_self)
    ultimately show ?thesis
      using True i by (subst PutUvarint.simps) (simp add: b)
  next
    case False
    let ?k = "n mod 0x80" and ?p = "2 ^ (7 * i) :: nat"
    let ?x = "x OR push_bit (7 * i) (word_of_nat ?k)"
    have n: "n = n div 0x80 * 0x80 + ?k" by simp
    have "n * ?p = (n div 0x80 * 0x80 + ?k) * ?p" using n by simp
    also have "\<dots> = (n div 0x80) * (0x80 * ?p) + ?k * ?p" by (simp only: algebra_simps)
    finally have "n * ?p = (n div 0x80) * (0x80 * ?p) + ?k * ?p" .
    then have sum: "n * ?p + unat x = (n div 0x80) * 2 ^ (7 * Suc i) + (?k * ?p + unat x)"
      by (simp add: power_add algebra_simps)
    have x: "unat ?x = unat x + ?k * ?p"
      using 1(2,4) i sum by (intro or_push_bit) simp_all
    have len: "PutUvarint n = char_of (?k + 0x80) # PutUvarint (n div 0x80)"
      using False by (subst PutUvarint.simps) simp
    have "?k * ?p \<le> 0x7F * ?p" by (intro mult_le_mono1) simp
    moreover have "2 ^ (7 * Suc i) = 0x80 * ?p" by (simp add: power_add)
    ultimately have "unat ?x < 2 ^ (7 * Suc i)" using 1(2) x by linarith
    then obtain v where "ReadUvarint (Suc i) ?x (PutUvarint (n div 0x80) @ r) = (Inr v, r)"
      "unat v = unat ?x + (n div 0x80) * 2 ^ (7 * Suc i)"
      using 1(1) [OF False, of ?x "Suc i"] 1(3,4) len sum x by auto
    then show ?thesis
      using i byte_of_digit [of ?k] sum x by (simp add: len)
  qed
qed

section \<open>Packets are read back\<close>

lemma skip_to_magic_append: "magic \<notin> set g \<Longrightarrow> skip_to_magic (g @ magic # r) = Some r"
  by (induction g) auto

lemma skip_to_magic_None: "magic \<notin> set g \<Longrightarrow> skip_to_magic g = None"
  by (induction g) auto

text \<open>A packet is the magic byte, the length, the message and one byte that belongs to nothing.\<close>

lemma MakeProtoPacket_bytes:
  assumes "Marshal m = Inr p" "length p < 2 ^ 21"
  shows "MakeProtoPacket Marshal m = Inr (magic # PutUvarint (length p) @ p @ [CHR 0x00])"
proof -
  have n: "length (PutUvarint (length p)) \<le> 3"
    using PutUvarint_length [of "length p" 2] assms(2) by simp
  define k where "k = 3 - length (PutUvarint (length p))"
  have k: "length p + 5 - (1 + length (PutUvarint (length p)) + length p) = Suc k"
    using n by (simp add: k_def)
  have "take (1 + length (PutUvarint (length p)) + length p + 1)
      (magic # PutUvarint (length p) @ p @ replicate (Suc k) (CHR 0x00)) =
      magic # PutUvarint (length p) @ p @ [CHR 0x00]"
    by simp
  then show ?thesis
    using assms(1) n unfolding MakeProtoPacket_def by (simp only: sum.case Let_def k) simp
qed

lemma MakeProtoPacket_long:
  assumes "Marshal m = Inr p" "2 ^ 21 \<le> length p"
  shows "MakeProtoPacket Marshal m = Inl (Panic ''slice bounds out of range'')"
  using PutUvarint_length_ge [of 3 "length p"] assms by (simp add: MakeProtoPacket_def Let_def)

lemma ReadProto_packet:
  assumes "length p < 2 ^ 21" "magic \<notin> set g"
  shows "ReadProto Unmarshal (g @ magic # PutUvarint (length p) @ p @ r) = (Unmarshal p, r)"
proof -
  have "length (PutUvarint (length p)) \<le> 3"
    using PutUvarint_length [of "length p" 2] assms(1) by simp
  then obtain v where "ReadUvarint 0 0 (PutUvarint (length p) @ (p @ r)) = (Inr v, p @ r)" "unat v = length p"
    using ReadUvarint_Put [of 0 0 "length p" "p @ r"] assms(1) by auto
  then show ?thesis
    using assms by (simp add: ReadProto_def skip_to_magic_append maxAlloc_def)
qed

text \<open>A packet a sender made, read after bytes without the magic byte.\<close>

lemma packet_read:
  assumes "MakeProtoPacket Marshal (Some m) = Inr pkt" "\<And>p. Marshal (Some m) = Inr p \<Longrightarrow> Unmarshal p = Inr m" "magic \<notin> set g"
  shows "ReadProto Unmarshal (g @ pkt @ r) = (Inr m, CHR 0x00 # r)"
proof -
  obtain p where p: "Marshal (Some m) = Inr p"
    using assms(1) by (auto simp: MakeProtoPacket_def split: sum.splits)
  have len: "length p < 2 ^ 21"
    using MakeProtoPacket_long [of Marshal "Some m" p] p assms(1) by (cases "length p < 2 ^ 21") auto
  have "pkt = magic # PutUvarint (length p) @ p @ [CHR 0x00]"
    using MakeProtoPacket_bytes [of Marshal "Some m" p] assms(1) p len by simp
  then show ?thesis using ReadProto_packet [OF len assms(3), of Unmarshal "CHR 0x00 # r"] assms(2) [OF p] by simp
qed

lemma packets_read:
  assumes "list_all2 (\<lambda>m pkt. MakeProtoPacket Marshal (Some m) = Inr pkt) ms pkts"
    and "\<And>m p. m \<in> set ms \<Longrightarrow> Marshal (Some m) = Inr p \<Longrightarrow> Unmarshal p = Inr m"
    and "magic \<notin> set g"
  shows "read_packets (length ms) Unmarshal (g @ concat pkts @ r) =
     (ms, (if ms = [] then g else [CHR 0x00]) @ r)"
  using assms
proof (induction ms pkts arbitrary: g rule: list_all2_induct)
  case (Cons m ms pkt pkts)
  have "ReadProto Unmarshal (g @ pkt @ (concat pkts @ r)) = (Inr m, [CHR 0x00] @ concat pkts @ r)"
    using packet_read [OF Cons(1), of Unmarshal g "concat pkts @ r"] Cons.prems by simp
  moreover have "read_packets (length ms) Unmarshal ([CHR 0x00] @ concat pkts @ r) =
     (ms, (if ms = [] then [CHR 0x00] else [CHR 0x00]) @ r)"
    using Cons.IH [of "[CHR 0x00]"] Cons.prems by (simp add: magic_def)
  ultimately show ?case by simp
qed simp

section \<open>Properties\<close>

text \<open>
  C4: a stream of protobuf packets is read back message by message. Given a codec whose
  \<open>Unmarshal\<close> inverts its \<open>Marshal\<close> on the messages sent, reading the concatenated packets,
  after any bytes that do not hold the magic byte, returns exactly the messages in order, and
  consumes everything but the one stray zero byte that \<open>MakeProtoPacket\<close> leaves at the end of
  each packet.
\<close>

theorem proto_stream_roundtrip:
  assumes "list_all2 (\<lambda>m pkt. MakeProtoPacket Marshal (Some m) = Inr pkt) ms pkts"
    and "\<And>m p. m \<in> set ms \<Longrightarrow> Marshal (Some m) = Inr p \<Longrightarrow> Unmarshal p = Inr m"
    and "magic \<notin> set g" "ms \<noteq> []"
  shows "read_packets (length ms) Unmarshal (g @ concat pkts @ r) = (ms, CHR 0x00 # r)"
  using packets_read [OF assms(1-3)] assms(4) by simp

theorem proto_stream_roundtrip_witness:
  "read_packets 2 (\<lambda>p. if p = ''a'' then Inr new_TakMessage else Inl EOF)
     (''xx'' @ concat [[magic, CHR 0x01, CHR ''a'', CHR 0x00], [magic, CHR 0x01, CHR ''a'', CHR 0x00]] @ [])
   = ([new_TakMessage, new_TakMessage], [CHR 0x00])"
proof -
  have "MakeProtoPacket (\<lambda>_. Inr ''a'') m = Inr [magic, CHR 0x01, CHR ''a'', CHR 0x00]" for m
    using char_of_char [of "CHR 0x01", where ?'a = nat] by (simp add: MakeProtoPacket_bytes PutUvarint.simps)
  then show ?thesis
    using proto_stream_roundtrip [of "\<lambda>_. Inr ''a''" "[new_TakMessage, new_TakMessage]"
        "[[magic, CHR 0x01, CHR ''a'', CHR 0x00], [magic, CHR 0x01, CHR ''a'', CHR 0x00]]"
        "\<lambda>p. if p = ''a'' then Inr new_TakMessage else Inl EOF" "''xx''" "[]"]
    by (simp add: magic_def numeral_2_eq_2)
qed

text \<open>
  \<open>MakeProtoPacket\<close> fails only when \<open>Marshal\<close> does, or with a panic when the message has
  2 MiB or more: its length then takes four bytes, and the slice with the stray byte no longer
  fits the buffer. Shorter messages always give a packet, with the message in it.
\<close>

theorem MakeProtoPacket_result:
  "MakeProtoPacket Marshal m =
     (case Marshal m of
        Inl err \<Rightarrow> Inl err
      | Inr p \<Rightarrow> (if length p < 2 ^ 21 then Inr (magic # PutUvarint (length p) @ p @ [CHR 0x00])
                  else Inl (Panic ''slice bounds out of range'')))"
proof (cases "Marshal m")
  case (Inr p)
  then show ?thesis
    using MakeProtoPacket_bytes [of Marshal m p] MakeProtoPacket_long [of Marshal m p] by simp
qed (simp add: MakeProtoPacket_def)

text \<open>
  The length a peer announces is trusted. A packet header that announces more than the
  address space makes \<open>ReadProto\<close> panic whatever follows, and the announced length is the only
  thing that decides it: with a smaller one the outcome is the message, or an error.
\<close>

theorem ReadProto_panic:
  assumes "\<And>p e. Unmarshal p = Inl e \<Longrightarrow> \<forall>s. e \<noteq> Panic s" "skip_to_magic s = Some r"
    and "ReadUvarint 0 0 r = (Inr sz, r')"
  shows "(\<exists>s'. fst (ReadProto Unmarshal s) = Inl (Panic s')) \<longleftrightarrow> unat sz > maxAlloc"
  using assms(1) [of "take (unat sz) r'"] assms(2,3)
  by (cases "Unmarshal (take (unat sz) r')") (auto simp: ReadProto_def unexpected_EOF_def)

theorem ReadProto_panic_witness:
  "\<exists>s'. fst (ReadProto (\<lambda>_. Inl EOF) 
     (magic # [CHR 0xFF, CHR 0xFF, CHR 0xFF, CHR 0xFF, CHR 0xFF, CHR 0xFF, CHR 0xFF, CHR 0x01])) = Inl (Panic s')"
proof -
  have "skip_to_magic 
     (magic # [CHR 0xFF, CHR 0xFF, CHR 0xFF, CHR 0xFF, CHR 0xFF, CHR 0xFF, CHR 0xFF, CHR 0x01]) = Some ([CHR 0xFF, CHR 0xFF, CHR 0xFF, CHR 0xFF, CHR 0xFF, CHR 0xFF, CHR 0xFF, CHR 0x01])"
    by simp
  moreover have "ReadUvarint 0 0 ([CHR 0xFF, CHR 0xFF, CHR 0xFF, CHR 0xFF, CHR 0xFF, CHR 0xFF, CHR 0xFF, CHR 0x01]) = (Inr 0x3FFFFFFFFFFFF, [])"
    by simp
  ultimately show ?thesis
    using ReadProto_panic [of "\<lambda>_. Inl EOF"] by (simp add: maxAlloc_def)
qed

end
