(* ===== verification/TagReader.thy ===== *)
theory TagReader
  imports GoPrelude
begin

text \<open>
  \<open>pkg/cot/tagreader.go\<close>: cutting one XML element at a time out of a stream that may hold
  anything. A reader is the list of bytes still to come, with \<open>io.EOF\<close> at its end. Each loop
  of \<open>ReadTag\<close> is a recursive function over that list; \<open>buf\<close> and \<open>saved\<close> are its buffers.
\<close>

section \<open>The code\<close>

definition maxBufLen :: nat where "maxBufLen = 2048"

definition bad_xml :: "string \<Rightarrow> gofail" where "bad_xml b = Error (''bad xml: '' @ b)"
definition too_long :: gofail where "too_long = Error ''too long tag''"
definition closed_tag :: gofail where "closed_tag = Error ''closed tag''"

fun skip_lt :: "string \<Rightarrow> string option" where
  "skip_lt [] = None"
| "skip_lt (b # r) = (if b = CHR ''<'' then Some r else skip_lt r)"

fun start_tag :: "string \<Rightarrow> string \<Rightarrow> string result \<times> string" where
  "start_tag buf [] = (Inl EOF, [])"
| "start_tag buf (b # r) =
     (let buf' = buf @ [b]
      in if b = CHR ''>'' then (Inr buf', r)
         else if b = CHR ''<'' then (Inl (bad_xml buf'), r)
         else if length buf' > maxBufLen then (Inl too_long, r)
         else start_tag buf' r)"

text \<open>The result is the tag, the bytes of the element and the error.\<close>

type_synonym tag_result = "(string \<times> string \<times> gofail option) \<times> string"

definition tag_error :: "gofail \<Rightarrow> string \<Rightarrow> tag_result" where
  "tag_error e r = (([], [], Some e), r)"

fun end_tag :: "string \<Rightarrow> string \<Rightarrow> string \<Rightarrow> string \<Rightarrow> tag_result" where
  "end_tag tag saved buf [] = ((tag, saved, Some EOF), [])"
| "end_tag tag saved buf (b # r) =
     (let saved' = saved @ [b]; buf' = buf @ [b]
      in if b = CHR ''<'' then end_tag tag saved' ''<'' r
         else if b = CHR ''>'' \<and> buf' = ''</'' @ tag @ ''>'' then ((tag, saved', None), r)
         else (let buf'' = (if b = CHR ''>'' then [] else buf')
               in if length saved' > maxBufLen then tag_error too_long r
                  else end_tag tag saved' buf'' r))"

definition tag_name :: "string \<Rightarrow> string" where
  "tag_name raw =
     (let t = Trim raw ''<>/'' in if CHR '' '' \<in> set t then takeWhile (\<lambda>c. c \<noteq> CHR '' '') t else t)"

definition ReadTag :: "string \<Rightarrow> tag_result" where
  "ReadTag s =
     (case skip_lt s of
        None \<Rightarrow> tag_error EOF []
      | Some r \<Rightarrow>
          (case start_tag ''<'' r of
             (Inl e, r1) \<Rightarrow> tag_error e r1
           | (Inr raw, r1) \<Rightarrow>
               (let selfClosed = HasSuffix raw ''/>''
                in if HasPrefix raw ''</'' then tag_error closed_tag r1
                   else let tag = tag_name raw
                        in if tag = [] then tag_error (Panic ''index out of range [0]'') r1
                           else if hd tag = CHR ''?'' then ((tag, raw, None), r1)
                           else if selfClosed then ((tag, raw, None), r1)
                           else end_tag tag raw [] r1)))"

section \<open>The loops\<close>

lemma skip_lt_Some: "skip_lt s = Some r \<Longrightarrow> \<exists>g. s = g @ ''<'' @ r \<and> CHR ''<'' \<notin> set g"
proof (induction s)
  case (Cons b s)
  show ?case
  proof (cases "b = CHR ''<''")
    case True
    with Cons.prems show ?thesis by (intro exI [of _ "[]"]) simp
  next
    case False
    with Cons obtain g where "s = g @ ''<'' @ r" "CHR ''<'' \<notin> set g" by auto
    with False show ?thesis by (intro exI [of _ "b # g"]) simp
  qed
qed simp

lemma skip_lt_append: "CHR ''<'' \<notin> set g \<Longrightarrow> skip_lt (g @ CHR ''<'' # r) = Some r"
  by (induction g) auto

text \<open>A text between the brackets of a tag.\<close>

definition inner :: "string \<Rightarrow> bool" where
  "inner t \<longleftrightarrow> CHR ''<'' \<notin> set t \<and> CHR ''>'' \<notin> set t"

lemma start_tag_inner:
  "inner t \<Longrightarrow> length (buf @ t) \<le> maxBufLen \<Longrightarrow>
   start_tag buf (t @ CHR ''>'' # r) = (Inr (buf @ t @ ''>''), r)"
  by (induction t arbitrary: buf) (auto simp: inner_def Let_def)

lemma start_tag_Inr:
  "start_tag buf s = (Inr raw, r) \<Longrightarrow>
   \<exists>t. raw = buf @ t @ ''>'' \<and> s = t @ ''>'' @ r \<and> inner t \<and> (t = [] \<or> length (buf @ t) \<le> maxBufLen)"
proof (induction buf s rule: start_tag.induct)
  case (2 buf b s)
  show ?case
  proof (cases "b = CHR ''>''")
    case True
    with 2(2) show ?thesis by (intro exI [of _ "[]"]) (simp add: Let_def inner_def)
  next
    case False
    with 2(2) have b: "b \<noteq> CHR ''<''" "\<not> length (buf @ [b]) > maxBufLen" "start_tag (buf @ [b]) s = (Inr raw, r)"
      by (auto simp: Let_def split: if_splits)
    then obtain t where "raw = (buf @ [b]) @ t @ ''>''" "s = t @ ''>'' @ r" "inner t"
      "t = [] \<or> length ((buf @ [b]) @ t) \<le> maxBufLen"
      using 2(1) [OF refl False b(1,2)] by auto
    with False b show ?thesis by (intro exI [of _ "b # t"]) (auto simp: inner_def)
  qed
qed simp

text \<open>Nothing is lost: what the end loop returns is what it was given and what it read.\<close>

lemma end_tag_sound:
  "end_tag tag saved buf s = ((tag', data, None), r) \<Longrightarrow>
   tag' = tag \<and> (\<exists>xs. data = saved @ xs \<and> s = xs @ r \<and> xs \<noteq> [] \<and> last xs = CHR ''>'')"
proof (induction tag saved buf s rule: end_tag.induct)
  case (2 tag saved buf b s)
  consider (lt) "b = CHR ''<''" | (found) "b = CHR ''>''" "buf @ [b] = ''</'' @ tag @ ''>''"
    | (other) "b \<noteq> CHR ''<''" "\<not> (b = CHR ''>'' \<and> buf @ [b] = ''</'' @ tag @ ''>'')" by blast
  then show ?case
  proof cases
    case lt
    then have "end_tag tag (saved @ [b]) ''<'' s = ((tag', data, None), r)" using 2(3) by (simp add: Let_def)
    from 2(1) [OF refl refl lt this] show ?thesis by (auto intro: exI [of _ "b # _"])
  next
    case found
    then show ?thesis using 2(3) by (auto simp: Let_def)
  next
    case other
    let ?buf = "if b = CHR ''>'' then [] else buf @ [b]"
    have "\<not> length (saved @ [b]) > maxBufLen" "end_tag tag (saved @ [b]) ?buf s = ((tag', data, None), r)"
      using 2(3) other by (auto simp: Let_def tag_error_def split: if_splits)
    from 2(2) [OF refl refl other refl this] show ?thesis by (auto intro: exI [of _ "b # _"])
  qed
qed simp

text \<open>The buffer of the end loop: the text since the last bracket, from its opening one on.\<close>

fun seg_rev :: "string \<Rightarrow> string" where
  "seg_rev [] = []"
| "seg_rev (b # p) = (if b = CHR ''<'' then ''<'' else if b = CHR ''>'' then [] else b # seg_rev p)"

definition seg :: "string \<Rightarrow> string" where
  "seg p = rev (seg_rev (rev p))"

lemma seg_snoc:
  "seg (p @ [b]) = (if b = CHR ''<'' then ''<'' else if b = CHR ''>'' then [] else seg p @ [b])"
  by (simp add: seg_def)

lemma seg_Nil [simp]: "seg [] = []"
  by (simp add: seg_def)

lemma seg_suffix: "suffix (seg p) p"
proof (induction p rule: rev_induct)
  case (snoc b p)
  then show ?case by (auto simp: seg_snoc suffix_def)
qed simp

lemma seg_open: "inner t \<Longrightarrow> seg (p @ ''<'' @ t) = ''<'' @ t"
proof (induction t rule: rev_induct)
  case Nil
  then show ?case by (simp add: seg_snoc)
next
  case (snoc b t)
  then have "seg ((p @ ''<'' @ t) @ [b]) = (''<'' @ t) @ [b]"
    unfolding seg_snoc by (auto simp: inner_def)
  then show ?case by simp
qed

text \<open>The end loop stops at the first place where the closing tag has been read.\<close>

definition close_tag :: "string \<Rightarrow> string" where
  "close_tag tag = ''</'' @ tag @ ''>''"

lemma seg_close:
  assumes "inner tag"
  shows "seg p @ ''>'' = close_tag tag \<longleftrightarrow> suffix (close_tag tag) (p @ ''>'')"
proof
  assume "seg p @ ''>'' = close_tag tag"
  then show "suffix (close_tag tag) (p @ ''>'')"
    using seg_suffix [of p] by (auto simp: suffix_def) (metis append_assoc)
next
  assume "suffix (close_tag tag) (p @ ''>'')"
  then obtain q where "p = q @ ''<'' @ (CHR ''/'' # tag)"
    by (auto simp: suffix_def close_tag_def)
  moreover have "inner (CHR ''/'' # tag)" using assms by (simp add: inner_def)
  ultimately show "seg p @ ''>'' = close_tag tag"
    using seg_open [of "CHR ''/'' # tag" q] by (simp add: close_tag_def)
qed

lemma suffix_close_last: "suffix (close_tag tag) ps \<Longrightarrow> ps \<noteq> [] \<and> last ps = CHR ''>''"
  by (auto simp: suffix_def close_tag_def)

lemma end_tag_find:
  assumes "inner tag"
  shows "suffix (close_tag tag) (p @ xs) \<Longrightarrow> xs \<noteq> [] \<Longrightarrow>
    (\<And>ys. strict_prefix ys xs \<Longrightarrow> ys \<noteq> [] \<Longrightarrow> \<not> suffix (close_tag tag) (p @ ys)) \<Longrightarrow>
    length (saved @ xs) \<le> maxBufLen \<Longrightarrow>
    end_tag tag saved (seg p) (xs @ r) = ((tag, saved @ xs, None), r)"
proof (induction xs arbitrary: p saved)
  case (Cons b xs)
  have IH: "xs \<noteq> [] \<Longrightarrow> end_tag tag (saved @ [b]) (seg (p @ [b])) (xs @ r) = ((tag, saved @ b # xs, None), r)"
  proof -
    assume "xs \<noteq> []"
    have "\<not> suffix (close_tag tag) ((p @ [b]) @ ys)" if "strict_prefix ys xs" "ys \<noteq> []" for ys
      using Cons.prems(3) [of "b # ys"] that by simp
    then show ?thesis
      using Cons.IH [of "p @ [b]" "saved @ [b]"] Cons.prems(1,4) \<open>xs \<noteq> []\<close> by simp
  qed
  show ?case
  proof (cases "b = CHR ''>'' \<and> seg p @ [b] = close_tag tag")
    case True
    then have "suffix (close_tag tag) (p @ [b])" using seg_close [OF assms, of p] by blast
    then have "xs = []" using Cons.prems(3) [of "[b]"] by (cases xs) auto
    with True show ?thesis by (simp add: close_tag_def)
  next
    case False
    have "xs \<noteq> []"
    proof
      assume "xs = []"
      then have "suffix (close_tag tag) (p @ [b])" "b = CHR ''>''"
        using Cons.prems(1) suffix_close_last [of tag "p @ [b]"] by simp_all
      with False show False using seg_close [OF assms, of p] by metis
    qed
    moreover have "\<not> length (saved @ [b]) > maxBufLen" using Cons.prems(4) by simp
    ultimately show ?thesis
      using IH False by (auto simp: Let_def seg_snoc close_tag_def)
  qed
qed simp

text \<open>The text before the closing tag does not hold it, so it does not end earlier.\<close>

lemma no_early_close:
  assumes "\<not> sublist (close_tag tag) body" "strict_prefix ys (body @ close_tag tag)" "inner tag"
  shows "\<not> suffix (close_tag tag) ys"
proof
  assume s: "suffix (close_tag tag) ys"
  show False
  proof (cases "prefix ys body")
    case True
    then have "sublist ys body" by (rule prefix_imp_sublist)
    then show False using assms(1) s by (metis suffix_imp_sublist sublist_order.order_trans)
  next
    case False
    moreover have "prefix ys (body @ close_tag tag)" using assms(2) by simp
    ultimately obtain c where c0: "ys = body @ c" "prefix c (close_tag tag)"
      unfolding prefix_append by blast
    moreover have "c \<noteq> []" using False c0 by auto
    moreover have "c \<noteq> close_tag tag" using assms(2) c0 by auto
    ultimately have c: "ys = body @ c" "strict_prefix c (close_tag tag)" "c \<noteq> []" by simp_all
    then obtain d where "close_tag tag = c @ d" "d \<noteq> []" by (auto simp: strict_prefix_def prefix_def)
    then have "c @ butlast d = ''</'' @ tag"
      by (metis append_assoc append_Cons append_Nil butlast_append butlast_snoc close_tag_def)
    moreover have "CHR ''>'' \<notin> set (''</'' @ tag)" using assms(3) by (auto simp: inner_def)
    ultimately have "last c \<noteq> CHR ''>''" using c(3) by (metis Un_iff last_in_set set_append)
    then show False using suffix_close_last [OF s] c by simp
  qed
qed

section \<open>Cutting out an element\<close>

text \<open>A tag as it stands between \<open><\<close> and \<open>>\<close>: a name, and attributes after a blank.\<close>

definition name_ok :: "string \<Rightarrow> bool" where
  "name_ok nm \<longleftrightarrow> nm \<noteq> [] \<and> hd nm \<noteq> CHR ''?'' \<and> inner nm \<and> CHR ''/'' \<notin> set nm \<and> CHR '' '' \<notin> set nm"

definition attrs_ok :: "string \<Rightarrow> bool" where
  "attrs_ok at \<longleftrightarrow> at = [] \<or> (\<exists>a. at = CHR '' '' # a \<and> inner a \<and> \<not> HasSuffix a ''/'')"

lemma attrs_last:
  assumes "attrs_ok at" "at \<noteq> []"
  shows "last at \<noteq> CHR ''<'' \<and> last at \<noteq> CHR ''>'' \<and> last at \<noteq> CHR ''/''"
proof -
  obtain a where a: "at = CHR '' '' # a" "inner a" "\<not> HasSuffix a ''/''"
    using assms by (auto simp: attrs_ok_def)
  show ?thesis
  proof (cases "a = []")
    case False
    then have "last a \<in> set a" by simp
    then show ?thesis using a False unfolding inner_def HasSuffix_snoc by (metis last.simps)
  qed (simp add: a)
qed

lemma tag_name_open:
  assumes "name_ok nm" "attrs_ok at"
  shows "tag_name (''<'' @ nm @ at @ ''>'') = nm"
proof -
  have l: "TrimLeft (''<'' @ nm @ at @ ''>'') ''<>/'' = nm @ at @ ''>''"
    using assms(1) by (cases nm) (auto simp: TrimLeft_def name_ok_def inner_def)
  show ?thesis
  proof (cases at rule: rev_cases)
    case Nil
    have "last nm \<in> set nm" using assms(1) by (simp add: name_ok_def)
    moreover have "set nm \<inter> set ''<>/'' = {}" using assms(1) by (auto simp: name_ok_def inner_def)
    ultimately have "last nm \<notin> set ''<>/''" by blast
    then have "TrimRight nm ''<>/'' = nm" by (simp add: TrimRight_id)
    then show ?thesis
      using assms(1) l Nil by (simp add: tag_name_def Trim_def name_ok_def Let_def TrimRight_snoc)
  next
    case (snoc a c)
    then have "c \<notin> set ''<>/''"
      using attrs_last [OF assms(2)] by simp
    then have "TrimRight (nm @ at @ ''>'') ''<>/'' = nm @ at"
      using TrimRight_snoc [of "CHR ''>''" "''<>/''" "nm @ at"] TrimRight_id [of "nm @ at"] snoc by simp
    moreover obtain a' where "at = CHR '' '' # a'" using assms(2) snoc by (auto simp: attrs_ok_def)
    moreover have "takeWhile (\<lambda>c. c \<noteq> CHR '' '') (nm @ CHR '' '' # a') = nm"
      using assms(1) by (subst takeWhile_append2) (auto simp: name_ok_def)
    ultimately show ?thesis using l by (simp add: tag_name_def Trim_def Let_def)
  qed
qed

section \<open>Properties\<close>

text \<open>
  C5: \<open>ReadTag\<close> neither loses nor invents bytes. When it succeeds, the stream was some bytes
  without \<open><\<close>, then exactly the bytes it returns, then what is left to read; the returned
  element starts with \<open><\<close>, ends with \<open>>\<close> and has a non-empty tag.
\<close>

theorem ReadTag_sound:
  assumes "ReadTag s = ((tag, data, None), r)"
  shows "\<exists>g. s = g @ data @ r \<and> CHR ''<'' \<notin> set g \<and> data \<noteq> [] \<and> hd data = CHR ''<'' \<and>
     last data = CHR ''>'' \<and> tag \<noteq> []"
proof -
  obtain r0 where r0: "skip_lt s = Some r0"
    using assms by (auto simp: ReadTag_def tag_error_def split: option.splits)
  then obtain g where g: "s = g @ ''<'' @ r0" "CHR ''<'' \<notin> set g" using skip_lt_Some by blast
  obtain raw r1 where st: "start_tag ''<'' r0 = (Inr raw, r1)"
    using assms r0 by (auto simp: ReadTag_def tag_error_def split: prod.splits sum.splits)
  then obtain t where t: "raw = ''<'' @ t @ ''>''" "r0 = t @ ''>'' @ r1" using start_tag_Inr by blast
  have tag: "tag_name raw \<noteq> []"
    and "(tag = tag_name raw \<and> data = raw \<and> r = r1) \<or> end_tag (tag_name raw) raw [] r1 = ((tag, data, None), r)"
    using assms r0 st by (auto simp: ReadTag_def tag_error_def Let_def split: if_splits)
  then consider "tag = tag_name raw" "data = raw" "r = r1"
    | xs where "tag = tag_name raw" "data = raw @ xs" "r1 = xs @ r" "xs \<noteq> []" "last xs = CHR ''>''"
    using end_tag_sound by blast
  then show ?thesis
  proof cases
    case 1
    with g t tag show ?thesis by (intro exI [of _ g]) simp
  next
    case 2
    with g t tag show ?thesis by (intro exI [of _ g]) simp
  qed
qed

theorem ReadTag_sound_witness:
  "\<exists>g. ''xx<a b>1</a>yy'' = g @ ''<a b>1</a>'' @ ''yy'' \<and> CHR ''<'' \<notin> set g"
proof -
  have "ReadTag ''xx<a b>1</a>yy'' = ((''a'', ''<a b>1</a>'', None), ''yy'')"
    by (simp add: ReadTag_def tag_name_def Trim_def TrimLeft_def TrimRight_def HasSuffix_def maxBufLen_def)
  from ReadTag_sound [OF this] show ?thesis by blast
qed

text \<open>
  C6: \<open>ReadTag\<close> finds every well-formed element that fits its buffer. After any bytes without
  \<open><\<close>, an element whose tag has a proper name and whose body does not hold its own closing
  tag, of at most 2048 bytes, is returned whole, with its name; the bytes after it stay in the
  stream. The body may hold other elements.
\<close>

theorem ReadTag_complete:
  assumes "CHR ''<'' \<notin> set g" "name_ok nm" "attrs_ok at" "\<not> sublist (close_tag nm) body"
    and "length (''<'' @ nm @ at @ ''>'' @ body @ close_tag nm) \<le> maxBufLen"
  shows "ReadTag (g @ (''<'' @ nm @ at @ ''>'' @ body @ close_tag nm) @ r) =
    ((nm, ''<'' @ nm @ at @ ''>'' @ body @ close_tag nm, None), r)"
proof -
  let ?raw = "''<'' @ nm @ at @ ''>''"
  have inm: "inner nm" "nm \<noteq> []" "hd nm \<noteq> CHR ''?''" "CHR ''/'' \<notin> set nm"
    using assms(2) by (simp_all add: name_ok_def)
  have ina: "inner (nm @ at)"
    using assms(2,3) by (auto simp: name_ok_def attrs_ok_def inner_def)
  have "start_tag ''<'' ((nm @ at) @ CHR ''>'' # (body @ close_tag nm @ r)) =
      (Inr (''<'' @ (nm @ at) @ ''>''), body @ close_tag nm @ r)"
    using assms(5) by (intro start_tag_inner [OF ina]) simp
  then have st: "start_tag ''<'' (nm @ at @ CHR ''>'' # (body @ close_tag nm @ r)) =
      (Inr ?raw, body @ close_tag nm @ r)" by simp
  have "\<not> HasPrefix ?raw ''</''" using inm by (cases nm) auto
  moreover have "\<not> HasSuffix ?raw ''/>''"
  proof
    assume "HasSuffix ?raw ''/>''"
    then have "last (''<'' @ nm @ at) = CHR ''/''"
      by (auto simp: HasSuffix_iff Cons_eq_append_conv append_eq_append_conv2)
    moreover have "last nm \<noteq> CHR ''/''" using inm last_in_set [of nm] by metis
    ultimately show False using attrs_last [OF assms(3)] inm(2) by (simp add: last_append split: if_splits)
  qed
  moreover have "end_tag nm ?raw [] ((body @ close_tag nm) @ r) = ((nm, ?raw @ body @ close_tag nm, None), r)"
    using end_tag_find [OF inm(1), of "[]" "body @ close_tag nm" ?raw r] no_early_close [OF assms(4) _ inm(1)]
      assms(5) by (simp add: close_tag_def suffix_def)
  ultimately show ?thesis
    using st inm tag_name_open [OF assms(2,3)]
    by (simp add: ReadTag_def skip_lt_append [OF assms(1)] Let_def)
qed

theorem ReadTag_complete_witness:
  "ReadTag (''?>'' @ (''<'' @ ''a'' @ '' b'' @ ''>'' @ ''<c></c>'' @ close_tag ''a'') @ ''z'') =
     ((''a'', ''<a b><c></c></a>'', None), ''z'')"
  using ReadTag_complete [of "''?>''" "''a''" "'' b''" "''<c></c>''" "''z''"]
  by (simp add: name_ok_def inner_def attrs_ok_def HasSuffix_def close_tag_def maxBufLen_def
      sublist_code)

lemma TrimRight_Cons: "c \<notin> set cs \<Longrightarrow> TrimRight (c # s) cs = c # TrimRight s cs"
  by (simp add: TrimRight_def dropWhile_append3)

lemma tag_name_empty:
  assumes "inner t" "\<not> HasPrefix (''<'' @ t @ ''>'') ''</''"
  shows "tag_name (''<'' @ t @ ''>'') = [] \<longleftrightarrow> t = [] \<or> hd t = CHR '' ''"
proof (cases t)
  case Nil
  then show ?thesis by (simp add: tag_name_def Trim_def TrimLeft_def TrimRight_def)
next
  case (Cons c u)
  then have c: "c \<notin> set ''<>/''" using assms by (auto simp: inner_def)
  have "tag_name (''<'' @ t @ ''>'') =
      (let t = c # TrimRight (u @ ''>'') ''<>/'' in
       if CHR '' '' \<in> set t then takeWhile (\<lambda>c. c \<noteq> CHR '' '') t else t)"
    using c TrimRight_Cons [OF c, of "u @ ''>''"]
    by (simp add: tag_name_def Trim_def TrimLeft_def Cons)
  then show ?thesis by (auto simp: Cons Let_def)
qed

lemma end_tag_no_panic: "end_tag tag saved buf s \<noteq> ((t, d, Some (Panic p)), r)"
  by (induction tag saved buf s rule: end_tag.induct) (auto simp: Let_def tag_error_def too_long_def)

lemma start_tag_no_panic: "start_tag buf s \<noteq> (Inl (Panic p), r)"
  by (induction buf s rule: start_tag.induct) (auto simp: Let_def too_long_def bad_xml_def)

text \<open>
  A peer can make \<open>ReadTag\<close> panic, and this is exactly how: the first tag of the stream is
  \<open><>\<close>, or has a blank right after its \<open><\<close>, and is within the length limit. The tag's name is
  then empty and \<open>tag[0]\<close> is out of range.
\<close>

theorem ReadTag_panic:
  "(\<exists>t d p r. ReadTag s = ((t, d, Some (Panic p)), r)) \<longleftrightarrow>
   (\<exists>g t r. s = g @ ''<'' @ t @ ''>'' @ r \<and> CHR ''<'' \<notin> set g \<and> inner t \<and>
     length t < maxBufLen \<and> (t = [] \<or> hd t = CHR '' ''))" (is "?l \<longleftrightarrow> ?r")
proof
  assume ?l
  then obtain tg d p r where rt: "ReadTag s = ((tg, d, Some (Panic p)), r)" by blast
  then obtain r0 where r0: "skip_lt s = Some r0"
    by (auto simp: ReadTag_def tag_error_def split: option.splits)
  then obtain g where g: "s = g @ ''<'' @ r0" "CHR ''<'' \<notin> set g" using skip_lt_Some by blast
  obtain raw r1 where st: "start_tag ''<'' r0 = (Inr raw, r1)"
    using rt r0 start_tag_no_panic by (fastforce simp: ReadTag_def tag_error_def split: prod.splits sum.splits)
  then obtain t where t: "raw = ''<'' @ t @ ''>''" "r0 = t @ ''>'' @ r1" "inner t"
    "t = [] \<or> length (''<'' @ t) \<le> maxBufLen" using start_tag_Inr by blast
  have "\<not> HasPrefix raw ''</''" "tag_name raw = []"
    using rt r0 st end_tag_no_panic
    by (auto simp: ReadTag_def tag_error_def Let_def closed_tag_def split: if_splits)
  then have "t = [] \<or> hd t = CHR '' ''" using tag_name_empty [OF t(3)] t(1) by simp
  then show ?r using g t by (intro exI [of _ g] exI [of _ t] exI [of _ r1]) (auto simp: maxBufLen_def)
next
  assume ?r
  then obtain g t r where s: "s = g @ ''<'' @ t @ ''>'' @ r" "CHR ''<'' \<notin> set g" "inner t"
    "length t < maxBufLen" "t = [] \<or> hd t = CHR '' ''" by blast
  have "start_tag ''<'' (t @ CHR ''>'' # r) = (Inr (''<'' @ t @ ''>''), r)"
    using s(4) by (intro start_tag_inner [OF s(3)]) simp
  moreover have np: "\<not> HasPrefix (''<'' @ t @ ''>'') ''</''" using s(5) by (cases t) auto
  moreover have "tag_name (''<'' @ t @ ''>'') = []" using tag_name_empty [OF s(3) np] s(5) by simp
  ultimately have "ReadTag s = tag_error (Panic ''index out of range [0]'') r"
    by (simp add: ReadTag_def s(1) skip_lt_append [OF s(2)] Let_def)
  then show ?l by (simp add: tag_error_def)
qed

end
