(* ===== verification/DeviceModel.thy ===== *)
theory DeviceModel
  imports GoRuntime
begin

text \<open>
  \<open>pkg/model/device.go\<close>, \<open>cert.go\<close>, \<open>internal/repository/user_repo_file.go\<close> and
  \<open>pkg/util/set.go\<close>: the users (devices) with their scopes, the in-memory user repository, and
  string sets. bcrypt is an argument: \<open>compare hash password\<close> and \<open>generate password\<close>; the
  content of the users file, decoded by the YAML package, is an argument of the loader.
\<close>

section \<open>Certificates and devices\<close>

record Certificate =
  crtSerial :: string
  crtCreatedAt :: time
  crtUpdatedAt :: time
  crtLogin :: string
  crtUID :: string
  crtLastConnect :: "time option"
  crtValidTill :: "time option"

record CertificateDTO =
  cdUID :: string
  cdCreatedAt :: time
  cdUpdatedAt :: time
  cdLogin :: string
  cdSerial :: string
  cdLastConnect :: "time option"

definition Certificate_DTO :: "Certificate option \<Rightarrow> CertificateDTO option" where
  "Certificate_DTO c = map_option (\<lambda>c. \<lparr>cdUID = crtUID c, cdCreatedAt = crtCreatedAt c,
     cdUpdatedAt = crtUpdatedAt c, cdLogin = crtLogin c, cdSerial = crtSerial c,
     cdLastConnect = crtLastConnect c\<rparr>) c"

record Device =
  devLogin :: string
  devPassword :: string
  devScope :: string
  devDisabled :: bool
  devAdmin :: bool
  devReadScope :: "string list"
  devLastConnect :: "time option"
  devCerts :: "Certificate list"
  devCreatedAt :: time
  devUpdatedAt :: time

definition new_Device :: Device where
  "new_Device = \<lparr>devLogin = [], devPassword = [], devScope = [], devDisabled = False, devAdmin = False,
     devReadScope = [], devLastConnect = None, devCerts = [], devCreatedAt = zero_time, devUpdatedAt = zero_time\<rparr>"

record DeviceDTO =
  ddLogin :: string
  ddScope :: string
  ddDisabled :: bool
  ddAdmin :: bool
  ddReadScope :: "string list"
  ddLastConnect :: "time option"
  ddCerts :: "CertificateDTO option list"

definition Device_GetLogin :: "Device option \<Rightarrow> string" where
  "Device_GetLogin u = pget [] devLogin u"

definition Device_GetScope :: "Device option \<Rightarrow> string" where
  "Device_GetScope u = pget [] devScope u"

definition Device_GetReadScope :: "Device option \<Rightarrow> string list" where
  "Device_GetReadScope u = pget [] devReadScope u"

text \<open>A nil user, when there is no authentication, sees the empty scope only.\<close>

definition CanSeeScope :: "Device option \<Rightarrow> string \<Rightarrow> bool" where
  "CanSeeScope u scope =
     (case u of
        None \<Rightarrow> scope = []
      | Some d \<Rightarrow>
          (if Device_GetScope u = scope then True
           else list_ex (\<lambda>s. s = ''*'' \<or> s = scope) (devReadScope d)))"

definition CheckPassword :: "(string \<Rightarrow> string \<Rightarrow> bool) \<Rightarrow> Device option \<Rightarrow> string \<Rightarrow> bool" where
  "CheckPassword compare u password =
     (case u of None \<Rightarrow> False | Some d \<Rightarrow> compare (devPassword d) password)"

definition SetPassword :: "(string \<Rightarrow> string result) \<Rightarrow> string \<Rightarrow> Device \<Rightarrow> Device result" where
  "SetPassword generate password u =
     (case generate password of Inl err \<Rightarrow> Inl err | Inr b \<Rightarrow> Inr (u\<lparr>devPassword := b\<rparr>))"

definition IsGood :: "Device option \<Rightarrow> bool" where
  "IsGood u = (case u of None \<Rightarrow> False | Some d \<Rightarrow> \<not> devDisabled d)"

text \<open>\<open>CanLogIn\<close> reads \<open>u.Admin\<close> only when \<open>IsGood\<close> holds, so not through nil.\<close>

definition CanLogIn :: "Device option \<Rightarrow> bool" where
  "CanLogIn u \<longleftrightarrow> IsGood u \<and> pget False devAdmin u"

definition Device_DTO :: "Device option \<Rightarrow> DeviceDTO option" where
  "Device_DTO u = map_option (\<lambda>d. \<lparr>ddLogin = devLogin d, ddScope = devScope d, ddDisabled = devDisabled d,
     ddAdmin = devAdmin d, ddReadScope = devReadScope d, ddLastConnect = devLastConnect d,
     ddCerts = map (\<lambda>c. Certificate_DTO (Some c)) (devCerts d)\<rparr>) u"

section \<open>The in-memory user repository\<close>

text \<open>What the users file gives: it is missing, cannot be read or decoded, or holds a list.\<close>

datatype users_file = Missing | Unreadable string | Users "Device list"

type_synonym AdminMemRepository = "(string, Device) smap"

definition index_users :: "Device list \<Rightarrow> AdminMemRepository" where
  "index_users us = fold (\<lambda>u m. if devLogin u \<noteq> [] then smStore (devLogin u) u m else m) us []"

definition loadUsersFile :: "users_file \<Rightarrow> AdminMemRepository \<Rightarrow> AdminMemRepository \<times> string option" where
  "loadUsersFile f m = (case f of
     Missing \<Rightarrow> (m, None) | Unreadable err \<Rightarrow> (m, Some err) | Users us \<Rightarrow> (index_users us, None))"

definition NewAdminMemRepo :: "(string \<Rightarrow> string result) \<Rightarrow> users_file \<Rightarrow> AdminMemRepository" where
  "NewAdminMemRepo generate f =
     (let m = fst (loadUsersFile f [])
      in if m = [] then
           (let user = new_Device\<lparr>devLogin := ''user''\<rparr>;
                user' = (case SetPassword generate ''test'' user of Inl _ \<Rightarrow> user | Inr u \<Rightarrow> u)
            in smStore ''user'' user' m)
         else m)"

definition AdminMem_CheckAuth :: "(string \<Rightarrow> string \<Rightarrow> bool) \<Rightarrow> AdminMemRepository \<Rightarrow> string \<Rightarrow> string \<Rightarrow> bool" where
  "AdminMem_CheckAuth compare m username password =
     (case smLoad m username of
        Some user \<Rightarrow> IsGood (Some user) \<and> CheckPassword compare (Some user) password
      | None \<Rightarrow> False)"

definition AdminMem_IsValid :: "AdminMemRepository \<Rightarrow> string \<Rightarrow> bool" where
  "AdminMem_IsValid m username = (case smLoad m username of Some u \<Rightarrow> IsGood (Some u) | None \<Rightarrow> False)"

definition AdminMem_Get :: "AdminMemRepository \<Rightarrow> string \<Rightarrow> Device option" where
  "AdminMem_Get m username = smLoad m username"

section \<open>String sets\<close>

text \<open>A set is a map whose keys matter; the key order of the list is one \<open>range\<close> order.\<close>

type_synonym StringSet = "(string, unit) smap"

definition StringSet_Add :: "string list \<Rightarrow> StringSet \<Rightarrow> StringSet" where
  "StringSet_Add keys s = fold (\<lambda>key. smStore key ()) keys s"

definition StringToSet :: "string \<Rightarrow> StringSet" where
  "StringToSet s = fold (\<lambda>s1. StringSet_Add [s1]) (Split s CHR '';'') []"

definition StringSet_CheckAdd :: "string \<Rightarrow> StringSet \<Rightarrow> StringSet \<times> bool" where
  "StringSet_CheckAdd key s = (if smLoad s key \<noteq> None then (s, False) else (smStore key () s, True))"

definition StringSet_Remove :: "string \<Rightarrow> StringSet \<Rightarrow> StringSet" where
  "StringSet_Remove key s = smDelete key s"

definition StringSet_Has :: "StringSet \<Rightarrow> string \<Rightarrow> bool" where
  "StringSet_Has s key \<longleftrightarrow> smLoad s key \<noteq> None"

definition StringSet_List :: "StringSet \<Rightarrow> string list" where
  "StringSet_List s = map fst (smRange s)"

definition StringSet_String :: "StringSet \<Rightarrow> string" where
  "StringSet_String s = Join (StringSet_List s) '';''"

section \<open>Lemmas\<close>

lemma CanSeeScope_iff:
  "CanSeeScope (Some d) scope \<longleftrightarrow> scope = devScope d \<or> scope \<in> set (devReadScope d) \<or> ''*'' \<in> set (devReadScope d)"
  by (auto simp: CanSeeScope_def Device_GetScope_def list_ex_iff)

lemma CanSeeScope_None [simp]: "CanSeeScope None scope \<longleftrightarrow> scope = []"
  by (simp add: CanSeeScope_def)

lemma find_snoc: "find P (xs @ [x]) = (case find P xs of None \<Rightarrow> (if P x then Some x else None) | Some y \<Rightarrow> Some y)"
  by (induction xs) auto

lemma index_users_spec:
  "smLoad (fold (\<lambda>u m. if devLogin u \<noteq> [] then smStore (devLogin u) u m else m) us m0) k =
     (case find (\<lambda>u. devLogin u = k \<and> k \<noteq> []) (rev us) of Some u \<Rightarrow> Some u | None \<Rightarrow> smLoad m0 k)"
proof (induction us arbitrary: m0)
  case (Cons u us)
  then show ?case by (auto simp: syncmap.load_store find_snoc split: option.splits)
qed simp

end
