(* ===== verification/ClientHandler.thy ===== *)
theory ClientHandler
  imports CotConvert ProtoFraming TagReader DeviceModel
begin

text \<open>
  \<open>internal/client/client_handler.go\<close>: one connection of the server, or of a client to a
  server. The state has the flags and maps of the Go struct, the two buffered readers over
  the connection, and three logs of what the handler did to its environment: the messages it
  passed on (\<open>messageCb\<close>), the contacts it announced (\<open>newContactCb\<close>) and how often it
  removed itself (\<open>removeCb\<close>). The steps are: an iteration of the read loop, a send by another
  goroutine, an iteration of the write loop, a ping, a stop and the idle timer.

  \<open>encoding/xml\<close>, protobuf and \<open>ParseFloat\<close> are arguments, gathered in a record, with the
  user-supplied \<open>UidChecker\<close>. The loops end with \<open>Stop\<close> after an error or a panic (which the
  handler recovers).
\<close>

section \<open>State\<close>

record codec =
  cdDecode :: decoder
  cdParseFloat :: "string \<Rightarrow> f64 option"
  cdEventMarshal :: "Event option \<Rightarrow> string result"
  cdEventUnmarshal :: "string \<Rightarrow> Event result"
  cdProtoMarshal :: marshal
  cdProtoUnmarshal :: unmarshal

definition idleTimeout :: int where "idleTimeout = 5 * minute"
definition pingTimeout :: int where "pingTimeout = 15 * second"
definition sendCap :: nat where "sendCap = 50"

record HandlerConfig =
  hcDevice :: "Device option"
  hcSerial :: string
  hcUID :: string
  hcIsClient :: bool
  hcUidChecker :: "(string \<Rightarrow> bool) option"

text \<open>
  \<open>chXmlBuf\<close> and \<open>chProtoBuf\<close> are the bytes the buffered readers of \<open>TagReader\<close> and
  \<open>ProtoReader\<close> hold; \<open>chConn\<close> are the chunks the connection will deliver, one per read of it.
\<close>

record Handler =
  chAddr :: string
  chLocalUID :: string
  chVer :: int
  chIsClient :: bool
  chUids :: "(string, string) smap"
  chLastActivity :: time
  chSendChan :: "string list"
  chActive :: bool
  chDevice :: "Device option"
  chSerial :: string
  chUidChecker :: "(string \<Rightarrow> bool) option"
  chXmlBuf :: string
  chProtoBuf :: string
  chConn :: "string list"
  chForwarded :: "CotMessage list"
  chNewContacts :: "(string \<times> string) list"
  chRemoved :: nat

definition NewConnClientHandler :: "time \<Rightarrow> string \<Rightarrow> string list \<Rightarrow> HandlerConfig \<Rightarrow> Handler" where
  "NewConnClientHandler now name conn config =
     \<lparr>chAddr = name, chLocalUID = hcUID config, chVer = 0, chIsClient = hcIsClient config, chUids = [],
      chLastActivity = now, chSendChan = [], chActive = True, chDevice = hcDevice config,
      chSerial = hcSerial config, chUidChecker = hcUidChecker config, chXmlBuf = [], chProtoBuf = [],
      chConn = conn, chForwarded = [], chNewContacts = [], chRemoved = 0\<rparr>"

section \<open>Getters\<close>

definition GetUids :: "Handler \<Rightarrow> (string, string) smap" where "GetUids h = smRange (chUids h)"

definition HasUID :: "Handler \<Rightarrow> string \<Rightarrow> bool" where
  "HasUID h uid \<longleftrightarrow> smLoad (chUids h) uid \<noteq> None"

definition HasCallsign :: "Handler \<Rightarrow> string \<Rightarrow> bool" where
  "HasCallsign h callsign = list_ex (\<lambda>(_, v). v = callsign) (smRange (chUids h))"

definition Handler_GetUID :: "Handler \<Rightarrow> string \<Rightarrow> string" where
  "Handler_GetUID h callsign =
     (case find (\<lambda>(_, v). v = callsign) (smRange (chUids h)) of Some (k, _) \<Rightarrow> k | None \<Rightarrow> [])"

definition IsActive :: "Handler \<Rightarrow> bool" where "IsActive h = chActive h"
definition GetVersion :: "Handler \<Rightarrow> int" where "GetVersion h = chVer h"
definition SetVersion :: "int \<Rightarrow> Handler \<Rightarrow> Handler" where "SetVersion n h = h\<lparr>chVer := n\<rparr>"
definition setActivity :: "time \<Rightarrow> Handler \<Rightarrow> Handler" where "setActivity now h = h\<lparr>chLastActivity := now\<rparr>"

section \<open>Sending and stopping\<close>

text \<open>Only the first call of \<open>Stop\<close> has an effect; the connection delivers nothing after it.\<close>

definition Stop :: "Handler \<Rightarrow> Handler" where
  "Stop h = (if chActive h
     then h\<lparr>chActive := False, chConn := [], chRemoved := Suc (chRemoved h)\<rparr> else h)"

definition tryAddPacket :: "string \<Rightarrow> Handler \<Rightarrow> Handler \<times> bool" where
  "tryAddPacket pkt h =
     (if \<not> IsActive h then (h, False)
      else (h\<lparr>chSendChan := fst (chan_send sendCap pkt (chSendChan h))\<rparr>, True))"

definition client_off :: gofail where "client_off = Error ''client is off''"

text \<open>The common end of \<open>sendEvent\<close> and \<open>SendCot\<close>.\<close>

definition add_or_off :: "string \<Rightarrow> Handler \<Rightarrow> Handler \<times> gofail option" where
  "add_or_off buf h = (case tryAddPacket buf h of (h', ok) \<Rightarrow> (h', if ok then None else Some client_off))"

definition sendEvent :: "codec \<Rightarrow> Event \<Rightarrow> Handler \<Rightarrow> Handler \<times> gofail option" where
  "sendEvent c evt h =
     (if GetVersion h \<noteq> 0 then (h, Some (Error ''bad client version''))
      else case cdEventMarshal c (Some evt) of
             Inl err \<Rightarrow> (h, Some err)
           | Inr msg \<Rightarrow> add_or_off msg h)"

definition SendCot :: "codec \<Rightarrow> TakMessage option \<Rightarrow> Handler \<Rightarrow> Handler \<times> gofail option" where
  "SendCot c msg h =
     (if GetVersion h = 0 then
        (case cdEventMarshal c (ProtoToEvent (cdDecode c) msg) of
           Inl err \<Rightarrow> (h, Some err) | Inr buf \<Rightarrow> add_or_off buf h)
      else if GetVersion h = 1 then
        (case MakeProtoPacket (cdProtoMarshal c) msg of
           Inl err \<Rightarrow> (h, Some err) | Inr buf \<Rightarrow> add_or_off buf h)
      else (h, Some client_off))"

definition SendMsg :: "codec \<Rightarrow> CotMessage \<Rightarrow> Handler \<Rightarrow> Handler \<times> gofail option" where
  "SendMsg c msg h =
     (if IsLocal msg \<or> CanSeeScope (chDevice h) (cmScope msg)
      then SendCot c (GetTakMessage (Some msg)) h else (h, None))"

definition handler_Start :: "codec \<Rightarrow> clock3 \<Rightarrow> Handler \<Rightarrow> Handler" where
  "handler_Start c now h =
     (if \<not> chIsClient h then fst (sendEvent c (VersionSupportMsg now 1) h) else h)"

text \<open>One tick of \<open>pinger\<close>, and of the idle timer: the latter closes the connection.\<close>

definition ping_tick :: "codec \<Rightarrow> clock3 \<Rightarrow> Handler \<Rightarrow> Handler" where
  "ping_tick c now h = fst (SendCot c (Some (MakePing now (chLocalUID h))) h)"

definition closeIdle :: "time \<Rightarrow> Handler \<Rightarrow> Handler" where
  "closeIdle now h = (if Since now (chLastActivity h) \<ge> idleTimeout then h\<lparr>chConn := []\<rparr> else h)"

text \<open>One iteration of \<open>handleWrite\<close>, \<open>ok\<close> telling whether the write succeeds.\<close>

definition write_iter :: "bool \<Rightarrow> Handler \<Rightarrow> Handler" where
  "write_iter ok h =
     (case chan_recv (chSendChan h) of
        None \<Rightarrow> h
      | Some (_, q) \<Rightarrow> (let h' = h\<lparr>chSendChan := q\<rparr> in if ok then h' else Stop h'))"

section \<open>Reading\<close>

text \<open>
  A buffered reader reads a chunk of the connection when it has used up its buffer: after \<open>n\<close>
  bytes, the rest of the last chunk it read is its buffer. A chunk is not empty.
\<close>

fun consume :: "nat \<Rightarrow> string \<Rightarrow> string list \<Rightarrow> string \<times> string list" where
  "consume n buf cs =
     (if n \<le> length buf then (drop n buf, cs)
      else case cs of [] \<Rightarrow> ([], []) | c # cs' \<Rightarrow> consume (n - length buf) c cs')"

definition read_tag :: "Handler \<Rightarrow> (string \<times> string \<times> gofail option) \<times> Handler" where
  "read_tag h =
     (let s = chXmlBuf h @ concat (chConn h);
          (res, rest) = ReadTag s;
          (buf, cs) = consume (length s - length rest) (chXmlBuf h) (chConn h)
      in (res, h\<lparr>chXmlBuf := buf, chConn := cs\<rparr>))"

definition read_proto :: "codec \<Rightarrow> Handler \<Rightarrow> TakMessage result \<times> Handler" where
  "read_proto c h =
     (let s = chProtoBuf h @ concat (chConn h);
          (res, rest) = ReadProto (cdProtoUnmarshal c) s;
          (buf, cs) = consume (length s - length rest) (chProtoBuf h) (chConn h)
      in (res, h\<lparr>chProtoBuf := buf, chConn := cs\<rparr>))"

text \<open>The clock readings of one iteration: activity, and the time stamps of an answer.\<close>

type_synonym read_clock = "time \<times> clock3"

definition tak_child :: "string \<Rightarrow> Event \<Rightarrow> Node option" where
  "tak_child name ev = GetFirst name (GetFirst ''TakControl'' (evDetail ev))"

text \<open>An event that could be decoded: the version negotiation, or a message.\<close>

definition handle_event :: "codec \<Rightarrow> clock3 \<Rightarrow> Event \<Rightarrow> Handler \<Rightarrow> (CotMessage option \<times> gofail option) \<times> Handler" where
  "handle_event c now ev h =
     (if evType ev = ''t-x-takp-q'' \<and> GetAttr ''version'' (tak_child ''TakRequest'' ev) = ''1'' then
        (case sendEvent c (ProtoChangeOkMsg now) h of
           (h2, None) \<Rightarrow> ((None, None), SetVersion 1 h2)
         | (h2, Some err) \<Rightarrow> ((None, Some (Error ''error on send ok'')), h2))
      else if chIsClient h \<and> evType ev = ''t-x-takp-v'' then
        (case tak_child ''TakProtocolSupport'' ev of
           Some ps \<Rightarrow>
             (if GetAttr ''version'' (Some ps) = ''1''
              then ((None, None), fst (sendEvent c (VersionReqMsg now 1) h))
              else ((None, None), h))
         | None \<Rightarrow> ((None, None), h))
      else if chIsClient h \<and> evType ev = ''t-x-takp-r'' then
        (case tak_child ''TakResponse'' ev of
           Some n \<Rightarrow>
             (if GetAttr ''status'' (Some n) = ''true'' then ((None, None), SetVersion 1 h) else ((None, None), h))
         | None \<Rightarrow> ((None, None), h))
      else case EventToProto (cdDecode c) (cdParseFloat c) (Some ev) of
             (m, None) \<Rightarrow> ((m, None), h)
           | (m, Some e) \<Rightarrow> ((m, Some (Error e)), h))"

definition processXMLRead ::
    "codec \<Rightarrow> read_clock \<Rightarrow> Handler \<Rightarrow> (CotMessage option \<times> gofail option) \<times> Handler" where
  "processXMLRead c now h0 =
     (case read_tag h0 of
        ((_, _, Some err), h) \<Rightarrow> ((None, Some err), h)
      | ((tag, dat, None), h) \<Rightarrow>
          (if tag = ''?xml'' then ((None, None), h)
           else if tag = ''auth'' then ((None, None), h)
           else if tag \<noteq> ''event'' then ((None, Some (Error (''bad tag: '' @ dat))), h)
           else case cdEventUnmarshal c dat of
                  Inl err \<Rightarrow> ((None, Some err), h)
                | Inr ev \<Rightarrow> handle_event c (snd now) ev (setActivity (fst now) h)))"

definition processProtoRead ::
    "codec \<Rightarrow> read_clock \<Rightarrow> Handler \<Rightarrow> (CotMessage option \<times> gofail option) \<times> Handler" where
  "processProtoRead c now h0 =
     (case read_proto c h0 of
        (Inl err, h) \<Rightarrow> ((None, Some err), h)
      | (Inr msg, h) \<Rightarrow>
          (let h1 = setActivity (fst now) h;
               (d, err) = DetailsFromString (cdDecode c)
                            (Detail_XmlDetail (CotEvent_Detail (TakMessage_CotEvent (Some msg))))
           in ((Some \<lparr>cmFrom = [], cmScope = [], cmTakMessage = Some msg, cmDetail = Some d\<rparr>,
                map_option Error err), h1)))"

text \<open>What the loop does with a message it has read.\<close>

definition add_contact :: "string \<Rightarrow> string \<Rightarrow> Handler \<Rightarrow> Handler" where
  "add_contact uid callsign h =
     (let present = (smLoad (chUids h) uid \<noteq> None);
          h' = h\<lparr>chUids := smStore uid callsign (chUids h)\<rparr>
      in if present then h' else h'\<lparr>chNewContacts := chNewContacts h' @ [(uid, callsign)]\<rparr>)"

definition handle_msg :: "codec \<Rightarrow> clock3 \<Rightarrow> CotMessage \<Rightarrow> Handler \<Rightarrow> Handler" where
  "handle_msg c now msg0 h =
     (let msg = msg0\<lparr>cmFrom := chAddr h, cmScope := Device_GetScope (chDevice h)\<rparr>;
          m = Some msg;
          uid = TrimSuffix (GetUID m) ''-ping''
      in if IsContact m \<and> (case chUidChecker h of None \<Rightarrow> False | Some ok \<Rightarrow> \<not> ok uid) then Stop h
         else
           (let h1 = (if IsContact m then add_contact uid (GetCallsign m) h else h);
                h2 = (if GetType m = ''t-x-d-d'' \<and> Has ''link'' (GetDetail m)
                      then h1\<lparr>chUids := smDelete (GetAttr ''uid'' (GetFirst ''link'' (GetDetail m))) (chUids h1)\<rparr>
                      else h1)
            in if GetType m = ''t-x-c-t'' then
                 (case SendCot c (Some (MakePong now)) h2 of
                    (h3, Some (Panic _)) \<Rightarrow> Stop h3 | (h3, _) \<Rightarrow> h3)
               else if GetType m = ''t-x-c-t-r'' then h2
               else h2\<lparr>chForwarded := chForwarded h2 @ [msg]\<rparr>))"

definition read_iter :: "codec \<Rightarrow> read_clock \<Rightarrow> Handler \<Rightarrow> Handler" where
  "read_iter c now h =
     (if \<not> chActive h then h
      else case (if GetVersion h = 0 then processXMLRead c now h
                 else if GetVersion h = 1 then processProtoRead c now h
                 else ((None, None), h)) of
             ((_, Some _), h') \<Rightarrow> Stop h'
           | ((None, None), h') \<Rightarrow> h'
           | ((Some msg, None), h') \<Rightarrow> handle_msg c (snd now) msg h')"

section \<open>Histories\<close>

text \<open>What the goroutines of a connection and the rest of the server do, in any order.\<close>

inductive handler_step :: "codec \<Rightarrow> Handler \<Rightarrow> Handler \<Rightarrow> bool" for c :: codec where
  reads: "handler_step c h (read_iter c now h)"
| sends: "handler_step c h (fst (SendMsg c msg h))"
| writes: "handler_step c h (write_iter ok h)"
| pings: "chIsClient h \<Longrightarrow> handler_step c h (ping_tick c clk h)"
| stops: "handler_step c h (Stop h)"
| idles: "handler_step c h (closeIdle t h)"

inductive reachable :: "codec \<Rightarrow> Handler \<Rightarrow> Handler \<Rightarrow> bool" for c :: codec and h0 :: Handler where
  init: "reachable c h0 (handler_Start c clk h0)"
| step: "reachable c h0 h \<Longrightarrow> handler_step c h h' \<Longrightarrow> reachable c h0 h'"

inductive_cases handler_stepE: "handler_step c h h'"

section \<open>What each operation may change\<close>

text \<open>Sends only append to the send channel.\<close>

definition queue_only :: "Handler \<Rightarrow> Handler \<Rightarrow> bool" where
  "queue_only h h' \<longleftrightarrow> (\<exists>q. h' = h\<lparr>chSendChan := q\<rparr> \<and> prefix (chSendChan h) q \<and>
     (length (chSendChan h) \<le> sendCap \<longrightarrow> length q \<le> sendCap) \<and> (\<not> chActive h \<longrightarrow> q = chSendChan h))"

lemma queue_only_refl [simp]: "queue_only h h"
  by (auto simp: queue_only_def intro!: exI [of _ "chSendChan h"])

lemma tryAddPacket_queue: "queue_only h (fst (tryAddPacket pkt h))"
  using chan.send_prefix [of "chSendChan h" sendCap pkt] chan.send_bound [of "chSendChan h" sendCap pkt]
  by (auto simp: tryAddPacket_def IsActive_def queue_only_def)

lemma add_or_off_queue: "queue_only h (fst (add_or_off pkt h))"
  using tryAddPacket_queue [of h pkt] by (cases "tryAddPacket pkt h") (simp add: add_or_off_def)

lemma sendEvent_queue: "queue_only h (fst (sendEvent c evt h))"
  by (simp add: sendEvent_def add_or_off_queue split: sum.split)

lemma SendCot_queue: "queue_only h (fst (SendCot c m h))"
  by (auto simp: SendCot_def add_or_off_queue split: sum.split)

lemma SendMsg_queue: "queue_only h (fst (SendMsg c m h))"
  by (simp add: SendMsg_def SendCot_queue)

text \<open>
  Reading changes the buffers, the connection, the activity, the queue, and the version from
  0 to 1; it touches neither the uids nor the logs.
\<close>

definition read_frame :: "Handler \<Rightarrow> Handler \<Rightarrow> bool" where
  "read_frame h h' \<longleftrightarrow>
     chAddr h' = chAddr h \<and> chLocalUID h' = chLocalUID h \<and> chIsClient h' = chIsClient h \<and> chUids h' = chUids h \<and>
     chActive h' = chActive h \<and> chDevice h' = chDevice h \<and> chUidChecker h' = chUidChecker h \<and>
     chForwarded h' = chForwarded h \<and> chNewContacts h' = chNewContacts h \<and> chRemoved h' = chRemoved h \<and>
     (chVer h' = chVer h \<or> (chVer h = 0 \<and> chVer h' = 1)) \<and>
     (length (chSendChan h) \<le> sendCap \<longrightarrow> length (chSendChan h') \<le> sendCap) \<and>
     (chVer h \<noteq> 0 \<longrightarrow> chXmlBuf h' = chXmlBuf h)"

lemma queue_frame: "queue_only h h' \<Longrightarrow> read_frame h h'"
  by (auto simp: queue_only_def read_frame_def)

lemma frame_trans: "read_frame h h1 \<Longrightarrow> read_frame h1 h2 \<Longrightarrow> read_frame h h2"
  by (auto simp: read_frame_def)

lemma SetVersion_frame: "chVer h \<in> {0, 1} \<Longrightarrow> read_frame h (SetVersion 1 h)"
  by (auto simp: SetVersion_def read_frame_def)

lemma queue_ver: "queue_only h h' \<Longrightarrow> chVer h' = chVer h"
  by (auto simp: queue_only_def)

lemma sendEvent_frame:
  assumes "chVer h = 0"
  shows "read_frame h (fst (sendEvent c evt h))" "read_frame h (SetVersion 1 (fst (sendEvent c evt h)))"
proof -
  have q: "queue_only h (fst (sendEvent c evt h))" by (rule sendEvent_queue)
  show f: "read_frame h (fst (sendEvent c evt h))" by (rule queue_frame [OF q])
  show "read_frame h (SetVersion 1 (fst (sendEvent c evt h)))"
    using assms queue_ver [OF q] by (intro frame_trans [OF f SetVersion_frame]) simp
qed

lemma frame_refl: "read_frame h h"
  by (simp add: read_frame_def)

lemma if_case2: "(c \<Longrightarrow> P a) \<Longrightarrow> (\<not> c \<Longrightarrow> P b) \<Longrightarrow> P (if c then a else b)"
  by simp

lemma handle_event_frame:
  assumes "chVer h = 0"
  shows "read_frame h (snd (handle_event c now ev h))"
  unfolding handle_event_def
  apply (rule if_case2 [where P = "\<lambda>p. read_frame h (snd p)"])
  subgoal
    using sendEvent_frame [OF assms, of c "ProtoChangeOkMsg now"]
    by (cases "sendEvent c (ProtoChangeOkMsg now) h"; cases "snd (sendEvent c (ProtoChangeOkMsg now) h)") simp_all
  apply (rule if_case2 [where P = "\<lambda>p. read_frame h (snd p)"])
  subgoal
    using sendEvent_frame [OF assms, of c "VersionReqMsg now 1"]
    by (cases "tak_child ''TakProtocolSupport'' ev") (simp_all add: frame_refl)
  apply (rule if_case2 [where P = "\<lambda>p. read_frame h (snd p)"])
  subgoal
    using SetVersion_frame [of h] assms by (cases "tak_child ''TakResponse'' ev") (simp_all add: frame_refl)
  subgoal by (simp add: frame_refl split: prod.split option.split)
  done

lemma xml_frame:
  assumes "chVer h = 0"
  shows "read_frame h (snd (processXMLRead c now h))"
proof -
  obtain tag dat err h1 where rt: "read_tag h = ((tag, dat, err), h1)" by (metis prod.exhaust)
  have f1: "read_frame h h1" "chVer h1 = 0"
    using rt assms by (auto simp: read_tag_def read_frame_def Let_def split: prod.splits)
  let ?h = "setActivity (fst now) h1"
  have f2: "read_frame h ?h" "chVer ?h = 0"
    using f1 by (auto simp: setActivity_def read_frame_def)
  note f3 = frame_trans [OF f2(1) handle_event_frame [OF f2(2)]]
  show ?thesis
    using f1(1) f3 unfolding processXMLRead_def rt
    by (cases err; cases "cdEventUnmarshal c dat") simp_all
qed

lemma proto_frame:
  assumes "chVer h = 1"
  shows "read_frame h (snd (processProtoRead c now h))"
  using assms unfolding processProtoRead_def read_proto_def
  by (auto simp: Let_def setActivity_def read_frame_def split: prod.split sum.split)

section \<open>Invariant\<close>

text \<open>What holds of a handler made by \<open>NewConnClientHandler\<close> as \<open>h0\<close>, whatever happens.\<close>

definition stamped :: "Handler \<Rightarrow> CotMessage \<Rightarrow> bool" where
  "stamped h0 m \<longleftrightarrow> cmFrom m = chAddr h0 \<and> cmScope m = Device_GetScope (chDevice h0) \<and>
     GetType (Some m) \<noteq> ''t-x-c-t'' \<and> GetType (Some m) \<noteq> ''t-x-c-t-r''"

definition uid_ok :: "Handler \<Rightarrow> string \<Rightarrow> bool" where
  "uid_ok h uid = (case chUidChecker h of None \<Rightarrow> True | Some ok \<Rightarrow> ok uid)"

definition handler_inv :: "Handler \<Rightarrow> Handler \<Rightarrow> bool" where
  "handler_inv h0 h \<longleftrightarrow>
     chAddr h = chAddr h0 \<and> chDevice h = chDevice h0 \<and> chUidChecker h = chUidChecker h0 \<and>
     list_all (stamped h0) (chForwarded h) \<and> length (chSendChan h) \<le> sendCap \<and>
     chVer h \<in> {0, 1} \<and> chRemoved h = (if chActive h then 0 else 1) \<and>
     (\<forall>uid. HasUID h uid \<longrightarrow> uid_ok h0 uid)"

lemma frame_inv: "handler_inv h0 h \<Longrightarrow> read_frame h h' \<Longrightarrow> handler_inv h0 h'"
  by (auto simp: handler_inv_def read_frame_def HasUID_def)

lemma Stop_inv: "handler_inv h0 h \<Longrightarrow> handler_inv h0 (Stop h)"
  by (auto simp: handler_inv_def Stop_def HasUID_def)

lemma add_contact_inv: "handler_inv h0 h \<Longrightarrow> uid_ok h0 uid \<Longrightarrow> handler_inv h0 (add_contact uid cs h)"
  by (auto simp: handler_inv_def add_contact_def HasUID_def syncmap.load_store Let_def)

lemma del_uid_inv: "handler_inv h0 h \<Longrightarrow> handler_inv h0 (h\<lparr>chUids := smDelete uid (chUids h)\<rparr>)"
  by (auto simp: handler_inv_def HasUID_def syncmap.load_del)

lemma forward_inv:
  "handler_inv h0 h \<Longrightarrow> stamped h0 m \<Longrightarrow> handler_inv h0 (h\<lparr>chForwarded := chForwarded h @ [m]\<rparr>)"
  by (auto simp: handler_inv_def HasUID_def)

lemma handle_msg_inv:
  assumes inv: "handler_inv h0 h"
  shows "handler_inv h0 (handle_msg c now msg0 h)"
proof -
  let ?msg = "msg0\<lparr>cmFrom := chAddr h, cmScope := Device_GetScope (chDevice h)\<rparr>"
  let ?m = "Some ?msg"
  let ?uid = "TrimSuffix (GetUID ?m) ''-ping''"
  let ?h1 = "if IsContact ?m then add_contact ?uid (GetCallsign ?m) h else h"
  let ?h2 = "if GetType ?m = ''t-x-d-d'' \<and> Has ''link'' (GetDetail ?m)
             then ?h1\<lparr>chUids := smDelete (GetAttr ''uid'' (GetFirst ''link'' (GetDetail ?m))) (chUids ?h1)\<rparr> else ?h1"
  show ?thesis
  proof (cases "IsContact ?m \<and> (case chUidChecker h of None \<Rightarrow> False | Some ok \<Rightarrow> \<not> ok ?uid)")
    case True
    then have "handle_msg c now msg0 h = Stop h" by (simp add: handle_msg_def Let_def)
    then show ?thesis using Stop_inv [OF inv] by simp
  next
    case False
    have chk: "chUidChecker h = chUidChecker h0" using inv by (simp add: handler_inv_def)
    then have "IsContact ?m \<Longrightarrow> uid_ok h0 ?uid" using False by (auto simp: uid_ok_def split: option.splits)
    then have h1: "handler_inv h0 ?h1" using add_contact_inv [OF inv] inv by simp
    then have h2: "handler_inv h0 ?h2" using del_uid_inv [OF h1] by simp
    have eq: "handle_msg c now msg0 h =
       (if GetType ?m = ''t-x-c-t'' then
          (case SendCot c (Some (MakePong now)) ?h2 of (h3, Some (Panic _)) \<Rightarrow> Stop h3 | (h3, _) \<Rightarrow> h3)
        else if GetType ?m = ''t-x-c-t-r'' then ?h2
        else ?h2\<lparr>chForwarded := chForwarded ?h2 @ [?msg]\<rparr>)"
      using False unfolding handle_msg_def Let_def by simp
    obtain h3 e where sc: "SendCot c (Some (MakePong now)) ?h2 = (h3, e)" by fastforce
    then have h3: "handler_inv h0 h3" "handler_inv h0 (Stop h3)"
      using frame_inv [OF h2 queue_frame [OF SendCot_queue [of ?h2 c "Some (MakePong now)"]]] Stop_inv by simp_all
    have pong: "handler_inv h0 (case SendCot c (Some (MakePong now)) ?h2 of (h3, Some (Panic _)) \<Rightarrow> Stop h3 | (h3, _) \<Rightarrow> h3)"
      unfolding sc using h3 by (auto split: option.split gofail.split)
    have st: "stamped h0 ?msg" if "GetType ?m \<noteq> ''t-x-c-t''" "GetType ?m \<noteq> ''t-x-c-t-r''"
      using inv that by (simp add: stamped_def handler_inv_def)
    show ?thesis
      unfolding eq
      by (rule if_case2 [where P = "handler_inv h0"], rule pong,
          rule if_case2 [where P = "handler_inv h0"], rule h2, rule forward_inv [OF h2], rule st)
  qed
qed

lemma read_iter_inv:
  assumes inv: "handler_inv h0 h"
  shows "handler_inv h0 (read_iter c now h)"
proof (cases "chActive h")
  case True
  let ?r = "if GetVersion h = 0 then processXMLRead c now h
            else if GetVersion h = 1 then processProtoRead c now h else ((None, None), h)"
  obtain m err h1 where r: "?r = ((m, err), h1)" by (metis prod.exhaust)
  have "read_frame h (snd ?r)"
    using xml_frame [of h c now] proto_frame [of h c now] frame_refl [of h] by (simp add: GetVersion_def)
  then have h1: "handler_inv h0 h1" using frame_inv [OF inv] r by simp
  then show ?thesis
    using Stop_inv [OF h1] handle_msg_inv [OF h1] True unfolding read_iter_def r
    by (auto split: option.split)
qed (simp add: read_iter_def inv)

lemma write_iter_inv: "handler_inv h0 h \<Longrightarrow> handler_inv h0 (write_iter ok h)"
proof -
  assume inv: "handler_inv h0 h"
  show ?thesis
  proof (cases "chan_recv (chSendChan h)")
    case (Some p)
    then obtain x q where p: "p = (x, q)" by fastforce
    have "length q \<le> sendCap"
      using chan.recv_bound [of "chSendChan h" sendCap x q] Some p inv by (simp add: handler_inv_def)
    then have "handler_inv h0 (h\<lparr>chSendChan := q\<rparr>)" using inv by (auto simp: handler_inv_def HasUID_def)
    then show ?thesis using Stop_inv Some p by (simp add: write_iter_def Let_def)
  qed (simp add: write_iter_def inv)
qed

lemma closeIdle_inv: "handler_inv h0 h \<Longrightarrow> handler_inv h0 (closeIdle t h)"
  by (simp add: closeIdle_def handler_inv_def HasUID_def)

lemma step_inv:
  assumes inv: "handler_inv h0 h" and st: "handler_step c h h'"
  shows "handler_inv h0 h'"
  using st
proof cases
  case (reads now)
  then show ?thesis using read_iter_inv [OF inv] by simp
next
  case (sends msg)
  then show ?thesis using frame_inv [OF inv queue_frame [OF SendMsg_queue]] by simp
next
  case (writes ok)
  then show ?thesis using write_iter_inv [OF inv] by simp
next
  case (pings clk)
  then show ?thesis using frame_inv [OF inv queue_frame [OF SendCot_queue]] by (simp add: ping_tick_def)
next
  case stops
  then show ?thesis using Stop_inv [OF inv] by simp
next
  case (idles t)
  then show ?thesis using closeIdle_inv [OF inv] by simp
qed

lemma new_inv_handler: "handler_inv (NewConnClientHandler t name conn cfg) (NewConnClientHandler t name conn cfg)"
  by (simp add: handler_inv_def NewConnClientHandler_def HasUID_def)

lemma reachable_inv:
  assumes "reachable c (NewConnClientHandler t name conn cfg) h"
  shows "handler_inv (NewConnClientHandler t name conn cfg) h"
  using assms
proof (induction rule: reachable.induct)
  case (init clk)
  show ?case
    unfolding handler_Start_def
    using new_inv_handler frame_inv [OF new_inv_handler queue_frame [OF sendEvent_queue]] by simp
next
  case (step h h')
  then show ?case by (intro step_inv [of _ h c h'])
qed

section \<open>Version 1\<close>

text \<open>After the switch, nothing touches the XML reader's buffer any more.\<close>

definition same_xml :: "Handler \<Rightarrow> Handler \<Rightarrow> bool" where
  "same_xml h h' \<longleftrightarrow> chVer h' = chVer h \<and> chXmlBuf h' = chXmlBuf h"

lemma same_xml_refl [simp]: "same_xml h h"
  by (simp add: same_xml_def)

lemma same_xml_trans: "same_xml h h1 \<Longrightarrow> same_xml h1 h2 \<Longrightarrow> same_xml h h2"
  by (simp add: same_xml_def)

lemma same_xml_ops:
  "same_xml h (Stop h)" "same_xml h (add_contact uid cs h)" "same_xml h (closeIdle t h)"
  "same_xml h (h\<lparr>chUids := u\<rparr>)" "same_xml h (h\<lparr>chForwarded := f\<rparr>)" "same_xml h (h\<lparr>chSendChan := q\<rparr>)"
  by (simp_all add: same_xml_def Stop_def add_contact_def closeIdle_def Let_def)

lemma queue_same_xml: "queue_only h h' \<Longrightarrow> same_xml h h'"
  by (auto simp: queue_only_def same_xml_def)

lemma write_same_xml: "same_xml h (write_iter ok h)"
  by (auto simp: write_iter_def Let_def same_xml_ops same_xml_trans [OF same_xml_ops(6) same_xml_ops(1)]
      split: option.split)

lemma handle_msg_same_xml: "same_xml h (handle_msg c now msg0 h)"
proof -
  have del: "same_xml h x \<Longrightarrow> same_xml h (if b then x\<lparr>chUids := u\<rparr> else x)" for x b u
    by (simp add: same_xml_def)
  have pong: "same_xml h x \<Longrightarrow>
      same_xml h (case SendCot c m x of (h3, Some (Panic _)) \<Rightarrow> Stop h3 | (h3, _) \<Rightarrow> h3)" for x m
  proof -
    assume x: "same_xml h x"
    obtain h3 e where sc: "SendCot c m x = (h3, e)" by fastforce
    have "same_xml h h3" using same_xml_trans [OF x queue_same_xml [OF SendCot_queue [of x c m]]] sc by simp
    then show ?thesis unfolding sc using same_xml_trans [OF _ same_xml_ops(1)]
      by (auto split: option.split gofail.split)
  qed
  show ?thesis
    unfolding handle_msg_def Let_def
    by (rule if_case2 [where P = "same_xml h"], rule same_xml_ops,
        rule if_case2 [where P = "same_xml h"], rule pong, rule del, simp add: same_xml_ops,
        rule if_case2 [where P = "same_xml h"], rule del, simp add: same_xml_ops,
        rule same_xml_trans [OF _ same_xml_ops(5)], rule del, simp add: same_xml_ops)
qed

lemma read_iter_v1:
  assumes "chVer h = 1"
  shows "same_xml h (read_iter c now h)"
proof (cases "chActive h")
  case True
  obtain m err h1 where r: "processProtoRead c now h = ((m, err), h1)" by (metis prod.exhaust)
  have "read_frame h h1" using proto_frame [OF assms, of c now] r by simp
  then have h1: "same_xml h h1" using assms by (auto simp: read_frame_def same_xml_def)
  show ?thesis
    unfolding read_iter_def GetVersion_def using True assms r
    by (auto split: option.split intro: same_xml_trans [OF h1] same_xml_ops handle_msg_same_xml h1)
qed (simp add: read_iter_def)

lemma step_v1: "chVer h = 1 \<Longrightarrow> handler_step c h h' \<Longrightarrow> same_xml h h'"
  by (erule handler_stepE)
    (simp_all only: read_iter_v1 queue_same_xml [OF SendMsg_queue] write_same_xml same_xml_ops
      ping_tick_def queue_same_xml [OF SendCot_queue])

lemma steps_v1: "(handler_step c)\<^sup>*\<^sup>* h h' \<Longrightarrow> chVer h = 1 \<Longrightarrow> same_xml h h'"
proof (induction rule: rtranclp_induct)
  case (step h1 h2)
  then have "same_xml h h1" "chVer h1 = 1" by (auto simp: same_xml_def)
  then show ?case using step_v1 [of h1 c h2] step(2) same_xml_trans by blast
qed simp

section \<open>A connection to evaluate\<close>

text \<open>
  For the witnesses: a codec whose every answer is one fixed value, a device of scope
  \<open>red\<close>, and a connection that delivers one event.
\<close>

definition example_event :: Event where
  "example_event = \<lparr>evVersion = ''2.0'', evType = ''a-f-G'', evAccess = [], evQos = [], evOpex = [], evUID = ''u1'',
     evTime = 0, evStart = 0, evStale = 60, evHow = ''m-g'', evDetail = Some (new_Node),
     evPoint = \<lparr>ptLat = 0, ptLon = 0, ptHae = 0, ptCe = 0, ptLe = 0\<rparr>\<rparr>"

definition example_codec :: codec where
  "example_codec = \<lparr>cdDecode = (\<lambda>n s. (n, None)), cdParseFloat = (\<lambda>_. None),
     cdEventMarshal = (\<lambda>_. Inr ''<event/>''), cdEventUnmarshal = (\<lambda>_. Inr example_event),
     cdProtoMarshal = (\<lambda>_. Inr ''x''), cdProtoUnmarshal = (\<lambda>_. Inr new_TakMessage)\<rparr>"

definition example_config :: HandlerConfig where
  "example_config = \<lparr>hcDevice = Some (new_Device\<lparr>devScope := ''red''\<rparr>), hcSerial = [], hcUID = ''srv'',
     hcIsClient = True, hcUidChecker = None\<rparr>"

definition example_handler :: Handler where
  "example_handler = NewConnClientHandler 0 ''10.0.0.1'' [''<event></event>''] example_config"

definition example_read :: Handler where
  "example_read = read_iter example_codec (0, 0, 0, 0) (handler_Start example_codec (0, 0, 0) example_handler)"

lemma example_read_reachable: "reachable example_codec example_handler example_read"
  unfolding example_read_def by (rule reachable.step [OF reachable.init handler_step.reads])

section \<open>Properties\<close>

text \<open>
  C14: nobody can forge where a message comes from. In every state a connection can reach,
  each message it has passed on to the server carries the connection's own name as its origin
  and the scope of the authenticated device, whatever the peer wrote into it, and none is a
  ping or a pong.
\<close>

theorem forwarded_stamped:
  assumes "reachable c (NewConnClientHandler t name conn cfg) h" "m \<in> set (chForwarded h)"
  shows "cmFrom m = name \<and> cmScope m = Device_GetScope (hcDevice cfg) \<and>
    GetType (Some m) \<noteq> ''t-x-c-t'' \<and> GetType (Some m) \<noteq> ''t-x-c-t-r''"
proof -
  have "stamped (NewConnClientHandler t name conn cfg) m"
    using reachable_inv [OF assms(1)] assms(2) by (simp add: handler_inv_def list_all_iff)
  then show ?thesis by (simp add: stamped_def NewConnClientHandler_def)
qed

theorem forwarded_stamped_witness:
  "\<exists>m. m \<in> set (chForwarded example_read) \<and> cmFrom m = ''10.0.0.1'' \<and> cmScope m = ''red''"
proof -
  have "chForwarded example_read \<noteq> []" by code_simp
  then obtain m where m: "m \<in> set (chForwarded example_read)" by (cases "chForwarded example_read") auto
  have "cmFrom m = ''10.0.0.1'' \<and> cmScope m = Device_GetScope (hcDevice example_config)"
    using forwarded_stamped [OF example_read_reachable [unfolded example_handler_def] m] by simp
  then show ?thesis using m by (auto simp: example_config_def Device_GetScope_def pget_def new_Device_def)
qed

text \<open>
  The limits of a connection hold in every state it can reach: at most 50 packets wait to
  be sent, the protocol version is 0 or 1, it has removed itself from the server exactly once
  if it is stopped and never before, and no contact it holds is refused by the uid check.
\<close>

theorem handler_limits:
  assumes "reachable c (NewConnClientHandler t name conn cfg) h"
  shows "length (chSendChan h) \<le> 50 \<and> chVer h \<in> {0, 1} \<and> chRemoved h = (if chActive h then 0 else 1) \<and>
    (HasUID h uid \<longrightarrow> (case hcUidChecker cfg of None \<Rightarrow> True | Some ok \<Rightarrow> ok uid))"
  using reachable_inv [OF assms]
  by (simp add: handler_inv_def sendCap_def uid_ok_def NewConnClientHandler_def)

theorem handler_limits_witness:
  "length (chSendChan example_read) \<le> 50 \<and> chVer example_read \<in> {0, 1} \<and>
   chRemoved example_read = (if chActive example_read then 0 else 1)"
  using handler_limits [OF example_read_reachable [unfolded example_handler_def]] by blast

text \<open>
  C15: what is sent to a connection is within its scope. \<open>SendMsg\<close> changes nothing but the send
  channel, and appends to it only if the message is local or the device may see its scope, the
  connection is active, and fewer than 50 packets wait; what it appends is the encoding of the
  message for the version in use.
\<close>

theorem SendMsg_scope:
  assumes "SendMsg c msg h = (h', err)" "h' \<noteq> h"
  shows "(cmScope msg = LocalScope \<or> CanSeeScope (chDevice h) (cmScope msg)) \<and> chActive h \<and>
    length (chSendChan h) < 50 \<and>
    (\<exists>pkt. h' = h\<lparr>chSendChan := chSendChan h @ [pkt]\<rparr> \<and> err = None \<and>
      (if chVer h = 0 then cdEventMarshal c (ProtoToEvent (cdDecode c) (cmTakMessage msg)) = Inr pkt
       else chVer h = 1 \<and> MakeProtoPacket (cdProtoMarshal c) (cmTakMessage msg) = Inr pkt))"
proof -
  have vis: "IsLocal msg \<or> CanSeeScope (chDevice h) (cmScope msg)"
    and sc: "SendCot c (cmTakMessage msg) h = (h', err)"
    using assms by (auto simp: SendMsg_def GetTakMessage_def split: if_splits)
  obtain pkt where pkt: "add_or_off pkt h = (h', err)"
    "if chVer h = 0 then cdEventMarshal c (ProtoToEvent (cdDecode c) (cmTakMessage msg)) = Inr pkt
       else chVer h = 1 \<and> MakeProtoPacket (cdProtoMarshal c) (cmTakMessage msg) = Inr pkt"
    using sc assms(2) by (auto simp: SendCot_def GetVersion_def split: if_splits sum.splits)
  then have "chActive h" "length (chSendChan h) < sendCap"
    "h' = h\<lparr>chSendChan := chSendChan h @ [pkt]\<rparr>" "err = None"
    using assms(2) by (auto simp: add_or_off_def tryAddPacket_def IsActive_def chan_send_def split: if_splits)
  then show ?thesis using vis pkt(2) by (auto simp: IsLocal_def sendCap_def)
qed

theorem SendMsg_scope_witness:
  "\<exists>msg h'. SendMsg example_codec msg example_handler = (h', None) \<and> h' \<noteq> example_handler \<and>
     CanSeeScope (chDevice example_handler) (cmScope msg) \<and> length (chSendChan example_handler) < 50"
proof -
  let ?msg = "\<lparr>cmFrom = [], cmScope = ''red'', cmTakMessage = None, cmDetail = None\<rparr>"
  let ?r = "SendMsg example_codec ?msg example_handler"
  have q: "chSendChan (fst ?r) = [''<event/>''] \<and> snd ?r = None \<and> chSendChan example_handler = []" by code_simp
  then have ne: "fst ?r \<noteq> example_handler" by force
  have r: "?r = (fst ?r, None)" using q by (simp add: prod_eq_iff)
  have "cmScope ?msg = LocalScope \<or> CanSeeScope (chDevice example_handler) (cmScope ?msg)"
    "length (chSendChan example_handler) < 50"
    using SendMsg_scope [OF r ne] by blast+
  moreover have "cmScope ?msg \<noteq> LocalScope" by code_simp
  ultimately show ?thesis using r ne by blast
qed

text \<open>
  Bytes read ahead are lost at the switch to version 1. Both readers buffer the same
  connection; once the version is 1, no step of the connection ever touches the XML reader's
  buffer again, so whatever arrived in the same chunk as the version request is never read.
\<close>

theorem switch_loses_buffer:
  assumes "(handler_step c)\<^sup>*\<^sup>* h h'" "chVer h = 1"
  shows "chVer h' = 1 \<and> chXmlBuf h' = chXmlBuf h"
  using steps_v1 [OF assms] assms(2) by (simp add: same_xml_def)

theorem switch_loses_buffer_witness:
  "let h = example_handler\<lparr>chVer := 1, chXmlBuf := ''<event''\<rparr>; h' = read_iter example_codec (0, 0, 0, 0) h
   in chVer h' = 1 \<and> chXmlBuf h' = ''<event''"
proof -
  let ?h = "example_handler\<lparr>chVer := 1, chXmlBuf := ''<event''\<rparr>"
  let ?h' = "read_iter example_codec (0, 0, 0, 0) ?h"
  have "(handler_step example_codec)\<^sup>*\<^sup>* ?h ?h'" by (rule r_into_rtranclp) (rule handler_step.reads)
  then have "chVer ?h' = 1 \<and> chXmlBuf ?h' = chXmlBuf ?h" by (rule switch_loses_buffer) simp
  then show ?thesis by (simp add: Let_def)
qed

end
