(* ===== verification/ItemModel.thy ===== *)
theory ItemModel
  imports CotMsg DeviceModel
begin

text \<open>
  \<open>pkg/model/unit.go\<close>, \<open>geo.go\<close> (positions) and \<open>http.go\<close>: an item on the map, made from and
  updated by CoT messages, its track, and its form for the web. The lock of an item is taken by
  every method, so a method is one step on the state. \<open>FromMsg\<close> never keeps a nil message and
  \<open>Update\<close> never stores one, so the message of an item is not an option. \<open>strings.ToUpper\<close>,
  the clock and fresh uuids are arguments.
\<close>

section \<open>Positions\<close>

record Pos =
  posTime :: time
  posLat :: f64
  posLon :: f64
  posAlt :: f64
  posSpeed :: f64
  posTrack :: f64
  posCe :: f64

definition NewPosFull :: "time \<Rightarrow> f64 \<Rightarrow> f64 \<Rightarrow> f64 \<Rightarrow> f64 \<Rightarrow> f64 \<Rightarrow> Pos" where
  "NewPosFull now lat lon alt speed track =
     \<lparr>posTime = now, posLat = lat, posLon = lon, posAlt = alt, posSpeed = speed, posTrack = track, posCe = 0\<rparr>"

definition NewPos :: "time \<Rightarrow> f64 \<Rightarrow> f64 \<Rightarrow> Pos" where
  "NewPos now lat lon = NewPosFull now lat lon 0 0 0"

definition msg2pos :: "CotMessage option \<Rightarrow> Pos" where
  "msg2pos msg =
     \<lparr>posTime = GetSendTime msg, posLat = GetLat msg, posLon = GetLon msg,
      posAlt = CotEvent_Hae (cot_of msg), posSpeed = Track_Speed (Detail_Track (det_of msg)),
      posTrack = Track_Course (Detail_Track (det_of msg)), posCe = CotEvent_Ce (cot_of msg)\<rparr>"

definition Pos_GetCoord :: "Pos option \<Rightarrow> f64 \<times> f64" where
  "Pos_GetCoord p = (case p of None \<Rightarrow> (0, 0) | Some q \<Rightarrow> (posLat q, posLon q))"

definition Pos_GetLat :: "Pos option \<Rightarrow> f64" where "Pos_GetLat p = pget 0 posLat p"
definition Pos_GetLon :: "Pos option \<Rightarrow> f64" where "Pos_GetLon p = pget 0 posLon p"
definition Pos_GetAlt :: "Pos option \<Rightarrow> f64" where "Pos_GetAlt p = pget 0 posAlt p"
definition Pos_GetSpeed :: "Pos option \<Rightarrow> f64" where "Pos_GetSpeed p = pget 0 posSpeed p"
definition Pos_GetTrack :: "Pos option \<Rightarrow> f64" where "Pos_GetTrack p = pget 0 posTrack p"
definition Pos_GetCe :: "Pos option \<Rightarrow> f64" where "Pos_GetCe p = pget NotNum posCe p"

section \<open>Items\<close>

definition StaleContactDelete :: int where "StaleContactDelete = hour * 24"
definition POINT :: string where "POINT = ''point''"
definition UNIT :: string where "UNIT = ''unit''"
definition CONTACT :: string where "CONTACT = ''contact''"
definition MaxTrackPoints :: nat where "MaxTrackPoints = 5000"

lemmas class_names = POINT_def UNIT_def CONTACT_def

record Item =
  itUid :: string
  itClass :: string
  itOnline :: bool
  itLastSeen :: time
  itLocal :: bool
  itSend :: bool
  itTrack :: "Pos list"
  itMsg :: CotMessage

definition Item_String :: "Item \<Rightarrow> string" where
  "Item_String i = itClass i @ '': '' @ itUid i @ '' '' @ GetType (Some (itMsg i)) @ '' '' @ GetCallsign (Some (itMsg i))"

definition Item_GetType :: "Item \<Rightarrow> string" where "Item_GetType i = GetType (Some (itMsg i))"
definition Item_GetScope :: "Item \<Rightarrow> string" where "Item_GetScope i = cmScope (itMsg i)"
definition Item_GetCallsign :: "Item \<Rightarrow> string" where "Item_GetCallsign i = GetCallsign (Some (itMsg i))"

definition IsOld :: "time \<Rightarrow> Item \<Rightarrow> bool" where
  "IsOld now i =
     (if itClass i = CONTACT then \<not> itOnline i \<and> Since now (itLastSeen i) > StaleContactDelete
      else GetStaleTime (Some (itMsg i)) < now)"

definition SetOffline :: "Item \<Rightarrow> Item" where "SetOffline i = i\<lparr>itOnline := False\<rparr>"
definition SetOnline :: "time \<Rightarrow> Item \<Rightarrow> Item" where "SetOnline now i = i\<lparr>itOnline := True, itLastSeen := now\<rparr>"
definition SetLocal :: "bool \<Rightarrow> Item \<Rightarrow> Item" where "SetLocal b i = i\<lparr>itLocal := b\<rparr>"
definition SetSend :: "bool \<Rightarrow> Item \<Rightarrow> Item" where "SetSend b i = i\<lparr>itSend := b\<rparr>"

definition GetClass :: "CotMessage option \<Rightarrow> string" where
  "GetClass msg =
     (if msg = None then []
      else if HasPrefix (GetType msg) ''a-'' then (if GetEndpoint msg \<noteq> [] then CONTACT else UNIT)
      else if MatchAnyPattern (GetType msg) [''b-'', ''u-''] then POINT
      else [])"

definition HasMission :: "string \<Rightarrow> Item \<Rightarrow> bool" where
  "HasMission name i \<longleftrightarrow> name \<in> set (GetDestMission (GetDetail (Some (itMsg i))))"

definition has_coord :: "CotMessage option \<Rightarrow> bool" where
  "has_coord msg \<longleftrightarrow> \<not> f_is_zero (GetLat msg) \<or> \<not> f_is_zero (GetLon msg)"

definition FromMsg :: "time \<Rightarrow> CotMessage option \<Rightarrow> Item option" where
  "FromMsg now msg =
     (let cls = GetClass msg
      in if cls = [] then None
         else case msg of
                None \<Rightarrow> None
              | Some m \<Rightarrow>
                  Some \<lparr>itUid = GetUID msg, itClass = cls, itOnline = True, itLastSeen = now, itLocal = False,
                    itSend = False,
                    itTrack = (if (cls = UNIT \<or> cls = CONTACT) \<and> has_coord msg then [msg2pos msg] else []),
                    itMsg = m\<rparr>)"

definition GetLanLon :: "Item \<Rightarrow> f64 \<times> f64" where
  "GetLanLon i = (GetLat (Some (itMsg i)), GetLon (Some (itMsg i)))"

definition add_track :: "Pos \<Rightarrow> Pos list \<Rightarrow> Pos list" where
  "add_track p tr =
     (let tr' = tr @ [p]
      in if length tr' > MaxTrackPoints then drop (length tr' - MaxTrackPoints) tr' else tr')"

definition Update :: "time \<Rightarrow> CotMessage option \<Rightarrow> Item \<Rightarrow> Item" where
  "Update now msg i =
     (case msg of
        None \<Rightarrow> SetOnline now i
      | Some m \<Rightarrow>
          (let i1 = i\<lparr>itLastSeen := now, itClass := GetClass msg, itMsg := m\<rparr>
           in if itClass i1 = UNIT \<or> itClass i1 = CONTACT then
                (let i2 = i1\<lparr>itOnline := True\<rparr>
                 in if has_coord msg then i2\<lparr>itTrack := add_track (msg2pos msg) (itTrack i2)\<rparr> else i2)
              else i1))"

section \<open>The web form\<close>

record WebUnit =
  wuUID :: string
  wuCallsign :: string
  wuCategory :: string
  wuScope :: string
  wuTeam :: string
  wuRole :: string
  wuExRole :: string
  wuTime :: time
  wuLastSeen :: time
  wuStaleTime :: time
  wuStartTime :: time
  wuSendTime :: time
  wuType :: string
  wuLat :: f64
  wuLon :: f64
  wuHae :: f64
  wuSpeed :: f64
  wuCourse :: f64
  wuSidc :: string
  wuTakVersion :: string
  wuDevice :: string
  wuStatus :: string
  wuBattery :: "32 word"
  wuText :: string
  wuColor :: string
  wuIcon :: string
  wuParentCallsign :: string
  wuParentUID :: string
  wuLocal :: bool
  wuSend :: bool
  wuMissions :: "string list"

text \<open>The symbol code of a type, before \<open>ToUpper\<close>, and its padding.\<close>

definition sidc_base :: "string \<Rightarrow> string" where
  "sidc_base fn =
     (let tokens = Split fn CHR ''-''
      in ''S'' @ tokens ! 1 @ (if length tokens > 2 then tokens ! 2 @ ''P'' else ''-P'') @
         concat (takeWhile (\<lambda>c. length c \<le> 1) (drop 3 tokens)))"

definition getSIDC :: "(string \<Rightarrow> string) \<Rightarrow> string \<Rightarrow> string result" where
  "getSIDC ToUpper fn =
     (if \<not> HasPrefix fn ''a-'' then Inr []
      else let sidc = sidc_base fn
           in if length sidc < 12 then
                (case Repeat ''-'' (10 - int (length sidc)) of
                   Inl e \<Rightarrow> Inl e | Inr pad \<Rightarrow> Inr (ToUpper (sidc @ pad)))
              else Inr (ToUpper sidc))"

definition first_line :: "string \<Rightarrow> string" where
  "first_line s = takeWhile (\<lambda>c. c \<noteq> CHR 0x0A) s"

definition ToWeb :: "(string \<Rightarrow> string) \<Rightarrow> Item \<Rightarrow> WebUnit result" where
  "ToWeb ToUpper i =
     (let msg = Some (itMsg i); evt = cot_of msg; (parentUID, parentCallsign) = GetParent msg
      in case getSIDC ToUpper (GetType msg) of
           Inl e \<Rightarrow> Inl e
         | Inr sidc \<Rightarrow>
             (let w = \<lparr>wuUID = itUid i, wuCallsign = GetCallsign msg, wuCategory = itClass i,
                  wuScope = cmScope (itMsg i), wuTeam = GetTeam msg, wuRole = GetRole msg,
                  wuExRole = GetExRole msg, wuTime = TimeFromMillis (CotEvent_SendTime evt),
                  wuLastSeen = itLastSeen i, wuStaleTime = GetStaleTime msg, wuStartTime = GetStartTime msg,
                  wuSendTime = GetSendTime msg, wuType = GetType msg, wuLat = CotEvent_Lat evt,
                  wuLon = CotEvent_Lon evt, wuHae = CotEvent_Hae evt,
                  wuSpeed = Track_Speed (Detail_Track (CotEvent_Detail evt)),
                  wuCourse = Track_Course (Detail_Track (CotEvent_Detail evt)), wuSidc = sidc,
                  wuTakVersion = [], wuDevice = [], wuStatus = [],
                  wuBattery = Status_Battery (Detail_Status (det_of msg)),
                  wuText = GetText (GetFirst ''remarks'' (GetDetail msg)), wuColor = GetColor msg,
                  wuIcon = GetIconsetPath msg, wuParentCallsign = parentCallsign, wuParentUID = parentUID,
                  wuLocal = itLocal i, wuSend = itSend i, wuMissions = GetDestMission (GetDetail msg)\<rparr>
              in Inr (if itClass i = CONTACT then
                   (let w1 = w\<lparr>wuStatus := (if itOnline i then ''Online'' else ''Offline'')\<rparr>
                    in case GetTakv msg of
                         None \<Rightarrow> w1
                       | Some v \<Rightarrow>
                           w1\<lparr>wuTakVersion := Trim (tvPlatform v @ '' '' @ first_line (tvVersion v)) '' '',
                              wuDevice := Trim (tvDevice v @ '', '' @ tvOs v) '' ''\<rparr>)
                 else w)))"

text \<open>\<open>ToMsg\<close> reads the clock once for each time stamp it replaces, and may draw a uuid.\<close>

definition ToMsg :: "clock3 \<Rightarrow> string \<Rightarrow> WebUnit \<Rightarrow> CotMessage" where
  "ToMsg now uuid w =
     (let (t1, t2, t3) = now;
          xd0 = (if wuParentUID w \<noteq> [] then AddPpLink (wuParentUID w) [] (wuParentCallsign w) (Some NewXMLDetails)
                 else Some NewXMLDetails);
          xd1 = fst (AddOrChangeChild ''status'' [(''readiness'', ''true'')] xd0);
          xd2 = fst (AddOrChangeChild ''color'' [(''argb'', wuColor w)] xd1);
          xd = (if wuText w \<noteq> [] then fst (AddChild ''remarks'' [] (wuText w) xd2) else xd2);
          det = new_Detail\<lparr>dXmlDetail := AsXMLString xd, dContact := Some (new_Contact\<lparr>conCallsign := wuCallsign w\<rparr>),
                  dPrecisionLocation := Some \<lparr>plGeopointsrc = ''USER'', plAltsrc = ''USER''\<rparr>\<rparr>;
          ce = new_CotEvent\<lparr>ceType := wuType w, ceUid := (if wuUID w = [] then uuid else wuUID w),
                 ceSendTime := TimeToMillis (if wuSendTime w < 0 then t2 else wuSendTime w),
                 ceStartTime := TimeToMillis (if wuStartTime w < 0 then t1 else wuStartTime w),
                 ceStaleTime := TimeToMillis (if wuStaleTime w < 0 then t3 + hour * 24 else wuStaleTime w),
                 ceHow := ''h-g-i-g-o'', ceLat := wuLat w, ceLon := wuLon w, ceHae := wuHae w,
                 ceCe := NotNum, ceLe := NotNum, ceDetail := Some det\<rparr>
      in \<lparr>cmFrom = [], cmScope = wuScope w, cmTakMessage = Some (new_TakMessage\<lparr>tmCotEvent := Some ce\<rparr>),
          cmDetail = xd\<rparr>)"

section \<open>Lemmas\<close>

lemma GetClass_cases: "GetClass msg \<in> {[], POINT, UNIT, CONTACT}"
  by (simp add: GetClass_def)

lemma FromMsg_Some:
  assumes "FromMsg now msg = Some i"
  shows "\<exists>m. msg = Some m \<and> itMsg i = m \<and> itUid i = GetUID msg \<and> itClass i = GetClass msg \<and>
    itClass i \<noteq> [] \<and> itOnline i \<and> itLastSeen i = now \<and> length (itTrack i) \<le> 1"
  using assms by (auto simp: FromMsg_def Let_def split: option.splits if_splits)

lemma Update_keeps [simp]:
  "itUid (Update now msg i) = itUid i" "itLastSeen (Update now msg i) = now"
  "itLocal (Update now msg i) = itLocal i" "itSend (Update now msg i) = itSend i"
  by (cases msg; simp add: Update_def SetOnline_def Let_def)+

lemma SetOffline_keeps [simp]:
  "itUid (SetOffline i) = itUid i" "itClass (SetOffline i) = itClass i" "itMsg (SetOffline i) = itMsg i"
  "itLastSeen (SetOffline i) = itLastSeen i" "itTrack (SetOffline i) = itTrack i" "\<not> itOnline (SetOffline i)"
  by (simp_all add: SetOffline_def)

text \<open>The last points of a list of positions.\<close>

definition window :: "'a list \<Rightarrow> 'a list" where
  "window xs = drop (length xs - MaxTrackPoints) xs"

lemma window_length: "length (window xs) \<le> MaxTrackPoints"
  by (simp add: window_def)

lemma window_id: "length xs \<le> MaxTrackPoints \<Longrightarrow> window xs = xs"
  by (simp add: window_def)

lemma add_track_window: "add_track p (window xs) = window (xs @ [p])"
proof (cases "length xs \<le> MaxTrackPoints")
  case True
  then show ?thesis by (simp add: add_track_def window_def Let_def)
next
  case False
  then have "length (window xs) = MaxTrackPoints" by (simp add: window_def)
  moreover have "drop 1 (window xs @ [p]) = drop (length xs - MaxTrackPoints + 1) (xs @ [p])"
    using False by (simp add: window_def MaxTrackPoints_def)
  ultimately show ?thesis using False by (simp add: add_track_def window_def Let_def Suc_diff_le)
qed

definition tracked :: "CotMessage option \<Rightarrow> bool" where
  "tracked msg \<longleftrightarrow> msg \<noteq> None \<and> (GetClass msg = UNIT \<or> GetClass msg = CONTACT) \<and> has_coord msg"

lemma Update_track:
  "itTrack (Update now msg i) = (if tracked msg then add_track (msg2pos msg) (itTrack i) else itTrack i)"
  by (cases msg) (auto simp: Update_def SetOnline_def tracked_def Let_def)

lemma Updates_track:
  "itTrack (fold (\<lambda>(now, msg). Update now msg) us (i\<lparr>itTrack := window xs\<rparr>)) =
   window (xs @ map (msg2pos \<circ> snd) (filter (tracked \<circ> snd) us))"
proof (induction us arbitrary: i xs)
  case (Cons u us)
  obtain now msg where u: "u = (now, msg)" by fastforce
  let ?i = "Update now msg (i\<lparr>itTrack := window xs\<rparr>)"
  have i: "?i = ?i\<lparr>itTrack := itTrack ?i\<rparr>" by simp
  show ?case
  proof (cases "tracked msg")
    case True
    then have "itTrack ?i = window (xs @ [msg2pos msg])" by (simp add: Update_track add_track_window)
    then have "?i = ?i\<lparr>itTrack := window (xs @ [msg2pos msg])\<rparr>" using i by simp
    then show ?thesis using Cons.IH [where i = ?i and xs = "xs @ [msg2pos msg]"] True u by simp
  next
    case False
    then have "?i = ?i\<lparr>itTrack := window xs\<rparr>" using i by (simp add: Update_track)
    then show ?thesis using Cons.IH [where i = ?i and xs = xs] False u by simp
  qed
qed simp

section \<open>Properties\<close>

text \<open>
  C9: the track of an item is the newest part of what was received. After any sequence of
  updates, it holds exactly the last 5000 of the positions of its first track and of the
  contact and unit messages with a coordinate, in the order of arrival, and never more.
\<close>

theorem track_window:
  assumes "length (itTrack i) \<le> MaxTrackPoints"
  shows "itTrack (fold (\<lambda>(now, msg). Update now msg) us i) =
      window (itTrack i @ map (msg2pos \<circ> snd) (filter (tracked \<circ> snd) us)) \<and>
    length (itTrack (fold (\<lambda>(now, msg). Update now msg) us i)) \<le> MaxTrackPoints"
proof -
  have "itTrack (fold (\<lambda>(now, msg). Update now msg) us (i\<lparr>itTrack := window (itTrack i)\<rparr>)) =
      window (itTrack i @ map (msg2pos \<circ> snd) (filter (tracked \<circ> snd) us))"
    by (rule Updates_track)
  then show ?thesis using assms window_length by (simp add: window_id)
qed

definition example_msg :: CotMessage where
  "example_msg = \<lparr>cmFrom = [], cmScope = [], cmTakMessage =
     Some (set_event (\<lambda>e. e\<lparr>ceLat := 1\<rparr>) (BasicMsg (0, 0, 0) ''a-f-G'' ''u1'' 0)), cmDetail = None\<rparr>"

lemma example_msg_class: "GetType (Some example_msg) = ''a-f-G''" "tracked (Some example_msg)"
proof -
  show "GetType (Some example_msg) = ''a-f-G''"
    by (simp add: example_msg_def GetType_def GetTakMessage_def BasicMsg_def set_event_def)
  then show "tracked (Some example_msg)"
    by (simp add: tracked_def GetClass_def has_coord_def GetLat_def)
      (simp add: example_msg_def GetTakMessage_def BasicMsg_def set_event_def f_is_zero_def f_man_def class_names)
qed

theorem track_window_witness:
  "\<exists>i. FromMsg 0 (Some example_msg) = Some i \<and>
     itTrack (fold (\<lambda>(now, msg). Update now msg) [(1, Some example_msg), (2, None)] i) =
       [msg2pos (Some example_msg), msg2pos (Some example_msg)]"
proof -
  obtain i where i: "FromMsg 0 (Some example_msg) = Some i" "itTrack i = [msg2pos (Some example_msg)]"
    using example_msg_class(2) by (auto simp: FromMsg_def tracked_def class_names Let_def)
  have "\<not> tracked None" by (simp add: tracked_def)
  then show ?thesis
    using track_window [of i "[(1, Some example_msg), (2, None)]"] i example_msg_class(2)
    by (simp add: window_def MaxTrackPoints_def)
qed

text \<open>
  \<open>getSIDC\<close> panics for exactly one length of the code. For a type of the \<open>a-\<close> tree it
  panics when the unpadded symbol code has 11 characters (the guard lets up to 11 through, the
  padding counts from 10); otherwise it returns that code in upper case, padded with dashes to
  ten, and every type outside the tree gives the empty code.
\<close>

theorem getSIDC_result:
  "getSIDC ToUpper fn =
     (if \<not> HasPrefix fn ''a-'' then Inr []
      else if length (sidc_base fn) = 11 then Inl (Panic ''strings: negative Repeat count'')
      else Inr (ToUpper (sidc_base fn @ replicate (10 - length (sidc_base fn)) CHR ''-'')))"
proof -
  have "concat (replicate n ''-'') = replicate n CHR ''-''" for n by (induction n) auto
  moreover have "nat (10 - int n) = 10 - n" for n by arith
  ultimately show ?thesis by (auto simp: getSIDC_def Repeat_def Let_def)
qed

lemma getSIDC_panics: "getSIDC id ''a-f-G-U-C-I-M-N-O-E'' = Inl (Panic ''strings: negative Repeat count'')"
  by (simp add: getSIDC_def sidc_base_def Repeat_def)

end
