(* ===== verification/ChatModel.thy ===== *)
theory ChatModel
  imports ItemModel CotConvert
begin

text \<open>
  Chat messages: \<open>pkg/model/chat.go\<close> (the client's view, conversations by peer),
  \<open>pkg/chat/chat_message.go\<close> and \<open>storage.go\<close> (the server's store of the messages a contact
  may have missed). \<open>html.UnescapeString\<close> and the RFC 3339 form of a time are arguments,
  \<open>html.EscapeString\<close> is translated.
\<close>

section \<open>pkg/model/chat.go\<close>

definition html_escape :: "string \<Rightarrow> string" where
  "html_escape s = concat (map (\<lambda>c.
     if c = CHR ''&'' then ''&amp;'' else if c = CHR 0x27 then ''&#39;'' else if c = CHR ''<'' then ''&lt;''
     else if c = CHR ''>'' then ''&gt;'' else if c = CHR 0x22 then ''&#34;'' else [c]) s)"

record ChatMessage =
  chID :: string
  chTime :: time
  chParent :: string
  chChatroom :: string
  chFrom :: string
  chFromUID :: string
  chToUID :: string
  chDirect :: bool
  chText :: string

record Chat =
  ctFrom :: string
  ctUID :: string
  ctMessages :: "ChatMessage list"

record ChatMessages =
  csUid :: string
  csChats :: "(string, Chat) smap"

definition NewChatMessages :: "string \<Rightarrow> ChatMessages" where
  "NewChatMessages myUID = \<lparr>csUid = myUID, csChats =
     [(''All Chat Rooms'', \<lparr>ctFrom = ''All Chat Rooms'', ctUID = ''All Chat Rooms'', ctMessages = []\<rparr>)]\<rparr>"

definition getMsg :: "string \<Rightarrow> Chat \<Rightarrow> ChatMessage option" where
  "getMsg mid c = find (\<lambda>m. chID m = mid) (ctMessages c)"

definition chat_add :: "ChatMessage \<Rightarrow> Chat \<Rightarrow> Chat \<times> bool" where
  "chat_add msg c =
     (if getMsg (chID msg) c = None then (c\<lparr>ctMessages := msg # ctMessages c\<rparr>, True) else (c, False))"

text \<open>The conversation a message belongs to: the sender's for a direct message to us.\<close>

definition chat_key :: "string \<Rightarrow> ChatMessage \<Rightarrow> string \<times> string" where
  "chat_key me msg =
     (if chDirect msg \<and> chToUID msg = me
      then (chFromUID msg, if chFrom msg = [] then chFromUID msg else chFrom msg)
      else (chToUID msg, chChatroom msg))"

definition ChatMessages_Add :: "ChatMessage \<Rightarrow> ChatMessages \<Rightarrow> ChatMessages" where
  "ChatMessages_Add msg m =
     (let (uid, callsign) = chat_key (csUid m) msg
      in m\<lparr>csChats :=
           (case smLoad (csChats m) uid of
              Some _ \<Rightarrow> smModify uid
                (\<lambda>c. (let c' = fst (chat_add msg c) in if ctFrom c' = [] then c'\<lparr>ctFrom := callsign\<rparr> else c'))
                (csChats m)
            | None \<Rightarrow> smStore uid \<lparr>ctFrom = callsign, ctUID = uid, ctMessages = [msg]\<rparr> (csChats m))\<rparr>)"

definition ChatMessage_String :: "ChatMessage \<Rightarrow> string" where
  "ChatMessage_String m = ''Chat '' @ chFrom m @ '' ('' @ chFromUID m @ '') -> '' @ chChatroom m @ '' ('' @
     chToUID m @ '') '' @ [CHR 0x22] @ chText m @ [CHR 0x22]"

definition MsgToChat :: "(string \<Rightarrow> string) \<Rightarrow> CotMessage option \<Rightarrow> ChatMessage option" where
  "MsgToChat unescape m =
     (case GetFirst ''__chat'' (GetDetail m) of
        None \<Rightarrow> None
      | Some chat \<Rightarrow>
          (let at = (\<lambda>a. GetAttr a (Some chat));
               from0 = (case GetFirst ''chatgrp'' (Some chat) of None \<Rightarrow> [] | Some cg \<Rightarrow> GetAttr ''uid0'' (Some cg));
               from1 = (case GetFirstLink ''p-p'' m of
                          None \<Rightarrow> from0
                        | Some link \<Rightarrow> (let uid = GetAttr ''uid'' (Some link) in if uid \<noteq> [] then uid else from0))
           in case GetFirst ''remarks'' (GetDetail m) of
                None \<Rightarrow> None
              | Some rem \<Rightarrow> Some
                  \<lparr>chID = at ''messageId'', chTime = GetStartTime m, chParent = at ''parent'',
                   chChatroom = at ''chatroom'', chFrom = at ''senderCallsign'', chFromUID = from1,
                   chToUID = at ''id'', chDirect = (at ''chatroom'' \<noteq> at ''id''),
                   chText = unescape (GetText (Some rem))\<rparr>))"

text \<open>The detail of a chat message, which both functions that make one build the same way.\<close>

definition chat_detail ::
    "string \<Rightarrow> string \<Rightarrow> string \<Rightarrow> string \<Rightarrow> string \<Rightarrow> string \<Rightarrow> string \<Rightarrow> string \<Rightarrow> bool \<Rightarrow> Node option" where
  "chat_detail t fromUID toUID chatroom from parent mid text direct =
     (let xd1 = AddPpLink fromUID [] [] (Some NewXMLDetails);
          xd2 = with_child ''__chat'' [(''parent'', parent), (''groupOwner'', ''false''), (''chatroom'', chatroom),
                    (''senderCallsign'', from), (''id'', toUID), (''messageId'', mid)]
                  (\<lambda>chat. fst (AddOrChangeChild ''chatgrp'' [(''uid0'', fromUID), (''uid1'', toUID), (''id'', toUID)] chat))
                  xd1;
          xd3 = fst (AddChild ''remarks'' [(''source'', ''BAO.F.ATAK.'' @ fromUID), (''to'', toUID), (''time'', t)]
                  (html_escape text) xd2)
      in if direct then
           with_new_child ''marti'' [] [] (\<lambda>marti. fst (AddChild ''dest'' [(''callsign'', chatroom)] [] marti)) xd3
         else xd3)"

definition geochat_uid :: "string \<Rightarrow> string \<Rightarrow> string \<Rightarrow> string" where
  "geochat_uid fromUID toUID mid = ''GeoChat.'' @ fromUID @ ''.'' @ toUID @ ''.'' @ mid"

definition chat_msg :: "clock3 \<Rightarrow> string \<Rightarrow> Node option \<Rightarrow> TakMessage" where
  "chat_msg now uid xd =
     set_event (\<lambda>e. e\<lparr>ceHow := ''h-g-i-g-o'', ceDetail := Some (new_Detail\<lparr>dXmlDetail := AsXMLString xd\<rparr>)\<rparr>)
       (BasicMsg now ''b-t-f'' uid (10 * second))"

definition MakeChatMessage :: "clock3 \<Rightarrow> string \<Rightarrow> ChatMessage \<Rightarrow> TakMessage" where
  "MakeChatMessage now t c =
     chat_msg now (geochat_uid (chFromUID c) (chToUID c) (chID c))
       (chat_detail t (chFromUID c) (chToUID c) (chChatroom c) (chFrom c) (chParent c) (chID c) (chText c) (chDirect c))"

section \<open>pkg/chat/chat\_message.go\<close>

record StoredChat =
  scMsg :: "CotMessage option"
  scReceived :: time

definition FromCot :: "time \<Rightarrow> CotMessage option \<Rightarrow> StoredChat" where
  "FromCot now c = \<lparr>scMsg = c, scReceived = now\<rparr>"

abbreviation chat_node :: "StoredChat option \<Rightarrow> Node option" where
  "chat_node c \<equiv> GetFirst ''__chat'' (GetDetail (pget None scMsg c))"

abbreviation share_node :: "StoredChat option \<Rightarrow> Node option" where
  "share_node c \<equiv> GetFirst ''fileshare'' (GetDetail (pget None scMsg c))"

definition GetMessageID :: "StoredChat option \<Rightarrow> string" where
  "GetMessageID c = (if pget None scMsg c = None then [] else GetAttr ''messageId'' (chat_node c))"

definition GetChatroom :: "StoredChat option \<Rightarrow> string" where
  "GetChatroom c = (if pget None scMsg c = None then [] else GetAttr ''chatroom'' (chat_node c))"

definition GetCallsignFrom :: "StoredChat option \<Rightarrow> string" where
  "GetCallsignFrom c =
     (if pget None scMsg c = None then []
      else cmp_Or (GetAttr ''senderCallsign'' (chat_node c)) (GetAttr ''senderCallsign'' (share_node c)))"

definition GetUIDTo :: "StoredChat option \<Rightarrow> string" where
  "GetUIDTo c = (if pget None scMsg c = None then [] else GetAttr ''id'' (chat_node c))"

definition GetUIDFrom :: "StoredChat option \<Rightarrow> string" where
  "GetUIDFrom c =
     (if pget None scMsg c = None then []
      else cmp_Or (GetAttr ''uid0'' (GetFirst ''chatgrp'' (chat_node c)))
             (cmp_Or (GetAttr ''senderUid'' (share_node c))
                     (GetAttr ''uid'' (GetFirstLink ''p-p'' (pget None scMsg c)))))"

definition ChatText :: "(string \<Rightarrow> string) \<Rightarrow> StoredChat option \<Rightarrow> string" where
  "ChatText unescape c =
     (if pget None scMsg c = None then []
      else case GetFirst ''remarks'' (GetDetail (pget None scMsg c)) of
             None \<Rightarrow> [] | Some rem \<Rightarrow> unescape (GetText (Some rem)))"

definition MakeServerChat :: "clock3 \<Rightarrow> string \<Rightarrow> string \<Rightarrow> string \<Rightarrow> string \<Rightarrow> string \<Rightarrow> string \<Rightarrow> string \<Rightarrow> string \<Rightarrow> TakMessage" where
  "MakeServerChat now t uuid toUID fromUID chatroom from parent text =
     chat_msg now (geochat_uid fromUID toUID uuid)
       (chat_detail t fromUID toUID chatroom from parent uuid text (chatroom \<noteq> toUID))"

section \<open>pkg/chat/storage.go\<close>

type_synonym Storage = "(string, StoredChat) smap"

definition Storage_Add :: "StoredChat \<Rightarrow> Storage \<Rightarrow> Storage" where
  "Storage_Add c s = smStore (GetUID (scMsg c)) c s"

text \<open>Deletes by the message's uid, which is its key.\<close>

definition Storage_clean :: "time \<Rightarrow> Storage \<Rightarrow> Storage" where
  "Storage_clean now s =
     fold (\<lambda>(k, c) s. if GetStaleTime (scMsg c) < now then smDelete (GetUID (scMsg c)) s else s) (smRange s) s"

definition wanted :: "time \<Rightarrow> time \<Rightarrow> Item \<Rightarrow> StoredChat \<Rightarrow> bool" where
  "wanted now t1 item c =
     (let det = GetDetail (scMsg c)
      in if scReceived c < t1 \<or> GetStaleTime (scMsg c) < now then False
         else if GetDestMission det \<noteq> [] then False
         else if GetDestCallsign det \<noteq> [] then Item_GetCallsign item \<in> set (GetDestCallsign det)
         else if GetDestUid det \<noteq> [] then itUid item \<in> set (GetDestUid det)
         else True)"

definition GetFor :: "time \<Rightarrow> Item \<Rightarrow> time \<Rightarrow> Storage \<Rightarrow> CotMessage option list" where
  "GetFor now item t s =
     (let t1 = (if t = zero_time then now - hour * 24 else t)
      in map scMsg (filter (wanted now t1 item) (map snd (smRange s))))"

section \<open>A chat message made and read\<close>

lemma chat_detail_eq:
  "chat_detail t fromUID toUID chatroom from parent mid text direct =
    Some (Node [] ''detail'' [] []
      ([Node [] ''link'' (nonempty_attrs ((if fromUID \<noteq> [] then [(''uid'', fromUID)] else []) @ [(''relation'', ''p-p'')])) [] [],
        Node [] ''__chat'' (nonempty_attrs [(''parent'', parent), (''groupOwner'', ''false''), (''chatroom'', chatroom),
                    (''senderCallsign'', from), (''id'', toUID), (''messageId'', mid)]) []
          [Node [] ''chatgrp'' (nonempty_attrs [(''uid0'', fromUID), (''uid1'', toUID), (''id'', toUID)]) [] []],
        Node [] ''remarks'' (nonempty_attrs [(''source'', ''BAO.F.ATAK.'' @ fromUID), (''to'', toUID), (''time'', t)])
          (html_escape text) []] @
       (if direct then [Node [] ''marti'' [] [] [Node [] ''dest'' (nonempty_attrs [(''callsign'', chatroom)]) [] []]]
        else [])))"
  by (simp add: chat_detail_def AddPpLink_def AddChild_def NewXMLDetails_def NewNode_def with_child_def
      with_new_child_def AddOrChangeChild_def set_nodes_def Let_def)
    (simp add: nonempty_attrs_def)

lemma MsgToChat_detail:
  assumes "GetDetail m = chat_detail t (chFromUID c) (chToUID c) (chChatroom c) (chFrom c) (chParent c) (chID c) (chText c) d"
    and "unescape (html_escape (chText c)) = chText c"
  shows "MsgToChat unescape m = Some (c\<lparr>chTime := GetStartTime m, chDirect := (chChatroom c \<noteq> chToUID c)\<rparr>)"
proof -
  let ?link = "nonempty_attrs ((if chFromUID c \<noteq> [] then [(''uid'', chFromUID c)] else []) @ [(''relation'', ''p-p'')])"
  have link: "first_attr ''relation'' ?link = ''p-p''" "first_attr ''uid'' ?link = chFromUID c"
    by (simp_all add: nonempty_attrs_def first_attr_def)
  have l: "GetFirstLink ''p-p'' m = Some (Node [] ''link'' ?link [] [])"
    using link by (simp add: GetFirstLink_def assms(1) chat_detail_eq GetAll_def GetAttr_def)
  show ?thesis
    unfolding MsgToChat_def assms(1) chat_detail_eq l
    by (simp add: GetFirst_def GetAttr_def first_attr_nonempty link GetText_def assms(2))
qed

section \<open>Conversations\<close>

definition chats_inv :: "string \<Rightarrow> ChatMessages \<Rightarrow> bool" where
  "chats_inv me m \<longleftrightarrow> csUid m = me \<and> smap_wf (csChats m) \<and>
     map_all (\<lambda>k c. ctUID c = k \<and> distinct (map chID (ctMessages c)) \<and>
       (\<forall>x \<in> set (ctMessages c). fst (chat_key me x) = k)) (smLoad (csChats m))"

definition in_chat :: "ChatMessages \<Rightarrow> string \<Rightarrow> string \<Rightarrow> bool" where
  "in_chat m uid mid \<longleftrightarrow> (\<exists>c. smLoad (csChats m) uid = Some c \<and> mid \<in> chID ` set (ctMessages c))"

definition added :: "string \<Rightarrow> ChatMessage \<Rightarrow> Chat \<Rightarrow> Chat" where
  "added callsign msg c =
     (let c' = fst (chat_add msg c) in if ctFrom c' = [] then c'\<lparr>ctFrom := callsign\<rparr> else c')"

lemma getMsg_None: "getMsg mid c = None \<longleftrightarrow> mid \<notin> chID ` set (ctMessages c)"
  by (auto simp: getMsg_def find_None_iff)

lemma added_simps:
  "ctUID (added cs msg c) = ctUID c"
  "ctMessages (added cs msg c) = (if chID msg \<in> chID ` set (ctMessages c) then ctMessages c else msg # ctMessages c)"
  by (simp_all add: added_def chat_add_def Let_def getMsg_None)

lemma Add_load:
  assumes "chat_key (csUid m) msg = (uid, cs)"
  shows "smLoad (csChats (ChatMessages_Add msg m)) =
    (smLoad (csChats m))(uid \<mapsto> (case smLoad (csChats m) uid of
        Some c \<Rightarrow> added cs msg c | None \<Rightarrow> \<lparr>ctFrom = cs, ctUID = uid, ctMessages = [msg]\<rparr>))"
  unfolding ChatMessages_Add_def assms prod.case added_def [symmetric]
  by (simp add: smLoad_modify syncmap.load_store split: option.split)

lemma Add_inv:
  assumes "chats_inv me m"
  shows "chats_inv me (ChatMessages_Add msg m)"
proof -
  obtain uid cs where k: "chat_key (csUid m) msg = (uid, cs)" by fastforce
  have me: "csUid m = me" and wf: "smap_wf (csChats m)" using assms by (simp_all add: chats_inv_def)
  have "smap_wf (csChats (ChatMessages_Add msg m))"
    using wf by (simp add: ChatMessages_Add_def k smap_wf_modify syncmap.wf_store split: option.split)
  moreover have "csUid (ChatMessages_Add msg m) = me" by (simp add: ChatMessages_Add_def me split: prod.split)
  moreover have "fst (chat_key me msg) = uid" using k me by simp
  ultimately show ?thesis
    using assms unfolding chats_inv_def Add_load [OF k]
    by (auto simp: map_all_def added_simps split: option.splits)
qed

lemma in_chat_Add:
  "in_chat (ChatMessages_Add msg m) uid mid \<longleftrightarrow>
   in_chat m uid mid \<or> (uid = fst (chat_key (csUid m) msg) \<and> mid = chID msg)"
proof -
  obtain u cs where k: "chat_key (csUid m) msg = (u, cs)" by fastforce
  show ?thesis
    unfolding in_chat_def Add_load [OF k] k
    by (cases "smLoad (csChats m) u") (auto simp: added_simps)
qed

lemma Adds_inv: "chats_inv me m \<Longrightarrow> chats_inv me (fold ChatMessages_Add ms m)"
  by (induction ms arbitrary: m) (auto intro: Add_inv)

lemma in_chat_Adds:
  "csUid m = me \<Longrightarrow> in_chat (fold ChatMessages_Add ms m) uid mid \<longleftrightarrow>
   in_chat m uid mid \<or> (\<exists>x \<in> set ms. uid = fst (chat_key me x) \<and> mid = chID x)"
proof (induction ms arbitrary: m)
  case (Cons x ms)
  have "csUid (ChatMessages_Add x m) = me"
    using Cons.prems by (simp add: ChatMessages_Add_def case_prod_beta Let_def)
  from Cons.IH [OF this] Cons.prems show ?case by (auto simp: in_chat_Add)
qed simp

section \<open>The store\<close>

definition storage_inv :: "Storage \<Rightarrow> bool" where
  "storage_inv s \<longleftrightarrow> smap_wf s \<and> map_all (\<lambda>k c. GetUID (scMsg c) = k) (smLoad s)"

lemma Storage_Add_inv: "storage_inv s \<Longrightarrow> storage_inv (Storage_Add c s)"
  by (auto simp: storage_inv_def Storage_Add_def syncmap.load_store intro: syncmap.wf_store)

definition stale :: "time \<Rightarrow> StoredChat \<Rightarrow> bool" where
  "stale now c \<longleftrightarrow> GetStaleTime (scMsg c) < now"

lemma Storage_clean_dels:
  "Storage_clean now s = fold smDelete (map (GetUID \<circ> scMsg \<circ> snd) (filter (stale now \<circ> snd) (smRange s))) s"
proof -
  have "fold (\<lambda>(k, c) s. if GetStaleTime (scMsg c) < now then smDelete (GetUID (scMsg c)) s else s) xs s0 =
      fold smDelete (map (GetUID \<circ> scMsg \<circ> snd) (filter (stale now \<circ> snd) xs)) s0" for xs :: "(string \<times> StoredChat) list" and s0
    by (induction xs arbitrary: s0) (auto simp: stale_def)
  then show ?thesis by (simp add: Storage_clean_def)
qed

lemma Storage_clean_inv: "storage_inv s \<Longrightarrow> storage_inv (Storage_clean now s)"
  by (auto simp: storage_inv_def Storage_clean_dels syncmap.load_dels map_all_def intro: syncmap.wf_dels)

lemma Storage_clean_load:
  assumes "storage_inv s"
  shows "smLoad (Storage_clean now s) k = Some c \<longleftrightarrow> smLoad s k = Some c \<and> \<not> stale now c"
proof -
  have wf: "smap_wf s" and uid: "\<And>k c. smLoad s k = Some c \<Longrightarrow> GetUID (scMsg c) = k"
    using assms by (auto simp: storage_inv_def map_all_def)
  have "k \<in> set (map (GetUID \<circ> scMsg \<circ> snd) (filter (stale now \<circ> snd) (smRange s))) \<longleftrightarrow>
      (\<exists>k' c. smLoad s k' = Some c \<and> stale now c \<and> GetUID (scMsg c) = k)"
    by (force simp: syncmap.range_load [OF wf, symmetric])
  also have "\<dots> \<longleftrightarrow> (\<exists>c. smLoad s k = Some c \<and> stale now c)" using uid by metis
  finally show ?thesis by (auto simp: Storage_clean_dels syncmap.load_dels)
qed

section \<open>Properties\<close>


definition example_chat :: ChatMessage where
  "example_chat = \<lparr>chID = ''m1'', chTime = 0, chParent = [], chChatroom = ''Bob'', chFrom = ''Al'',
     chFromUID = ''u1'', chToUID = ''u2'', chDirect = True, chText = ''a<b''\<rparr>"


text \<open>
  A client's conversations hold every message once. After any messages are added to a new
  list of conversations, each conversation stands under its own uid, holds no message id
  twice, and holds only messages that belong to it; and the ids it holds are exactly those of
  the messages that belong to it, a direct message to us belonging to its sender.
\<close>

theorem conversations:
  "chats_inv me (fold ChatMessages_Add ms (NewChatMessages me)) \<and>
   (in_chat (fold ChatMessages_Add ms (NewChatMessages me)) uid mid \<longleftrightarrow>
    (\<exists>x \<in> set ms. uid = fst (chat_key me x) \<and> mid = chID x))"
proof -
  have "chats_inv me (NewChatMessages me)"
    by (simp add: chats_inv_def NewChatMessages_def smap_wf_def smLoad_def map_all_def)
  moreover have "\<not> in_chat (NewChatMessages me) uid mid"
    by (simp add: in_chat_def NewChatMessages_def smLoad_def)
  moreover have "csUid (NewChatMessages me) = me" by (simp add: NewChatMessages_def)
  ultimately show ?thesis using Adds_inv in_chat_Adds by blast
qed

text \<open>
  C13: cleaning the chat store is not visible. For every store in which messages stand under
  their uid (which \<open>Add\<close> and \<open>clean\<close> keep), a contact that connects after a cleaning gets
  exactly the messages it would have got without it: those received since it was last seen,
  not stale, not for a mission, and addressed to everybody, to its callsign or to its uid.
\<close>

theorem clean_invisible:
  assumes "storage_inv s" "now \<le> now'"
  shows "storage_inv (Storage_clean now s) \<and> storage_inv (Storage_Add c s) \<and>
    set (GetFor now' item t (Storage_clean now s)) = set (GetFor now' item t s)"
proof -
  have wf: "smap_wf s" "smap_wf (Storage_clean now s)"
    using assms(1) Storage_clean_inv by (auto simp: storage_inv_def)
  have *: "set (GetFor now' item t x) =
      {scMsg c | c k. smLoad x k = Some c \<and> wanted now' (if t = zero_time then now' - hour * 24 else t) item c}"
    if "smap_wf x" for x
    using syncmap.range_load [OF that] by (force simp: GetFor_def Let_def)
  have "stale now c \<Longrightarrow> \<not> wanted now' t1 item c" for c t1
    using assms(2) by (auto simp: stale_def wanted_def Let_def)
  then have "set (GetFor now' item t (Storage_clean now s)) = set (GetFor now' item t s)"
    unfolding * [OF wf(1)] * [OF wf(2)] Storage_clean_load [OF assms(1)] by blast
  then show ?thesis using Storage_clean_inv Storage_Add_inv assms(1) by blast
qed

theorem clean_invisible_witness:
  "\<forall>i. set (GetFor 5 i 0 (Storage_clean 5 (Storage_Add (FromCot 3 (Some example_msg)) []))) =
       set (GetFor 5 i 0 (Storage_Add (FromCot 3 (Some example_msg)) []))"
proof
  fix i
  have s: "storage_inv (Storage_Add (FromCot 3 (Some example_msg)) [])"
    by (rule Storage_Add_inv) (simp add: storage_inv_def)
  show "set (GetFor 5 i 0 (Storage_clean 5 (Storage_Add (FromCot 3 (Some example_msg)) []))) =
      set (GetFor 5 i 0 (Storage_Add (FromCot 3 (Some example_msg)) []))"
    using clean_invisible [OF s, of 5 5] by simp
qed

end
