(* ===== verification/TakWs.thy ===== *)
theory TakWs
  imports ClientHandler ItemModel ChatModel
begin

text \<open>
  The two web socket handlers: \<open>cmd/goatak_server/tak_ws/tak_ws.go\<close>, a client of the server that
  sends and receives protobuf packets, and \<open>internal/wshandler/ws.go\<close>, a listener that gets the
  changes of the map as JSON. The socket itself (reads, writes, close) is outside; \<open>whForwarded\<close>
  is what the handler gave to \<open>messageCb\<close>.
\<close>

section \<open>WsClientHandler\<close>

record WsHandler =
  whName :: string
  whUser :: "Device option"
  whCh :: "string list"
  whUids :: "(string, string) smap"
  whActive :: bool
  whForwarded :: "CotMessage list"

definition wsCap :: nat where "wsCap = 10"

definition NewWsHandler :: "string \<Rightarrow> Device option \<Rightarrow> WsHandler" where
  "NewWsHandler name user =
     \<lparr>whName = name, whUser = user, whCh = [], whUids = [], whActive = True, whForwarded = []\<rparr>"

definition ws_GetVersion :: "WsHandler \<Rightarrow> int" where "ws_GetVersion w = 1"
definition ws_GetUids :: "WsHandler \<Rightarrow> (string, string) smap" where "ws_GetUids w = smRange (whUids w)"
definition ws_HasUID :: "WsHandler \<Rightarrow> string \<Rightarrow> bool" where "ws_HasUID w uid \<longleftrightarrow> smLoad (whUids w) uid \<noteq> None"

definition ws_HasCallsign :: "WsHandler \<Rightarrow> string \<Rightarrow> bool" where
  "ws_HasCallsign w callsign = list_ex (\<lambda>(_, v). v = callsign) (smRange (whUids w))"

definition ws_IsActive :: "WsHandler \<Rightarrow> bool" where "ws_IsActive w = whActive w"

definition ws_tryAddPacket :: "string \<Rightarrow> WsHandler \<Rightarrow> WsHandler \<times> bool" where
  "ws_tryAddPacket msg w =
     (if \<not> ws_IsActive w then (w, False) else (w\<lparr>whCh := fst (chan_send wsCap msg (whCh w))\<rparr>, True))"

definition ws_SendCot :: "codec \<Rightarrow> TakMessage option \<Rightarrow> WsHandler \<Rightarrow> WsHandler \<times> gofail option" where
  "ws_SendCot c msg w =
     (case MakeProtoPacket (cdProtoMarshal c) msg of
        Inl err \<Rightarrow> (w, Some err)
      | Inr dat \<Rightarrow> (case ws_tryAddPacket dat w of (w', ok) \<Rightarrow> (w', if ok then None else Some client_off)))"

definition ws_SendMsg :: "codec \<Rightarrow> CotMessage \<Rightarrow> WsHandler \<Rightarrow> WsHandler \<times> gofail option" where
  "ws_SendMsg c msg w =
     (if IsLocal msg \<or> CanSeeScope (whUser w) (cmScope msg) then ws_SendCot c (GetTakMessage (Some msg)) w else (w, None))"

definition ws_Stop :: "WsHandler \<Rightarrow> WsHandler" where
  "ws_Stop w = (if whActive w then w\<lparr>whActive := False\<rparr> else w)"

text \<open>One packet of the channel, \<open>ok\<close> telling whether the socket takes it.\<close>

definition ws_write :: "bool \<Rightarrow> WsHandler \<Rightarrow> WsHandler" where
  "ws_write ok w = (case chan_recv (whCh w) of
     None \<Rightarrow> w | Some (_, q) \<Rightarrow> (let w' = w\<lparr>whCh := q\<rparr> in if ok then w' else ws_Stop w'))"

definition ws_parse :: "codec \<Rightarrow> string \<Rightarrow> WsHandler \<Rightarrow> gofail option \<times> WsHandler" where
  "ws_parse c b w =
     (case ReadProto (cdProtoUnmarshal c) b of
        (Inl err, _) \<Rightarrow> (Some err, w)
      | (Inr msg, _) \<Rightarrow>
          (case CotFromProto (cdDecode c) (Some msg) (whName w) (Device_GetScope (whUser w)) of
             (_, Some err) \<Rightarrow> (Some (Error err), w)
           | (None, None) \<Rightarrow> (None, w)
           | (Some m, None) \<Rightarrow>
               (let cotmsg = Some m;
                    w1 = (if IsContact cotmsg
                          then w\<lparr>whUids := smStore (TrimSuffix (CotEvent_Uid (TakMessage_CotEvent (Some msg))) ''-ping'')
                                   (GetCallsign cotmsg) (whUids w)\<rparr> else w);
                    w2 = (if GetType cotmsg = ''t-x-d-d'' \<and> GetDetail cotmsg \<noteq> None \<and> Has ''link'' (GetDetail cotmsg)
                          then w1\<lparr>whUids := smDelete (GetAttr ''uid'' (GetFirst ''link'' (GetDetail cotmsg))) (whUids w1)\<rparr>
                          else w1)
                in (None, w2\<lparr>whForwarded := whForwarded w2 @ [m]\<rparr>))))"

text \<open>A frame from the socket: an error ends the loop, a text frame is skipped.\<close>

datatype frame = ReadError | TextFrame | Binary string

definition ws_read :: "codec \<Rightarrow> frame \<Rightarrow> WsHandler \<Rightarrow> WsHandler" where
  "ws_read c f w = (case f of
     ReadError \<Rightarrow> ws_Stop w | TextFrame \<Rightarrow> w
   | Binary b \<Rightarrow> (case ws_parse c b w of (Some (Panic _), w') \<Rightarrow> ws_Stop w' | (_, w') \<Rightarrow> w'))"

section \<open>JSONWsHandler\<close>

datatype WebMessage = WmUnit "WebUnit option result" | WmDelete string | WmChat "ChatMessage option"

record JSONWsHandler =
  jwName :: string
  jwCh :: "WebMessage list"
  jwActive :: bool
  jwWritten :: "WebMessage list"

definition NewJSONHandler :: "string \<Rightarrow> JSONWsHandler" where
  "NewJSONHandler name = \<lparr>jwName = name, jwCh = [], jwActive = True, jwWritten = []\<rparr>"

definition json_IsActive :: "JSONWsHandler option \<Rightarrow> bool" where
  "json_IsActive w = pget False jwActive w"

definition json_stop :: "JSONWsHandler \<Rightarrow> JSONWsHandler" where
  "json_stop w = (if jwActive w then w\<lparr>jwActive := False\<rparr> else w)"

text \<open>The non-blocking send that the three callbacks share; they report whether to stay subscribed.\<close>

definition json_push :: "WebMessage \<Rightarrow> JSONWsHandler option \<Rightarrow> JSONWsHandler option \<times> bool" where
  "json_push m w = (if \<not> json_IsActive w then (w, False)
     else (map_option (\<lambda>w. w\<lparr>jwCh := fst (chan_send wsCap m (jwCh w))\<rparr>) w, True))"

definition SendItem :: "(string \<Rightarrow> string) \<Rightarrow> Item \<Rightarrow> JSONWsHandler option \<Rightarrow> JSONWsHandler option \<times> bool" where
  "SendItem up i w = json_push (WmUnit (case ToWeb up i of Inl e \<Rightarrow> Inl e | Inr u \<Rightarrow> Inr (Some u))) w"

definition DeleteItem :: "string \<Rightarrow> JSONWsHandler option \<Rightarrow> JSONWsHandler option \<times> bool" where
  "DeleteItem uid w = json_push (WmDelete uid) w"

definition NewChatMessage :: "ChatMessage option \<Rightarrow> JSONWsHandler option \<Rightarrow> JSONWsHandler option \<times> bool" where
  "NewChatMessage msg w = json_push (WmChat msg) w"

text \<open>The writer: a message received after the stop ends it.\<close>

definition json_write :: "JSONWsHandler \<Rightarrow> JSONWsHandler" where
  "json_write w = (case chan_recv (jwCh w) of
     None \<Rightarrow> w
   | Some (m, q) \<Rightarrow> (if jwActive w then w\<lparr>jwCh := q, jwWritten := jwWritten w @ [m]\<rparr> else w\<lparr>jwCh := q\<rparr>))"

end
