(* ===== verification/ItemsRepo.thy ===== *)
theory ItemsRepo
  imports ItemModel
begin

text \<open>
  \<open>internal/repository/items_repo.go\<close>: the items on the map, in a \<open>sync.Map\<close> under their uid.
  The two callbacks (a library's) are the list of the messages given to them. A stored item is
  shared by pointer: a change of it is a change of the entry.
\<close>

section \<open>The code\<close>

datatype repo_event = Changed Item | Deleted string

record ItemsMemoryRepo =
  rpItems :: "(string, Item) smap"
  rpOfflineTimeout :: int
  rpEvents :: "repo_event list"

definition NewItemsMemoryRepo :: "int list \<Rightarrow> ItemsMemoryRepo" where
  "NewItemsMemoryRepo tm =
     \<lparr>rpItems = [], rpOfflineTimeout = (case tm of t # _ \<Rightarrow> (if t > 0 then t else minute * 5) | [] \<Rightarrow> minute * 5),
      rpEvents = []\<rparr>"

definition emit :: "repo_event \<Rightarrow> ItemsMemoryRepo \<Rightarrow> ItemsMemoryRepo" where
  "emit e r = r\<lparr>rpEvents := rpEvents r @ [e]\<rparr>"

definition Store :: "Item option \<Rightarrow> ItemsMemoryRepo \<Rightarrow> ItemsMemoryRepo" where
  "Store i r = (case i of None \<Rightarrow> r
     | Some it \<Rightarrow> emit (Changed it) (r\<lparr>rpItems := smStore (itUid it) it (rpItems r)\<rparr>))"

definition Repo_Get :: "ItemsMemoryRepo \<Rightarrow> string \<Rightarrow> Item option" where
  "Repo_Get r uid = smLoad (rpItems r) uid"

definition GetByCallsign :: "ItemsMemoryRepo \<Rightarrow> string \<Rightarrow> Item option" where
  "GetByCallsign r callsign = find (\<lambda>i. Item_GetCallsign i = callsign) (map snd (smRange (rpItems r)))"

definition Repo_Remove :: "string \<Rightarrow> ItemsMemoryRepo \<Rightarrow> ItemsMemoryRepo" where
  "Repo_Remove uid r =
     (case smLoad (rpItems r) uid of
        None \<Rightarrow> r | Some _ \<Rightarrow> emit (Deleted uid) (r\<lparr>rpItems := smDelete uid (rpItems r)\<rparr>))"

definition Repo_GetCallsign :: "ItemsMemoryRepo \<Rightarrow> string \<Rightarrow> string" where
  "Repo_GetCallsign r uid = pget [] Item_GetCallsign (Repo_Get r uid)"

text \<open>A change of a stored item through its pointer.\<close>

definition change_item :: "string \<Rightarrow> (Item \<Rightarrow> Item) \<Rightarrow> ItemsMemoryRepo \<Rightarrow> ItemsMemoryRepo" where
  "change_item uid f r = r\<lparr>rpItems := smModify uid f (rpItems r)\<rparr>"

text \<open>One visit of the cleaner: the entry \<open>(k, item)\<close>, the repository and the uids to delete.\<close>

definition clean_visit :: "time \<Rightarrow> string \<times> Item \<Rightarrow> ItemsMemoryRepo \<times> string list \<Rightarrow> ItemsMemoryRepo \<times> string list" where
  "clean_visit now = (\<lambda>(k, item) (r, toDelete).
     if itClass item = UNIT \<or> itClass item = POINT then
       (if IsOld now item then (r, toDelete @ [itUid item]) else (r, toDelete))
     else if itClass item = CONTACT then
       (if IsOld now item then (r, toDelete @ [itUid item])
        else if itOnline item \<and> Since now (itLastSeen item) > rpOfflineTimeout r then
          (emit (Changed (SetOffline item)) (change_item k SetOffline r), toDelete)
        else (r, toDelete))
     else (r, toDelete))"

definition cleanOldUnits :: "time \<Rightarrow> ItemsMemoryRepo \<Rightarrow> ItemsMemoryRepo" where
  "cleanOldUnits now r =
     (let (r', toDelete) = fold (clean_visit now) (smRange (rpItems r)) (r, [])
      in fold Repo_Remove toDelete r')"

section \<open>Invariant\<close>

definition repo_inv :: "ItemsMemoryRepo \<Rightarrow> bool" where
  "repo_inv r \<longleftrightarrow> smap_wf (rpItems r) \<and> map_all (\<lambda>k i. itUid i = k) (smLoad (rpItems r))"

lemma repo_inv_D: "repo_inv r \<Longrightarrow> Repo_Get r k = Some i \<Longrightarrow> itUid i = k"
  by (simp add: repo_inv_def Repo_Get_def map_all_def)

lemma emit_simps [simp]: "rpItems (emit e r) = rpItems r" "rpOfflineTimeout (emit e r) = rpOfflineTimeout r"
  "rpEvents (emit e r) = rpEvents r @ [e]"
  by (simp_all add: emit_def)

lemma new_inv: "repo_inv (NewItemsMemoryRepo tm)"
  by (simp add: repo_inv_def NewItemsMemoryRepo_def)

lemma Store_inv: "repo_inv r \<Longrightarrow> repo_inv (Store i r)"
  by (cases i) (auto simp: repo_inv_def Store_def syncmap.load_store intro: syncmap.wf_store)

lemma Remove_inv: "repo_inv r \<Longrightarrow> repo_inv (Repo_Remove uid r)"
  by (auto simp: repo_inv_def Repo_Remove_def syncmap.load_del intro: syncmap.wf_del split: option.splits)

lemma change_inv: "repo_inv r \<Longrightarrow> (\<And>i. itUid (f i) = itUid i) \<Longrightarrow> repo_inv (change_item uid f r)"
  by (auto simp: repo_inv_def change_item_def smLoad_modify map_all_def intro: smap_wf_modify)

lemma Get_Store: "Repo_Get (Store (Some i) r) k = (if k = itUid i then Some i else Repo_Get r k)"
  by (simp add: Repo_Get_def Store_def syncmap.load_store)

lemma Get_Remove: "Repo_Get (Repo_Remove uid r) k = (if k = uid then None else Repo_Get r k)"
  by (auto simp: Repo_Get_def Repo_Remove_def syncmap.load_del split: option.splits)

lemma Get_change: "Repo_Get (change_item uid f r) k = (if k = uid then map_option f (Repo_Get r k) else Repo_Get r k)"
  by (simp add: Repo_Get_def change_item_def smLoad_modify)

lemma Get_Removes: "Repo_Get (fold Repo_Remove uids r) k = (if k \<in> set uids then None else Repo_Get r k)"
  by (induction uids arbitrary: r) (auto simp: Get_Remove)

section \<open>What the cleaner does\<close>

definition expired :: "time \<Rightarrow> Item \<Rightarrow> bool" where
  "expired now i \<longleftrightarrow> itClass i \<in> {UNIT, POINT, CONTACT} \<and> IsOld now i"

definition silent :: "time \<Rightarrow> int \<Rightarrow> Item \<Rightarrow> bool" where
  "silent now timeout i \<longleftrightarrow> itClass i = CONTACT \<and> \<not> IsOld now i \<and> itOnline i \<and> Since now (itLastSeen i) > timeout"

lemma clean_visit_cases:
  "clean_visit now (k, i) (r, del) =
     ((if silent now (rpOfflineTimeout r) i then emit (Changed (SetOffline i)) (change_item k SetOffline r) else r),
      del @ (if expired now i then [itUid i] else []))"
  by (auto simp: clean_visit_def expired_def silent_def class_names)

lemma clean_visits:
  "distinct (map fst xs) \<Longrightarrow> fold (clean_visit now) xs (r, del) = (r', del') \<Longrightarrow>
   rpOfflineTimeout r' = rpOfflineTimeout r \<and>
   del' = del @ map (itUid \<circ> snd) (filter (expired now \<circ> snd) xs) \<and>
   (\<forall>k. Repo_Get r' k = (case map_of xs k of
      Some i \<Rightarrow> (if silent now (rpOfflineTimeout r) i then map_option SetOffline (Repo_Get r k) else Repo_Get r k)
    | None \<Rightarrow> Repo_Get r k))"
proof (induction xs arbitrary: r del)
  case (Cons x xs)
  obtain k i where x: "x = (k, i)" by fastforce
  let ?r = "if silent now (rpOfflineTimeout r) i then emit (Changed (SetOffline i)) (change_item k SetOffline r) else r"
  have t: "rpOfflineTimeout ?r = rpOfflineTimeout r" by (simp add: change_item_def)
  have g: "Repo_Get ?r k' = (if k' = k \<and> silent now (rpOfflineTimeout r) i then map_option SetOffline (Repo_Get r k')
      else Repo_Get r k')" for k'
    using Get_change [of k SetOffline r k'] by (auto simp: Repo_Get_def)
  have "k \<notin> fst ` set xs" using Cons.prems(1) x by simp
  then have m: "map_of xs k = None" by (simp add: map_of_eq_None_iff)
  have "fold (clean_visit now) xs (?r, del @ (if expired now i then [itUid i] else [])) = (r', del')"
    using Cons.prems(2) x by (simp add: clean_visit_cases)
  from Cons.IH [OF _ this] Cons.prems(1) x show ?case
    unfolding t g by (auto simp: m)
qed simp

lemma cleanOldUnits_Get:
  assumes "repo_inv r"
  shows "Repo_Get (cleanOldUnits now r) k =
    (case Repo_Get r k of
       None \<Rightarrow> None
     | Some i \<Rightarrow> (if expired now i then None
                 else if silent now (rpOfflineTimeout r) i then Some (SetOffline i) else Some i))"
proof -
  have wf: "smap_wf (rpItems r)" using assms by (simp add: repo_inv_def)
  note uid = repo_inv_D [OF assms]
  obtain r' del where f: "fold (clean_visit now) (smRange (rpItems r)) (r, []) = (r', del)" by fastforce
  have d: "distinct (map fst (smRange (rpItems r)))" using wf by (rule syncmap.range_distinct)
  note v = clean_visits [OF d f]
  have mo: "map_of (smRange (rpItems r)) = Repo_Get r" by (simp add: smRange_def Repo_Get_def smLoad_def fun_eq_iff)
  have "k \<in> set del \<longleftrightarrow> (\<exists>i. Repo_Get r k = Some i \<and> expired now i)"
  proof -
    have "k \<in> set del \<longleftrightarrow> (\<exists>k' i. (k', i) \<in> set (smRange (rpItems r)) \<and> expired now i \<and> itUid i = k)"
      using v by force
    also have "\<dots> \<longleftrightarrow> (\<exists>k' i. Repo_Get r k' = Some i \<and> expired now i \<and> itUid i = k)"
      by (simp add: syncmap.range_load [OF wf] Repo_Get_def)
    finally show ?thesis using uid by metis
  qed
  moreover have "Repo_Get (cleanOldUnits now r) k = (if k \<in> set del then None else Repo_Get r' k)"
    using f by (simp add: cleanOldUnits_def Get_Removes)
  ultimately show ?thesis using v mo by (auto split: option.splits)
qed

section \<open>Histories\<close>

text \<open>What the rest of the program does to the repository, one operation at a time.\<close>

datatype repo_op =
    OpStore "Item option"
  | OpRemove string
  | OpUpdate string time "CotMessage option"
  | OpSetOnline string time
  | OpSetOffline string
  | OpSetFlags string bool bool
  | OpClean time

fun apply_op :: "repo_op \<Rightarrow> ItemsMemoryRepo \<Rightarrow> ItemsMemoryRepo" where
  "apply_op (OpStore i) r = Store i r"
| "apply_op (OpRemove uid) r = Repo_Remove uid r"
| "apply_op (OpUpdate uid now msg) r = change_item uid (Update now msg) r"
| "apply_op (OpSetOnline uid now) r = change_item uid (SetOnline now) r"
| "apply_op (OpSetOffline uid) r = change_item uid SetOffline r"
| "apply_op (OpSetFlags uid loc sn) r = change_item uid (\<lambda>i. SetSend sn (SetLocal loc i)) r"
| "apply_op (OpClean now) r = cleanOldUnits now r"

lemma Removes_inv: "repo_inv r \<Longrightarrow> repo_inv (fold Repo_Remove uids r)"
  by (induction uids arbitrary: r) (auto intro: Remove_inv)

lemma emit_inv [simp]: "repo_inv (emit e r) = repo_inv r"
  by (simp add: repo_inv_def)

lemma visits_inv: "repo_inv r \<Longrightarrow> repo_inv (fst (fold (clean_visit now) xs (r, del)))"
proof (induction xs arbitrary: r del)
  case (Cons x xs)
  then show ?case by (cases x) (simp add: clean_visit_cases change_inv)
qed simp

lemma clean_inv: "repo_inv r \<Longrightarrow> repo_inv (cleanOldUnits now r)"
  using visits_inv [of r now "smRange (rpItems r)" "[]"]
  by (simp add: cleanOldUnits_def case_prod_beta Removes_inv)

lemma apply_op_inv: "repo_inv r \<Longrightarrow> repo_inv (apply_op op r)"
  by (cases op) (auto intro!: Store_inv Remove_inv change_inv clean_inv
      simp: SetOnline_def SetSend_def SetLocal_def)

lemma history_repo_inv: "repo_inv r \<Longrightarrow> repo_inv (fold apply_op ops r)"
  by (induction ops arbitrary: r) (auto intro: apply_op_inv)

section \<open>Properties\<close>

text \<open>
  C10: an item is stored under its own uid, once. Whatever operations are applied to a new
  repository, in any order, the entry found under a uid is an item with that uid, the keys
  are distinct, and \<open>Range\<close> visits exactly the items \<open>Get\<close> returns.
\<close>

theorem repo_keys:
  "repo_inv (fold apply_op ops (NewItemsMemoryRepo tm)) \<and>
   (Repo_Get (fold apply_op ops (NewItemsMemoryRepo tm)) uid = Some i \<longleftrightarrow>
    (uid, i) \<in> set (smRange (rpItems (fold apply_op ops (NewItemsMemoryRepo tm)))))"
proof -
  have inv: "repo_inv (fold apply_op ops (NewItemsMemoryRepo tm))"
    by (rule history_repo_inv [OF new_inv])
  then have wf: "smap_wf (rpItems (fold apply_op ops (NewItemsMemoryRepo tm)))" by (simp add: repo_inv_def)
  show ?thesis using inv syncmap.range_load [OF wf, of uid i] by (simp add: Repo_Get_def)
qed

text \<open>
  C11: the cleaner removes exactly the expired items, sets exactly the silent contacts
  offline, and changes nothing else, in every state a history of operations can reach. A unit
  or point expires when its stale time is past, a contact when it has been offline and unseen
  for a day; a contact is silent when it is online and unseen for the configured time. (An
  item whose last message gave it no class is none of these, and is never removed.)
\<close>

theorem cleaner_exact:
  "Repo_Get (cleanOldUnits now (fold apply_op ops (NewItemsMemoryRepo tm))) k =
    (case Repo_Get (fold apply_op ops (NewItemsMemoryRepo tm)) k of
       None \<Rightarrow> None
     | Some i \<Rightarrow>
        (if expired now i then None
         else if silent now (rpOfflineTimeout (fold apply_op ops (NewItemsMemoryRepo tm))) i
         then Some (SetOffline i) else Some i))"
  by (rule cleanOldUnits_Get [OF history_repo_inv [OF new_inv]])

end
