(* ===== verification/MissionModel.thy ===== *)
theory MissionModel
  imports CotConvert DeviceModel
begin

text \<open>
  \<open>pkg/model\<close>: missions and what belongs to them (points, resources, changes, subscriptions,
  invitations), device profiles and video feeds, with the forms in which the API returns them
  (\<open>mission_dto.go\<close>, \<open>profile.go\<close>, \<open>video.go\<close>) and the notifications (\<open>messages.go\<close>). A list of
  pointers that the database fills has no nil in it and is a list of records. \<open>url.Parse\<close> and
  the protobuf codec of an event are arguments.
\<close>

section \<open>Resources\<close>

record Resource =
  rsID :: nat
  rsCreatedAt :: time
  rsScope :: string
  rsHash :: string
  rsUID :: string
  rsName :: string
  rsFileName :: string
  rsMIMEType :: string
  rsSize :: int
  rsFiles :: "string list"
  rsSubmissionUser :: string
  rsCreatorUID :: string
  rsTool :: string
  rsKeywords :: string
  rsGroups :: string
  rsExpiration :: int
  rsKwSet :: "StringSet option"

definition new_Resource :: Resource where
  "new_Resource = \<lparr>rsID = 0, rsCreatedAt = zero_time, rsScope = [], rsHash = [], rsUID = [], rsName = [],
     rsFileName = [], rsMIMEType = [], rsSize = 0, rsFiles = [], rsSubmissionUser = [], rsCreatorUID = [],
     rsTool = [], rsKeywords = [], rsGroups = [], rsExpiration = 0, rsKwSet = None\<rparr>"

definition Resource_String :: "Resource option \<Rightarrow> string" where
  "Resource_String c = (case c of None \<Rightarrow> ''nil''
     | Some r \<Rightarrow> ''file: '' @ rsFileName r @ '', scope: '' @ rsScope r @ '', uid: '' @ rsUID r @ '', hash: '' @ rsHash r)"

definition Resource_BeforeSave :: "string \<Rightarrow> Resource \<Rightarrow> Resource" where
  "Resource_BeforeSave uuid r0 =
     (let r = (if rsUID r0 = [] then r0\<lparr>rsUID := uuid\<rparr> else r0)
      in case rsKwSet r of None \<Rightarrow> r | Some s \<Rightarrow> r\<lparr>rsKeywords := StringSet_String s\<rparr>)"

definition Resource_AfterFind :: "Resource \<Rightarrow> Resource" where
  "Resource_AfterFind r = r\<lparr>rsKwSet := Some (StringToSet (rsKeywords r))\<rparr>"

text \<open>A nil set has no keys.\<close>

abbreviation kw_set :: "Resource \<Rightarrow> StringSet" where
  "kw_set r \<equiv> (case rsKwSet r of None \<Rightarrow> [] | Some s \<Rightarrow> s)"

section \<open>Points\<close>

text \<open>\<open>mpEvent\<close> is the event that is not stored; \<open>mpEventData\<close> its encoding, which is.\<close>

record MissionPoint =
  mpID :: nat
  mpUID :: string
  mpType :: string
  mpCallsign :: string
  mpScope :: string
  mpCreatedAt :: time
  mpUpdatedAt :: time
  mpStaleTime :: time
  mpCreatorUID :: string
  mpTitle :: string
  mpIconsetPath :: string
  mpColor :: string
  mpLat :: f64
  mpLon :: f64
  mpEventData :: string
  mpEvent :: "CotEvent option"

definition new_MissionPoint :: MissionPoint where
  "new_MissionPoint = \<lparr>mpID = 0, mpUID = [], mpType = [], mpCallsign = [], mpScope = [], mpCreatedAt = zero_time,
     mpUpdatedAt = zero_time, mpStaleTime = zero_time, mpCreatorUID = [], mpTitle = [], mpIconsetPath = [],
     mpColor = [], mpLat = 0, mpLon = 0, mpEventData = [], mpEvent = None\<rparr>"

definition MissionPoint_String :: "MissionPoint option \<Rightarrow> string" where
  "MissionPoint_String p = (case p of None \<Rightarrow> ''nil''
     | Some p \<Rightarrow> mpUID p @ '' '' @ mpCallsign p @ '' '' @ mpTitle p)"

text \<open>The event, and the point that now caches it; an error of \<open>Unmarshal\<close> is ignored.\<close>

definition MissionPoint_GetEvent ::
    "(string \<Rightarrow> CotEvent) \<Rightarrow> MissionPoint option \<Rightarrow> CotEvent option \<times> MissionPoint option" where
  "MissionPoint_GetEvent unmarshal p =
     (case p of
        None \<Rightarrow> (None, None)
      | Some q \<Rightarrow>
          (case mpEvent q of
             Some e \<Rightarrow> (Some e, p)
           | None \<Rightarrow>
               (let e = (if mpEventData q \<noteq> [] then unmarshal (mpEventData q) else new_CotEvent)
                in (Some e, Some (q\<lparr>mpEvent := Some e\<rparr>)))))"

definition MissionPoint_BeforeSave :: "(CotEvent \<Rightarrow> string result) \<Rightarrow> MissionPoint \<Rightarrow> MissionPoint result" where
  "MissionPoint_BeforeSave marshal p =
     (if mpUID p = [] then Inl (Error ''empty uid'')
      else case mpEvent p of
             None \<Rightarrow> Inr (p\<lparr>mpEventData := []\<rparr>)
           | Some e \<Rightarrow> (case marshal e of Inl err \<Rightarrow> Inl err | Inr d \<Rightarrow> Inr (p\<lparr>mpEventData := d\<rparr>)))"

definition UpdateFromMsg :: "CotMessage \<Rightarrow> MissionPoint \<Rightarrow> MissionPoint" where
  "UpdateFromMsg m p =
     (let msg = Some m in
      p\<lparr>mpType := GetType msg, mpCallsign := GetCallsign msg, mpScope := cmScope m,
       mpCreatedAt := GetStartTime msg, mpStaleTime := GetStaleTime msg, mpCreatorUID := fst (GetParent msg),
       mpIconsetPath := GetIconsetPath msg, mpColor := GetColor msg, mpLat := GetLat msg, mpLon := GetLon msg,
       mpEvent := cot_of msg\<rparr>)"

section \<open>Missions, changes, subscriptions, invitations\<close>

record Mission =
  msID :: nat
  msCreatedAt :: time
  msUpdatedAt :: time
  msScope :: string
  msName :: string
  msCreator :: string
  msCreatorUID :: string
  msBaseLayer :: string
  msBbox :: string
  msChatRoom :: string
  msClassification :: string
  msDescription :: string
  msInviteOnly :: bool
  msPassword :: string
  msPath :: string
  msTool :: string
  msGroups :: string
  msKeywords :: string
  msResources :: "Resource list"
  msPoints :: "MissionPoint list"
  msToken :: string

definition new_Mission :: Mission where
  "new_Mission = \<lparr>msID = 0, msCreatedAt = zero_time, msUpdatedAt = zero_time, msScope = [], msName = [], msCreator = [],
     msCreatorUID = [], msBaseLayer = [], msBbox = [], msChatRoom = [], msClassification = [], msDescription = [],
     msInviteOnly = False, msPassword = [], msPath = [], msTool = [], msGroups = [], msKeywords = [],
     msResources = [], msPoints = [], msToken = []\<rparr>"

definition CHANGE_TYPE_ADD :: string where "CHANGE_TYPE_ADD = ''ADD_CONTENT''"
definition CHANGE_TYPE_REMOVE :: string where "CHANGE_TYPE_REMOVE = ''REMOVE_CONTENT''"

record Change =
  cgID :: nat
  cgCreatedAt :: time
  cgType :: string
  cgMissionID :: nat
  cgCreatorUID :: string
  cgContentUID :: string
  cgMissionPointID :: "nat option"
  cgMissionPoint :: "MissionPoint option"
  cgContentHash :: string
  cgResourceID :: "nat option"
  cgResource :: "Resource option"

definition new_Change :: Change where
  "new_Change = \<lparr>cgID = 0, cgCreatedAt = zero_time, cgType = [], cgMissionID = 0, cgCreatorUID = [],
     cgContentUID = [], cgMissionPointID = None, cgMissionPoint = None, cgContentHash = [], cgResourceID = None,
     cgResource = None\<rparr>"

record Subscription =
  sbID :: nat
  sbCreatedAt :: time
  sbMissionID :: nat
  sbClientUID :: string
  sbUsername :: string
  sbRole :: string

definition new_Subscription :: Subscription where
  "new_Subscription = \<lparr>sbID = 0, sbCreatedAt = zero_time, sbMissionID = 0, sbClientUID = [], sbUsername = [],
     sbRole = []\<rparr>"

record Invitation =
  ivID :: nat
  ivCreatedAt :: time
  ivMissionID :: nat
  ivMission :: "Mission option"
  ivTyp :: string
  ivInvitee :: string
  ivCreatorUID :: string
  ivRole :: string

definition new_Invitation :: Invitation where
  "new_Invitation = \<lparr>ivID = 0, ivCreatedAt = zero_time, ivMissionID = 0, ivMission = None, ivTyp = [],
     ivInvitee = [], ivCreatorUID = [], ivRole = []\<rparr>"

section \<open>Profiles\<close>

record Profile =
  pfLogin :: string
  pfUID :: string
  pfCreatedAt :: time
  pfUpdatedAt :: time
  pfCallsign :: string
  pfTeam :: string
  pfRole :: string
  pfCotType :: string
  pfOptions :: "(string, string) smap"

definition new_Profile :: Profile where
  "new_Profile = \<lparr>pfLogin = [], pfUID = [], pfCreatedAt = zero_time, pfUpdatedAt = zero_time, pfCallsign = [],
     pfTeam = [], pfRole = [], pfCotType = [], pfOptions = []\<rparr>"

record ProfilePutDTO =
  ppCallsign :: string
  ppTeam :: string
  ppRole :: string
  ppCotType :: string
  ppOptions :: "(string, string) smap"

record ProfilePostDTO = ProfilePutDTO +
  ppLogin :: string
  ppUID :: string

record ProfileDTO =
  pdLogin :: string
  pdUID :: string
  pdCallsign :: string
  pdTeam :: string
  pdRole :: string
  pdCotType :: string
  pdOptions :: "(string, string) smap"

definition Profile_DTO :: "Profile option \<Rightarrow> ProfileDTO option" where
  "Profile_DTO p = map_option (\<lambda>p. \<lparr>pdLogin = pfLogin p, pdUID = pfUID p, pdCallsign = pfCallsign p,
     pdTeam = pfTeam p, pdRole = pfRole p, pdCotType = pfCotType p, pdOptions = pfOptions p\<rparr>) p"

end
