(* ===== verification/MissionDto.thy ===== *)
theory MissionDto
  imports MissionModel
begin

text \<open>
  \<open>pkg/model/mission_dto.go\<close>, \<open>util.go\<close>, \<open>messages.go\<close> and \<open>video.go\<close>: missions as the API
  returns them, the messages that announce their changes, and video feeds. A \<open>CotTime\<close> is the
  time it wraps; the JSON text is not modelled.
\<close>

section \<open>Data transfer objects\<close>

record MissionRoleDTO =
  rlType :: string
  rlPermissions :: "string list"

record LocationDTO =
  loLat :: f64
  loLon :: f64

record MissionDetailsDTO =
  mdType :: string
  mdCallsign :: string
  mdTitle :: string
  mdIconsetPath :: string
  mdColor :: string
  mdLocation :: "LocationDTO option"

record MissionPointDTO =
  ptoCreatorUID :: string
  ptoTimestamp :: time
  ptoData :: string
  ptoDetails :: "MissionDetailsDTO option"

record DataDTO =
  daUID :: string
  daKeywords :: "string list"
  daMimeType :: string
  daName :: string
  daSubmissionTime :: time
  daSubmitter :: string
  daCreatorUID :: string
  daHash :: string
  daSize :: int

record ContentItemDTO =
  coCreatorUID :: string
  coTimestamp :: time
  coData :: DataDTO

record MissionDTO =
  mtoName :: string
  mtoScope :: string
  mtoCreatorUID :: string
  mtoCreateTime :: time
  mtoLastEdit :: time
  mtoBaseLayer :: string
  mtoBbox :: string
  mtoChatRoom :: string
  mtoClassification :: string
  mtoDefaultRole :: MissionRoleDTO
  mtoOwnerRole :: MissionRoleDTO
  mtoDescription :: string
  mtoExpiration :: int
  mtoInviteOnly :: bool
  mtoKeywords :: "string list"
  mtoPasswordProtected :: bool
  mtoPath :: string
  mtoTool :: string
  mtoUids :: "MissionPointDTO list"
  mtoContents :: "ContentItemDTO list"
  mtoToken :: string

record MissionSubscriptionDTO =
  msdClientUID :: string
  msdUsername :: string
  msdCreateTime :: time
  msdRole :: MissionRoleDTO
  msdToken :: string

record MissionInvitationDTO =
  midMissionName :: string
  midInvitee :: string
  midType :: string
  midCreatorUID :: string
  midCreateTime :: time
  midRole :: MissionRoleDTO

record ResourceDTO =
  rdID :: string
  rdUID :: string
  rdSubmissionDateTime :: time
  rdKeywords :: "string list"
  rdMIMEType :: string
  rdSize :: int
  rdSubmissionUser :: string
  rdHash :: string
  rdCreatorUID :: string
  rdFileName :: string
  rdName :: string
  rdTool :: string
  rdExpiration :: int

record MissionChangeDTO =
  mcdType :: string
  mcdMissionName :: string
  mcdTimestamp :: time
  mcdCreatorUID :: string
  mcdServerTime :: time
  mcdContentUID :: string
  mcdContentHash :: string
  mcdDetails :: "MissionDetailsDTO option"
  mcdContentResource :: "ResourceDTO option"

definition DTOList :: "('n \<Rightarrow> 't) \<Rightarrow> 'n list \<Rightarrow> 't list" where
  "DTOList dto l = map dto l"

definition MissionDTOList :: "(string \<Rightarrow> 'n \<Rightarrow> 't) \<Rightarrow> string \<Rightarrow> 'n list \<Rightarrow> 't list" where
  "MissionDTOList dto missionName l = map (dto missionName) l"

section \<open>Conversions\<close>

definition NewRole :: "string \<Rightarrow> string list \<Rightarrow> MissionRoleDTO" where
  "NewRole typ perms = \<lparr>rlType = typ, rlPermissions = perms\<rparr>"

definition GetMissionRole :: "string \<Rightarrow> MissionRoleDTO" where
  "GetMissionRole name =
     (if name = ''MISSION_OWNER'' then
        NewRole name [''MISSION_MANAGE_FEEDS'', ''MISSION_SET_PASSWORD'', ''MISSION_WRITE'', ''MISSION_MANAGE_LAYERS'',
          ''MISSION_UPDATE_GROUPS'', ''MISSION_READ'', ''MISSION_DELETE'', ''MISSION_SET_ROLE'']
      else if name = ''MISSION_SUBSCRIBER'' \<or> name = [] then
        NewRole ''MISSION_SUBSCRIBER'' [''MISSION_WRITE'', ''MISSION_READ'']
      else NewRole name [])"

definition Point_DTO :: "MissionPoint \<Rightarrow> MissionPointDTO" where
  "Point_DTO p = \<lparr>ptoCreatorUID = mpCreatorUID p, ptoTimestamp = mpCreatedAt p, ptoData = mpUID p,
     ptoDetails = Some \<lparr>mdType = mpType p, mdCallsign = mpCallsign p, mdTitle = mpTitle p,
       mdIconsetPath = mpIconsetPath p, mdColor = mpColor p,
       mdLocation = Some \<lparr>loLat = mpLat p, loLon = mpLon p\<rparr>\<rparr>\<rparr>"

definition Resource_DTO :: "Resource \<Rightarrow> ContentItemDTO" where
  "Resource_DTO r = \<lparr>coCreatorUID = rsCreatorUID r, coTimestamp = rsCreatedAt r,
     coData = \<lparr>daUID = rsUID r, daKeywords = StringSet_List (kw_set r), daMimeType = rsMIMEType r,
       daName = rsFileName r, daSubmissionTime = rsCreatedAt r, daSubmitter = rsSubmissionUser r,
       daCreatorUID = rsCreatorUID r, daHash = rsHash r, daSize = rsSize r\<rparr>\<rparr>"

definition ToResourceDTO :: "Resource option \<Rightarrow> ResourceDTO option" where
  "ToResourceDTO = map_option (\<lambda>r. \<lparr>rdID = Itoa (int (rsID r)), rdUID = rsUID r, rdSubmissionDateTime = rsCreatedAt r,
     rdKeywords = StringSet_List (kw_set r), rdMIMEType = rsMIMEType r, rdSize = rsSize r,
     rdSubmissionUser = rsSubmissionUser r, rdHash = rsHash r, rdCreatorUID = rsCreatorUID r,
     rdFileName = rsFileName r, rdName = rsName r, rdTool = rsTool r, rdExpiration = rsExpiration r\<rparr>)"

definition ToMissionDTOFull :: "Mission option \<Rightarrow> bool \<Rightarrow> bool \<Rightarrow> MissionDTO option" where
  "ToMissionDTOFull mo withToken withScope = map_option (\<lambda>m.
     \<lparr>mtoName = msName m, mtoScope = (if withScope then msScope m else []), mtoCreatorUID = msCreatorUID m,
      mtoCreateTime = msCreatedAt m, mtoLastEdit = msUpdatedAt m, mtoBaseLayer = msBaseLayer m, mtoBbox = msBbox m,
      mtoChatRoom = msChatRoom m, mtoClassification = msClassification m,
      mtoDefaultRole = GetMissionRole ''MISSION_SUBSCRIBER'', mtoOwnerRole = GetMissionRole ''MISSION_OWNER'',
      mtoDescription = msDescription m, mtoExpiration = - 1, mtoInviteOnly = msInviteOnly m,
      mtoKeywords = Split (msKeywords m) CHR '','', mtoPasswordProtected = (msPassword m \<noteq> []), mtoPath = msPath m,
      mtoTool = msTool m, mtoUids = DTOList Point_DTO (msPoints m), mtoContents = DTOList Resource_DTO (msResources m),
      mtoToken = (if withToken then msToken m else [])\<rparr>) mo"

definition ToMissionDTO :: "Mission option \<Rightarrow> bool \<Rightarrow> MissionDTO option" where
  "ToMissionDTO m withToken = ToMissionDTOFull m withToken False"

definition ToMissionDTOAdm :: "Mission option \<Rightarrow> MissionDTO option" where
  "ToMissionDTOAdm m = ToMissionDTOFull m False True"

definition DTOWithToken :: "Subscription option \<Rightarrow> string \<Rightarrow> MissionSubscriptionDTO option" where
  "DTOWithToken s token = map_option (\<lambda>s. \<lparr>msdClientUID = sbClientUID s, msdUsername = sbUsername s,
     msdCreateTime = sbCreatedAt s, msdRole = GetMissionRole (sbRole s), msdToken = token\<rparr>) s"

definition Subscription_DTO :: "Subscription option \<Rightarrow> MissionSubscriptionDTO option" where
  "Subscription_DTO s = DTOWithToken s []"

definition Invitation_DTO :: "string \<Rightarrow> Invitation \<Rightarrow> MissionInvitationDTO" where
  "Invitation_DTO missionName m = \<lparr>midMissionName = missionName, midInvitee = ivInvitee m, midType = ivTyp m,
     midCreatorUID = ivCreatorUID m, midCreateTime = ivCreatedAt m, midRole = GetMissionRole (ivRole m)\<rparr>"

definition Change_DTO :: "string \<Rightarrow> Change \<Rightarrow> MissionChangeDTO" where
  "Change_DTO missionName c = \<lparr>mcdType = cgType c, mcdMissionName = missionName, mcdTimestamp = cgCreatedAt c,
     mcdCreatorUID = cgCreatorUID c, mcdServerTime = cgCreatedAt c, mcdContentUID = cgContentUID c,
     mcdContentHash = cgContentHash c,
     mcdDetails = map_option (\<lambda>p. \<lparr>mdType = mpType p, mdCallsign = mpCallsign p, mdTitle = [],
       mdIconsetPath = mpIconsetPath p, mdColor = mpColor p,
       mdLocation = Some \<lparr>loLat = mpLat p, loLon = mpLon p\<rparr>\<rparr>) (cgMissionPoint c),
     mcdContentResource = ToResourceDTO (cgResource c)\<rparr>"

section \<open>Notifications\<close>

definition missionNotificationStale :: int where "missionNotificationStale = 5 * second"

text \<open>\<open>t.Unix()\<close>: whole seconds.\<close>

definition Unix :: "time \<Rightarrow> int" where "Unix t = t div 10 ^ 9"

definition text_child :: "string \<Rightarrow> string \<Rightarrow> Node option \<Rightarrow> Node option" where
  "text_child name txt n = fst (AddChild name [] txt n)"

definition notification :: "clock3 \<Rightarrow> string \<Rightarrow> string \<Rightarrow> string \<Rightarrow> Node option \<Rightarrow> CotMessage" where
  "notification now uuid typ scope xd =
     \<lparr>cmFrom = LocalFrom, cmScope = scope,
      cmTakMessage = Some (set_event (\<lambda>e. e\<lparr>ceHow := ''h-g-i-g-o'',
          ceDetail := Some (new_Detail\<lparr>dXmlDetail := AsXMLString xd\<rparr>)\<rparr>) (BasicMsg now typ uuid missionNotificationStale)),
      cmDetail = xd\<rparr>"

definition MissionChangeNotificationMsg :: "clock3 \<Rightarrow> string \<Rightarrow> string \<Rightarrow> string \<Rightarrow> Change \<Rightarrow> CotMessage" where
  "MissionChangeNotificationMsg now uuid missionName scope c =
     notification now uuid ''t-x-m-c'' scope
       (with_new_child ''mission'' [(''type'', ''CHANGE''), (''name'', missionName)] []
          (with_new_child ''MissionChanges'' [] []
             (with_new_child ''MissionChange'' [] []
                (\<lambda>ch. text_child ''timestamp'' (Itoa (Unix (cgCreatedAt c)))
                  (text_child ''missionName'' missionName
                  (text_child ''isFederatedChange'' ''false''
                  (text_child ''type'' (cgType c)
                  (text_child ''contentUid'' (cgContentUID c) ch)))))))
          (Some NewXMLDetails))"

definition MissionCreateNotificationMsg :: "clock3 \<Rightarrow> string \<Rightarrow> Mission \<Rightarrow> CotMessage" where
  "MissionCreateNotificationMsg now uuid m =
     notification now uuid ''t-x-m-n'' (msScope m)
       (fst (AddChild ''mission''
          ([(''type'', ''CREATE''), (''name'', msName m), (''creatorUid'', msCreatorUID m)] @
           (if msTool m \<noteq> [] then [(''tool'', msTool m)] else [])) [] (Some NewXMLDetails)))"

section \<open>Video feeds\<close>

record FeedDTO =
  foUID :: string
  foActive :: bool
  foAlias :: string
  foTyp :: string
  foAddress :: string
  foPath :: string
  foPreferredMacAddress :: string
  foPort :: int
  foRoverPort :: int
  foIgnoreEmbeddedKLV :: bool
  foProtocol :: string
  foSource :: string
  foTimeout :: int
  foBuffer :: int
  foRtspReliable :: string
  foThumbnail :: string
  foClassification :: string
  foLatitude :: f64
  foLongitude :: f64
  foFov :: string
  foHeading :: string
  foRange :: string

record FeedPutDTO =
  fpActive :: bool
  fpAlias :: string
  fpURL :: string
  fpLatitude :: f64
  fpLongitude :: f64
  fpFov :: string
  fpHeading :: string
  fpRange :: string
  fpScope :: string

record FeedPostDTO = FeedPutDTO +
  fpUID :: string

record Feed2 =
  fdUID :: string
  fdActive :: bool
  fdAlias :: string
  fdURL :: string
  fdLatitude :: f64
  fdLongitude :: f64
  fdFov :: string
  fdHeading :: string
  fdRange :: string
  fdUser :: string
  fdScope :: string

definition new_Feed2 :: Feed2 where
  "new_Feed2 = \<lparr>fdUID = [], fdActive = False, fdAlias = [], fdURL = [], fdLatitude = 0, fdLongitude = 0,
     fdFov = [], fdHeading = [], fdRange = [], fdUser = [], fdScope = []\<rparr>"

text \<open>The same fields as \<open>Feed2\<close>, with the owner and the scope for an administrator only.\<close>

definition Feed2_DTO :: "bool \<Rightarrow> Feed2 option \<Rightarrow> Feed2 option" where
  "Feed2_DTO admin f = map_option (\<lambda>f. if admin then f else f\<lparr>fdUser := [], fdScope := []\<rparr>) f"

fun defPorts :: "string \<Rightarrow> int option" where
  "defPorts p =
     (if p = ''http'' then Some 80 else if p = ''https'' then Some 443 else if p = ''rtsp'' then Some 554
      else if p = ''rtmp'' then Some 1935 else if p = ''srt'' then Some 9710 else None)"

text \<open>The number \<open>strconv.Atoi\<close> returns beside an error: 0, or the limit that was exceeded.\<close>

definition AtoiVal :: "string \<Rightarrow> int" where
  "AtoiVal s =
     (case Atoi s of Some n \<Rightarrow> n
      | None \<Rightarrow>
         (let ds = (if HasPrefix s ''-'' \<or> HasPrefix s ''+'' then tl s else s)
          in if ds = [] \<or> read_digits 0 ds = None then 0
             else if HasPrefix s ''-'' then - (2 ^ 63) else 2 ^ 63 - 1))"

text \<open>The parts \<open>url.Parse\<close> gives: scheme, host with port, path and raw query.\<close>

record url_parts =
  urlScheme :: string
  urlHost :: string
  urlPath :: string
  urlRawQuery :: string

definition parseURL :: "(string \<Rightarrow> url_parts option) \<Rightarrow> string \<Rightarrow> string \<times> string \<times> int \<times> string" where
  "parseURL Parse url =
     (case Parse url of
        None \<Rightarrow> ([], [], 0, [])
      | Some u \<Rightarrow>
          (let host = urlHost u;
               path = urlPath u @ (if urlRawQuery u \<noteq> [] then ''?'' @ urlRawQuery u else []);
               i = length (takeWhile (\<lambda>c. c \<noteq> CHR '':'') host)
           in if CHR '':'' \<in> set host \<and> i > 0
              then (urlScheme u, take i host, AtoiVal (drop (i + 1) host), path)
              else (urlScheme u, host, case defPorts (urlScheme u) of Some p \<Rightarrow> p | None \<Rightarrow> 0, path)))"

definition toURL :: "string \<Rightarrow> string \<Rightarrow> int \<Rightarrow> string \<Rightarrow> string" where
  "toURL proto addr port path =
     (if defPorts proto = Some port \<or> port = 0 then proto @ ''://'' @ addr @ path
      else proto @ ''://'' @ addr @ '':'' @ Itoa port @ path)"

definition DTOOld :: "(string \<Rightarrow> url_parts option) \<Rightarrow> Feed2 option \<Rightarrow> FeedDTO option" where
  "DTOOld Parse f = map_option (\<lambda>f. (case parseURL Parse (fdURL f) of (proto, addr, port, path) \<Rightarrow>
     \<lparr>foUID = fdUID f, foActive = fdActive f, foAlias = fdAlias f, foTyp = [], foAddress = addr, foPath = path,
      foPreferredMacAddress = [], foPort = port, foRoverPort = - 1, foIgnoreEmbeddedKLV = False, foProtocol = proto,
      foSource = [], foTimeout = 12000, foBuffer = - 1, foRtspReliable = [], foThumbnail = [], foClassification = [],
      foLatitude = fdLatitude f, foLongitude = fdLongitude f, foFov = fdFov f, foHeading = fdHeading f,
      foRange = fdRange f\<rparr>)) f"

definition ToFeed2 :: "FeedDTO option \<Rightarrow> Feed2 option" where
  "ToFeed2 f = map_option (\<lambda>f. new_Feed2\<lparr>fdActive := foActive f, fdUID := foUID f, fdAlias := foAlias f,
     fdURL := toURL (foProtocol f) (foAddress f) (foPort f) (foPath f), fdLatitude := foLatitude f,
     fdLongitude := foLongitude f, fdFov := foFov f, fdHeading := foHeading f, fdRange := foRange f\<rparr>) f"

section \<open>Properties\<close>

lemma host_no_slash: "CHR ''/'' \<notin> set (digits_of n)"
proof (induction n rule: digits_of.induct)
  case (1 n)
  have d: "CHR ''/'' \<noteq> digit d" if "d < 10" for d
  proof
    assume "CHR ''/'' = digit d"
    then have "digit d = CHR ''/''" by simp
    moreover have "is_digit (digit d)" using that by (rule digit_props)
    ultimately show False by (simp add: is_digit_def)
  qed
  show ?case using 1 d by (subst digits_of.simps) simp
qed

lemma Itoa_no_slash: "CHR ''/'' \<notin> set (Itoa n)"
  by (simp add: Itoa_def host_no_slash)

lemma parse_port:
  assumes "Parse url = Some \<lparr>urlScheme = pr, urlHost = a @ CHR '':'' # Itoa n, urlPath = p, urlRawQuery = q\<rparr>"
    "a \<noteq> []" "CHR '':'' \<notin> set a" "- (2 ^ 63) \<le> n" "n < 2 ^ 63"
  shows "parseURL Parse url = (pr, a, n, p @ (if q \<noteq> [] then ''?'' @ q else []))"
proof -
  have "takeWhile (\<lambda>c. c \<noteq> CHR '':'') (a @ CHR '':'' # Itoa n) = a"
    using assms(3) by (subst takeWhile_append2) auto
  then show ?thesis using assms by (simp add: parseURL_def AtoiVal_def Atoi_Itoa)
qed

lemma parse_no_port:
  assumes "Parse url = Some \<lparr>urlScheme = pr, urlHost = a, urlPath = p, urlRawQuery = q\<rparr>" "CHR '':'' \<notin> set a"
  shows "parseURL Parse url =
    (pr, a, case defPorts pr of Some d \<Rightarrow> d | None \<Rightarrow> 0, p @ (if q \<noteq> [] then ''?'' @ q else []))"
  using assms by (simp add: parseURL_def del: defPorts.simps)

text \<open>
  A video feed a client posts is returned as it was posted. The URL the server stores for
  it, without the port where that is the protocol's default, gives back the protocol, the
  address, the path with its query, and the port (the default one where the client sent 0), for
  every address without port or slash and every \<open>url.Parse\<close> that splits such a URL at its
  documented places.
\<close>

theorem feed_roundtrip:
  assumes parse: "\<And>host. CHR ''/'' \<notin> set host \<Longrightarrow> Parse (foProtocol f @ ''://'' @ host @ foPath f) =
      Some \<lparr>urlScheme = foProtocol f, urlHost = host, urlPath = p, urlRawQuery = q\<rparr>"
    and path: "foPath f = p @ (if q \<noteq> [] then ''?'' @ q else [])"
    and addr: "foAddress f \<noteq> []" "CHR '':'' \<notin> set (foAddress f)" "CHR ''/'' \<notin> set (foAddress f)"
    and port: "- (2 ^ 63) \<le> foPort f" "foPort f < 2 ^ 63"
  shows "\<exists>g. DTOOld Parse (ToFeed2 (Some f)) = Some g \<and> foProtocol g = foProtocol f \<and> foAddress g = foAddress f \<and>
    foPath g = foPath f \<and> foUID g = foUID f \<and> foAlias g = foAlias f \<and> foActive g = foActive f \<and>
    foPort g = (if foPort f \<noteq> 0 then foPort f else case defPorts (foProtocol f) of Some d \<Rightarrow> d | None \<Rightarrow> 0)"
proof (cases "defPorts (foProtocol f) = Some (foPort f) \<or> foPort f = 0")
  case True
  have "parseURL Parse (toURL (foProtocol f) (foAddress f) (foPort f) (foPath f)) =
      (foProtocol f, foAddress f, case defPorts (foProtocol f) of Some d \<Rightarrow> d | None \<Rightarrow> 0, foPath f)"
    using parse_no_port [of Parse, OF parse [OF addr(3)] addr(2)] True path
    by (auto simp: toURL_def simp del: defPorts.simps)
  with True show ?thesis by (auto simp: DTOOld_def ToFeed2_def new_Feed2_def simp del: defPorts.simps)
next
  case False
  have "CHR ''/'' \<notin> set (foAddress f @ CHR '':'' # Itoa (foPort f))" using addr Itoa_no_slash by simp
  then have "Parse (foProtocol f @ ''://'' @ foAddress f @ CHR '':'' # Itoa (foPort f) @ foPath f) =
      Some \<lparr>urlScheme = foProtocol f, urlHost = foAddress f @ CHR '':'' # Itoa (foPort f), urlPath = p, urlRawQuery = q\<rparr>"
    using parse [of "foAddress f @ CHR '':'' # Itoa (foPort f)"] by simp
  from parse_port [of Parse, OF this addr(1,2) port] False path
  have "parseURL Parse (toURL (foProtocol f) (foAddress f) (foPort f) (foPath f)) =
      (foProtocol f, foAddress f, foPort f, foPath f)"
    by (simp add: toURL_def del: defPorts.simps)
  with False show ?thesis by (auto simp: DTOOld_def ToFeed2_def new_Feed2_def simp del: defPorts.simps)
qed

definition example_feed :: FeedDTO where
  "example_feed = \<lparr>foUID = ''v1'', foActive = True, foAlias = ''cam'', foTyp = [], foAddress = ''10.0.0.7'', foPath = ''/live'',
     foPreferredMacAddress = [], foPort = 8554, foRoverPort = - 1, foIgnoreEmbeddedKLV = False, foProtocol = ''rtsp'',
     foSource = [], foTimeout = 12000, foBuffer = - 1, foRtspReliable = [], foThumbnail = [], foClassification = [],
     foLatitude = 0, foLongitude = 0, foFov = [], foHeading = [], foRange = []\<rparr>"

text \<open>A parser for the URLs of the witness: the host ends at the first slash.\<close>

definition example_parse :: "string \<Rightarrow> url_parts option" where
  "example_parse url =
     (let r = drop 7 url in Some \<lparr>urlScheme = take 4 url, urlHost = takeWhile (\<lambda>c. c \<noteq> CHR ''/'') r,
        urlPath = dropWhile (\<lambda>c. c \<noteq> CHR ''/'') r, urlRawQuery = []\<rparr>)"

theorem feed_roundtrip_witness:
  "\<exists>g. DTOOld example_parse (ToFeed2 (Some example_feed)) = Some g \<and> foPort g = 8554 \<and> foAddress g = ''10.0.0.7''"
proof -
  have "\<exists>g. DTOOld example_parse (ToFeed2 (Some example_feed)) = Some g \<and> foProtocol g = foProtocol example_feed \<and>
      foAddress g = foAddress example_feed \<and> foPath g = foPath example_feed \<and> foUID g = foUID example_feed \<and>
      foAlias g = foAlias example_feed \<and> foActive g = foActive example_feed \<and>
      foPort g = (if foPort example_feed \<noteq> 0 then foPort example_feed
        else case defPorts (foProtocol example_feed) of Some d \<Rightarrow> d | None \<Rightarrow> 0)"
  proof (rule feed_roundtrip [where p = "''/live''" and q = "[]"])
    fix host :: string
    assume h: "CHR ''/'' \<notin> set host"
    have "takeWhile (\<lambda>c. c \<noteq> CHR ''/'') (host @ ''/live'') = host" "dropWhile (\<lambda>c. c \<noteq> CHR ''/'') (host @ ''/live'') = ''/live''"
      using h by (subst takeWhile_append2 dropWhile_append2; auto)+
    then show "example_parse (foProtocol example_feed @ ''://'' @ host @ foPath example_feed) =
        Some \<lparr>urlScheme = foProtocol example_feed, urlHost = host, urlPath = ''/live'', urlRawQuery = []\<rparr>"
      by (simp add: example_parse_def example_feed_def)
  qed (simp_all add: example_feed_def)
  then show ?thesis by (auto simp: example_feed_def)
qed

end
