(* ===== verification/DbQueries.thy ===== *)
theory DbQueries
  imports MissionDto
begin

text \<open>
  \<open>internal/database/query.go\<close> and the \<open>*_query.go\<close> files: how the server asks its database. A
  query is a record of what was set on it; \<open>where\<close> turns it into the transaction the code hands
  to gorm, the list of the conditions with their SQL text as the code writes it.

  gorm and the database below it are not part of the repository: they are the record \<open>gorm\<close> of
  the calls the code makes, over an unknown type \<open>'db\<close> of database contents. An operation gets
  the contents and returns the new ones. A query is never nil (its constructor returns one), so
  the guards for a nil query are not modelled.
\<close>

section \<open>The interface to gorm\<close>

datatype table = Missions | Changes | Points | Subscriptions | Invitations | Resources | Devices
  | Certificates | Profiles | Feeds

datatype row = MissionRow Mission | ChangeRow Change | PointRow MissionPoint | SubscriptionRow Subscription
  | InvitationRow Invitation | ResourceRow Resource | DeviceRow Device | CertificateRow Certificate
  | ProfileRow Profile | FeedRow Feed2

fun as_mission where "as_mission (MissionRow m) = Some m" | "as_mission _ = None"
fun as_change where "as_change (ChangeRow m) = Some m" | "as_change _ = None"
fun as_point where "as_point (PointRow m) = Some m" | "as_point _ = None"
fun as_subscription where "as_subscription (SubscriptionRow m) = Some m" | "as_subscription _ = None"
fun as_invitation where "as_invitation (InvitationRow m) = Some m" | "as_invitation _ = None"
fun as_resource where "as_resource (ResourceRow m) = Some m" | "as_resource _ = None"
fun as_device where "as_device (DeviceRow m) = Some m" | "as_device _ = None"
fun as_cert where "as_cert (CertificateRow m) = Some m" | "as_cert _ = None"
fun as_profile where "as_profile (ProfileRow m) = Some m" | "as_profile _ = None"
fun as_feed where "as_feed (FeedRow m) = Some m" | "as_feed _ = None"

definition new_Certificate :: Certificate where
  "new_Certificate = \<lparr>crtSerial = [], crtCreatedAt = zero_time, crtUpdatedAt = zero_time, crtLogin = [], crtUID = [],
     crtLastConnect = None, crtValidTill = None\<rparr>"

text \<open>\<open>new(T)\<close>.\<close>

fun zero_row :: "table \<Rightarrow> row" where
  "zero_row Missions = MissionRow new_Mission"
| "zero_row Changes = ChangeRow new_Change"
| "zero_row Points = PointRow new_MissionPoint"
| "zero_row Subscriptions = SubscriptionRow new_Subscription"
| "zero_row Invitations = InvitationRow new_Invitation"
| "zero_row Resources = ResourceRow new_Resource"
| "zero_row Devices = DeviceRow new_Device"
| "zero_row Certificates = CertificateRow new_Certificate"
| "zero_row Profiles = ProfileRow new_Profile"
| "zero_row Feeds = FeedRow new_Feed2"

datatype dbval = VStr string | VNat nat | VBool bool | VTime time | VList "string list"

datatype clause = Where string dbval | WhereRaw string | Preload string string | Joins string

record tx =
  txModel :: table
  txClauses :: "clause list"
  txOrder :: "string option"
  txLimit :: "int option"
  txOffset :: "int option"

definition model_tx :: "table \<Rightarrow> clause list \<Rightarrow> tx" where
  "model_tx t cs = \<lparr>txModel = t, txClauses = cs, txOrder = None, txLimit = None, txOffset = None\<rparr>"

text \<open>
  \<open>gFind\<close> and \<open>gTake\<close> return what they filled in besides the error; \<open>gTake\<close> is given the row to
  fill in. \<open>gCreate\<close> and \<open>gSave\<close> (with the flag of \<open>OnConflict\<close>) return the row with its key and
  time stamps; the association calls return the mission, whose list they change.
\<close>

record 'db gorm =
  gFind :: "tx \<Rightarrow> 'db \<Rightarrow> row list \<times> gofail option"
  gTake :: "tx \<Rightarrow> row \<Rightarrow> 'db \<Rightarrow> row \<times> gofail option"
  gCount :: "tx \<Rightarrow> 'db \<Rightarrow> nat \<times> gofail option"
  gUpdates :: "tx \<Rightarrow> (string \<times> dbval) list \<Rightarrow> 'db \<Rightarrow> nat \<times> gofail option \<times> 'db"
  gDelete :: "tx \<Rightarrow> 'db \<Rightarrow> gofail option \<times> 'db"
  gCreate :: "row \<Rightarrow> 'db \<Rightarrow> (row \<times> gofail option) \<times> 'db"
  gSave :: "bool \<Rightarrow> row \<Rightarrow> 'db \<Rightarrow> (row \<times> gofail option) \<times> 'db"
  gAppend :: "string \<Rightarrow> row \<Rightarrow> Mission \<Rightarrow> 'db \<Rightarrow> (Mission \<times> gofail option) \<times> 'db"
  gUnlink :: "string \<Rightarrow> row \<Rightarrow> Mission \<Rightarrow> 'db \<Rightarrow> (Mission \<times> gofail option) \<times> 'db"
  gTransaction :: "('db \<Rightarrow> (row option \<times> gofail option) \<times> 'db) \<Rightarrow> 'db \<Rightarrow> (row option \<times> gofail option) \<times> 'db"

definition ErrRecordNotFound :: gofail where "ErrRecordNotFound = Error ''record not found''"
definition errUpdate :: gofail where "errUpdate = Error ''no record found''"

section \<open>Query[T]\<close>

record query =
  qLimit :: int
  qOffset :: int
  qOrder :: string

definition query_get :: "'db gorm \<Rightarrow> 'q query_scheme \<Rightarrow> tx \<Rightarrow> 'db \<Rightarrow> row list" where
  "query_get g q t db =
     (let t1 = (if qOrder q \<noteq> [] then t\<lparr>txOrder := Some (qOrder q)\<rparr> else t);
          t2 = (if qLimit q > 0 then t1\<lparr>txLimit := Some (qLimit q)\<rparr> else t1);
          t3 = (if qOffset q > 0 then t2\<lparr>txOffset := Some (qOffset q)\<rparr> else t2);
          (res, err) = gFind g t3 db
      in if err = Some ErrRecordNotFound then [] else res)"

text \<open>Any error but \<open>ErrRecordNotFound\<close> is logged, and the row returned as it is then.\<close>

definition query_one :: "'db gorm \<Rightarrow> tx \<Rightarrow> 'db \<Rightarrow> row option" where
  "query_one g t db =
     (case gTake g t (zero_row (txModel t)) db of
        (res, err) \<Rightarrow> if err = Some ErrRecordNotFound then None else Some res)"

definition query_count :: "'db gorm \<Rightarrow> tx \<Rightarrow> 'db \<Rightarrow> nat" where
  "query_count g t db = fst (gCount g t db)"

definition query_update :: "'db gorm \<Rightarrow> tx \<Rightarrow> (string \<times> dbval) list \<Rightarrow> 'db \<Rightarrow> (nat \<times> gofail option) \<times> 'db" where
  "query_update g t updates db =
     (case gUpdates g t updates db of
        (n, Some err, db') \<Rightarrow> ((0, Some err), db') | (n, None, db') \<Rightarrow> ((n, None), db'))"

definition updateOrError :: "'db gorm \<Rightarrow> tx \<Rightarrow> (string \<times> dbval) list \<Rightarrow> 'db \<Rightarrow> gofail option \<times> 'db" where
  "updateOrError g t updates db =
     (case gUpdates g t updates db of
        (n, Some err, db') \<Rightarrow> (Some err, db')
      | (n, None, db') \<Rightarrow> (if n = 0 then Some errUpdate else None, db'))"

text \<open>The conditions of the \<open>where\<close> methods.\<close>

definition where_str :: "string \<Rightarrow> string \<Rightarrow> clause list" where
  "where_str sql v = (if v \<noteq> [] then [Where sql (VStr v)] else [])"

definition where_nat :: "string \<Rightarrow> nat \<Rightarrow> clause list" where
  "where_nat sql v = (if v \<noteq> 0 then [Where sql (VNat v)] else [])"

definition where_time :: "string \<Rightarrow> time \<Rightarrow> clause list" where
  "where_time sql v = (if v \<noteq> zero_time then [Where sql (VTime v)] else [])"

definition where_scope :: "string \<Rightarrow> StringSet \<Rightarrow> clause list" where
  "where_scope sql s =
     (if length s > 0 \<and> \<not> StringSet_Has s ''*'' then [Where sql (VList (StringSet_List s))] else [])"

section \<open>The queries\<close>

subsection \<open>MissionQuery\<close>

record MissionQuery = query +
  mqId :: nat
  mqName :: string
  mqScope :: StringSet
  mqTool :: string
  mqFull :: bool

definition NewMissionQuery :: MissionQuery where
  "NewMissionQuery = \<lparr>qLimit = 100, qOffset = 0, qOrder = ''missions.created_at'', mqId = 0, mqName = [], mqScope = [], mqTool = [], mqFull = False\<rparr>"

definition MissionQuery_Order :: "string \<Rightarrow> MissionQuery \<Rightarrow> MissionQuery" where
  "MissionQuery_Order s q = q\<lparr>qOrder := s\<rparr>"

definition MissionQuery_Limit :: "int \<Rightarrow> MissionQuery \<Rightarrow> MissionQuery" where
  "MissionQuery_Limit n q = q\<lparr>qLimit := n\<rparr>"

definition MissionQuery_Offset :: "int \<Rightarrow> MissionQuery \<Rightarrow> MissionQuery" where
  "MissionQuery_Offset n q = q\<lparr>qOffset := n\<rparr>"

definition MissionQuery_Id :: "nat \<Rightarrow> MissionQuery \<Rightarrow> MissionQuery" where
  "MissionQuery_Id i q = q\<lparr>mqId := i\<rparr>"

definition MissionQuery_Name :: "string \<Rightarrow> MissionQuery \<Rightarrow> MissionQuery" where
  "MissionQuery_Name s q = q\<lparr>mqName := s\<rparr>"

definition MissionQuery_Tool :: "string \<Rightarrow> MissionQuery \<Rightarrow> MissionQuery" where
  "MissionQuery_Tool s q = q\<lparr>mqTool := s\<rparr>"

definition MissionQuery_Scope :: "string \<Rightarrow> MissionQuery \<Rightarrow> MissionQuery" where
  "MissionQuery_Scope s q = q\<lparr>mqScope := StringSet_Add [s] (mqScope q)\<rparr>"

definition MissionQuery_ReadScope :: "string list \<Rightarrow> MissionQuery \<Rightarrow> MissionQuery" where
  "MissionQuery_ReadScope ss q = q\<lparr>mqScope := StringSet_Add ss (mqScope q)\<rparr>"

definition MissionQuery_Full :: "MissionQuery \<Rightarrow> MissionQuery" where
  "MissionQuery_Full q = q\<lparr>mqFull := True\<rparr>"

definition MissionQuery_where :: "MissionQuery \<Rightarrow> tx" where
  "MissionQuery_where q = model_tx Missions
     (where_nat ''missions.id = ?'' (mqId q) @
      where_str ''missions.name = ?'' (mqName q) @
      where_str ''missions.tool = ?'' (mqTool q) @
      where_scope ''missions.scope in (?)'' (mqScope q) @
      (if mqFull q then [Preload ''Points'' [], Preload ''Resources'' []] else []))"

definition MissionQuery_Get :: "'db gorm \<Rightarrow> MissionQuery \<Rightarrow> 'db \<Rightarrow> Mission list" where
  "MissionQuery_Get g q db = List.map_filter as_mission (query_get g q (MissionQuery_where q) db)"

definition MissionQuery_One :: "'db gorm \<Rightarrow> MissionQuery \<Rightarrow> 'db \<Rightarrow> Mission option" where
  "MissionQuery_One g q db = Option.bind (query_one g (MissionQuery_where q) db) as_mission"

definition MissionQuery_Update :: "'db gorm \<Rightarrow> MissionQuery \<Rightarrow> (string \<times> dbval) list \<Rightarrow> 'db \<Rightarrow> gofail option \<times> 'db" where
  "MissionQuery_Update g q updates db = updateOrError g (MissionQuery_where q) updates db"

subsection \<open>ResourceQuery\<close>

record ResourceQuery = query +
  rqId :: nat
  rqScope :: StringSet
  rqTool :: string
  rqHash :: string
  rqUid :: string
  rqName :: string

definition NewResourceQuery :: ResourceQuery where
  "NewResourceQuery = \<lparr>qLimit = 100, qOffset = 0, qOrder = ''resources.created_at'', rqId = 0, rqScope = [], rqTool = [], rqHash = [], rqUid = [], rqName = []\<rparr>"

definition ResourceQuery_Order :: "string \<Rightarrow> ResourceQuery \<Rightarrow> ResourceQuery" where
  "ResourceQuery_Order s q = q\<lparr>qOrder := s\<rparr>"

definition ResourceQuery_Limit :: "int \<Rightarrow> ResourceQuery \<Rightarrow> ResourceQuery" where
  "ResourceQuery_Limit n q = q\<lparr>qLimit := n\<rparr>"

definition ResourceQuery_Offset :: "int \<Rightarrow> ResourceQuery \<Rightarrow> ResourceQuery" where
  "ResourceQuery_Offset n q = q\<lparr>qOffset := n\<rparr>"

definition ResourceQuery_Id :: "nat \<Rightarrow> ResourceQuery \<Rightarrow> ResourceQuery" where
  "ResourceQuery_Id i q = q\<lparr>rqId := i\<rparr>"

definition ResourceQuery_Scope :: "string \<Rightarrow> ResourceQuery \<Rightarrow> ResourceQuery" where
  "ResourceQuery_Scope s q = q\<lparr>rqScope := StringSet_Add [s] (rqScope q)\<rparr>"

definition ResourceQuery_ReadScope :: "string list \<Rightarrow> ResourceQuery \<Rightarrow> ResourceQuery" where
  "ResourceQuery_ReadScope ss q = q\<lparr>rqScope := StringSet_Add ss (rqScope q)\<rparr>"

definition ResourceQuery_UID :: "string \<Rightarrow> ResourceQuery \<Rightarrow> ResourceQuery" where
  "ResourceQuery_UID s q = q\<lparr>rqUid := s\<rparr>"

definition ResourceQuery_Tool :: "string \<Rightarrow> ResourceQuery \<Rightarrow> ResourceQuery" where
  "ResourceQuery_Tool s q = q\<lparr>rqTool := s\<rparr>"

definition ResourceQuery_Hash :: "string \<Rightarrow> ResourceQuery \<Rightarrow> ResourceQuery" where
  "ResourceQuery_Hash s q = q\<lparr>rqHash := s\<rparr>"

definition ResourceQuery_Name :: "string \<Rightarrow> ResourceQuery \<Rightarrow> ResourceQuery" where
  "ResourceQuery_Name s q = q\<lparr>rqName := s\<rparr>"

definition ResourceQuery_where :: "ResourceQuery \<Rightarrow> tx" where
  "ResourceQuery_where q = model_tx Resources
     (where_nat ''id = ?'' (rqId q) @
      where_scope ''scope in (?)'' (rqScope q) @
      where_str ''hash = ?'' (rqHash q) @
      where_str ''uid = ?'' (rqUid q) @
      where_str ''tool = ?'' (rqTool q) @
      where_str ''name = ?'' (rqName q))"

definition ResourceQuery_Get :: "'db gorm \<Rightarrow> ResourceQuery \<Rightarrow> 'db \<Rightarrow> Resource list" where
  "ResourceQuery_Get g q db = List.map_filter as_resource (query_get g q (ResourceQuery_where q) db)"

definition ResourceQuery_One :: "'db gorm \<Rightarrow> ResourceQuery \<Rightarrow> 'db \<Rightarrow> Resource option" where
  "ResourceQuery_One g q db = Option.bind (query_one g (ResourceQuery_where q) db) as_resource"

definition ResourceQuery_Update :: "'db gorm \<Rightarrow> ResourceQuery \<Rightarrow> (string \<times> dbval) list \<Rightarrow> 'db \<Rightarrow> gofail option \<times> 'db" where
  "ResourceQuery_Update g q updates db = updateOrError g (ResourceQuery_where q) updates db"

definition ResourceQuery_Delete :: "'db gorm \<Rightarrow> ResourceQuery \<Rightarrow> 'db \<Rightarrow> gofail option \<times> 'db" where
  "ResourceQuery_Delete g q db = gDelete g (ResourceQuery_where q) db"

subsection \<open>ChangeQuery\<close>

record ChangeQuery = query +
  cqId :: nat
  cqMissionID :: nat
  cqAfter :: time

definition NewChangeQuery :: ChangeQuery where
  "NewChangeQuery = \<lparr>qLimit = 100, qOffset = 0, qOrder = ''changes.created_at DESC'', cqId = 0, cqMissionID = 0, cqAfter = zero_time\<rparr>"

definition ChangeQuery_Order :: "string \<Rightarrow> ChangeQuery \<Rightarrow> ChangeQuery" where
  "ChangeQuery_Order s q = q\<lparr>qOrder := s\<rparr>"

definition ChangeQuery_Limit :: "int \<Rightarrow> ChangeQuery \<Rightarrow> ChangeQuery" where
  "ChangeQuery_Limit n q = q\<lparr>qLimit := n\<rparr>"

definition ChangeQuery_Offset :: "int \<Rightarrow> ChangeQuery \<Rightarrow> ChangeQuery" where
  "ChangeQuery_Offset n q = q\<lparr>qOffset := n\<rparr>"

definition ChangeQuery_Id :: "nat \<Rightarrow> ChangeQuery \<Rightarrow> ChangeQuery" where
  "ChangeQuery_Id i q = q\<lparr>cqId := i\<rparr>"

definition ChangeQuery_Mission :: "nat \<Rightarrow> ChangeQuery \<Rightarrow> ChangeQuery" where
  "ChangeQuery_Mission i q = q\<lparr>cqMissionID := i\<rparr>"

definition ChangeQuery_After :: "time \<Rightarrow> ChangeQuery \<Rightarrow> ChangeQuery" where
  "ChangeQuery_After t q = q\<lparr>cqAfter := t\<rparr>"

definition ChangeQuery_where :: "ChangeQuery \<Rightarrow> tx" where
  "ChangeQuery_where q = model_tx Changes
     ([Joins ''MissionPoint'', Joins ''Resource''] @
      where_nat ''id = ?'' (cqId q) @
      where_nat ''changes.mission_id = ?'' (cqMissionID q) @
      where_time ''changes.created_at > ?'' (cqAfter q))"

definition ChangeQuery_Get :: "'db gorm \<Rightarrow> ChangeQuery \<Rightarrow> 'db \<Rightarrow> Change list" where
  "ChangeQuery_Get g q db = List.map_filter as_change (query_get g q (ChangeQuery_where q) db)"

definition ChangeQuery_One :: "'db gorm \<Rightarrow> ChangeQuery \<Rightarrow> 'db \<Rightarrow> Change option" where
  "ChangeQuery_One g q db = Option.bind (query_one g (ChangeQuery_where q) db) as_change"

definition ChangeQuery_Update :: "'db gorm \<Rightarrow> ChangeQuery \<Rightarrow> (string \<times> dbval) list \<Rightarrow> 'db \<Rightarrow> gofail option \<times> 'db" where
  "ChangeQuery_Update g q updates db = updateOrError g (ChangeQuery_where q) updates db"

definition ChangeQuery_Delete :: "'db gorm \<Rightarrow> ChangeQuery \<Rightarrow> 'db \<Rightarrow> gofail option \<times> 'db" where
  "ChangeQuery_Delete g q db = gDelete g (ChangeQuery_where q) db"

subsection \<open>SubscriptionQuery\<close>

record SubscriptionQuery = query +
  sqId :: nat
  sqMissionID :: nat
  sqClientUID :: string

definition NewSubscriptionQuery :: SubscriptionQuery where
  "NewSubscriptionQuery = \<lparr>qLimit = 100, qOffset = 0, qOrder = ''client_uid'', sqId = 0, sqMissionID = 0, sqClientUID = []\<rparr>"

definition SubscriptionQuery_Order :: "string \<Rightarrow> SubscriptionQuery \<Rightarrow> SubscriptionQuery" where
  "SubscriptionQuery_Order s q = q\<lparr>qOrder := s\<rparr>"

definition SubscriptionQuery_Limit :: "int \<Rightarrow> SubscriptionQuery \<Rightarrow> SubscriptionQuery" where
  "SubscriptionQuery_Limit n q = q\<lparr>qLimit := n\<rparr>"

definition SubscriptionQuery_Offset :: "int \<Rightarrow> SubscriptionQuery \<Rightarrow> SubscriptionQuery" where
  "SubscriptionQuery_Offset n q = q\<lparr>qOffset := n\<rparr>"

definition SubscriptionQuery_Id :: "nat \<Rightarrow> SubscriptionQuery \<Rightarrow> SubscriptionQuery" where
  "SubscriptionQuery_Id i q = q\<lparr>sqId := i\<rparr>"

definition SubscriptionQuery_Mission :: "nat \<Rightarrow> SubscriptionQuery \<Rightarrow> SubscriptionQuery" where
  "SubscriptionQuery_Mission i q = q\<lparr>sqMissionID := i\<rparr>"

definition SubscriptionQuery_Client :: "string \<Rightarrow> SubscriptionQuery \<Rightarrow> SubscriptionQuery" where
  "SubscriptionQuery_Client s q = q\<lparr>sqClientUID := s\<rparr>"

definition SubscriptionQuery_where :: "SubscriptionQuery \<Rightarrow> tx" where
  "SubscriptionQuery_where q = model_tx Subscriptions
     (where_nat ''id = ?'' (sqId q) @
      where_nat ''mission_id = ?'' (sqMissionID q) @
      where_str ''client_uid = ?'' (sqClientUID q))"

definition SubscriptionQuery_Get :: "'db gorm \<Rightarrow> SubscriptionQuery \<Rightarrow> 'db \<Rightarrow> Subscription list" where
  "SubscriptionQuery_Get g q db = List.map_filter as_subscription (query_get g q (SubscriptionQuery_where q) db)"

definition SubscriptionQuery_One :: "'db gorm \<Rightarrow> SubscriptionQuery \<Rightarrow> 'db \<Rightarrow> Subscription option" where
  "SubscriptionQuery_One g q db = Option.bind (query_one g (SubscriptionQuery_where q) db) as_subscription"

definition SubscriptionQuery_Update :: "'db gorm \<Rightarrow> SubscriptionQuery \<Rightarrow> (string \<times> dbval) list \<Rightarrow> 'db \<Rightarrow> gofail option \<times> 'db" where
  "SubscriptionQuery_Update g q updates db = updateOrError g (SubscriptionQuery_where q) updates db"

definition SubscriptionQuery_Delete :: "'db gorm \<Rightarrow> SubscriptionQuery \<Rightarrow> 'db \<Rightarrow> gofail option \<times> 'db" where
  "SubscriptionQuery_Delete g q db = gDelete g (SubscriptionQuery_where q) db"

subsection \<open>InvitationQuery\<close>

record InvitationQuery = query +
  iqId :: nat
  iqMissionID :: nat
  iqInvitee :: string
  iqTyp :: string
  iqFull :: bool

definition NewInvitationQuery :: InvitationQuery where
  "NewInvitationQuery = \<lparr>qLimit = 100, qOffset = 0, qOrder = ''invitations.created_at'', iqId = 0, iqMissionID = 0, iqInvitee = [], iqTyp = [], iqFull = False\<rparr>"

definition InvitationQuery_Order :: "string \<Rightarrow> InvitationQuery \<Rightarrow> InvitationQuery" where
  "InvitationQuery_Order s q = q\<lparr>qOrder := s\<rparr>"

definition InvitationQuery_Limit :: "int \<Rightarrow> InvitationQuery \<Rightarrow> InvitationQuery" where
  "InvitationQuery_Limit n q = q\<lparr>qLimit := n\<rparr>"

definition InvitationQuery_Offset :: "int \<Rightarrow> InvitationQuery \<Rightarrow> InvitationQuery" where
  "InvitationQuery_Offset n q = q\<lparr>qOffset := n\<rparr>"

definition InvitationQuery_Id :: "nat \<Rightarrow> InvitationQuery \<Rightarrow> InvitationQuery" where
  "InvitationQuery_Id i q = q\<lparr>iqId := i\<rparr>"

definition InvitationQuery_Mission :: "nat \<Rightarrow> InvitationQuery \<Rightarrow> InvitationQuery" where
  "InvitationQuery_Mission i q = q\<lparr>iqMissionID := i\<rparr>"

definition InvitationQuery_Invitee :: "string \<Rightarrow> InvitationQuery \<Rightarrow> InvitationQuery" where
  "InvitationQuery_Invitee s q = q\<lparr>iqInvitee := s\<rparr>"

definition InvitationQuery_Type :: "string \<Rightarrow> InvitationQuery \<Rightarrow> InvitationQuery" where
  "InvitationQuery_Type s q = q\<lparr>iqTyp := s\<rparr>"

definition InvitationQuery_Full :: "InvitationQuery \<Rightarrow> InvitationQuery" where
  "InvitationQuery_Full q = q\<lparr>iqFull := True\<rparr>"

definition InvitationQuery_where :: "InvitationQuery \<Rightarrow> tx" where
  "InvitationQuery_where q = model_tx Invitations
     (where_nat ''id = ?'' (iqId q) @
      where_nat ''mission_id = ?'' (iqMissionID q) @
      where_str ''invitee = ?'' (iqInvitee q) @
      where_str ''type = ?'' (iqTyp q) @
      (if iqFull q then [Joins ''Mission''] else []))"

definition InvitationQuery_Get :: "'db gorm \<Rightarrow> InvitationQuery \<Rightarrow> 'db \<Rightarrow> Invitation list" where
  "InvitationQuery_Get g q db = List.map_filter as_invitation (query_get g q (InvitationQuery_where q) db)"

definition InvitationQuery_One :: "'db gorm \<Rightarrow> InvitationQuery \<Rightarrow> 'db \<Rightarrow> Invitation option" where
  "InvitationQuery_One g q db = Option.bind (query_one g (InvitationQuery_where q) db) as_invitation"

definition InvitationQuery_Update :: "'db gorm \<Rightarrow> InvitationQuery \<Rightarrow> (string \<times> dbval) list \<Rightarrow> 'db \<Rightarrow> gofail option \<times> 'db" where
  "InvitationQuery_Update g q updates db = updateOrError g (InvitationQuery_where q) updates db"

definition InvitationQuery_Delete :: "'db gorm \<Rightarrow> InvitationQuery \<Rightarrow> 'db \<Rightarrow> gofail option \<times> 'db" where
  "InvitationQuery_Delete g q db = gDelete g (InvitationQuery_where q) db"

subsection \<open>PointQuery\<close>

record PointQuery = query +
  pqId :: nat
  pqUid :: string
  pqScope :: string
  pqStale :: "bool option"

definition NewPointQuery :: PointQuery where
  "NewPointQuery = \<lparr>qLimit = 100, qOffset = 0, qOrder = ''created_at DESC'', pqId = 0, pqUid = [], pqScope = [], pqStale = None\<rparr>"

definition PointQuery_Order :: "string \<Rightarrow> PointQuery \<Rightarrow> PointQuery" where
  "PointQuery_Order s q = q\<lparr>qOrder := s\<rparr>"

definition PointQuery_Limit :: "int \<Rightarrow> PointQuery \<Rightarrow> PointQuery" where
  "PointQuery_Limit n q = q\<lparr>qLimit := n\<rparr>"

definition PointQuery_Offset :: "int \<Rightarrow> PointQuery \<Rightarrow> PointQuery" where
  "PointQuery_Offset n q = q\<lparr>qOffset := n\<rparr>"

definition PointQuery_Id :: "nat \<Rightarrow> PointQuery \<Rightarrow> PointQuery" where
  "PointQuery_Id i q = q\<lparr>pqId := i\<rparr>"

definition PointQuery_UID :: "string \<Rightarrow> PointQuery \<Rightarrow> PointQuery" where
  "PointQuery_UID s q = q\<lparr>pqUid := s\<rparr>"

definition PointQuery_Scope :: "string \<Rightarrow> PointQuery \<Rightarrow> PointQuery" where
  "PointQuery_Scope s q = q\<lparr>pqScope := s\<rparr>"

definition PointQuery_Stale :: "bool \<Rightarrow> PointQuery \<Rightarrow> PointQuery" where
  "PointQuery_Stale b q = q\<lparr>pqStale := Some b\<rparr>"

definition PointQuery_where :: "time \<Rightarrow> PointQuery \<Rightarrow> tx" where
  "PointQuery_where now q = model_tx Points
     (where_nat ''id = ?'' (pqId q) @
      where_str ''uid = ?'' (pqUid q) @
      (case pqStale q of None \<Rightarrow> [] | Some b \<Rightarrow> [Where (if b then ''stale < ?'' else ''stale >= ?'') (VTime now)]) @
      where_str ''scope = ?'' (pqScope q))"

definition PointQuery_Get :: "'db gorm \<Rightarrow> time \<Rightarrow> PointQuery \<Rightarrow> 'db \<Rightarrow> MissionPoint list" where
  "PointQuery_Get g now q db = List.map_filter as_point (query_get g q (PointQuery_where now q) db)"

definition PointQuery_One :: "'db gorm \<Rightarrow> time \<Rightarrow> PointQuery \<Rightarrow> 'db \<Rightarrow> MissionPoint option" where
  "PointQuery_One g now q db = Option.bind (query_one g (PointQuery_where now q) db) as_point"

definition PointQuery_Update :: "'db gorm \<Rightarrow> time \<Rightarrow> PointQuery \<Rightarrow> (string \<times> dbval) list \<Rightarrow> 'db \<Rightarrow> gofail option \<times> 'db" where
  "PointQuery_Update g now q updates db = updateOrError g (PointQuery_where now q) updates db"

definition PointQuery_Delete :: "'db gorm \<Rightarrow> time \<Rightarrow> PointQuery \<Rightarrow> 'db \<Rightarrow> gofail option \<times> 'db" where
  "PointQuery_Delete g now q db = gDelete g (PointQuery_where now q) db"

subsection \<open>DeviceQuery\<close>

record DeviceQuery = query +
  dqLogin :: string
  dqScope :: string
  dqFull :: bool

definition NewDeviceQuery :: DeviceQuery where
  "NewDeviceQuery = \<lparr>qLimit = 100, qOffset = 0, qOrder = ''login DESC'', dqLogin = [], dqScope = [], dqFull = False\<rparr>"

definition DeviceQuery_Order :: "string \<Rightarrow> DeviceQuery \<Rightarrow> DeviceQuery" where
  "DeviceQuery_Order s q = q\<lparr>qOrder := s\<rparr>"

definition DeviceQuery_Limit :: "int \<Rightarrow> DeviceQuery \<Rightarrow> DeviceQuery" where
  "DeviceQuery_Limit n q = q\<lparr>qLimit := n\<rparr>"

definition DeviceQuery_Offset :: "int \<Rightarrow> DeviceQuery \<Rightarrow> DeviceQuery" where
  "DeviceQuery_Offset n q = q\<lparr>qOffset := n\<rparr>"

definition DeviceQuery_Login :: "string \<Rightarrow> DeviceQuery \<Rightarrow> DeviceQuery" where
  "DeviceQuery_Login s q = q\<lparr>dqLogin := s\<rparr>"

definition DeviceQuery_Scope :: "string \<Rightarrow> DeviceQuery \<Rightarrow> DeviceQuery" where
  "DeviceQuery_Scope s q = q\<lparr>dqScope := s\<rparr>"

definition DeviceQuery_Full :: "DeviceQuery \<Rightarrow> DeviceQuery" where
  "DeviceQuery_Full q = q\<lparr>dqFull := True\<rparr>"

definition DeviceQuery_where :: "DeviceQuery \<Rightarrow> tx" where
  "DeviceQuery_where q = model_tx Devices
     (where_str ''login = ?'' (dqLogin q) @
      where_str ''scope = ?'' (dqScope q) @
      (if dqFull q then [Preload ''Certs'' ''certificates.last_connect desc''] else []))"

definition DeviceQuery_Get :: "'db gorm \<Rightarrow> DeviceQuery \<Rightarrow> 'db \<Rightarrow> Device list" where
  "DeviceQuery_Get g q db = List.map_filter as_device (query_get g q (DeviceQuery_where q) db)"

definition DeviceQuery_One :: "'db gorm \<Rightarrow> DeviceQuery \<Rightarrow> 'db \<Rightarrow> Device option" where
  "DeviceQuery_One g q db = Option.bind (query_one g (DeviceQuery_where q) db) as_device"

definition DeviceQuery_Count :: "'db gorm \<Rightarrow> DeviceQuery \<Rightarrow> 'db \<Rightarrow> nat" where
  "DeviceQuery_Count g q db = query_count g (DeviceQuery_where q) db"

definition DeviceQuery_Update :: "'db gorm \<Rightarrow> DeviceQuery \<Rightarrow> (string \<times> dbval) list \<Rightarrow> 'db \<Rightarrow> gofail option \<times> 'db" where
  "DeviceQuery_Update g q updates db = updateOrError g (DeviceQuery_where q) updates db"

subsection \<open>CertQuery\<close>

record CertQuery = query +
  tqUid :: string
  tqLogin :: string
  tqSn :: string

definition NewCertQuery :: CertQuery where
  "NewCertQuery = \<lparr>qLimit = 100, qOffset = 0, qOrder = ''login DESC'', tqUid = [], tqLogin = [], tqSn = []\<rparr>"

definition CertQuery_Order :: "string \<Rightarrow> CertQuery \<Rightarrow> CertQuery" where
  "CertQuery_Order s q = q\<lparr>qOrder := s\<rparr>"

definition CertQuery_Limit :: "int \<Rightarrow> CertQuery \<Rightarrow> CertQuery" where
  "CertQuery_Limit n q = q\<lparr>qLimit := n\<rparr>"

definition CertQuery_Offset :: "int \<Rightarrow> CertQuery \<Rightarrow> CertQuery" where
  "CertQuery_Offset n q = q\<lparr>qOffset := n\<rparr>"

definition CertQuery_UID :: "string \<Rightarrow> CertQuery \<Rightarrow> CertQuery" where
  "CertQuery_UID s q = q\<lparr>tqUid := s\<rparr>"

definition CertQuery_Login :: "string \<Rightarrow> CertQuery \<Rightarrow> CertQuery" where
  "CertQuery_Login s q = q\<lparr>tqLogin := s\<rparr>"

definition CertQuery_SN :: "string \<Rightarrow> CertQuery \<Rightarrow> CertQuery" where
  "CertQuery_SN s q = q\<lparr>tqSn := s\<rparr>"

definition CertQuery_where :: "CertQuery \<Rightarrow> tx" where
  "CertQuery_where q = model_tx Certificates
     (where_str ''uid = ?'' (tqUid q) @
      where_str ''login = ?'' (tqLogin q) @
      where_str ''serial = ?'' (tqSn q))"

definition CertQuery_Get :: "'db gorm \<Rightarrow> CertQuery \<Rightarrow> 'db \<Rightarrow> Certificate list" where
  "CertQuery_Get g q db = List.map_filter as_cert (query_get g q (CertQuery_where q) db)"

definition CertQuery_One :: "'db gorm \<Rightarrow> CertQuery \<Rightarrow> 'db \<Rightarrow> Certificate option" where
  "CertQuery_One g q db = Option.bind (query_one g (CertQuery_where q) db) as_cert"

definition CertQuery_Count :: "'db gorm \<Rightarrow> CertQuery \<Rightarrow> 'db \<Rightarrow> nat" where
  "CertQuery_Count g q db = query_count g (CertQuery_where q) db"

definition CertQuery_Update :: "'db gorm \<Rightarrow> CertQuery \<Rightarrow> (string \<times> dbval) list \<Rightarrow> 'db \<Rightarrow> gofail option \<times> 'db" where
  "CertQuery_Update g q updates db = updateOrError g (CertQuery_where q) updates db"

definition CertQuery_Delete :: "'db gorm \<Rightarrow> CertQuery \<Rightarrow> 'db \<Rightarrow> gofail option \<times> 'db" where
  "CertQuery_Delete g q db = gDelete g (CertQuery_where q) db"

subsection \<open>ProfileQuery\<close>

record ProfileQuery = query +
  fqLogin :: string
  fqUid :: string
  fqAfter :: time

definition NewProfileQuery :: ProfileQuery where
  "NewProfileQuery = \<lparr>qLimit = 100, qOffset = 0, qOrder = ''login,uid'', fqLogin = [], fqUid = [], fqAfter = zero_time\<rparr>"

definition ProfileQuery_Order :: "string \<Rightarrow> ProfileQuery \<Rightarrow> ProfileQuery" where
  "ProfileQuery_Order s q = q\<lparr>qOrder := s\<rparr>"

definition ProfileQuery_Limit :: "int \<Rightarrow> ProfileQuery \<Rightarrow> ProfileQuery" where
  "ProfileQuery_Limit n q = q\<lparr>qLimit := n\<rparr>"

definition ProfileQuery_Offset :: "int \<Rightarrow> ProfileQuery \<Rightarrow> ProfileQuery" where
  "ProfileQuery_Offset n q = q\<lparr>qOffset := n\<rparr>"

definition ProfileQuery_Login :: "string \<Rightarrow> ProfileQuery \<Rightarrow> ProfileQuery" where
  "ProfileQuery_Login s q = q\<lparr>fqLogin := s\<rparr>"

definition ProfileQuery_UID :: "string \<Rightarrow> ProfileQuery \<Rightarrow> ProfileQuery" where
  "ProfileQuery_UID s q = q\<lparr>fqUid := s\<rparr>"

definition ProfileQuery_After :: "time \<Rightarrow> ProfileQuery \<Rightarrow> ProfileQuery" where
  "ProfileQuery_After t q = q\<lparr>fqAfter := t\<rparr>"

definition ProfileQuery_where :: "ProfileQuery \<Rightarrow> tx" where
  "ProfileQuery_where q = model_tx Profiles
     (where_str ''login = ?'' (fqLogin q) @
      where_str ''uid = ?'' (fqUid q) @
      where_time ''update_time >= ?'' (fqAfter q))"

definition ProfileQuery_Get :: "'db gorm \<Rightarrow> ProfileQuery \<Rightarrow> 'db \<Rightarrow> Profile list" where
  "ProfileQuery_Get g q db = List.map_filter as_profile (query_get g q (ProfileQuery_where q) db)"

definition ProfileQuery_One :: "'db gorm \<Rightarrow> ProfileQuery \<Rightarrow> 'db \<Rightarrow> Profile option" where
  "ProfileQuery_One g q db = Option.bind (query_one g (ProfileQuery_where q) db) as_profile"

definition ProfileQuery_Count :: "'db gorm \<Rightarrow> ProfileQuery \<Rightarrow> 'db \<Rightarrow> nat" where
  "ProfileQuery_Count g q db = query_count g (ProfileQuery_where q) db"

definition ProfileQuery_Update :: "'db gorm \<Rightarrow> ProfileQuery \<Rightarrow> (string \<times> dbval) list \<Rightarrow> 'db \<Rightarrow> gofail option \<times> 'db" where
  "ProfileQuery_Update g q updates db = updateOrError g (ProfileQuery_where q) updates db"

definition ProfileQuery_Delete :: "'db gorm \<Rightarrow> ProfileQuery \<Rightarrow> 'db \<Rightarrow> gofail option \<times> 'db" where
  "ProfileQuery_Delete g q db = gDelete g (ProfileQuery_where q) db"

subsection \<open>FeedQuery\<close>

record FeedQuery = query +
  eqUid :: string
  eqUser :: string
  eqScope :: StringSet
  eqAll :: bool

definition NewFeedQuery :: FeedQuery where
  "NewFeedQuery = \<lparr>qLimit = 100, qOffset = 0, qOrder = ''uid'', eqUid = [], eqUser = [], eqScope = [], eqAll = False\<rparr>"

definition FeedQuery_Order :: "string \<Rightarrow> FeedQuery \<Rightarrow> FeedQuery" where
  "FeedQuery_Order s q = q\<lparr>qOrder := s\<rparr>"

definition FeedQuery_Limit :: "int \<Rightarrow> FeedQuery \<Rightarrow> FeedQuery" where
  "FeedQuery_Limit n q = q\<lparr>qLimit := n\<rparr>"

definition FeedQuery_Offset :: "int \<Rightarrow> FeedQuery \<Rightarrow> FeedQuery" where
  "FeedQuery_Offset n q = q\<lparr>qOffset := n\<rparr>"

definition FeedQuery_UID :: "string \<Rightarrow> FeedQuery \<Rightarrow> FeedQuery" where
  "FeedQuery_UID s q = q\<lparr>eqUid := s\<rparr>"

definition FeedQuery_User :: "string \<Rightarrow> FeedQuery \<Rightarrow> FeedQuery" where
  "FeedQuery_User s q = q\<lparr>eqUser := s\<rparr>"

definition FeedQuery_Scope :: "string \<Rightarrow> FeedQuery \<Rightarrow> FeedQuery" where
  "FeedQuery_Scope s q = q\<lparr>eqScope := StringSet_Add [s] (eqScope q)\<rparr>"

definition FeedQuery_ReadScope :: "string list \<Rightarrow> FeedQuery \<Rightarrow> FeedQuery" where
  "FeedQuery_ReadScope ss q = q\<lparr>eqScope := StringSet_Add ss (eqScope q)\<rparr>"

definition FeedQuery_All :: "bool \<Rightarrow> FeedQuery \<Rightarrow> FeedQuery" where
  "FeedQuery_All b q = q\<lparr>eqAll := b\<rparr>"

definition FeedQuery_where :: "FeedQuery \<Rightarrow> tx" where
  "FeedQuery_where q = model_tx Feeds
     (where_str ''uid = ?'' (eqUid q) @
      where_str ''user = ?'' (eqUser q) @
      where_scope ''scope in (?)'' (eqScope q) @
      (if eqAll q then [] else [WhereRaw ''active is true'']))"

definition FeedQuery_Get :: "'db gorm \<Rightarrow> FeedQuery \<Rightarrow> 'db \<Rightarrow> Feed2 list" where
  "FeedQuery_Get g q db = List.map_filter as_feed (query_get g q (FeedQuery_where q) db)"

definition FeedQuery_One :: "'db gorm \<Rightarrow> FeedQuery \<Rightarrow> 'db \<Rightarrow> Feed2 option" where
  "FeedQuery_One g q db = Option.bind (query_one g (FeedQuery_where q) db) as_feed"

definition FeedQuery_Count :: "'db gorm \<Rightarrow> FeedQuery \<Rightarrow> 'db \<Rightarrow> nat" where
  "FeedQuery_Count g q db = query_count g (FeedQuery_where q) db"

definition FeedQuery_Update :: "'db gorm \<Rightarrow> FeedQuery \<Rightarrow> (string \<times> dbval) list \<Rightarrow> 'db \<Rightarrow> gofail option \<times> 'db" where
  "FeedQuery_Update g q updates db = updateOrError g (FeedQuery_where q) updates db"

definition FeedQuery_Delete :: "'db gorm \<Rightarrow> FeedQuery \<Rightarrow> 'db \<Rightarrow> gofail option \<times> 'db" where
  "FeedQuery_Delete g q db = gDelete g (FeedQuery_where q) db"

subsection \<open>Deletions in a transaction\<close>

text \<open>\<open>tx.Where(sql, v).Delete(&T{})\<close> for each table in turn, until one fails.\<close>

fun delete_all :: "'db gorm \<Rightarrow> string \<Rightarrow> dbval \<Rightarrow> table list \<Rightarrow> 'db \<Rightarrow> (row option \<times> gofail option) \<times> 'db" where
  "delete_all g sql v [] db = ((None, None), db)"
| "delete_all g sql v (t # ts) db =
     (case gDelete g (model_tx t [Where sql v]) db of
        (Some err, db') \<Rightarrow> ((None, Some err), db')
      | (None, db') \<Rightarrow> delete_all g sql v ts db')"

definition MissionQuery_Delete :: "'db gorm \<Rightarrow> nat \<Rightarrow> 'db \<Rightarrow> gofail option \<times> 'db" where
  "MissionQuery_Delete g i db =
     (case gTransaction g (\<lambda>db.
        case gDelete g (model_tx Missions [Where ''id = ?'' (VNat i)]) db of
          (Some err, db') \<Rightarrow> ((None, Some err), db')
        | (None, db') \<Rightarrow> delete_all g ''mission_id = ?'' (VNat i) [Subscriptions, Invitations, Changes] db') db of
        ((_, err), db') \<Rightarrow> (err, db'))"

definition DeviceQuery_Delete :: "'db gorm \<Rightarrow> string \<Rightarrow> 'db \<Rightarrow> gofail option \<times> 'db" where
  "DeviceQuery_Delete g login db =
     (case gTransaction g (delete_all g ''login = ?'' (VStr login) [Devices, Certificates]) db of
        ((_, err), db') \<Rightarrow> (err, db'))"

end
