(* ===== verification/Database.thy ===== *)
theory Database
  imports DbQueries
begin

text \<open>
  \<open>internal/database/manager.go\<close>, \<open>mission.go\<close> and \<open>invite_subscribe.go\<close>: what the server does
  with its database. A manager is the interface to gorm, or \<open>None\<close> when it has none (the guards
  \<open>mm == nil || mm.db == nil\<close>); operations that dereference it without a guard take the interface
  itself. The schema migration and the opening of the database are gorm calls and not modelled.
\<close>

section \<open>Objects\<close>

definition dbCreate :: "'db gorm option \<Rightarrow> row \<Rightarrow> 'db \<Rightarrow> (row \<times> gofail option) \<times> 'db" where
  "dbCreate mm s db = (case mm of None \<Rightarrow> ((s, None), db) | Some g \<Rightarrow> gCreate g s db)"

definition dbSave :: "'db gorm option \<Rightarrow> row \<Rightarrow> 'db \<Rightarrow> (row \<times> gofail option) \<times> 'db" where
  "dbSave mm s db = (case mm of None \<Rightarrow> ((s, None), db) | Some g \<Rightarrow> gSave g False s db)"

definition dbForceSave :: "'db gorm option \<Rightarrow> row \<Rightarrow> 'db \<Rightarrow> (row \<times> gofail option) \<times> 'db" where
  "dbForceSave mm s db = (case mm of None \<Rightarrow> ((s, None), db) | Some g \<Rightarrow> gSave g True s db)"

definition defaultPrefs :: "(string, string) smap" where
  "defaultPrefs =
     [(''deviceProfileEnableOnConnect'', ''true''), (''speed_unit_pref'', ''1''), (''alt_unit_pref'', ''1''),
      (''saHasPhoneNumber'', ''false''), (''alt_display_pref'', ''MSL''), (''coord_display_pref'', ''DD''),
      (''rab_north_ref_pref'', ''1''), (''rab_brg_units'', ''0''), (''rab_nrg_units'', ''1''),
      (''displayServerConnectionWidget'', ''true''), (''frame_limit'', ''1''),
      (''hidePreferenceItem_deviceProfileEnableOnConnect'', ''true'')]"

definition AddDefaults :: "'db gorm \<Rightarrow> 'db \<Rightarrow> 'db" where
  "AddDefaults g db =
     (if ProfileQuery_Count g NewProfileQuery db = 0
      then snd (dbSave (Some g) (ProfileRow (new_Profile\<lparr>pfLogin := ''*'', pfUID := ''*'', pfOptions := defaultPrefs\<rparr>)) db)
      else db)"

definition UpdateMissionChanged :: "'db gorm \<Rightarrow> time \<Rightarrow> nat \<Rightarrow> 'db \<Rightarrow> gofail option \<times> 'db" where
  "UpdateMissionChanged g now i db =
     MissionQuery_Update g (MissionQuery_Id i NewMissionQuery) [(''updated_at'', VTime now)] db"

definition UpdateContentTool :: "'db gorm \<Rightarrow> nat \<Rightarrow> string \<Rightarrow> 'db \<Rightarrow> gofail option \<times> 'db" where
  "UpdateContentTool g i tool db = MissionQuery_Update g (MissionQuery_Id i NewMissionQuery) [(''tool'', VStr tool)] db"

definition UpdateKw :: "'db gorm \<Rightarrow> string \<Rightarrow> string \<Rightarrow> string list \<Rightarrow> 'db \<Rightarrow> gofail option \<times> 'db" where
  "UpdateKw g name scope kw db =
     MissionQuery_Update g (MissionQuery_Scope scope (MissionQuery_Name name NewMissionQuery))
       [(''keywords'', VStr (Join kw '',''))] db"

section \<open>Missions and subscriptions\<close>

text \<open>The row keeps its key when the client has subscribed before.\<close>

definition subscribe ::
    "'db gorm \<Rightarrow> nat \<Rightarrow> string \<Rightarrow> string \<Rightarrow> bool \<Rightarrow> 'db \<Rightarrow> (Subscription option \<times> gofail option) \<times> 'db" where
  "subscribe g missionID clientUID username creator db =
     (if clientUID = [] then ((None, None), db)
      else case gTransaction g (\<lambda>db.
             let s = (case SubscriptionQuery_One g
                          (SubscriptionQuery_Client clientUID (SubscriptionQuery_Mission missionID NewSubscriptionQuery)) db of
                        Some ss \<Rightarrow> ss | None \<Rightarrow> new_Subscription);
                 s' = s\<lparr>sbMissionID := missionID, sbClientUID := clientUID, sbUsername := username,
                        sbRole := (if creator then ''MISSION_CREATOR'' else ''MISSION_SUBSCRIBER'')\<rparr>
             in case gSave g False (SubscriptionRow s') db of ((r, err), db') \<Rightarrow> ((Some r, err), db')) db of
           ((r, err), db') \<Rightarrow> ((Option.bind r as_subscription, err), db'))"

definition invite_only_error :: gofail where
  "invite_only_error = Error ''Illegal attempt to subscribe to invite only mission!''"

definition password_error :: gofail where
  "password_error = Error ''Illegal attempt to subscribe to mission! Password did not match.''"

definition Subscribe ::
    "'db gorm \<Rightarrow> Device option \<Rightarrow> Mission \<Rightarrow> string \<Rightarrow> string \<Rightarrow> 'db \<Rightarrow> (Subscription option \<times> gofail option) \<times> 'db" where
  "Subscribe g user mission uid password db =
     (if msInviteOnly mission then ((None, Some invite_only_error), db)
      else if msPassword mission \<noteq> [] \<and> password \<noteq> msPassword mission then ((None, Some password_error), db)
      else subscribe g (msID mission) uid (Device_GetLogin user) False db)"

text \<open>The mission is returned with the key that \<open>Create\<close> gave it.\<close>

definition CreateMission :: "'db gorm option \<Rightarrow> time \<Rightarrow> Mission option \<Rightarrow> 'db \<Rightarrow> (Mission option \<times> gofail option) \<times> 'db" where
  "CreateMission mm now mo db =
     (case mm of None \<Rightarrow> ((mo, None), db)
      | Some g \<Rightarrow>
     (case mo of None \<Rightarrow> ((mo, Some (Error ''null mission'')), db)
      | Some m \<Rightarrow>
     (if msName m = [] then ((mo, Some (Error ''null mission name'')), db)
      else case gTransaction g (\<lambda>db.
             if MissionQuery_One g (MissionQuery_Name (msName m) (MissionQuery_Scope (msScope m) NewMissionQuery)) db \<noteq> None
             then ((None, Some (Error (''mission '' @ msName m @ '' exists''))), db)
             else case gCreate g (MissionRow m) db of
                    ((r, Some err), db1) \<Rightarrow> ((Some r, Some err), db1)
                  | ((r, None), db1) \<Rightarrow>
                      (let m' = (case as_mission r of Some m' \<Rightarrow> m' | None \<Rightarrow> m);
                           c = new_Change\<lparr>cgCreatedAt := now, cgType := ''CREATE_MISSION'', cgMissionID := msID m',
                                 cgCreatorUID := msCreatorUID m'\<rparr>
                       in case gCreate g (ChangeRow c) db1 of ((_, err), db2) \<Rightarrow> ((Some r, err), db2))) db of
             ((r, Some err), db') \<Rightarrow> ((mo, Some err), db')
           | ((r, None), db') \<Rightarrow>
               (let m' = (case Option.bind r as_mission of Some m' \<Rightarrow> m' | None \<Rightarrow> m)
                in case subscribe g (msID m') (msCreatorUID m') (msCreator m') True db' of
                     ((_, err), db'') \<Rightarrow> ((Some m', err), db'')))))"

definition GetSubscribers :: "'db gorm \<Rightarrow> nat \<Rightarrow> 'db \<Rightarrow> string list" where
  "GetSubscribers g missionId db =
     map sbClientUID (SubscriptionQuery_Get g (SubscriptionQuery_Mission missionId NewSubscriptionQuery) db)"

definition Invite :: "'db gorm \<Rightarrow> Invitation \<Rightarrow> 'db \<Rightarrow> (Invitation option \<times> gofail option) \<times> 'db" where
  "Invite g s db =
     (let old = (case InvitationQuery_One g (InvitationQuery_Type (ivTyp s)
                        (InvitationQuery_Invitee (ivInvitee s) (InvitationQuery_Mission (ivMissionID s) NewInvitationQuery))) db of
                   Some i \<Rightarrow> i | None \<Rightarrow> new_Invitation);
          old' = old\<lparr>ivMissionID := ivMissionID s, ivTyp := ivTyp s, ivInvitee := ivInvitee s, ivRole := ivRole s,
                     ivCreatorUID := ivCreatorUID s\<rparr>
      in case gSave g False (InvitationRow old') db of ((r, err), db') \<Rightarrow> ((as_invitation r, err), db'))"

text \<open>The names of the missions; an invitation whose mission was not joined is a nil pointer.\<close>

fun mission_names :: "Invitation list \<Rightarrow> string list result" where
  "mission_names [] = Inr []"
| "mission_names (s # ss) =
     (case ivMission s of None \<Rightarrow> Inl (Panic ''nil pointer dereference'')
      | Some m \<Rightarrow> (case mission_names ss of Inl e \<Rightarrow> Inl e | Inr ns \<Rightarrow> Inr (msName m # ns)))"

definition GetInvitations :: "'db gorm \<Rightarrow> string \<Rightarrow> 'db \<Rightarrow> string list result" where
  "GetInvitations g uid db =
     mission_names (InvitationQuery_Get g (InvitationQuery_Full (InvitationQuery_Invitee uid NewInvitationQuery)) db)"

section \<open>The contents of a mission\<close>

definition point_of :: "string \<Rightarrow> Mission \<Rightarrow> MissionPoint option" where
  "point_of uid m = find (\<lambda>p. mpUID p = uid) (msPoints m)"

definition resource_of :: "string \<Rightarrow> Mission \<Rightarrow> Resource option" where
  "resource_of hash m = find (\<lambda>r. rsHash r = hash) (msResources m)"

text \<open>\<open>mm.Create(c)\<close> and the change as it is then.\<close>

definition create_change :: "'db gorm \<Rightarrow> Change \<Rightarrow> 'db \<Rightarrow> (Change option \<times> gofail option) \<times> 'db" where
  "create_change g c db =
     (case dbCreate (Some g) (ChangeRow c) db of
        ((r, err), db') \<Rightarrow> ((Some (case as_change r of Some c' \<Rightarrow> c' | None \<Rightarrow> c), err), db'))"

definition AddMissionPoint ::
    "'db gorm \<Rightarrow> time \<Rightarrow> Mission option \<Rightarrow> CotMessage \<Rightarrow> 'db \<Rightarrow> (Change option \<times> gofail option) \<times> 'db" where
  "AddMissionPoint g now mo msg db =
     (case mo of None \<Rightarrow> ((None, None), db)
      | Some mission \<Rightarrow>
          (let uid = GetUID (Some msg)
           in case point_of uid mission of
                Some p \<Rightarrow>
                  (case dbSave (Some g) (PointRow (UpdateFromMsg msg p)) db of ((_, err), db') \<Rightarrow> ((None, err), db'))
              | None \<Rightarrow>
                  (let point = (case PointQuery_One g now (PointQuery_UID uid NewPointQuery) db of
                                  Some p \<Rightarrow> p | None \<Rightarrow> new_MissionPoint\<lparr>mpUID := uid\<rparr>)
                   in case dbSave (Some g) (PointRow (UpdateFromMsg msg point)) db of
                        ((_, Some err), db1) \<Rightarrow> ((None, Some err), db1)
                      | ((r, None), db1) \<Rightarrow>
                          (case gAppend g ''Points'' r mission db1 of
                             ((_, Some err), db2) \<Rightarrow> ((None, Some err), db2)
                           | ((_, None), db2) \<Rightarrow>
                               create_change g (new_Change\<lparr>cgType := CHANGE_TYPE_ADD, cgMissionID := msID mission,
                                 cgCreatorUID := fst (GetParent (Some msg)), cgContentUID := uid,
                                 cgMissionPointID := map_option mpID (as_point r)\<rparr>) db2))))"

text \<open>The deletions and \<open>AddMissionResource\<close> also return the mission, whose list they change.\<close>

definition DeleteMissionPoint ::
    "'db gorm option \<Rightarrow> Mission \<Rightarrow> string \<Rightarrow> string \<Rightarrow> 'db \<Rightarrow> (Change option \<times> Mission) \<times> 'db" where
  "DeleteMissionPoint mm mission uid authorUID db =
     (case mm of None \<Rightarrow> ((None, mission), db)
      | Some g \<Rightarrow>
     (if uid = [] then ((None, mission), db)
      else case point_of uid mission of
             None \<Rightarrow> ((None, mission), db)
           | Some point \<Rightarrow>
               (case gUnlink g ''Points'' (PointRow point) mission db of
                  ((mission', _), db1) \<Rightarrow>
                    (case create_change g (new_Change\<lparr>cgType := CHANGE_TYPE_REMOVE, cgMissionID := msID mission,
                         cgCreatorUID := authorUID, cgContentUID := uid, cgMissionPointID := Some (mpID point)\<rparr>) db1 of
                       ((c, _), db2) \<Rightarrow> ((c, mission'), db2)))))"

definition AddMissionResource ::
    "'db gorm option \<Rightarrow> Mission \<Rightarrow> string \<Rightarrow> string \<Rightarrow> 'db \<Rightarrow> (Change option \<times> Mission) \<times> 'db" where
  "AddMissionResource mm mission hash authorUID db =
     (case mm of None \<Rightarrow> ((None, mission), db)
      | Some g \<Rightarrow>
     (if hash = [] then ((None, mission), db)
      else if resource_of hash mission \<noteq> None then ((None, mission), db)
      else case ResourceQuery_One g (ResourceQuery_Hash hash (ResourceQuery_Scope (msScope mission) NewResourceQuery)) db of
             None \<Rightarrow> ((None, mission), db)
           | Some res \<Rightarrow>
               (case gAppend g ''Resources'' (ResourceRow res) mission db of
                  ((mission', _), db1) \<Rightarrow>
                    (case create_change g (new_Change\<lparr>cgType := CHANGE_TYPE_ADD, cgMissionID := msID mission,
                         cgCreatorUID := authorUID, cgContentHash := hash, cgResourceID := Some (rsID res)\<rparr>) db1 of
                       ((c, _), db2) \<Rightarrow> ((c, mission'), db2)))))"

definition DeleteMissionContent ::
    "'db gorm option \<Rightarrow> Mission \<Rightarrow> string \<Rightarrow> string \<Rightarrow> 'db \<Rightarrow> (Change option \<times> Mission) \<times> 'db" where
  "DeleteMissionContent mm mission hash authorUID db =
     (case mm of None \<Rightarrow> ((None, mission), db)
      | Some g \<Rightarrow>
     (if hash = [] then ((None, mission), db)
      else case resource_of hash mission of
             None \<Rightarrow> ((None, mission), db)
           | Some res \<Rightarrow>
               (case gUnlink g ''Resources'' (ResourceRow res) mission db of
                  ((mission', _), db1) \<Rightarrow>
                    (case create_change g (new_Change\<lparr>cgType := CHANGE_TYPE_REMOVE, cgMissionID := msID mission,
                         cgCreatorUID := authorUID, cgContentHash := hash, cgResourceID := Some (rsID res)\<rparr>) db1 of
                       ((c, _), db2) \<Rightarrow> ((c, mission'), db2)))))"

section \<open>The changes of a mission\<close>

definition change_key :: "Change \<Rightarrow> string" where
  "change_key c = cmp_Or (cgContentUID c) (cgContentHash c)"

fun squash :: "StringSet \<Rightarrow> Change list \<Rightarrow> Change list" where
  "squash uids [] = []"
| "squash uids (c # cs) =
     (if StringSet_Has uids (change_key c) then squash uids cs
      else (let uids' = StringSet_Add [change_key c] uids
            in if cgType c \<noteq> CHANGE_TYPE_REMOVE then c # squash uids' cs else squash uids' cs))"

definition GetChanges :: "'db gorm \<Rightarrow> nat \<Rightarrow> time \<Rightarrow> bool \<Rightarrow> 'db \<Rightarrow> Change list" where
  "GetChanges g missionId after squashed db =
     (let ch = ChangeQuery_Get g (ChangeQuery_After after (ChangeQuery_Mission missionId NewChangeQuery)) db
      in if squashed then squash [] ch else ch)"

section \<open>Properties\<close>

lemma Has_Add: "StringSet_Has (StringSet_Add [k] s) x \<longleftrightarrow> x = k \<or> StringSet_Has s x"
  by (simp add: StringSet_Has_def StringSet_Add_def syncmap.load_store)

lemma squash_mem:
  "c \<in> set (squash uids ch) \<longleftrightarrow>
   (\<exists>newer older. ch = newer @ c # older \<and> cgType c \<noteq> CHANGE_TYPE_REMOVE \<and>
      \<not> StringSet_Has uids (change_key c) \<and> change_key c \<notin> change_key ` set newer)"
proof (induction ch arbitrary: uids)
  case (Cons d ch)
  have split: "(\<exists>newer older. d # ch = newer @ c # older \<and> Q newer) \<longleftrightarrow>
      (d = c \<and> Q []) \<or> (\<exists>newer older. ch = newer @ c # older \<and> Q (d # newer))" for Q
    by (auto simp: Cons_eq_append_conv)
  show ?case
    by (subst split) (auto simp: Cons.IH Has_Add Let_def)
qed simp

lemma squash_keys: "distinct (map change_key (squash uids ch)) \<and>
    (\<forall>k \<in> change_key ` set (squash uids ch). \<not> StringSet_Has uids k)"
proof (induction ch arbitrary: uids)
  case (Cons d ch)
  show ?case
  proof (cases "StringSet_Has uids (change_key d)")
    case False
    have "\<not> StringSet_Has (StringSet_Add [change_key d] uids) k" "k \<noteq> change_key d \<and> \<not> StringSet_Has uids k"
      if "k \<in> change_key ` set (squash (StringSet_Add [change_key d] uids) ch)" for k
      using Cons.IH [of "StringSet_Add [change_key d] uids"] that by (auto simp: Has_Add)
    with False Cons.IH [of "StringSet_Add [change_key d] uids"] show ?thesis
      by (auto simp: Let_def)
  qed (simp add: Cons.IH)
qed simp

text \<open>
  The squashed changes of a mission are its current contents. Of the changes the database
  returns, newest first, the squashed list holds exactly those that are the newest for their
  content (the uid, or the hash where there is none) and not a removal; no content appears in
  it twice. What was removed last is not listed, and what was added again is listed once.
\<close>

theorem GetChanges_squashed:
  "(c \<in> set (GetChanges g i after True db) \<longleftrightarrow>
     (\<exists>newer older. GetChanges g i after False db = newer @ c # older \<and>
        change_key c \<notin> change_key ` set newer \<and> cgType c \<noteq> CHANGE_TYPE_REMOVE)) \<and>
   distinct (map change_key (GetChanges g i after True db))"
proof -
  have none: "StringSet_Has [] k = False" for k by (simp add: StringSet_Has_def)
  show ?thesis
    unfolding GetChanges_def Let_def if_True if_False squash_mem none
    using squash_keys [of "[]"] by (intro conjI iffI) (blast | simp)+
qed

end
