(* ===== verification/TtlCache.thy ===== *)
theory TtlCache
  imports GoRuntime
begin

text \<open>
  \<open>internal/cache/cache.go\<close>: a cache whose entries are reloaded once they are older than a
  time to live. A new entry has the zero time and is loaded at once. \<open>loader\<close> is an argument;
  so are the keys another goroutine has locked while \<open>Cache_Clean\<close> runs.
\<close>

section \<open>The code\<close>

record 'v entry =
  enValue :: "'v option"
  enTs :: time

record ('k, 'v) Cache =
  caM :: "('k, 'v entry) smap"
  caTtl :: int

definition NewWithTTL :: "int \<Rightarrow> ('k, 'v) Cache" where
  "NewWithTTL ttl = \<lparr>caM = [], caTtl = ttl\<rparr>"

definition new_entry :: "'v entry" where
  "new_entry = \<lparr>enValue = None, enTs = zero_time\<rparr>"

text \<open>\<open>t1\<close> is the reading of the clock in \<open>time.Since\<close>, \<open>t2\<close> the one stored.\<close>

definition Cache_Load :: "('k \<Rightarrow> 'v) \<Rightarrow> time \<Rightarrow> time \<Rightarrow> 'k \<Rightarrow> ('k, 'v) Cache \<Rightarrow> 'v option \<times> ('k, 'v) Cache" where
  "Cache_Load loader t1 t2 key c =
     (let (e, m) = (case smLoad (caM c) key of
                      Some e \<Rightarrow> (e, caM c)
                    | None \<Rightarrow> (new_entry, smStore key new_entry (caM c)));
          e' = (if enTs e = zero_time \<or> Since t1 (enTs e) > caTtl c
                then \<lparr>enValue = Some (loader key), enTs = t2\<rparr> else e)
      in (enValue e', c\<lparr>caM := smStore key e' m\<rparr>))"

definition Cache_Clean :: "'k list \<Rightarrow> time \<Rightarrow> ('k, 'v) Cache \<Rightarrow> ('k, 'v) Cache" where
  "Cache_Clean locked now c =
     c\<lparr>caM := fold smDelete
        (map fst (filter (\<lambda>(k, e). k \<notin> set locked \<and> Since now (enTs e) > caTtl c * 10) (smRange (caM c)))) (caM c)\<rparr>"

section \<open>Histories\<close>

text \<open>
  \<open>src t k\<close> is what the loader would return for \<open>k\<close> at time \<open>t\<close>. A history is any sequence
  of loads and cleanings at non-decreasing times.
\<close>

inductive history :: "(time \<Rightarrow> 'k \<Rightarrow> 'v) \<Rightarrow> int \<Rightarrow> time \<Rightarrow> ('k, 'v) Cache \<Rightarrow> bool"
  for src :: "time \<Rightarrow> 'k \<Rightarrow> 'v" and ttl :: int where
  start: "zero_time < t \<Longrightarrow> history src ttl t (NewWithTTL ttl)"
| load: "history src ttl t c \<Longrightarrow> t \<le> t' \<Longrightarrow> history src ttl t' (snd (Cache_Load (src t') t' t' key c))"
| clean: "history src ttl t c \<Longrightarrow> t \<le> t' \<Longrightarrow> history src ttl t' (Cache_Clean locked t' c)"

definition cache_inv :: "(time \<Rightarrow> 'k \<Rightarrow> 'v) \<Rightarrow> int \<Rightarrow> time \<Rightarrow> ('k, 'v) Cache \<Rightarrow> bool" where
  "cache_inv src ttl t c \<longleftrightarrow> zero_time < t \<and> caTtl c = ttl \<and> smap_wf (caM c) \<and>
     map_all (\<lambda>k e. zero_time < enTs e \<and> enTs e \<le> t \<and> enValue e = Some (src (enTs e) k)) (smLoad (caM c))"

lemma cache_inv_later: "cache_inv src ttl t c \<Longrightarrow> t \<le> t' \<Longrightarrow> cache_inv src ttl t' c"
  by (auto simp: cache_inv_def elim!: map_all_mono)

definition loaded :: "('k \<Rightarrow> 'v) \<Rightarrow> time \<Rightarrow> time \<Rightarrow> 'k \<Rightarrow> ('k, 'v) Cache \<Rightarrow> 'v entry" where
  "loaded loader t1 t2 key c =
     (let e = (case smLoad (caM c) key of Some e \<Rightarrow> e | None \<Rightarrow> new_entry)
      in if enTs e = zero_time \<or> Since t1 (enTs e) > caTtl c
         then \<lparr>enValue = Some (loader key), enTs = t2\<rparr> else e)"

lemma Load_loaded:
  "fst (Cache_Load loader t1 t2 key c) = enValue (loaded loader t1 t2 key c)"
  "smLoad (caM (snd (Cache_Load loader t1 t2 key c))) = (smLoad (caM c))(key \<mapsto> loaded loader t1 t2 key c)"
  "caTtl (snd (Cache_Load loader t1 t2 key c)) = caTtl c"
  "smap_wf (caM c) \<Longrightarrow> smap_wf (caM (snd (Cache_Load loader t1 t2 key c)))"
  by (cases "smLoad (caM c) key";
      simp add: Cache_Load_def loaded_def syncmap.load_store syncmap.wf_store Let_def)+

lemma Load_inv:
  assumes "cache_inv src ttl t c"
  shows "cache_inv src ttl t (snd (Cache_Load (src t) t t key c))"
proof -
  let ?P = "\<lambda>k e. zero_time < enTs e \<and> enTs e \<le> t \<and> enValue e = Some (src (enTs e) k)"
  have inv: "zero_time < t" "map_all ?P (smLoad (caM c))" using assms by (simp_all add: cache_inv_def)
  have "?P key (loaded (src t) t t key c)"
    using inv map_all_D [OF inv(2), of key]
    by (cases "smLoad (caM c) key") (auto simp: loaded_def new_entry_def Let_def)
  then show ?thesis
    using assms map_all_upd [OF inv(2)] unfolding cache_inv_def Load_loaded
    by (simp add: Load_loaded(4))
qed

lemma Clean_inv: "cache_inv src ttl t c \<Longrightarrow> cache_inv src ttl t (Cache_Clean locked t c)"
  by (auto simp: cache_inv_def Cache_Clean_def map_all_def syncmap.load_dels syncmap.wf_dels)

lemma history_inv: "history src ttl t c \<Longrightarrow> cache_inv src ttl t c"
proof (induction rule: history.induct)
  case (start t)
  then show ?case by (simp add: cache_inv_def NewWithTTL_def)
next
  case (load t c t' key)
  then show ?case by (intro Load_inv cache_inv_later [of src ttl t c t'])
next
  case (clean t c t' locked)
  then show ?case by (intro Clean_inv cache_inv_later [of src ttl t c t'])
qed

lemma Load_fresh:
  assumes "cache_inv src ttl t c" "0 \<le> ttl" "ttl < max_duration"
  shows "\<exists>t0 \<le> t. t - t0 \<le> ttl \<and> fst (Cache_Load (src t) t t key c) = Some (src t0 key)"
proof (cases "smLoad (caM c) key")
  case None
  then show ?thesis using assms(2) by (intro exI [of _ t]) (simp add: Cache_Load_def new_entry_def)
next
  case (Some e)
  then have e: "zero_time < enTs e" "enTs e \<le> t" "enValue e = Some (src (enTs e) key)"
    using assms(1) by (auto simp: cache_inv_def map_all_def)
  have ttl: "caTtl c = ttl" using assms(1) by (simp add: cache_inv_def)
  show ?thesis
  proof (cases "Since t (enTs e) > ttl")
    case True
    then show ?thesis using Some assms(2) ttl by (intro exI [of _ t]) (simp add: Cache_Load_def)
  next
    case False
    then have "t - enTs e \<le> ttl" using Sub_gt [of ttl t "enTs e"] assms(2,3) by simp
    then show ?thesis using Some e False ttl by (intro exI [of _ "enTs e"]) (simp add: Cache_Load_def)
  qed
qed

section \<open>Properties\<close>

text \<open>
  The cache is never more than its time to live behind. In every state reached by loads
  and cleanings at non-decreasing times, a load returns a value that the loader would have
  returned at some time no longer ago than the time to live (ten seconds for the user
  database, which is how long a disabled user can still log in).
\<close>

theorem Load_bounded_staleness:
  assumes "history src ttl t c" "0 \<le> ttl" "ttl < max_duration"
  shows "\<exists>t0 \<le> t. t - t0 \<le> ttl \<and> fst (Cache_Load (src t) t t key c) = Some (src t0 key)"
  by (rule Load_fresh [OF history_inv [OF assms(1)] assms(2,3)])

theorem Load_bounded_staleness_witness:
  "\<exists>t0 \<le> 7. 7 - t0 \<le> 5 \<and>
     fst (Cache_Load (\<lambda>k. 7) 7 7 ''k'' (snd (Cache_Load (\<lambda>k. 1) 1 1 ''k'' (NewWithTTL 5)))) = Some (t0 :: int)"
proof -
  let ?c = "snd (Cache_Load (\<lambda>k. 1 :: int) 1 1 ''k'' (NewWithTTL 5))"
  have "history (\<lambda>t k. t) 5 1 ?c"
    using history.load [of "\<lambda>t k. t" 5 1 "NewWithTTL 5" 1 "''k''"] history.start [of 1 "\<lambda>t k. t" 5]
    by (simp add: zero_time_def)
  then have "history (\<lambda>t k. t) 5 7 (Cache_Clean [''k''] 7 ?c)"
    by (rule history.clean) simp
  moreover have "Cache_Clean [''k''] 7 ?c = ?c"
    by (simp add: Cache_Clean_def Cache_Load_def NewWithTTL_def new_entry_def smLoad_def smStore_def smRange_def)
  ultimately have "history (\<lambda>t k. t) 5 7 ?c" by simp
  from Load_bounded_staleness [OF this, of "''k''"] show ?thesis by (simp add: max_duration_def)
qed

end
