(* ===== verification/UserRepo.thy ===== *)
theory UserRepo
  imports Database TtlCache
begin

text \<open>
  \<open>internal/repository/user_repo_db.go\<close>: the users of the server, the devices of the database
  behind a cache of ten seconds; and \<open>pkg/util/holder.go\<close>. A read of the clock per call is
  enough for the cache (\<open>t1\<close> and \<open>t2\<close> of a load).
\<close>

section \<open>Users\<close>

type_synonym user_cache = "(string, Device option) Cache"

definition user_ttl :: int where "user_ttl = 10 * second"

definition NewUserDbRepository :: user_cache where "NewUserDbRepository = NewWithTTL user_ttl"

definition loadUser :: "'db gorm \<Rightarrow> 'db \<Rightarrow> string \<Rightarrow> Device option" where
  "loadUser g db username = DeviceQuery_One g (DeviceQuery_Login username NewDeviceQuery) db"

text \<open>The loader reads the database as it is at the time of the load.\<close>

definition users_Get :: "'db gorm \<Rightarrow> 'db \<Rightarrow> time \<Rightarrow> string \<Rightarrow> user_cache \<Rightarrow> Device option \<times> user_cache" where
  "users_Get g db now username c =
     (case Cache_Load (loadUser g db) now now username c of (v, c') \<Rightarrow> (case v of None \<Rightarrow> None | Some u \<Rightarrow> u, c'))"

definition users_CheckAuth ::
    "'db gorm \<Rightarrow> (string \<Rightarrow> string \<Rightarrow> bool) \<Rightarrow> 'db \<Rightarrow> time \<Rightarrow> string \<Rightarrow> string \<Rightarrow> user_cache \<Rightarrow> bool \<times> user_cache" where
  "users_CheckAuth g compare db now username password c =
     (case users_Get g db now username c of (user, c') \<Rightarrow> (IsGood user \<and> CheckPassword compare user password, c'))"

definition users_IsValid :: "'db gorm \<Rightarrow> 'db \<Rightarrow> time \<Rightarrow> string \<Rightarrow> string \<Rightarrow> user_cache \<Rightarrow> bool \<times> user_cache" where
  "users_IsValid g db now username sn c =
     (case users_Get g db now username c of (user, c') \<Rightarrow> (user \<noteq> None \<and> IsGood user, c'))"

fun save_users :: "'db gorm \<Rightarrow> Device list \<Rightarrow> 'db \<Rightarrow> gofail option \<times> 'db" where
  "save_users g [] db = (None, db)"
| "save_users g (user # us) db =
     (if devLogin user \<noteq> [] then
        (case dbSave (Some g) (DeviceRow user) db of
           ((_, Some err), db') \<Rightarrow> (Some err, db') | ((_, None), db') \<Rightarrow> save_users g us db')
      else save_users g us db)"

definition users_loadFile :: "'db gorm \<Rightarrow> users_file \<Rightarrow> 'db \<Rightarrow> gofail option \<times> 'db" where
  "users_loadFile g f db = (case f of
     Missing \<Rightarrow> (None, db) | Unreadable err \<Rightarrow> (Some (Error err), db) | Users us \<Rightarrow> save_users g us db)"

text \<open>\<open>_ = d.SetPassword(p)\<close>: an error leaves the device as it is.\<close>

definition with_password :: "(string \<Rightarrow> string result) \<Rightarrow> string \<Rightarrow> Device \<Rightarrow> Device" where
  "with_password generate p d = (case SetPassword generate p d of Inl _ \<Rightarrow> d | Inr d' \<Rightarrow> d')"

definition users_Start ::
    "'db gorm \<Rightarrow> (string \<Rightarrow> string result) \<Rightarrow> users_file \<Rightarrow> 'db \<Rightarrow> gofail option \<times> 'db" where
  "users_Start g generate f db =
     (if DeviceQuery_Count g NewDeviceQuery db \<noteq> 0 then (None, db)
      else case users_loadFile g f db of
             (Some err, db1) \<Rightarrow> (Some err, db1)
           | (None, db1) \<Rightarrow>
               (if DeviceQuery_Count g NewDeviceQuery db1 \<noteq> 0 then (None, db1)
                else case dbCreate (Some g) (DeviceRow (with_password generate ''111111''
                            (new_Device\<lparr>devLogin := ''test'', devScope := ''test''\<rparr>))) db1 of
                       ((_, Some err), db2) \<Rightarrow> (Some err, db2)
                     | ((_, None), db2) \<Rightarrow>
                         (case dbCreate (Some g) (DeviceRow (with_password generate ''admin''
                             (new_Device\<lparr>devLogin := ''admin'', devScope := ''admin'', devAdmin := True\<rparr>))) db2 of
                            ((_, err), db3) \<Rightarrow> (err, db3))))"

definition SaveSignInfo :: "'db gorm \<Rightarrow> string \<Rightarrow> string \<Rightarrow> string \<Rightarrow> time \<Rightarrow> 'db \<Rightarrow> 'db" where
  "SaveSignInfo g username uid sn till db =
     (let db1 = (if uid \<noteq> [] \<and> uid \<noteq> ''taktracker''
                 then snd (CertQuery_Delete g (CertQuery_UID uid (CertQuery_Login username NewCertQuery)) db) else db)
      in snd (dbSave (Some g) (CertificateRow (new_Certificate\<lparr>crtSerial := sn, crtUID := uid, crtLogin := username,
           crtValidTill := Some till\<rparr>)) db1))"

definition SaveConnectInfo :: "'db gorm \<Rightarrow> time \<Rightarrow> string \<Rightarrow> string \<Rightarrow> string \<Rightarrow> 'db \<Rightarrow> 'db" where
  "SaveConnectInfo g now username uid sn db =
     (let db1 = snd (DeviceQuery_Update g (DeviceQuery_Login username NewDeviceQuery) [(''last_connect'', VTime now)] db);
          cert = (case CertQuery_One g (CertQuery_SN sn NewCertQuery) db1 of
                    Some c \<Rightarrow> c
                  | None \<Rightarrow> new_Certificate\<lparr>crtSerial := sn, crtLogin := username, crtUID := uid\<rparr>)
      in snd (dbSave (Some g) (CertificateRow (cert\<lparr>crtLastConnect := Some now\<rparr>)) db1))"

section \<open>Holder\<close>

type_synonym 't Holder = "(string, 't) smap"

definition Holder_Get :: "'t Holder \<Rightarrow> string \<Rightarrow> 't option" where "Holder_Get h uid = smLoad h uid"

definition Holder_Add :: "('t \<Rightarrow> string) \<Rightarrow> 't option \<Rightarrow> 't Holder \<Rightarrow> 't Holder" where
  "Holder_Add name c h = (case c of None \<Rightarrow> h | Some x \<Rightarrow> smStore (name x) x h)"

definition Holder_Remove :: "string \<Rightarrow> 't Holder \<Rightarrow> 't Holder" where "Holder_Remove name h = smDelete name h"

text \<open>The removed object, on which the caller's function then runs.\<close>

definition RemoveExec :: "string \<Rightarrow> 't Holder \<Rightarrow> 't option \<times> 't Holder" where
  "RemoveExec name h = (smLoad h name, smDelete name h)"

section \<open>Properties\<close>

definition user_src :: "'db gorm \<Rightarrow> (time \<Rightarrow> 'db) \<Rightarrow> time \<Rightarrow> string \<Rightarrow> Device option" where
  "user_src g dbs t = loadUser g (dbs t)"

lemma Get_recent:
  assumes "history (user_src g dbs) user_ttl t c"
  shows "\<exists>t0 \<le> t. t - t0 \<le> user_ttl \<and> fst (users_Get g (dbs t) t username c) = loadUser g (dbs t0) username"
proof -
  have ttl: "0 \<le> user_ttl" "user_ttl < max_duration" by (simp_all add: user_ttl_def duration_consts)
  obtain t0 where t0: "t0 \<le> t" "t - t0 \<le> user_ttl"
    "fst (Cache_Load (user_src g dbs t) t t username c) = Some (user_src g dbs t0 username)"
    using Load_fresh [OF history_inv [OF assms] ttl] by blast
  obtain v c' where "Cache_Load (loadUser g (dbs t)) t t username c = (v, c')" by fastforce
  with t0 show ?thesis by (auto simp: users_Get_def user_src_def)
qed


text \<open>For the witnesses: a database that is the list of its devices, and fails when it is \<open>None\<close>.\<close>

definition example_take :: "tx \<Rightarrow> row \<Rightarrow> Device list option \<Rightarrow> row \<times> gofail option" where
  "example_take t r db =
     (case db of None \<Rightarrow> (r, Some (Error ''database is locked''))
      | Some ds \<Rightarrow>
          (case find (\<lambda>d. list_all (\<lambda>c. c = Where ''login = ?'' (VStr (devLogin d))) (txClauses t)) ds of
             None \<Rightarrow> (r, Some ErrRecordNotFound) | Some d \<Rightarrow> (DeviceRow d, None)))"

definition example_gorm :: "Device list option gorm" where
  "example_gorm = \<lparr>gFind = (\<lambda>t db. ([], None)), gTake = example_take, gCount = (\<lambda>t db. (0, None)),
     gUpdates = (\<lambda>t u db. (0, None, db)), gDelete = (\<lambda>t db. (None, db)), gCreate = (\<lambda>r db. ((r, None), db)),
     gSave = (\<lambda>b r db. ((r, None), db)), gAppend = (\<lambda>a r m db. ((m, None), db)),
     gUnlink = (\<lambda>a r m db. ((m, None), db)), gTransaction = (\<lambda>f db. f db)\<rparr>"


text \<open>
  Two ways to be valid without being a user. When the database answers a look-up with any
  error but "not found", the empty device it leaves behind counts as a valid user, whatever the
  name; and the empty user name (a certificate without common name, a request without
  authentication) sets no condition at all, so that it stands for whichever device the database
  returns first. The empty device can not log in to the administration, though.
\<close>

theorem valid_without_user:
  assumes "gTake g (DeviceQuery_where (DeviceQuery_Login username NewDeviceQuery)) (zero_row Devices) db = (r, err)"
    "(err \<noteq> None \<and> err \<noteq> Some ErrRecordNotFound \<and> r = zero_row Devices) \<or> (username = [] \<and> err = None \<and> r = DeviceRow d \<and> \<not> devDisabled d)"
  shows "fst (users_IsValid g db t username sn NewUserDbRepository) \<and>
    (username = [] \<longrightarrow> txClauses (DeviceQuery_where (DeviceQuery_Login username NewDeviceQuery)) = []) \<and>
    (err \<noteq> None \<longrightarrow> \<not> CanLogIn (fst (users_Get g db t username NewUserDbRepository)))"
proof -
  have one: "loadUser g db username = as_device r" "as_device r \<noteq> None" "IsGood (as_device r)"
    using assms by (auto simp: loadUser_def DeviceQuery_One_def query_one_def DeviceQuery_where_def model_tx_def
        IsGood_def new_Device_def)
  have get: "fst (users_Get g db t username NewUserDbRepository) = loadUser g db username"
    by (simp add: users_Get_def Cache_Load_def NewUserDbRepository_def NewWithTTL_def new_entry_def)
  obtain u c' where u: "users_Get g db t username NewUserDbRepository = (u, c')" by fastforce
  have "username = [] \<longrightarrow> txClauses (DeviceQuery_where (DeviceQuery_Login username NewDeviceQuery)) = []"
    by (simp add: DeviceQuery_where_def DeviceQuery_Login_def NewDeviceQuery_def where_str_def model_tx_def)
  moreover have "err \<noteq> None \<longrightarrow> \<not> CanLogIn (fst (users_Get g db t username NewUserDbRepository))"
    using assms one unfolding get by (auto simp: CanLogIn_def new_Device_def)
  ultimately show ?thesis using one get u by (simp add: users_IsValid_def)
qed

theorem valid_without_user_witness:
  "fst (users_IsValid example_gorm None 0 ''mallory'' ''01'' NewUserDbRepository) \<and>
   fst (users_IsValid example_gorm (Some [new_Device\<lparr>devLogin := ''bob''\<rparr>]) 0 [] ''01'' NewUserDbRepository)"
proof
  let ?tx = "DeviceQuery_where (DeviceQuery_Login ''mallory'' NewDeviceQuery)"
  have "gTake example_gorm ?tx (zero_row Devices) None = (zero_row Devices, Some (Error ''database is locked''))"
    by (simp add: example_gorm_def example_take_def)
  from valid_without_user [OF this, of undefined 0 "''01''"]
  show "fst (users_IsValid example_gorm None 0 ''mallory'' ''01'' NewUserDbRepository)"
    by (simp add: ErrRecordNotFound_def)
  let ?d = "new_Device\<lparr>devLogin := ''bob''\<rparr>"
  have "gTake example_gorm (DeviceQuery_where (DeviceQuery_Login [] NewDeviceQuery)) (zero_row Devices) (Some [?d]) = (DeviceRow ?d, None)"
    by (simp add: example_gorm_def example_take_def DeviceQuery_where_def DeviceQuery_Login_def NewDeviceQuery_def
        where_str_def model_tx_def)
  from valid_without_user [OF this, of ?d 0 "''01''"]
  show "fst (users_IsValid example_gorm (Some [?d]) 0 [] ''01'' NewUserDbRepository)"
    by (simp add: new_Device_def)
qed

end
