(* ===== verification/ServerConfig.thy ===== *)
theory ServerConfig
  imports GoRuntime
begin

text \<open>
  \<open>internal/config/config.go\<close> and \<open>internal/layers/model.go\<close>: the settings of the server, read
  through \<open>koanf\<close>, whose typed lookups are the fields of a record (a key that is not set gives
  the zero value). The certificates are values of a type of their own; reading and decoding
  them are arguments.
\<close>

record koanf =
  kBool :: "string \<Rightarrow> bool"
  kString :: "string \<Rightarrow> string"
  kInt :: "string \<Rightarrow> int"
  kFloat64 :: "string \<Rightarrow> f64"
  kStrings :: "string \<Rightarrow> string list"
  kStringMap :: "string \<Rightarrow> (string, string) smap"
  kExists :: "string \<Rightarrow> bool"

definition FirstString :: "koanf \<Rightarrow> string list \<Rightarrow> string" where
  "FirstString k keys = (case find (\<lambda>s. s \<noteq> []) (map (kString k) keys) of Some s \<Rightarrow> s | None \<Rightarrow> [])"

definition DataDir :: "koanf \<Rightarrow> string" where "DataDir k = kString k ''data_dir''"
definition UsersFile :: "koanf \<Rightarrow> string" where "UsersFile k = kString k ''users_file''"

definition WelcomeMsg :: "koanf \<Rightarrow> string" where
  "WelcomeMsg k = (if kStringMap k ''welcome_msg'' = [] then kString k ''welcome_msg'' else [])"

definition WelcomeForScope :: "koanf \<Rightarrow> string \<Rightarrow> string" where
  "WelcomeForScope k scope = (case smLoad (kStringMap k ''welcome_msg'') scope of Some s \<Rightarrow> s | None \<Rightarrow> [])"

definition LogAll :: "koanf \<Rightarrow> bool" where "LogAll k = kBool k ''log''"
definition MartiSSL :: "koanf \<Rightarrow> bool" where "MartiSSL k \<longleftrightarrow> kBool k ''ssl.use_ssl'' \<or> kBool k ''ssl.marti''"
definition EnrollSSL :: "koanf \<Rightarrow> bool" where "EnrollSSL k = kBool k ''ssl.enroll''"
definition CertTTLDays :: "koanf \<Rightarrow> int" where "CertTTLDays k = kInt k ''ssl.cert_ttl_days''"
definition Connections :: "koanf \<Rightarrow> string list" where "Connections k = []"
definition LogExclude :: "koanf \<Rightarrow> string list" where "LogExclude k = kStrings k ''log_exclude''"
definition BlacklistedUID :: "koanf \<Rightarrow> string list" where "BlacklistedUID k = kStrings k ''blacklist''"

text \<open>\<open>strings.Replace(s, "_", ".", 1)\<close>, and the key of a variable of the environment.\<close>

fun replace_first :: "char \<Rightarrow> char \<Rightarrow> string \<Rightarrow> string" where
  "replace_first a b [] = []"
| "replace_first a b (c # s) = (if c = a then b # s else c # replace_first a b s)"

definition env_key :: "(string \<Rightarrow> string) \<Rightarrow> string \<Rightarrow> string \<Rightarrow> string" where
  "env_key lower pre s =
     (let s1 = lower (TrimPrefix s pre)
      in if list_ex (\<lambda>pr. HasPrefix s1 pr) [''me_'', ''ssl_''] then replace_first CHR ''_'' CHR ''.'' s1 else s1)"

section \<open>Layers\<close>

record LayerDescription =
  ldName :: string
  ldURL :: string
  ldMinZoom :: int
  ldMaxZoom :: int
  ldTms :: bool
  ldTileType :: string
  ldServerParts :: "string list"

definition GetDefaultLayers :: "LayerDescription list" where
  "GetDefaultLayers =
     [\<lparr>ldName = ''Google Hybrid'', ldURL = ''https://mt{s}.google.com/vt/lyrs=y&x={x}&y={y}&z={z}&s=Galileo&scale=2'',
       ldMinZoom = 0, ldMaxZoom = 20, ldTms = False, ldTileType = [], ldServerParts = [''0'', ''1'', ''2'', ''3'']\<rparr>]"

definition Layers :: "koanf \<Rightarrow> (string \<Rightarrow> LayerDescription list result) \<Rightarrow> LayerDescription list result" where
  "Layers k unmarshal = (if \<not> kExists k ''layers'' then Inr GetDefaultLayers else unmarshal ''layers'')"

section \<open>Certificates\<close>

record ('key, 'cert) AppConfig =
  acTlsCert :: "'key option"
  acCertPool :: "'cert list"
  acServerCert :: "'cert option"
  acCA :: "'cert list"

definition loadPem :: "(string \<Rightarrow> string result) \<Rightarrow> (string \<Rightarrow> 'cert list result) \<Rightarrow> string \<Rightarrow> 'cert list result" where
  "loadPem readFile decodeAll name =
     (if name = [] then Inr []
      else case readFile name of
             Inl (Error err) \<Rightarrow> Inl (Error (''error loading '' @ name @ '': '' @ err))
           | Inl err \<Rightarrow> Inl err
           | Inr bytes \<Rightarrow> decodeAll bytes)"

text \<open>The first certificate of \<open>ssl.cert\<close> is the server's, the others extend the chain of the CA.\<close>

definition ProcessCerts ::
    "koanf \<Rightarrow> (string \<Rightarrow> string result) \<Rightarrow> (string \<Rightarrow> 'cert list result) \<Rightarrow> (string \<Rightarrow> string \<Rightarrow> 'key result) \<Rightarrow>
     ('key, 'cert) AppConfig \<Rightarrow> ('key, 'cert) AppConfig \<times> gofail option" where
  "ProcessCerts k readFile decodeAll loadPair c =
     (if list_ex (\<lambda>name. kString k name = []) [''ssl.ca'', ''ssl.cert'', ''ssl.key''] then (c, None)
      else case loadPem readFile decodeAll (kString k ''ssl.ca'') of
             Inl err \<Rightarrow> (c, Some err)
           | Inr ca \<Rightarrow>
               (let c1 = c\<lparr>acCA := ca\<rparr>
                in case loadPem readFile decodeAll (kString k ''ssl.cert'') of
                     Inl err \<Rightarrow> (c1, Some err)
                   | Inr certs \<Rightarrow>
                       (let c2 = c1\<lparr>acCertPool := ca @ certs,
                              acServerCert := (case certs of [] \<Rightarrow> acServerCert c1 | crt # _ \<Rightarrow> Some crt),
                              acCA := ca @ drop 1 certs\<rparr>
                        in case loadPair (kString k ''ssl.cert'') (kString k ''ssl.key'') of
                             Inl err \<Rightarrow> (c2, Some err)
                           | Inr key \<Rightarrow> (c2\<lparr>acTlsCert := Some key\<rparr>, None))))"

end
