(* ===== verification/BlobStore.thy ===== *)
theory BlobStore
  imports GoRuntime
begin

text \<open>
  \<open>internal/pm/blob_manager.go\<close>: the files of the server, by scope and hash. The file system is a
  table from cleaned paths to contents (directories are not kept: \<open>MkdirAll\<close> has no effect here);
  \<open>path/filepath\<close> is written out for Unix; \<open>sha256\<close> and the ZIP reader are arguments.
\<close>

section \<open>filepath.Join\<close>

text \<open>The components kept so far are in reverse order.\<close>

fun clean_parts :: "bool \<Rightarrow> string list \<Rightarrow> string list \<Rightarrow> string list" where
  "clean_parts rooted out [] = rev out"
| "clean_parts rooted out (p # ps) =
     (if p = [] \<or> p = ''.'' then clean_parts rooted out ps
      else if p = ''..'' then
        (case out of
           [] \<Rightarrow> clean_parts rooted (if rooted then [] else [''..'']) ps
         | q # out' \<Rightarrow> (if q = ''..'' then clean_parts rooted (''..'' # out) ps else clean_parts rooted out' ps))
      else clean_parts rooted (p # out) ps)"

definition path_Clean :: "string \<Rightarrow> string" where
  "path_Clean path =
     (let rooted = HasPrefix path ''/'';
          s = (if rooted then ''/'' else []) @ Join (clean_parts rooted [] (Split path CHR ''/'')) ''/''
      in if s = [] then ''.'' else s)"

definition path_Join :: "string list \<Rightarrow> string" where
  "path_Join elems = (case filter (\<lambda>e. e \<noteq> []) elems of [] \<Rightarrow> [] | es \<Rightarrow> path_Clean (Join es ''/''))"

section \<open>The blob manager\<close>

type_synonym files = "(string, string) smap"

definition ErrNotFound :: gofail where "ErrNotFound = Error ''blob is not found''"
definition ErrNoHash :: gofail where "ErrNoHash = Error ''no hash''"
definition ErrBadHash :: gofail where "ErrBadHash = Error ''bad hash''"

definition FileExists :: "files \<Rightarrow> string \<Rightarrow> bool" where
  "FileExists fs path \<longleftrightarrow> smLoad fs path \<noteq> None"

definition blob_Key :: "string \<Rightarrow> string \<Rightarrow> string \<Rightarrow> string" where
  "blob_Key basedir scope hash =
     (if scope = [] then path_Join [basedir, hash] else path_Join [basedir, scope, hash])"

definition GetFile :: "string \<Rightarrow> string \<Rightarrow> string \<Rightarrow> files \<Rightarrow> string result" where
  "GetFile basedir hash scope fs =
     (if hash = [] then Inl ErrNotFound
      else case smLoad fs (blob_Key basedir scope hash) of None \<Rightarrow> Inl ErrNotFound | Some dat \<Rightarrow> Inr dat)"

definition DeleteFile :: "string \<Rightarrow> string \<Rightarrow> string \<Rightarrow> files \<Rightarrow> gofail option \<times> files" where
  "DeleteFile basedir hash scope fs =
     (if hash = [] \<or> \<not> FileExists fs (blob_Key basedir scope hash) then (Some ErrNotFound, fs)
      else (None, smDelete (blob_Key basedir scope hash) fs))"

text \<open>The entries of an archive, as the ZIP reader gives them.\<close>

type_synonym unzip = "string \<Rightarrow> (string \<times> string) list result"

definition GetZipFile :: "unzip \<Rightarrow> string \<Rightarrow> string \<Rightarrow> string \<Rightarrow> string \<Rightarrow> files \<Rightarrow> (string \<times> string) result" where
  "GetZipFile unzip basedir hash scope name fs =
     (case GetFile basedir hash scope fs of
        Inl err \<Rightarrow> Inl err
      | Inr dat \<Rightarrow>
          (case unzip dat of
             Inl err \<Rightarrow> Inl err
           | Inr es \<Rightarrow> (case find (\<lambda>(n, _). name = n) es of Some e \<Rightarrow> Inr e | None \<Rightarrow> Inl (Error ''not found''))))"

definition ListFiles :: "unzip \<Rightarrow> string \<Rightarrow> string \<Rightarrow> string \<Rightarrow> files \<Rightarrow> string list result" where
  "ListFiles unzip basedir hash scope fs =
     (case GetFile basedir hash scope fs of
        Inl err \<Rightarrow> Inl err
      | Inr dat \<Rightarrow> (case unzip dat of Inl err \<Rightarrow> Inl err | Inr es \<Rightarrow> Inr (map fst es)))"

definition GetFileStat :: "string \<Rightarrow> string \<Rightarrow> string \<Rightarrow> files \<Rightarrow> nat result" where
  "GetFileStat basedir scope hash fs =
     (if hash = [] then Inl ErrNoHash
      else case smLoad fs (blob_Key basedir scope hash) of None \<Rightarrow> Inl (Error ''no such file or directory'') | Some dat \<Rightarrow> Inr (length dat))"

text \<open>
  The reader gives an error or the whole content; \<open>ioErr\<close> is what creating, closing or renaming the
  temporary file may report. A file that is there already is not read.
\<close>

definition PutFile ::
    "(string \<Rightarrow> string) \<Rightarrow> string \<Rightarrow> gofail option \<Rightarrow> string \<Rightarrow> string \<Rightarrow> string result option \<Rightarrow> files \<Rightarrow>
     (string \<times> nat) result \<times> files" where
  "PutFile sha256 basedir ioErr scope hash r fs =
     (case r of
        None \<Rightarrow> (Inl (Error ''no reader''), fs)
      | Some rd \<Rightarrow>
          (if hash \<noteq> [] \<and> FileExists fs (blob_Key basedir scope hash) then (Inr (hash, 0), fs)
           else case ioErr of
             Some err \<Rightarrow> (Inl err, fs)
           | None \<Rightarrow>
          (case rd of
             Inl err \<Rightarrow> (Inl err, fs)
           | Inr dat \<Rightarrow>
               (let hash1 = sha256 dat
                in if hash \<noteq> [] \<and> hash \<noteq> hash1 then (Inl ErrBadHash, fs)
                   else (Inr (hash1, length dat), smStore (blob_Key basedir scope hash1) dat fs)))))"

section \<open>Where a blob is stored\<close>

text \<open>A name without a separator that is not a relative component, as a hash in hexadecimal is.\<close>

definition plain_name :: "string \<Rightarrow> bool" where
  "plain_name s \<longleftrightarrow> s \<noteq> [] \<and> CHR ''/'' \<notin> set s \<and> s \<noteq> ''.'' \<and> s \<noteq> ''..''"

lemma clean_parts_plain: "list_all plain_name qs \<Longrightarrow> clean_parts rooted out (ps @ qs) = clean_parts rooted out ps @ qs"
proof (induction ps arbitrary: out)
  case Nil
  have "clean_parts rooted out qs = rev out @ qs" for out
    using Nil by (induction qs arbitrary: out) (simp_all add: plain_name_def)
  then show ?case by simp
next
  case (Cons p ps)
  then show ?case by (cases out) auto
qed

lemma Split_append: "Split (a @ c # b) c = Split a c @ Split b c"
  by (induction a c rule: Split.induct) (auto split: list.splits)

lemma clean_parts_set: "set (clean_parts rooted out ps) \<subseteq> set out \<union> set ps \<union> {''..''}"
proof (induction rooted out ps rule: clean_parts.induct)
  case (2 rooted out q ps)
  consider "q = [] \<or> q = ''.''" | "q = ''..''" "out = []" | r out' where "q = ''..''" "out = r # out'"
    | "q \<noteq> []" "q \<noteq> ''.''" "q \<noteq> ''..''" by (cases out) auto
  then show ?case
  proof cases
    case 1
    then show ?thesis using 2(1) by auto
  next
    case 2
    then show ?thesis using "2.IH"(2) by (cases rooted) auto
  next
    case 3
    then show ?thesis using "2.IH"(3,4) by (cases "r = ''..''") auto
  next
    case 4
    then show ?thesis using "2.IH"(5) by auto
  qed
qed auto

definition dir_parts :: "string \<Rightarrow> string list" where
  "dir_parts basedir = clean_parts (HasPrefix basedir ''/'') [] (Split basedir CHR ''/'')"

definition blob_name :: "string \<Rightarrow> string \<Rightarrow> string list" where
  "blob_name scope hash = (if scope = [] then [hash] else [scope, hash])"

lemma blob_Key_eq:
  assumes "basedir \<noteq> []" "scope = [] \<or> plain_name scope" "plain_name hash"
  shows "blob_Key basedir scope hash =
     (if HasPrefix basedir ''/'' then ''/'' else []) @ Join (dir_parts basedir @ blob_name scope hash) ''/''"
proof -
  have plain: "list_all plain_name (blob_name scope hash)" "blob_name scope hash \<noteq> []"
    using assms by (auto simp: blob_name_def)
  have join: "blob_Key basedir scope hash = path_Clean (basedir @ ''/'' @ Join (blob_name scope hash) ''/'')"
    using assms by (auto simp: blob_Key_def path_Join_def blob_name_def plain_name_def)
  have parts: "Split (basedir @ CHR ''/'' # Join (blob_name scope hash) ''/'') CHR ''/'' = Split basedir CHR ''/'' @ blob_name scope hash"
    using plain by (simp add: Split_append Split_Join list_all_iff plain_name_def)
  have rooted: "HasPrefix (basedir @ CHR ''/'' # r) ''/'' = HasPrefix basedir ''/''" for r
    using assms(1) by (cases basedir) simp_all
  have "Join (dir_parts basedir @ blob_name scope hash) ''/'' \<noteq> []"
    using assms by (cases "dir_parts basedir") (auto simp: blob_name_def plain_name_def Join_Cons)
  then show ?thesis
    unfolding join by (simp add: path_Clean_def parts rooted clean_parts_plain [OF plain(1)] dir_parts_def Let_def)
qed

lemma blob_Key_inject:
  assumes "basedir \<noteq> []" "scope = [] \<or> plain_name scope" "plain_name hash" "scope' = [] \<or> plain_name scope'" "plain_name hash'"
  shows "blob_Key basedir scope hash = blob_Key basedir scope' hash' \<longleftrightarrow> scope = scope' \<and> hash = hash'"
proof
  assume "blob_Key basedir scope hash = blob_Key basedir scope' hash'"
  then have "Join (dir_parts basedir @ blob_name scope hash) ''/'' = Join (dir_parts basedir @ blob_name scope' hash') ''/''"
    using assms by (simp add: blob_Key_eq)
  moreover have "Split (Join (dir_parts basedir @ blob_name s h) ''/'') CHR ''/'' = dir_parts basedir @ blob_name s h"
    if "s = [] \<or> plain_name s" "plain_name h" for s h
  proof (rule Split_Join)
    show "dir_parts basedir @ blob_name s h \<noteq> []" by (simp add: blob_name_def)
    fix t
    assume t: "t \<in> set (dir_parts basedir @ blob_name s h)"
    have "p \<in> set (Split basedir CHR ''/'') \<or> p = ''..''" if "p \<in> set (dir_parts basedir)" for p
      using that clean_parts_set [of "HasPrefix basedir ''/''" "[]" "Split basedir CHR ''/''"]
      unfolding dir_parts_def by auto
    then have "CHR ''/'' \<notin> set p" if "p \<in> set (dir_parts basedir)" for p
      using that Split_token [of p basedir] by fastforce
    then show "CHR ''/'' \<notin> set t"
      using t that by (auto simp: blob_name_def plain_name_def split: if_splits)
  qed
  ultimately have "blob_name scope hash = blob_name scope' hash'"
    using assms by (metis same_append_eq)
  then show "scope = scope' \<and> hash = hash'"
    by (auto simp: blob_name_def split: if_splits)
qed simp

section \<open>Reading back what was stored\<close>

text \<open>
  A blob that is not there yet is stored under the hash of its content and read back as it was;
  no blob of another scope or hash is touched. The hash function gives plain names.
\<close>

lemma blob_roundtrip:
  assumes "\<And>d. plain_name (sha256 d)" "basedir \<noteq> []" "scope = [] \<or> plain_name scope"
    and "hash = [] \<or> \<not> FileExists fs (blob_Key basedir scope hash)"
    and put: "PutFile sha256 basedir ioErr scope hash (Some (Inr dat)) fs = (Inr (h, n), fs')"
  shows "h = sha256 dat \<and> n = length dat \<and> GetFile basedir h scope fs' = Inr dat \<and>
     ((scope' = [] \<or> plain_name scope') \<and> plain_name h' \<and> (scope', h') \<noteq> (scope, h) \<longrightarrow>
        GetFile basedir h' scope' fs' = GetFile basedir h' scope' fs)"
proof -
  have ok: "ioErr = None" "h = sha256 dat" "n = length dat" "fs' = smStore (blob_Key basedir scope h) dat fs"
    using put assms(4) by (auto simp: PutFile_def Let_def split: option.splits if_splits)
  have "plain_name h" using ok(2) assms(1) by simp
  then have "h \<noteq> []" by (simp add: plain_name_def)
  moreover have "smLoad fs' (blob_Key basedir scope' h') = smLoad fs (blob_Key basedir scope' h')"
    if "scope' = [] \<or> plain_name scope'" "plain_name h'" "(scope', h') \<noteq> (scope, h)"
    using blob_Key_inject [OF assms(2,3) \<open>plain_name h\<close> that(1,2)] that(3) ok(4) by (auto simp: smap_simps)
  ultimately show ?thesis using ok by (auto simp: GetFile_def smap_simps)
qed

lemma clean_parts_down: "list_all plain_name ds \<Longrightarrow> clean_parts r out (ds @ qs) = clean_parts r (rev ds @ out) qs"
  by (induction ds arbitrary: out) (simp_all add: plain_name_def)

lemma clean_parts_up:
  "list_all plain_name ds \<Longrightarrow> length up = length ds \<Longrightarrow> set up \<subseteq> {''..''} \<Longrightarrow>
   clean_parts r (ds @ out) (up @ qs) = clean_parts r out qs"
proof (induction ds arbitrary: up)
  case (Cons d ds)
  then obtain up' where "up = ''..'' # up'" by (cases up) auto
  then show ?case using Cons by (simp add: plain_name_def)
qed simp

text \<open>
  A hash is not checked to be a plain name, so a path with \<open>..\<close> in it leaves the directory of
  blobs, and when the file it leads to exists it counts as uploaded, unread and unverified.
\<close>

lemma blob_traversal:
  assumes "list_all plain_name (Split basedir CHR ''/'')" "scope = [] \<or> plain_name scope" "plain_name target"
    and "length up = length (Split basedir CHR ''/'') + (if scope = [] then 0 else 1)" "set up \<subseteq> {''..''}"
    and "smLoad fs target = Some dat"
  shows "PutFile sha256 basedir ioErr scope (Join (up @ [target]) ''/'') (Some rd) fs = (Inr (Join (up @ [target]) ''/'', 0), fs) \<and>
     GetFile basedir (Join (up @ [target]) ''/'') scope fs = Inr dat"
proof -
  let ?hash = "Join (up @ [target]) ''/''"
  let ?dirs = "Split basedir CHR ''/'' @ (if scope = [] then [] else [scope])"
  have hash: "?hash \<noteq> []" using assms(3) by (cases up) (auto simp: Join_Cons plain_name_def)
  have base: "basedir \<noteq> []" "\<not> HasPrefix (basedir @ r) ''/''" for r
    using assms(1) by (cases basedir; auto simp: plain_name_def split: list.splits if_splits)+
  have split_hash: "Split ?hash CHR ''/'' = up @ [target]"
    using assms(3,5) by (intro Split_Join) (auto simp: plain_name_def)
  have no_scope_sep: "CHR ''/'' \<notin> set scope" using assms(2) by (auto simp: plain_name_def)
  have key: "blob_Key basedir scope ?hash = path_Clean (basedir @ CHR ''/'' # (if scope = [] then [] else scope @ ''/'') @ ?hash)"
    using base(1) hash by (auto simp: blob_Key_def path_Join_def)
  have parts: "Split (basedir @ CHR ''/'' # (if scope = [] then [] else scope @ ''/'') @ ?hash) CHR ''/'' = ?dirs @ up @ [target]"
    using split_hash no_scope_sep by (simp add: Split_append Split_no_sep Split_app_sep)
  have "clean_parts False [] (?dirs @ up @ [target]) = clean_parts False (rev ?dirs @ []) (up @ [target])"
    using assms(1,2) by (intro clean_parts_down) auto
  also have "\<dots> = clean_parts False [] [target]"
    using assms(1,2,4,5) by (intro clean_parts_up) (auto simp: list_all_rev)
  finally have "blob_Key basedir scope ?hash = target"
    unfolding key path_Clean_def parts using base(2) assms(3) by (simp add: plain_name_def)
  then show ?thesis using hash assms(6) by (simp add: PutFile_def GetFile_def FileExists_def)
qed

end
