(* ===== verification/ServerState.thy ===== *)
theory ServerState
  imports TakWs ItemsRepo UserRepo MissionDto ServerConfig BlobStore
begin

text \<open>
  The state of the server (\<open>App\<close> of \<open>cmd/goatak_server/main.go\<close>), its clients behind the interface
  \<open>ClientHandler\<close>, and the operations on the table of clients and on the message channel.

  \<open>env\<close> gathers what does not change while the server runs: the interface to gorm, the codec, the
  settings, and the library functions that are parameters: \<open>strings.ToLower\<close>, \<open>html.UnescapeString\<close>,
  SHA-256, the ZIP reader, bcrypt, and the errors of the file system. An operation that may panic returns a flag with its state: the
  message loop has no \<open>recover\<close>, so a panic there ends the process.
\<close>

section \<open>Steps that may panic\<close>

fun go_for :: "('a \<Rightarrow> 's \<Rightarrow> 's \<times> bool) \<Rightarrow> 'a list \<Rightarrow> 's \<Rightarrow> 's \<times> bool" where
  "go_for f [] s = (s, False)"
| "go_for f (x # xs) s = (case f x s of (s', True) \<Rightarrow> (s', True) | (s', False) \<Rightarrow> go_for f xs s')"

definition and_then :: "'s \<times> bool \<Rightarrow> ('s \<Rightarrow> 's \<times> bool) \<Rightarrow> 's \<times> bool" where
  "and_then r f = (case r of (s, True) \<Rightarrow> (s, True) | (s, False) \<Rightarrow> f s)"

text \<open>What holds between the states before and after every step holds of the whole run.\<close>

lemma go_for_rel:
  assumes "\<And>s. R s s" "\<And>a b c. R a b \<Longrightarrow> R b c \<Longrightarrow> R a c" "\<And>x s. x \<in> set xs \<Longrightarrow> R s (fst (f x s))"
  shows "R s (fst (go_for f xs s))"
  using assms(3)
proof (induction xs arbitrary: s)
  case (Cons x xs)
  obtain s' p where f: "f x s = (s', p)" by fastforce
  have "R s s'" using Cons.prems [of x s] f by simp
  moreover have "R s' (fst (go_for f xs s'))" using Cons by simp
  ultimately show ?case using f assms(2) by (cases p) auto
qed (simp add: assms(1))

lemma and_then_rel:
  assumes "\<And>a b c. R a b \<Longrightarrow> R b c \<Longrightarrow> R a c" "R s (fst r)" "\<And>s'. R s' (fst (f s'))"
  shows "R s (fst (and_then r f))"
  using assms by (cases r; cases "snd r") (auto simp: and_then_def)

section \<open>The interface ClientHandler\<close>

datatype client = Conn Handler | Ws WsHandler

fun cl_GetName :: "client \<Rightarrow> string" where
  "cl_GetName (Conn h) = chAddr h" | "cl_GetName (Ws w) = whName w"

fun cl_GetDevice :: "client \<Rightarrow> Device option" where
  "cl_GetDevice (Conn h) = chDevice h" | "cl_GetDevice (Ws w) = whUser w"

fun cl_GetVersion :: "client \<Rightarrow> int" where
  "cl_GetVersion (Conn h) = GetVersion h" | "cl_GetVersion (Ws w) = ws_GetVersion w"

fun cl_GetUids :: "client \<Rightarrow> (string, string) smap" where
  "cl_GetUids (Conn h) = GetUids h" | "cl_GetUids (Ws w) = ws_GetUids w"

fun cl_HasUID :: "client \<Rightarrow> string \<Rightarrow> bool" where
  "cl_HasUID (Conn h) uid = HasUID h uid" | "cl_HasUID (Ws w) uid = ws_HasUID w uid"

fun cl_HasCallsign :: "client \<Rightarrow> string \<Rightarrow> bool" where
  "cl_HasCallsign (Conn h) cs = HasCallsign h cs" | "cl_HasCallsign (Ws w) cs = ws_HasCallsign w cs"

fun cl_queue :: "client \<Rightarrow> string list" where
  "cl_queue (Conn h) = chSendChan h" | "cl_queue (Ws w) = whCh w"

fun cl_cap :: "client \<Rightarrow> nat" where
  "cl_cap (Conn h) = sendCap" | "cl_cap (Ws w) = wsCap"

definition nil_deref :: gofail where "nil_deref = Panic ''nil pointer dereference''"

text \<open>\<open>SendMsg\<close> reads the scope of the message first, so a nil message panics.\<close>

fun cl_SendMsg :: "codec \<Rightarrow> CotMessage option \<Rightarrow> client \<Rightarrow> client \<times> gofail option" where
  "cl_SendMsg c None h = (h, Some nil_deref)"
| "cl_SendMsg c (Some m) (Conn h) = (case SendMsg c m h of (h', e) \<Rightarrow> (Conn h', e))"
| "cl_SendMsg c (Some m) (Ws w) = (case ws_SendMsg c m w of (w', e) \<Rightarrow> (Ws w', e))"

fun cl_Stop :: "client \<Rightarrow> client" where
  "cl_Stop (Conn h) = Conn (Stop h)" | "cl_Stop (Ws w) = Ws (ws_Stop w)"

text \<open>The packet a client of protocol version \<open>v\<close> gets for a message.\<close>

definition packet :: "codec \<Rightarrow> int \<Rightarrow> CotMessage \<Rightarrow> string result" where
  "packet c v m =
     (if v = 0 then cdEventMarshal c (ProtoToEvent (cdDecode c) (GetTakMessage (Some m)))
      else MakeProtoPacket (cdProtoMarshal c) (GetTakMessage (Some m)))"

definition visible_to :: "Device option \<Rightarrow> CotMessage \<Rightarrow> bool" where
  "visible_to d m \<longleftrightarrow> IsLocal m \<or> CanSeeScope d (cmScope m)"


text \<open>
  What the routing relies on: a send keeps the identity of the client and adds at most one packet
  to its queue, the packet of a message its device may see.
\<close>

definition sent_to :: "codec \<Rightarrow> int \<Rightarrow> Device option \<Rightarrow> string list \<Rightarrow> string list \<Rightarrow> bool" where
  "sent_to c v d q q' \<longleftrightarrow>
     (\<exists>pkts. q' = q @ pkts \<and> (\<forall>p \<in> set pkts. \<exists>m. visible_to d m \<and> packet c v m = Inr p))"

lemma sent_to_refl [simp]: "sent_to c v d q q"
  by (simp add: sent_to_def)

lemma sent_to_trans:
  assumes "sent_to c v d q q1" "sent_to c v d q1 q2"
  shows "sent_to c v d q q2"
proof -
  obtain ps ps' where "q1 = q @ ps" "q2 = q1 @ ps'" "\<forall>p \<in> set ps \<union> set ps'. \<exists>m. visible_to d m \<and> packet c v m = Inr p"
    using assms by (fastforce simp: sent_to_def)
  then show ?thesis unfolding sent_to_def by (intro exI [of _ "ps @ ps'"]) simp
qed

lemma sent_to_chan:
  "visible_to d m \<Longrightarrow> packet c v m = Inr p \<Longrightarrow> sent_to c v d q (fst (chan_send n p q))"
  by (auto simp: sent_to_def chan_send_def)

locale client_handler =
  fixes codec :: codec
    and name :: "'h \<Rightarrow> string"
    and device :: "'h \<Rightarrow> Device option"
    and version :: "'h \<Rightarrow> int"
    and uids :: "'h \<Rightarrow> (string, string) smap"
    and queue :: "'h \<Rightarrow> string list"
    and cap :: "'h \<Rightarrow> nat"
    and send :: "CotMessage \<Rightarrow> 'h \<Rightarrow> 'h \<times> gofail option"
  assumes send_identity: "name (fst (send m h)) = name h" "device (fst (send m h)) = device h"
      "uids (fst (send m h)) = uids h" "version (fst (send m h)) = version h" "cap (fst (send m h)) = cap h"
    and send_bound: "length (queue h) \<le> cap h \<Longrightarrow> length (queue (fst (send m h))) \<le> cap h"
    and send_queue: "version h \<in> {0, 1} \<Longrightarrow> sent_to codec (version h) (device h) (queue h) (queue (fst (send m h)))"
    and send_hidden: "\<not> visible_to (device h) m \<Longrightarrow> send m h = (h, None)"
begin

text \<open>A series of sends, to one client.\<close>

lemma sends_identity: "name (fold (\<lambda>m h. fst (send m h)) ms h) = name h" "device (fold (\<lambda>m h. fst (send m h)) ms h) = device h"
    "uids (fold (\<lambda>m h. fst (send m h)) ms h) = uids h" "version (fold (\<lambda>m h. fst (send m h)) ms h) = version h"
  by (induction ms arbitrary: h) (simp_all add: send_identity)

lemma sends_bound:
  "length (queue h) \<le> cap h \<Longrightarrow> length (queue (fold (\<lambda>m h. fst (send m h)) ms h)) \<le> cap h"
proof (induction ms arbitrary: h)
  case (Cons m ms)
  show ?case using Cons.IH [of "fst (send m h)"] send_bound [OF Cons.prems, of m] by (simp add: send_identity)
qed simp

lemma sends_queue:
  "version h \<in> {0, 1} \<Longrightarrow>
   sent_to codec (version h) (device h) (queue h) (queue (fold (\<lambda>m h. fst (send m h)) ms h))"
proof (induction ms arbitrary: h)
  case (Cons m ms)
  let ?h = "fst (send m h)"
  have "sent_to codec (version h) (device h) (queue ?h) (queue (fold (\<lambda>m h. fst (send m h)) ms ?h))"
    using Cons.IH [of ?h] Cons.prems by (simp add: send_identity)
  then show ?case using sent_to_trans [OF send_queue [OF Cons.prems, of m]] by simp
qed simp

lemma sends_hidden:
  "\<forall>m \<in> set ms. \<not> visible_to (device h) m \<Longrightarrow> fold (\<lambda>m h. fst (send m h)) ms h = h"
  by (induction ms) (simp_all add: send_hidden)

end

lemma add_or_off_sent:
  "visible_to d m \<Longrightarrow> packet c v m = Inr p \<Longrightarrow> sent_to c v d (chSendChan h) (chSendChan (fst (add_or_off p h)))"
  using sent_to_chan [of d m c v p "chSendChan h" sendCap]
  by (cases "tryAddPacket p h") (auto simp: add_or_off_def tryAddPacket_def split: if_splits)

lemma SendMsg_sent:
  assumes "chVer h \<in> {0, 1}"
  shows "sent_to c (chVer h) (chDevice h) (chSendChan h) (chSendChan (fst (SendMsg c m h)))"
proof (cases "visible_to (chDevice h) m")
  case True
  then show ?thesis
    using assms add_or_off_sent [OF True, of c "chVer h"]
    by (auto simp: SendMsg_def SendCot_def GetVersion_def visible_to_def packet_def split: sum.split)
qed (simp add: SendMsg_def visible_to_def)

interpretation conn: client_handler c chAddr chDevice chVer GetUids chSendChan "\<lambda>_. sendCap" "SendMsg c" for c
proof
  fix m h
  have "queue_only h (fst (SendMsg c m h))" by (rule SendMsg_queue)
  then show "chAddr (fst (SendMsg c m h)) = chAddr h" "chDevice (fst (SendMsg c m h)) = chDevice h"
    "GetUids (fst (SendMsg c m h)) = GetUids h" "chVer (fst (SendMsg c m h)) = chVer h"
    by (auto simp: queue_only_def GetUids_def)
  show "length (chSendChan (fst (SendMsg c m h))) \<le> sendCap" if "length (chSendChan h) \<le> sendCap"
    using that SendMsg_queue [of h c m] by (auto simp: queue_only_def)
  show "SendMsg c m h = (h, None)" if "\<not> visible_to (chDevice h) m"
    using that by (simp add: SendMsg_def visible_to_def)
qed (rule refl SendMsg_sent)+

lemma ws_SendMsg_sent:
  "sent_to c 1 (whUser w) (whCh w) (whCh (fst (ws_SendMsg c m w)))"
  using sent_to_chan [of "whUser w" m c 1 _ "whCh w" wsCap]
  by (auto simp: ws_SendMsg_def ws_SendCot_def ws_tryAddPacket_def visible_to_def packet_def
      split: sum.split)

interpretation wsc: client_handler c whName whUser ws_GetVersion ws_GetUids whCh "\<lambda>_. wsCap" "ws_SendMsg c" for c
proof
  fix m h
  show "whName (fst (ws_SendMsg c m h)) = whName h" "whUser (fst (ws_SendMsg c m h)) = whUser h"
    "ws_GetUids (fst (ws_SendMsg c m h)) = ws_GetUids h" "ws_GetVersion (fst (ws_SendMsg c m h)) = ws_GetVersion h"
    by (auto simp: ws_SendMsg_def ws_SendCot_def ws_tryAddPacket_def ws_GetUids_def ws_GetVersion_def split: sum.split)
  show "ws_SendMsg c m h = (h, None)" if "\<not> visible_to (whUser h) m"
    using that by (simp add: ws_SendMsg_def visible_to_def)
  show "sent_to c (ws_GetVersion h) (whUser h) (whCh h) (whCh (fst (ws_SendMsg c m h)))"
    using ws_SendMsg_sent by (simp add: ws_GetVersion_def)
  show "length (whCh (fst (ws_SendMsg c m h))) \<le> wsCap" if "length (whCh h) \<le> wsCap"
    using that chan.send_bound [of "whCh h" wsCap] by (auto simp: ws_SendMsg_def ws_SendCot_def ws_tryAddPacket_def split: sum.split)
qed (rule refl)

text \<open>Either kind of client, and so the values of the server's table, keeps the contract.\<close>

interpretation cl: client_handler c cl_GetName cl_GetDevice cl_GetVersion cl_GetUids cl_queue cl_cap "\<lambda>m. cl_SendMsg c (Some m)" for c
proof
  fix m and h :: client
  show "cl_GetName (fst (cl_SendMsg c (Some m) h)) = cl_GetName h" "cl_GetDevice (fst (cl_SendMsg c (Some m) h)) = cl_GetDevice h"
    "cl_GetUids (fst (cl_SendMsg c (Some m) h)) = cl_GetUids h" "cl_GetVersion (fst (cl_SendMsg c (Some m) h)) = cl_GetVersion h"
    "cl_cap (fst (cl_SendMsg c (Some m) h)) = cl_cap h"
    using conn.send_identity(1-4) [of c m] wsc.send_identity(1-4) [of c m]
    by (cases h; simp add: case_prod_beta GetVersion_def)+
  show "length (cl_queue (fst (cl_SendMsg c (Some m) h))) \<le> cl_cap h" if "length (cl_queue h) \<le> cl_cap h"
    using that conn.send_bound [of _ c m] wsc.send_bound [of _ c m] by (cases h) (simp_all add: case_prod_beta)
  show "cl_SendMsg c (Some m) h = (h, None)" if "\<not> visible_to (cl_GetDevice h) m"
    using that conn.send_hidden [of _ m c] wsc.send_hidden [of _ m c] by (cases h) simp_all
  show "sent_to c (cl_GetVersion h) (cl_GetDevice h) (cl_queue h) (cl_queue (fst (cl_SendMsg c (Some m) h)))"
    if "cl_GetVersion h \<in> {0, 1}"
    using that conn.send_queue [of _ c m] ws_SendMsg_sent [of c]
    by (cases h) (simp_all add: case_prod_beta GetVersion_def ws_GetVersion_def)
qed


section \<open>The table of clients\<close>

text \<open>
  \<open>ForAllClients\<close> with a callback that sends: it visits the clients in the order of the map, each
  is changed through its pointer, and a panic ends the iteration.
\<close>

fun for_clients :: "('h \<Rightarrow> 'h \<times> gofail option) \<Rightarrow> (string, 'h) smap \<Rightarrow> (string, 'h) smap \<times> bool" where
  "for_clients f [] = ([], False)"
| "for_clients f ((k, h) # hs) =
     (case f h of
        (h', Some (Panic _)) \<Rightarrow> ((k, h') # hs, True)
      | (h', _) \<Rightarrow> (case for_clients f hs of (hs', p) \<Rightarrow> ((k, h') # hs', p)))"

lemma for_clients_cases:
  obtains msg where "snd (f h) = Some (Panic msg)" "for_clients f ((k, h) # hs) = ((k, fst (f h)) # hs, True)"
  | "for_clients f ((k, h) # hs) = ((k, fst (f h)) # fst (for_clients f hs), snd (for_clients f hs))"
    "\<And>msg. snd (f h) \<noteq> Some (Panic msg)"
  by (cases "f h"; cases "snd (f h)"; cases "the (snd (f h))") (auto split: prod.splits)

lemma for_clients_keys: "map fst (fst (for_clients f hs)) = map fst hs"
proof (induction hs)
  case (Cons e hs)
  obtain k h where "e = (k, h)" by fastforce
  with Cons show ?case by (cases rule: for_clients_cases [of f h k hs]) simp_all
qed simp

lemma smLoad_Cons: "smLoad ((k, v) # m) x = (if x = k then Some v else smLoad m x)"
  by (simp add: smLoad_def)

lemma for_clients_all: "\<not> snd (for_clients f hs) \<Longrightarrow> smLoad (fst (for_clients f hs)) k = map_option (\<lambda>h. fst (f h)) (smLoad hs k)"
proof (induction hs)
  case (Cons e hs)
  obtain k' h where "e = (k', h)" by fastforce
  with Cons show ?case by (cases rule: for_clients_cases [of f h k' hs]) (simp_all add: smLoad_Cons)
qed simp

text \<open>With or without a panic, an entry is as before or as the callback leaves it.\<close>

lemma for_clients_each:
  "smLoad (fst (for_clients f hs)) k = smLoad hs k \<or>
   smLoad (fst (for_clients f hs)) k = map_option (\<lambda>h. fst (f h)) (smLoad hs k)"
proof (induction hs)
  case (Cons e hs)
  obtain k' h where "e = (k', h)" by fastforce
  with Cons show ?case by (cases rule: for_clients_cases [of f h k' hs]) (auto simp: smLoad_Cons)
qed simp

section \<open>App\<close>

text \<open>
  \<open>apLog\<close> and \<open>apChatLog\<close> are what was written to the log files. \<open>apCrashed\<close>: the message loop has
  panicked.
\<close>

record 'db App =
  apHandlers :: "(string, client) smap"
  apItems :: ItemsMemoryRepo
  apMessages :: Storage
  apDb :: 'db
  apUsers :: user_cache
  apFiles :: files
  apUid :: string
  apCh :: "CotMessage list"
  apLog :: "string list"
  apChatLog :: "string list"
  apCrashed :: bool

record 'db env =
  evGorm :: "'db gorm"
  evCodec :: codec
  evConfig :: koanf
  evToLower :: "string \<Rightarrow> string"
  evUnescape :: "string \<Rightarrow> string"
  evOpenLog :: "gofail option"
  evOpenChatLog :: "gofail option"
  evIoErr :: "gofail option"
  evSha256 :: "string \<Rightarrow> string"
  evUnzip :: unzip
  evCompare :: "string \<Rightarrow> string \<Rightarrow> bool"
  evGenerate :: "string \<Rightarrow> string result"

text \<open>The directory of the blobs, and the blob operations there.\<close>

definition blob_dir :: "'db env \<Rightarrow> string" where
  "blob_dir env = path_Join [DataDir (evConfig env), ''blob'']"

text \<open>What one use of the clock and of the generator of identifiers gives.\<close>

record stamp =
  stNow :: time
  stClock :: clock3
  stTime :: string
  stUuid :: string

definition chCap :: nat where "chCap = 128"

definition NewApp :: "'db gorm \<Rightarrow> string \<Rightarrow> 'db \<Rightarrow> 'db App" where
  "NewApp g uid db =
     \<lparr>apHandlers = [], apItems = NewItemsMemoryRepo [], apMessages = [], apDb = AddDefaults g db,
      apUsers = NewUserDbRepository, apFiles = [], apUid = uid, apCh = [], apLog = [], apChatLog = [], apCrashed = False\<rparr>"

text \<open>A message is dropped when the channel is full.\<close>

definition NewCotMessage :: "CotMessage option \<Rightarrow> 'db App \<Rightarrow> 'db App" where
  "NewCotMessage msg app = (case msg of None \<Rightarrow> app
     | Some m \<Rightarrow> app\<lparr>apCh := fst (chan_send chCap m (apCh app))\<rparr>)"

definition AddClientHandler :: "client \<Rightarrow> 'db App \<Rightarrow> 'db App" where
  "AddClientHandler ch app = app\<lparr>apHandlers := smStore (cl_GetName ch) ch (apHandlers app)\<rparr>"

definition RemoveClientHandler :: "string \<Rightarrow> 'db App \<Rightarrow> 'db App" where
  "RemoveClientHandler name app = app\<lparr>apHandlers := smDelete name (apHandlers app)\<rparr>"

definition ForAllClients :: "(client \<Rightarrow> client \<times> gofail option) \<Rightarrow> 'db App \<Rightarrow> 'db App \<times> bool" where
  "ForAllClients f app = (case for_clients f (smRange (apHandlers app)) of (hs, p) \<Rightarrow> (app\<lparr>apHandlers := hs\<rparr>, p))"

text \<open>The message made for a uid of a client that has gone has no parsed detail.\<close>

definition offline_msg :: "stamp \<Rightarrow> client \<Rightarrow> string \<Rightarrow> CotMessage" where
  "offline_msg st cl uid =
     \<lparr>cmFrom = cl_GetName cl, cmScope = Device_GetScope (cl_GetDevice cl),
      cmTakMessage = Some (MakeOfflineMsg (stClock st) (stUuid st) uid []), cmDetail = None\<rparr>"

definition RemoveHandlerCb :: "(nat \<Rightarrow> stamp) \<Rightarrow> client \<Rightarrow> 'db App \<Rightarrow> 'db App" where
  "RemoveHandlerCb st cl app =
     fold (\<lambda>(n, uid, _) app.
        NewCotMessage (Some (offline_msg (st n) cl uid)) (app\<lparr>apItems := change_item uid SetOffline (apItems app)\<rparr>))
      (enumerate 0 (cl_GetUids cl)) (RemoveClientHandler (cl_GetName cl) app)"

definition checkUID :: "'db env \<Rightarrow> string \<Rightarrow> bool" where
  "checkUID env uid =
     (\<not> list_ex (\<lambda>s. evToLower env uid = evToLower env s) (BlacklistedUID (evConfig env)))"

end
