(* ===== verification/Router.thy ===== *)
theory Router
  imports ServerState
begin

text \<open>
  \<open>cmd/goatak_server/main.go\<close> (routing) and \<open>processors.go\<close>: what the message loop does with one
  message. The processors run in the order of \<open>InitMessageProcessors\<close>, each on the types its masks
  match, until one of them stops the chain; \<open>filter_control\<close> comes before the router.

  \<open>st n\<close> is the n-th reading of the clock and of the random generator in the processing of a message.
\<close>

section \<open>Sending\<close>

definition send_if :: "'db env \<Rightarrow> (client \<Rightarrow> bool) \<Rightarrow> CotMessage option \<Rightarrow> 'db App \<Rightarrow> 'db App \<times> bool" where
  "send_if env P msg = ForAllClients (\<lambda>ch. if P ch then cl_SendMsg (evCodec env) msg ch else (ch, None))"

definition sendBroadcast :: "'db env \<Rightarrow> CotMessage \<Rightarrow> 'db App \<Rightarrow> 'db App \<times> bool" where
  "sendBroadcast env msg = send_if env (\<lambda>ch. cl_GetName ch \<noteq> cmFrom msg) (Some msg)"

definition sendToCallsign :: "'db env \<Rightarrow> string \<Rightarrow> CotMessage \<Rightarrow> 'db App \<Rightarrow> 'db App \<times> bool" where
  "sendToCallsign env callsign msg = send_if env (\<lambda>ch. cl_HasCallsign ch callsign) (Some msg)"

definition sendToUID :: "'db env \<Rightarrow> string \<Rightarrow> CotMessage option \<Rightarrow> 'db App \<Rightarrow> 'db App \<times> bool" where
  "sendToUID env uid msg = send_if env (\<lambda>ch. cl_HasUID ch uid) msg"

section \<open>Missions\<close>

definition notifyMissionSubscribers ::
    "'db env \<Rightarrow> stamp \<Rightarrow> Mission option \<Rightarrow> Change option \<Rightarrow> 'db App \<Rightarrow> 'db App \<times> bool" where
  "notifyMissionSubscribers env st mission c app =
     (case (mission, c) of
        (Some m, Some ch) \<Rightarrow>
          (let msg = MissionChangeNotificationMsg (stClock st) (stUuid st) (msName m) (msScope m) ch
           in go_for (\<lambda>uid. sendToUID env uid (Some msg)) (GetSubscribers (evGorm env) (msID m) (apDb app)) app)
      | _ \<Rightarrow> (app, False))"

definition processMissionPoint :: "'db env \<Rightarrow> stamp \<Rightarrow> string \<Rightarrow> CotMessage \<Rightarrow> 'db App \<Rightarrow> 'db App \<times> bool" where
  "processMissionPoint env st missionName msg app =
     (case MissionQuery_One (evGorm env)
             (MissionQuery_Full (MissionQuery_Name missionName (MissionQuery_Scope (cmScope msg) NewMissionQuery))) (apDb app) of
        None \<Rightarrow> (app, False)
      | Some m \<Rightarrow>
          (if GetType (Some msg) = ''t-x-d-d'' then
             (let uid = GetAttr ''uid'' (GetFirstLink ''p-p'' (Some msg))
              in if uid \<noteq> [] then
                   (case DeleteMissionPoint (Some (evGorm env)) m uid [] (apDb app) of
                      ((change, m'), db) \<Rightarrow> notifyMissionSubscribers env st (Some m') change (app\<lparr>apDb := db\<rparr>))
                 else (app, False))
           else
             (case AddMissionPoint (evGorm env) (stNow st) (Some m) msg (apDb app) of
                ((change, _), db) \<Rightarrow> notifyMissionSubscribers env st (Some m) change (app\<lparr>apDb := db\<rparr>))))"

section \<open>Processors\<close>

text \<open>A processor returns whether to go on, the state, and whether it panicked.\<close>

definition route :: "'db env \<Rightarrow> (nat \<Rightarrow> stamp) \<Rightarrow> CotMessage \<Rightarrow> 'db App \<Rightarrow> 'db App \<times> bool" where
  "route env st msg app =
     (let det = GetDetail (Some msg)
      in if GetDestMission det \<noteq> [] then
           go_for (\<lambda>(n, missionName). processMissionPoint env (st n) missionName msg)
             (enumerate 1 (GetDestMission det)) app
         else if GetDestCallsign det \<noteq> [] then go_for (\<lambda>s. sendToCallsign env s msg) (GetDestCallsign det) app
         else if GetDestUid det \<noteq> [] then go_for (\<lambda>s. sendToUID env s (Some msg)) (GetDestUid det) app
         else sendBroadcast env msg app)"

definition WELCOME_MESSAGE_FROM_UID :: string where "WELCOME_MESSAGE_FROM_UID = ''ADMIN_UID''"

definition removeItemProcessor :: "CotMessage \<Rightarrow> 'db App \<Rightarrow> 'db App" where
  "removeItemProcessor msg app =
     (case GetFirstLink ''p-p'' (Some msg) of
        None \<Rightarrow> app
      | Some link \<Rightarrow>
          (let uid = GetAttr ''uid'' (Some link)
           in if uid = [] then app
              else case Repo_Get (apItems app) uid of
                     None \<Rightarrow> app
                   | Some v \<Rightarrow>
                       (if itClass v = CONTACT then app\<lparr>apItems := Store (Some (SetOffline v)) (apItems app)\<rparr>
                        else if itClass v = UNIT \<or> itClass v = POINT then app\<lparr>apItems := Repo_Remove uid (apItems app)\<rparr>
                        else app)))"

definition chat_log_line :: "(string \<Rightarrow> string) \<Rightarrow> StoredChat \<Rightarrow> string" where
  "chat_log_line unescape c =
     GetUIDFrom (Some c) @ '' ('' @ GetCallsignFrom (Some c) @ '') -> '' @ GetChatroom (Some c) @ '' ('' @
     GetUIDTo (Some c) @ '') '' @ [CHR 0x22] @ ChatText unescape (Some c) @ [CHR 0x22, CHR 0x0A]"

definition logChatMessage :: "'db env \<Rightarrow> StoredChat \<Rightarrow> 'db App \<Rightarrow> 'db App" where
  "logChatMessage env c app =
     (if GetUIDFrom (Some c) = WELCOME_MESSAGE_FROM_UID then app
      else if evOpenChatLog env \<noteq> None then app
      else app\<lparr>apChatLog := apChatLog app @ [chat_log_line (evUnescape env) c]\<rparr>)"

definition chatProcessor :: "'db env \<Rightarrow> stamp \<Rightarrow> CotMessage \<Rightarrow> 'db App \<Rightarrow> 'db App" where
  "chatProcessor env st msg app =
     (if IsChat (Some msg) \<or> IsFileTransfer (Some msg) then
        (let c = FromCot (stNow st) (Some msg)
         in logChatMessage env c (app\<lparr>apMessages := Storage_Add c (apMessages app)\<rparr>))
      else app)"

definition processNewContact :: "'db env \<Rightarrow> stamp \<Rightarrow> Item \<Rightarrow> time \<Rightarrow> 'db App \<Rightarrow> 'db App \<times> bool" where
  "processNewContact env st item lastSeen app =
     (let welcome = WelcomeForScope (evConfig env) (Item_GetScope item);
          chat = MakeServerChat (stClock st) (stTime st) (stUuid st) (itUid item) WELCOME_MESSAGE_FROM_UID
                   (Item_GetCallsign item) [] ''RootContactGroup'' welcome
      in and_then
           (if lastSeen = zero_time \<and> welcome \<noteq> []
            then sendToUID env (itUid item) (LocalCotMessage (cdDecode (evCodec env)) (Some chat)) app
            else (app, False))
           (\<lambda>app. go_for (sendToUID env (itUid item)) (GetFor (stNow st) item lastSeen (apMessages app)) app))"

definition saveItemProcessor :: "'db env \<Rightarrow> stamp \<Rightarrow> CotMessage \<Rightarrow> 'db App \<Rightarrow> 'db App \<times> bool" where
  "saveItemProcessor env st msg app =
     (if \<not> IsMapItem (Some msg) then (app, False)
      else
        (let cl = GetClass (Some msg)
         in case Repo_Get (apItems app) (GetUID (Some msg)) of
              Some c \<Rightarrow>
                (let c' = Update (stNow st) (Some msg) c;
                     app' = app\<lparr>apItems := Store (Some c') (apItems app)\<rparr>
                 in if cl = CONTACT \<and> \<not> itOnline c then processNewContact env st c' (itLastSeen c) app' else (app', False))
            | None \<Rightarrow>
                (let item = FromMsg (stNow st) (Some msg);
                     app' = app\<lparr>apItems := Store item (apItems app)\<rparr>
                 in case item of
                      Some i \<Rightarrow> (if cl = CONTACT then processNewContact env st i zero_time app' else (app', False))
                    | None \<Rightarrow> (app', False))))"

definition metricsProcessor :: "stamp \<Rightarrow> CotMessage \<Rightarrow> 'db App \<Rightarrow> 'db App" where
  "metricsProcessor st msg app =
     (let uid = GetAttr ''uid'' (GetFirstLink ''p-s'' (Some msg))
      in if uid = [] then app
         else case Repo_Get (apItems app) uid of
                None \<Rightarrow> app
              | Some c \<Rightarrow> (if itClass c \<noteq> CONTACT then app
                         else app\<lparr>apItems := change_item uid (SetOnline (stNow st)) (apItems app)\<rparr>))"

definition filterProcessor :: "CotMessage \<Rightarrow> bool" where
  "filterProcessor msg \<longleftrightarrow> \<not> IsControl (Some msg)"

text \<open>The length is a \<open>uint32\<close>; two conversions to \<open>byte\<close> write it.\<close>

definition log_header :: "string \<Rightarrow> string" where
  "log_header d = (let l = (word_of_nat (length d) :: 32 word)
                   in [char_of (unat l mod 256), char_of (unat l div 256 mod 256)])"

definition logMessage :: "'db env \<Rightarrow> CotMessage \<Rightarrow> 'db App \<Rightarrow> 'db App" where
  "logMessage env msg app =
     (if evOpenLog env \<noteq> None then app
      else case cdProtoMarshal (evCodec env) (GetTakMessage (Some msg)) of
             Inl err \<Rightarrow> app
           | Inr d \<Rightarrow> app\<lparr>apLog := apLog app @ [log_header d @ d]\<rparr>)"

definition fileLoggerProcessor :: "'db env \<Rightarrow> CotMessage \<Rightarrow> 'db App \<Rightarrow> 'db App" where
  "fileLoggerProcessor env msg app =
     (if IsPing (Some msg) \<or> MatchAnyPattern (GetType (Some msg)) (LogExclude (evConfig env)) then app
      else logMessage env msg app)"

section \<open>The chain\<close>

datatype processor = PLogger | PFileLogger | PMetrics | PRemove | PChat | PItems | PFilter | PRouter

record EventProcessor =
  epName :: string
  epInclude :: "string list"
  epCb :: processor

text \<open>The callback: the state, whether it panicked, and whether the chain goes on.\<close>

definition run_cb ::
    "'db env \<Rightarrow> (nat \<Rightarrow> stamp) \<Rightarrow> CotMessage \<Rightarrow> processor \<Rightarrow> 'db App \<Rightarrow> ('db App \<times> bool) \<times> bool" where
  "run_cb env st msg p app = (case p of
     PLogger \<Rightarrow> ((app, False), True)
   | PFileLogger \<Rightarrow> ((fileLoggerProcessor env msg app, False), True)
   | PMetrics \<Rightarrow> ((metricsProcessor (st 0) msg app, False), False)
   | PRemove \<Rightarrow> ((removeItemProcessor msg app, False), True)
   | PChat \<Rightarrow> ((chatProcessor env (st 0) msg app, False), True)
   | PItems \<Rightarrow> (saveItemProcessor env (st 0) msg app, True)
   | PFilter \<Rightarrow> ((app, False), filterProcessor msg)
   | PRouter \<Rightarrow> (route env st msg app, True))"

definition InitMessageProcessors :: "koanf \<Rightarrow> EventProcessor list" where
  "InitMessageProcessors k =
     [\<lparr>epName = ''logger'', epInclude = [''.-''], epCb = PLogger\<rparr>] @
     (if LogAll k then [\<lparr>epName = ''file_logger'', epInclude = [''.-''], epCb = PFileLogger\<rparr>] else []) @
     [\<lparr>epName = ''metrics'', epInclude = [''t-x-c-m''], epCb = PMetrics\<rparr>,
      \<lparr>epName = ''remove'', epInclude = [''t-x-d-d''], epCb = PRemove\<rparr>,
      \<lparr>epName = ''chat'', epInclude = [''b-t-f'', ''b-t-f-'', ''b-f-t-''], epCb = PChat\<rparr>,
      \<lparr>epName = ''items'', epInclude = [''a-'', ''b-'', ''u-''], epCb = PItems\<rparr>,
      \<lparr>epName = ''filter_control'', epInclude = [''t-''], epCb = PFilter\<rparr>,
      \<lparr>epName = ''router'', epInclude = [''.-''], epCb = PRouter\<rparr>]"

fun run_processors ::
    "'db env \<Rightarrow> (nat \<Rightarrow> stamp) \<Rightarrow> CotMessage \<Rightarrow> EventProcessor list \<Rightarrow> 'db App \<Rightarrow> 'db App \<times> bool" where
  "run_processors env st msg [] app = (app, False)"
| "run_processors env st msg (prc # ps) app =
     (if MatchAnyPattern (GetType (Some msg)) (epInclude prc) then
        (case run_cb env st msg (epCb prc) app of
           ((app', True), _) \<Rightarrow> (app', True)
         | ((app', False), False) \<Rightarrow> (app', False)
         | ((app', False), True) \<Rightarrow> run_processors env st msg ps app')
      else run_processors env st msg ps app)"

definition processMessage :: "'db env \<Rightarrow> (nat \<Rightarrow> stamp) \<Rightarrow> CotMessage \<Rightarrow> 'db App \<Rightarrow> 'db App \<times> bool" where
  "processMessage env st msg = run_processors env st msg (InitMessageProcessors (evConfig env))"

text \<open>One turn of \<open>messageProcessLoop\<close>.\<close>

definition messageProcessLoop :: "'db env \<Rightarrow> (nat \<Rightarrow> stamp) \<Rightarrow> 'db App \<Rightarrow> 'db App" where
  "messageProcessLoop env st app =
     (if apCrashed app then app
      else case chan_recv (apCh app) of
             None \<Rightarrow> app
           | Some (msg, q) \<Rightarrow>
               (case processMessage env st msg (app\<lparr>apCh := q\<rparr>) of (app', p) \<Rightarrow> app'\<lparr>apCrashed := p\<rparr>))"

section \<open>What a message does to the clients\<close>

text \<open>
  The clients before and after: the same names, each with the same identity, and with packets of
  messages its device may see added to its queue.
\<close>

definition client_ok :: "codec \<Rightarrow> client \<Rightarrow> client \<Rightarrow> bool" where
  "client_ok c h h' \<longleftrightarrow>
     cl_GetName h' = cl_GetName h \<and> cl_GetDevice h' = cl_GetDevice h \<and> cl_GetUids h' = cl_GetUids h \<and>
     cl_GetVersion h' = cl_GetVersion h \<and> cl_cap h' = cl_cap h \<and>
     (length (cl_queue h) \<le> cl_cap h \<longrightarrow> length (cl_queue h') \<le> cl_cap h) \<and>
     (cl_GetVersion h \<in> {0, 1} \<longrightarrow> sent_to c (cl_GetVersion h) (cl_GetDevice h) (cl_queue h) (cl_queue h'))"

definition clients_ok :: "codec \<Rightarrow> 'db App \<Rightarrow> 'db App \<Rightarrow> bool" where
  "clients_ok c app app' \<longleftrightarrow>
     map fst (apHandlers app') = map fst (apHandlers app) \<and>
     (\<forall>k. rel_option (client_ok c) (smLoad (apHandlers app) k) (smLoad (apHandlers app') k))"

lemma client_ok_refl: "client_ok c h h"
  by (simp add: client_ok_def)

lemma client_ok_trans: "client_ok c h h1 \<Longrightarrow> client_ok c h1 h2 \<Longrightarrow> client_ok c h h2"
  by (auto simp: client_ok_def intro: sent_to_trans)

lemma clients_ok_same: "apHandlers app' = apHandlers app \<Longrightarrow> clients_ok c app app'"
  by (simp add: clients_ok_def option.rel_refl client_ok_refl)

lemma clients_ok_refl: "clients_ok c app app"
  by (rule clients_ok_same) simp

lemma clients_ok_trans: "clients_ok c a b \<Longrightarrow> clients_ok c b d \<Longrightarrow> clients_ok c a d"
proof -
  assume ab: "clients_ok c a b" and bd: "clients_ok c b d"
  have "rel_option (client_ok c) (smLoad (apHandlers a) k) (smLoad (apHandlers d) k)" for k
  proof -
    have r: "rel_option (client_ok c) (smLoad (apHandlers a) k) (smLoad (apHandlers b) k)"
      "rel_option (client_ok c) (smLoad (apHandlers b) k) (smLoad (apHandlers d) k)"
      using ab bd by (simp_all add: clients_ok_def)
    show ?thesis
      using r by (cases "smLoad (apHandlers a) k"; cases "smLoad (apHandlers b) k"; cases "smLoad (apHandlers d) k")
        (simp_all, blast intro: client_ok_trans)
  qed
  then show ?thesis using ab bd by (simp add: clients_ok_def)
qed

text \<open>The reflexive and transitive relation, ready for the combinators.\<close>

lemmas clients_for = go_for_rel [of "clients_ok c" for c, OF clients_ok_refl clients_ok_trans]
lemmas clients_then = and_then_rel [of "clients_ok c" for c, OF clients_ok_trans]

lemma send_ok: "client_ok c h (fst (if P h then cl_SendMsg c msg h else (h, None)))"
proof (cases msg)
  case (Some m)
  show ?thesis using cl.send_identity [of c m h] cl.send_bound [of h c m] cl.send_queue [of h c m] Some
    by (cases "P h") (auto simp: client_ok_def)
qed (simp add: client_ok_refl)

lemma send_if_clients: "clients_ok (evCodec env) app (fst (send_if env P msg app))"
proof -
  let ?f = "\<lambda>ch. if P ch then cl_SendMsg (evCodec env) msg ch else (ch, None)"
  have "rel_option (client_ok (evCodec env)) (smLoad (apHandlers app) k) (smLoad (fst (for_clients ?f (apHandlers app))) k)" for k
    using for_clients_each [of ?f "apHandlers app" k] send_ok [of "evCodec env" _ P msg]
    by (cases "smLoad (apHandlers app) k") (auto simp: client_ok_refl)
  then show ?thesis
    by (simp add: send_if_def ForAllClients_def smRange_def clients_ok_def for_clients_keys case_prod_beta)
qed

text \<open>Everything else of the state is left alone by a send.\<close>

definition rest_same :: "'db App \<Rightarrow> 'db App \<Rightarrow> bool" where
  "rest_same app app' \<longleftrightarrow> (\<exists>hs. app' = app\<lparr>apHandlers := hs\<rparr>)"

lemma rest_same_refl: "rest_same app app"
  unfolding rest_same_def by (rule exI [of _ "apHandlers app"]) simp

lemma rest_same_trans: "rest_same a b \<Longrightarrow> rest_same b d \<Longrightarrow> rest_same a d"
  by (auto simp: rest_same_def)

lemma rest_same_D: "rest_same app app' \<Longrightarrow> apItems app' = apItems app \<and> apMessages app' = apMessages app \<and>
    apDb app' = apDb app \<and> apUsers app' = apUsers app \<and> apCh app' = apCh app \<and> apLog app' = apLog app \<and>
    apChatLog app' = apChatLog app \<and> apUid app' = apUid app"
  by (auto simp: rest_same_def)

lemma send_if_rest: "rest_same app (fst (send_if env P msg app))"
  by (auto simp: send_if_def ForAllClients_def rest_same_def split: prod.split)

lemmas rest_for = go_for_rel [of rest_same, OF rest_same_refl rest_same_trans]
lemmas rest_then = and_then_rel [of rest_same, OF rest_same_trans]

lemmas send_defs = sendBroadcast_def sendToCallsign_def sendToUID_def

lemma notify_clients: "clients_ok (evCodec env) app (fst (notifyMissionSubscribers env st m c app))"
  by (auto simp: notifyMissionSubscribers_def Let_def send_defs intro: clients_ok_refl clients_for send_if_clients
      split: option.split)

lemma notify_rest: "rest_same app (fst (notifyMissionSubscribers env st m c app))"
  by (auto simp: notifyMissionSubscribers_def Let_def send_defs intro: rest_same_refl rest_for send_if_rest
      split: option.split)

lemma mission_clients: "clients_ok (evCodec env) app (fst (processMissionPoint env st name msg app))"
proof -
  have db: "clients_ok (evCodec env) app (fst (notifyMissionSubscribers env st m c (app\<lparr>apDb := db\<rparr>)))" for m c db
    by (rule clients_ok_trans [OF clients_ok_same notify_clients]) simp
  show ?thesis
    unfolding processMissionPoint_def Let_def
    by (auto simp: db clients_ok_refl split: option.split prod.split)
qed

lemma route_clients: "clients_ok (evCodec env) app (fst (route env st msg app))"
  unfolding route_def Let_def
  by (auto simp: send_defs intro: clients_for send_if_clients mission_clients split: prod.split)

lemma new_contact_clients: "clients_ok (evCodec env) app (fst (processNewContact env st item t app))"
  unfolding processNewContact_def Let_def
  by (intro clients_then clients_for) (auto simp: sendToUID_def clients_ok_refl send_if_clients)

lemma new_contact_rest: "rest_same app (fst (processNewContact env st item t app))"
  unfolding processNewContact_def Let_def
  by (intro rest_then rest_for) (auto simp: sendToUID_def rest_same_refl send_if_rest)

lemma save_clients: "clients_ok (evCodec env) app (fst (saveItemProcessor env st msg app))"
proof -
  have new: "clients_ok (evCodec env) app (fst (processNewContact env st i t (app\<lparr>apItems := r\<rparr>)))" for i t r
    by (rule clients_ok_trans [OF clients_ok_same new_contact_clients]) simp
  have same: "clients_ok (evCodec env) app (app\<lparr>apItems := r\<rparr>)" for r by (rule clients_ok_same) simp
  show ?thesis
    unfolding saveItemProcessor_def Let_def
    by (auto simp: new same clients_ok_refl split: option.split)
qed

lemma quiet_handlers [simp]:
  "apHandlers (fileLoggerProcessor env msg app) = apHandlers app"
  "apHandlers (metricsProcessor s msg app) = apHandlers app"
  "apHandlers (removeItemProcessor msg app) = apHandlers app"
  "apHandlers (chatProcessor env s msg app) = apHandlers app"
  by (auto simp: fileLoggerProcessor_def logMessage_def metricsProcessor_def removeItemProcessor_def
      chatProcessor_def logChatMessage_def Let_def split: option.split sum.split)

lemma run_cb_clients: "clients_ok (evCodec env) app (fst (fst (run_cb env st msg p app)))"
  by (cases p) (simp_all add: run_cb_def clients_ok_same save_clients route_clients)

lemma run_processors_clients: "clients_ok (evCodec env) app (fst (run_processors env st msg ps app))"
proof (induction ps arbitrary: app)
  case (Cons p ps)
  obtain app' pn b where r: "run_cb env st msg (epCb p) app = ((app', pn), b)" by (metis prod.exhaust)
  have "clients_ok (evCodec env) app app'" using run_cb_clients [of env app st msg "epCb p"] r by simp
  then show ?case using Cons [of app'] Cons [of app] clients_ok_trans r
    by (cases pn; cases b) (auto intro: clients_ok_trans)
qed (simp add: clients_ok_refl)

section \<open>Who gets a message\<close>

lemma HasCallsign_uids: "cl_HasCallsign h cs = list_ex (\<lambda>(_, v). v = cs) (cl_GetUids h)"
  by (cases h) (simp_all add: HasCallsign_def ws_HasCallsign_def GetUids_def ws_GetUids_def)

lemma HasUID_uids: "cl_HasUID h uid \<longleftrightarrow> smLoad (cl_GetUids h) uid \<noteq> None"
  by (cases h) (simp_all add: HasUID_def ws_HasUID_def GetUids_def ws_GetUids_def smRange_def)

text \<open>\<open>SendMsg\<close> as a function on clients.\<close>

abbreviation sent :: "'db env \<Rightarrow> CotMessage \<Rightarrow> client \<Rightarrow> client" where
  "sent env m h \<equiv> fst (cl_SendMsg (evCodec env) (Some m) h)"

lemma sent_has [simp]:
  "cl_HasCallsign (sent env m h) cs = cl_HasCallsign h cs" "cl_HasUID (sent env m h) uid = cl_HasUID h uid"
  by (simp_all add: HasCallsign_uids HasUID_uids cl.send_identity)

lemma send_if_load:
  assumes "\<not> snd (send_if env P (Some m) app)"
  shows "smLoad (apHandlers (fst (send_if env P (Some m) app))) k =
     map_option (\<lambda>h. if P h then sent env m h else h) (smLoad (apHandlers app) k)"
  using assms for_clients_all [of "\<lambda>ch. if P ch then cl_SendMsg (evCodec env) (Some m) ch else (ch, None)" "apHandlers app" k]
  by (simp add: send_if_def ForAllClients_def smRange_def case_prod_beta if_distrib [of fst] cong: if_cong)

lemma send_each_load:
  assumes keeps: "\<And>s h. P s (sent env m h) = P s h"
    and ok: "\<not> snd (go_for (\<lambda>s. send_if env (P s) (Some m)) xs app)"
  shows "smLoad (apHandlers (fst (go_for (\<lambda>s. send_if env (P s) (Some m)) xs app))) k =
     map_option (\<lambda>h. (sent env m ^^ length (filter (\<lambda>s. P s h) xs)) h) (smLoad (apHandlers app) k)"
  using ok
proof (induction xs arbitrary: app)
  case Nil
  show ?case by (simp add: option.map_ident)
next
  case (Cons x xs)
  obtain app1 p where r: "send_if env (P x) (Some m) app = (app1, p)" by fastforce
  with Cons.prems have np: "\<not> p" "\<not> snd (go_for (\<lambda>s. send_if env (P s) (Some m)) xs app1)" by (auto split: bool.splits)
  have "smLoad (apHandlers app1) k = map_option (\<lambda>h. if P x h then sent env m h else h) (smLoad (apHandlers app) k)"
    using send_if_load [of env "P x" m app k] r np by simp
  then show ?case
    using Cons.IH [OF np(2)] r np
    by (cases "smLoad (apHandlers app) k") (simp_all add: keeps funpow_swap1 [of "sent env m"])
qed

definition copies :: "CotMessage \<Rightarrow> client \<Rightarrow> nat" where
  "copies msg h =
     (let det = GetDetail (Some msg)
      in if GetDestCallsign det \<noteq> [] then length (filter (cl_HasCallsign h) (GetDestCallsign det))
         else if GetDestUid det \<noteq> [] then length (filter (cl_HasUID h) (GetDestUid det))
         else if cl_GetName h = cmFrom msg then 0 else 1)"

text \<open>
  C21: a message without a mission goes to exactly the clients that have one of its callsigns, or
  else one of its uids, or else, when it names no destination, to all but its sender; a client gets
  one copy for every destination that is its own.
\<close>

theorem route_recipients:
  assumes "GetDestMission (GetDetail (Some msg)) = []" "\<not> snd (route env st msg app)"
  shows "smLoad (apHandlers (fst (route env st msg app))) k =
     map_option (\<lambda>h. (sent env msg ^^ copies msg h) h) (smLoad (apHandlers app) k)"
proof -
  let ?det = "GetDetail (Some msg)"
  consider "GetDestCallsign ?det \<noteq> []" | "GetDestCallsign ?det = []" "GetDestUid ?det \<noteq> []"
    | "GetDestCallsign ?det = []" "GetDestUid ?det = []" by blast
  then show ?thesis
  proof cases
    case 1
    then show ?thesis
      using assms send_each_load [of "\<lambda>s h. cl_HasCallsign h s" env msg "GetDestCallsign ?det" app k]
      by (simp add: route_def Let_def copies_def sendToCallsign_def)
  next
    case 2
    then show ?thesis
      using assms send_each_load [of "\<lambda>s h. cl_HasUID h s" env msg "GetDestUid ?det" app k]
      by (simp add: route_def Let_def copies_def sendToUID_def)
  next
    case 3
    then show ?thesis
      using assms send_if_load [of env "\<lambda>ch. cl_GetName ch \<noteq> cmFrom msg" msg app k]
      by (auto simp: route_def Let_def copies_def sendBroadcast_def intro!: option.map_cong)
  qed
qed

section \<open>Control messages, removals and items\<close>

definition control_types :: "string list" where
  "control_types = [''t-b'', ''t-b-a'', ''t-b-c'', ''t-b-q'', ''t-x-takp-q'', ''t-x-c-m'', ''t-x-c-i-e'', ''t-x-c-i-d'']"

lemma control_type: "IsControl (Some msg) \<longleftrightarrow> GetType (Some msg) \<in> set control_types"
  by (simp add: IsControl_iff control_types_def)

lemma control_masks:
  "list_all (\<lambda>t. MatchAnyPattern t [''t-''] \<and> \<not> MatchAnyPattern t [''t-x-d-d''] \<and>
      \<not> MatchAnyPattern t [''b-t-f'', ''b-t-f-'', ''b-f-t-''] \<and> \<not> MatchAnyPattern t [''a-'', ''b-'', ''u-''] \<and>
      (MatchAnyPattern t [''t-x-c-m''] \<longleftrightarrow> t = ''t-x-c-m'')) control_types"
  by code_simp

lemma any_type [simp]: "MatchAnyPattern t [''.-'']"
  by (simp add: MatchAnyPattern_def MatchPattern_def)

lemma logged_first:
  "processMessage env st msg app =
     run_processors env st msg (drop (if LogAll (evConfig env) then 2 else 1) (InitMessageProcessors (evConfig env)))
       (if LogAll (evConfig env) then fileLoggerProcessor env msg app else app)"
  by (simp add: processMessage_def InitMessageProcessors_def run_cb_def)


text \<open>Routing changes the clients and the database only.\<close>

definition routing_same :: "'db App \<Rightarrow> 'db App \<Rightarrow> bool" where
  "routing_same app app' \<longleftrightarrow> apItems app' = apItems app \<and> apMessages app' = apMessages app \<and> apCh app' = apCh app"

lemma routing_same_refl: "routing_same app app"
  by (simp add: routing_same_def)

lemma routing_same_trans: "routing_same a b \<Longrightarrow> routing_same b d \<Longrightarrow> routing_same a d"
  by (simp add: routing_same_def)

lemma rest_routing: "rest_same app app' \<Longrightarrow> routing_same app app'"
  by (auto simp: routing_same_def dest: rest_same_D)

lemmas send_if_routing = rest_routing [OF send_if_rest]
lemmas routing_for = go_for_rel [of routing_same, OF routing_same_refl routing_same_trans]

lemma mission_routing: "routing_same app (fst (processMissionPoint env st name msg app))"
proof -
  have db: "routing_same app (fst (notifyMissionSubscribers env st m c (app\<lparr>apDb := db\<rparr>)))" for m c db
    using rest_routing [OF notify_rest [of "app\<lparr>apDb := db\<rparr>" env st m c]] by (simp add: routing_same_def)
  show ?thesis
    unfolding processMissionPoint_def Let_def
    by (auto simp: db routing_same_refl split: option.split prod.split)
qed

lemma route_routing: "routing_same app (fst (route env st msg app))"
  unfolding route_def Let_def
  by (auto simp: send_defs intro: routing_for send_if_routing mission_routing split: prod.split)

lemma route_items: "apItems (fst (route env st msg app)) = apItems app"
  using route_routing by (auto simp: routing_same_def)

lemma mask_eqs:
  "MatchAnyPattern t [''t-x-c-m''] \<longleftrightarrow> t = ''t-x-c-m''"
  "MatchAnyPattern t [''t-x-d-d''] \<longleftrightarrow> t = ''t-x-d-d''"
  "MatchAnyPattern t [''t-''] \<longleftrightarrow> HasPrefix t ''t-''"
  "MatchAnyPattern t [''a-'', ''b-'', ''u-''] \<longleftrightarrow> HasPrefix t ''a-'' \<or> HasPrefix t ''b-'' \<or> HasPrefix t ''u-''"
  by (auto simp: MatchAnyPattern_def MatchPattern_exact MatchPattern_prefix HasSuffix_def)

lemma quiet_items [simp]:
  "apItems (fileLoggerProcessor env msg app) = apItems app"
  "apItems (chatProcessor env s msg app) = apItems app"
  by (auto simp: fileLoggerProcessor_def logMessage_def chatProcessor_def logChatMessage_def Let_def
      split: option.split sum.split)

lemma tdd_masks: "\<not> MatchAnyPattern ''t-x-d-d'' [''b-t-f'', ''b-t-f-'', ''b-f-t-'']"
  by code_simp

text \<open>
  A removal message of any scope takes the item it names off the map (a unit or a point is
  removed, a contact set offline), whatever the scope of the item.
\<close>

theorem remove_ignores_scope:
  assumes "repo_inv (apItems app)" "GetType (Some msg) = ''t-x-d-d''"
    and "GetFirstLink ''p-p'' (Some msg) = Some link" "GetAttr ''uid'' (Some link) = uid" "uid \<noteq> []"
    and v: "Repo_Get (apItems app) uid = Some v"
  shows "Repo_Get (apItems (fst (processMessage env st msg app))) uid =
     (if itClass v = CONTACT then Some (SetOffline v)
      else if itClass v = UNIT \<or> itClass v = POINT then None else Some v)"
proof -
  have uid: "itUid v = uid" using assms(1) v by (rule repo_inv_D)
  have ctl: "\<not> IsControl (Some msg)" using assms(2) by (simp add: IsControl_iff)
  define app0 where "app0 = (if LogAll (evConfig env) then fileLoggerProcessor env msg app else app)"
  have v': "Repo_Get (apItems app0) uid = Some v" using v by (simp add: app0_def)
  obtain app2 p where r: "route env st msg (removeItemProcessor msg app0) = (app2, p)" by fastforce
  have "fst (processMessage env st msg app) = app2"
    unfolding logged_first app0_def [symmetric] using assms(2) ctl r
    by (cases p) (simp_all add: InitMessageProcessors_def run_cb_def filterProcessor_def mask_eqs tdd_masks)
  then have "apItems (fst (processMessage env st msg app)) = apItems (removeItemProcessor msg app0)"
    using route_items [of env st msg "removeItemProcessor msg app0"] r
    by (simp add: route_items)
  then show ?thesis
    using assms(3-5) v' uid by (simp add: removeItemProcessor_def Get_Store Get_Remove class_names)
qed

lemma new_contact_items: "apItems (fst (processNewContact env st item t app)) = apItems app"
  using rest_same_D [OF new_contact_rest] by blast

lemma Store_None: "Store None r = r"
  by (simp add: Store_def)

lemma save_items:
  assumes "repo_inv (apItems app)" "IsMapItem (Some msg)"
  shows "Repo_Get (apItems (fst (saveItemProcessor env s msg app))) u =
     (if u = GetUID (Some msg) then
        (case Repo_Get (apItems app) u of
           Some c \<Rightarrow> Some (Update (stNow s) (Some msg) c) | None \<Rightarrow> FromMsg (stNow s) (Some msg))
      else Repo_Get (apItems app) u)"
proof (cases "Repo_Get (apItems app) (GetUID (Some msg))")
  case None
  have "itUid i = GetUID (Some msg)" if "FromMsg (stNow s) (Some msg) = Some i" for i
    using FromMsg_Some [OF that] by simp
  then show ?thesis
    using None assms by (cases "FromMsg (stNow s) (Some msg)")
      (auto simp: saveItemProcessor_def Let_def new_contact_items Get_Store Store_None)
next
  case (Some c)
  have "itUid c = GetUID (Some msg)" using repo_inv_D [OF assms(1) Some] .
  then show ?thesis
    using Some assms by (auto simp: saveItemProcessor_def Let_def new_contact_items Get_Store)
qed

text \<open>
  C23: a message of a map item updates the item under its uid, or makes it, and no other; nothing
  compares the scopes of the message and of the item.
\<close>

theorem item_saved:
  assumes "repo_inv (apItems app)" "IsMapItem (Some msg)"
  shows "Repo_Get (apItems (fst (processMessage env st msg app))) u =
     (if u = GetUID (Some msg) then
        (case Repo_Get (apItems app) u of
           Some c \<Rightarrow> Some (Update (stNow (st 0)) (Some msg) c) | None \<Rightarrow> FromMsg (stNow (st 0)) (Some msg))
      else Repo_Get (apItems app) u)"
proof -
  let ?t = "GetType (Some msg)"
  define app0 where "app0 = (if LogAll (evConfig env) then fileLoggerProcessor env msg app else app)"
  define app1 where "app1 = (if MatchAnyPattern ?t [''b-t-f'', ''b-t-f-'', ''b-f-t-''] then chatProcessor env (st 0) msg app0 else app0)"
  have pre: "HasPrefix ?t ''a-'' \<or> HasPrefix ?t ''b-'' \<or> HasPrefix ?t ''u-''" using assms(2) by (auto simp: IsMapItem_iff)
  then have no: "\<not> HasPrefix ?t ''t-''" "?t \<noteq> ''t-x-c-m''" "?t \<noteq> ''t-x-d-d''" by (auto simp: HasPrefix_iff)
  obtain app2 p where sv: "saveItemProcessor env (st 0) msg app1 = (app2, p)" by fastforce
  have "fst (processMessage env st msg app) = (if p then app2 else fst (route env st msg app2))"
    unfolding logged_first app0_def [symmetric] using pre no sv
    by (cases "route env st msg app2"; cases "snd (route env st msg app2)"; cases p;
        cases "MatchAnyPattern ?t [''b-t-f'', ''b-t-f-'', ''b-f-t-'']")
       (simp_all add: InitMessageProcessors_def run_cb_def mask_eqs app1_def)
  then have "apItems (fst (processMessage env st msg app)) = apItems (fst (saveItemProcessor env (st 0) msg app1))"
    using sv by (simp add: route_items)
  then show ?thesis
    using save_items [of app1 msg env "st 0" u] assms by (simp add: app1_def app0_def)
qed

section \<open>Panics of the message loop\<close>

lemma for_clients_panic:
  "smLoad hs k = Some h \<Longrightarrow> snd (f h) = Some (Panic p) \<Longrightarrow> snd (for_clients f hs)"
proof (induction hs)
  case (Cons e hs)
  obtain k' h' where e: "e = (k', h')" by fastforce
  show ?case
  proof (cases rule: for_clients_cases [of f h' k' hs])
    case 2
    then have "k' \<noteq> k" using Cons.prems e by (auto simp: smLoad_Cons split: if_splits)
    then show ?thesis using Cons 2(1) e by (simp add: smLoad_Cons)
  qed (simp add: e)
qed simp

lemma for_clients_no_panic:
  "(\<And>h p. snd (f h) \<noteq> Some (Panic p)) \<Longrightarrow> \<not> snd (for_clients f hs)"
proof (induction hs)
  case (Cons e hs)
  obtain k' h' where e: "e = (k', h')" by fastforce
  show ?case
  proof (cases rule: for_clients_cases [of f h' k' hs])
    case 1
    then show ?thesis using Cons.prems by simp
  qed (use Cons e in simp)
qed simp

text \<open>A packet whose message is too large: see \<open>MakeProtoPacket\<close>.\<close>

definition oversized :: "codec \<Rightarrow> CotMessage \<Rightarrow> bool" where
  "oversized c m \<longleftrightarrow> (case cdProtoMarshal c (GetTakMessage (Some m)) of Inr d \<Rightarrow> length d \<ge> 2 ^ 21 | Inl _ \<Rightarrow> False)"

lemma oversized_panics:
  assumes "oversized c m" "cl_GetVersion h = 1" "visible_to (cl_GetDevice h) m"
  shows "\<exists>p. snd (cl_SendMsg c (Some m) h) = Some (Panic p)"
  using assms MakeProtoPacket_long [of "cdProtoMarshal c" "GetTakMessage (Some m)"]
  by (cases h) (auto simp: oversized_def SendMsg_def SendCot_def ws_SendMsg_def ws_SendCot_def visible_to_def
      split: sum.splits)

lemma chain_panics:
  assumes "\<And>a. clients_ok (evCodec env) app a \<Longrightarrow> snd (route env st msg a)" "filterProcessor msg"
    and "\<And>p. p \<in> set ps \<Longrightarrow> epCb p = PMetrics \<Longrightarrow> \<not> MatchAnyPattern (GetType (Some msg)) (epInclude p)"
    and "\<exists>p \<in> set ps. epCb p = PRouter \<and> MatchAnyPattern (GetType (Some msg)) (epInclude p)"
  shows "snd (run_processors env st msg ps app)"
  using assms
proof (induction ps arbitrary: app)
  case (Cons p ps)
  obtain app' pn b where r: "run_cb env st msg (epCb p) app = ((app', pn), b)" by (metis prod.exhaust)
  have ok: "clients_ok (evCodec env) app app'" using run_cb_clients [of env app st msg "epCb p"] r by simp
  show ?case
  proof (cases "MatchAnyPattern (GetType (Some msg)) (epInclude p)")
    case False
    then show ?thesis using Cons by auto
  next
    case True
    have b: "b" using Cons.prems(2,3) True r by (cases "epCb p") (auto simp: run_cb_def)
    show ?thesis
    proof (cases "epCb p = PRouter")
      case True
      then have "pn" using Cons.prems(1) [OF clients_ok_refl] r by (simp add: run_cb_def)
      then show ?thesis using r \<open>MatchAnyPattern _ _\<close> by simp
    next
      case False
      have "snd (run_processors env st msg ps app')"
        using Cons.prems False clients_ok_trans [OF ok] by (intro Cons.IH) auto
      then show ?thesis using r b True by (cases pn) simp_all
    qed
  qed
qed simp

text \<open>
  A message of 2 MiB or more that names no destination and is no control message crashes the
  server when some other client of protocol version 1 may see it.
\<close>

theorem oversized_crashes:
  assumes "oversized (evCodec env) msg" "\<not> IsControl (Some msg)"
    and "GetDestMission (GetDetail (Some msg)) = []" "GetDestCallsign (GetDetail (Some msg)) = []" "GetDestUid (GetDetail (Some msg)) = []"
    and "smLoad (apHandlers app) k = Some h" "cl_GetVersion h = 1" "cl_GetName h \<noteq> cmFrom msg" "visible_to (cl_GetDevice h) msg"
  shows "snd (processMessage env st msg app)"
  unfolding processMessage_def
proof (rule chain_panics)
  fix a
  assume "clients_ok (evCodec env) app a"
  then have "rel_option (client_ok (evCodec env)) (smLoad (apHandlers app) k) (smLoad (apHandlers a) k)"
    by (simp add: clients_ok_def)
  then obtain h' where h': "smLoad (apHandlers a) k = Some h'" "client_ok (evCodec env) h h'"
    using assms(6) by (auto simp: option_rel_Some1)
  then obtain p where "snd (cl_SendMsg (evCodec env) (Some msg) h') = Some (Panic p)"
    using oversized_panics [OF assms(1), of h'] assms(7,9) by (auto simp: client_ok_def)
  moreover have "cl_GetName h' \<noteq> cmFrom msg" using h'(2) assms(8) by (simp add: client_ok_def)
  ultimately have "snd (for_clients (\<lambda>ch. if cl_GetName ch \<noteq> cmFrom msg then cl_SendMsg (evCodec env) (Some msg) ch else (ch, None))
      (apHandlers a))"
    by (intro for_clients_panic [OF h'(1), of _ p]) simp
  then show "snd (route env st msg a)"
    using assms(3-5) by (simp add: route_def sendBroadcast_def send_if_def ForAllClients_def smRange_def case_prod_beta)
next
  show "filterProcessor msg" using assms(2) by (simp add: filterProcessor_def)
next
  fix p
  assume "p \<in> set (InitMessageProcessors (evConfig env))" "epCb p = PMetrics"
  then have "epInclude p = [''t-x-c-m'']" by (auto simp: InitMessageProcessors_def split: if_splits)
  then show "\<not> MatchAnyPattern (GetType (Some msg)) (epInclude p)"
    using assms(2) by (auto simp: mask_eqs IsControl_iff)
qed (simp add: InitMessageProcessors_def)


section \<open>A server to evaluate\<close>

text \<open>Two clients of scope \<open>red\<close> and one of scope \<open>blue\<close>, and a database that has no mission.\<close>

definition no_db :: "'db gorm" where
  "no_db = \<lparr>gFind = (\<lambda>_ _. ([], None)), gTake = (\<lambda>_ r _. (r, Some ErrRecordNotFound)), gCount = (\<lambda>_ _. (0, None)),
     gUpdates = (\<lambda>_ _ db. (0, None, db)), gDelete = (\<lambda>_ db. (None, db)), gCreate = (\<lambda>r db. ((r, None), db)),
     gSave = (\<lambda>_ r db. ((r, None), db)), gAppend = (\<lambda>_ _ m db. ((m, None), db)), gUnlink = (\<lambda>_ _ m db. ((m, None), db)),
     gTransaction = (\<lambda>f db. f db)\<rparr>"

definition example_konf :: koanf where
  "example_konf = \<lparr>kBool = (\<lambda>_. True), kString = (\<lambda>_. []), kInt = (\<lambda>_. 0), kFloat64 = (\<lambda>_. 0), kStrings = (\<lambda>_. []),
     kStringMap = (\<lambda>_. [(''red'', ''hello'')]), kExists = (\<lambda>_. False)\<rparr>"

definition example_env :: "unit env" where
  "example_env = \<lparr>evGorm = no_db, evCodec = example_codec, evConfig = example_konf, evToLower = id, evUnescape = id,
     evOpenLog = None, evOpenChatLog = None, evIoErr = None, evSha256 = id, evUnzip = (\<lambda>_. Inr []),
     evCompare = (=), evGenerate = Inr\<rparr>"

definition example_stamps :: "nat \<Rightarrow> stamp" where
  "example_stamps n = \<lparr>stNow = 10 ^ 18, stClock = (10 ^ 18, 10 ^ 18, 10 ^ 18), stTime = ''now'', stUuid = ''uuid''\<rparr>"

definition example_ws :: "string \<Rightarrow> string \<Rightarrow> client" where
  "example_ws name scope = Ws ((NewWsHandler name (Some (new_Device\<lparr>devScope := scope\<rparr>)))\<lparr>whUids := [(name @ ''-uid'', name)]\<rparr>)"

definition example_app :: "unit App" where
  "example_app =
     fold (\<lambda>(name, scope). AddClientHandler (example_ws name scope)) [(''alice'', ''red''), (''bob'', ''red''), (''carol'', ''blue'')]
       (NewApp no_db ''server'' ())"

definition cot_msg :: "string \<Rightarrow> string \<Rightarrow> Node option \<Rightarrow> CotMessage" where
  "cot_msg typ scope det = \<lparr>cmFrom = ''alice'', cmScope = scope,
     cmTakMessage = Some (BasicMsg (10 ^ 18, 10 ^ 18, 10 ^ 18) typ ''alice-uid'' minute), cmDetail = det\<rparr>"

lemma example_clients:
  "smLoad (apHandlers example_app) ''alice'' = Some (example_ws ''alice'' ''red'')"
  "smLoad (apHandlers example_app) ''bob'' = Some (example_ws ''bob'' ''red'')"
  by (simp_all add: example_app_def AddClientHandler_def NewApp_def example_ws_def NewWsHandler_def smap_simps)


theorem route_recipients_witness:
  "map_option cl_queue (smLoad (apHandlers (fst (route example_env example_stamps (cot_msg ''a-f-G'' ''red'' None) example_app))) ''bob'') =
     map_option (\<lambda>h. cl_queue (sent example_env (cot_msg ''a-f-G'' ''red'' None) h)) (smLoad (apHandlers example_app) ''bob'')"
proof -
  have 1: "GetDestMission (GetDetail (Some (cot_msg ''a-f-G'' ''red'' None))) = []" by code_simp
  have 2: "\<not> snd (route example_env example_stamps (cot_msg ''a-f-G'' ''red'' None) example_app)" by code_simp
  have 3: "copies (cot_msg ''a-f-G'' ''red'' None) (example_ws ''bob'' ''red'') = 1" by code_simp
  show ?thesis unfolding route_recipients [OF 1 2, of "''bob''"] example_clients by (simp add: 3)
qed


text \<open>A removal by \<open>alice\<close> of an item of scope \<open>blue\<close>, and an item.\<close>

definition blue_point :: Item where
  "blue_point = \<lparr>itUid = ''p1'', itClass = POINT, itOnline = True, itLastSeen = 0, itLocal = False, itSend = False,
     itTrack = [], itMsg = cot_msg ''b-m-p'' ''blue'' None\<rparr>"

definition blue_app :: "unit App" where
  "blue_app = example_app\<lparr>apItems := Store (Some blue_point) (NewItemsMemoryRepo [])\<rparr>"

lemma blue_app_items: "repo_inv (apItems blue_app)" "Repo_Get (apItems blue_app) ''p1'' = Some blue_point"
  by (simp_all add: blue_app_def Store_inv new_inv Get_Store blue_point_def)

definition removal :: CotMessage where
  "removal = cot_msg ''t-x-d-d'' ''red'' (AddPpLink ''p1'' [] [] (Some NewXMLDetails))"

theorem remove_ignores_scope_witness:
  "Repo_Get (apItems (fst (processMessage example_env example_stamps removal blue_app))) ''p1'' = None"
proof -
  have 1: "GetType (Some removal) = ''t-x-d-d''" "GetAttr ''uid'' (GetFirstLink ''p-p'' (Some removal)) = ''p1''" by code_simp+
  then obtain link where 2: "GetFirstLink ''p-p'' (Some removal) = Some link"
    by (cases "GetFirstLink ''p-p'' (Some removal)") (auto simp: GetAttr_def)
  have 3: "GetAttr ''uid'' (Some link) = ''p1''" using 1(2) 2 by simp
  show ?thesis
    using remove_ignores_scope [OF blue_app_items(1) 1(1) 2 3 _ blue_app_items(2), of example_env example_stamps]
    by (simp add: blue_point_def class_names)
qed

theorem item_saved_witness:
  "map_option itMsg (Repo_Get (apItems (fst (processMessage example_env example_stamps
      (cot_msg ''u-d-p'' ''red'' None) blue_app))) ''alice-uid'') = Some (cot_msg ''u-d-p'' ''red'' None)"
proof -
  have 1: "IsMapItem (Some (cot_msg ''u-d-p'' ''red'' None))" "GetUID (Some (cot_msg ''u-d-p'' ''red'' None)) = ''alice-uid''"
    "Repo_Get (apItems blue_app) ''alice-uid'' = None"
    "map_option itMsg (FromMsg 1000000000000000000 (Some (cot_msg ''u-d-p'' ''red'' None))) = Some (cot_msg ''u-d-p'' ''red'' None)"
    by code_simp+
  show ?thesis
    unfolding item_saved [OF blue_app_items(1) 1(1)] by (simp add: 1 example_stamps_def del: map_option_eq_Some)
qed

definition big_codec :: codec where
  "big_codec = example_codec\<lparr>cdProtoMarshal := \<lambda>_. Inr (replicate (2 ^ 21) CHR ''x'')\<rparr>"

theorem oversized_crashes_witness:
  "snd (processMessage (example_env\<lparr>evCodec := big_codec\<rparr>) example_stamps (cot_msg ''b-x'' ''red'' None) example_app)"
proof (rule oversized_crashes)
  show "oversized (evCodec (example_env\<lparr>evCodec := big_codec\<rparr>)) (cot_msg ''b-x'' ''red'' None)"
    by (simp add: oversized_def big_codec_def)
  show "\<not> IsControl (Some (cot_msg ''b-x'' ''red'' None))" by code_simp
  show "GetDestMission (GetDetail (Some (cot_msg ''b-x'' ''red'' None))) = []"
    "GetDestCallsign (GetDetail (Some (cot_msg ''b-x'' ''red'' None))) = []"
    "GetDestUid (GetDetail (Some (cot_msg ''b-x'' ''red'' None))) = []" by code_simp+
  show "smLoad (apHandlers example_app) ''bob'' = Some (example_ws ''bob'' ''red'')" by (rule example_clients)
  show "cl_GetVersion (example_ws ''bob'' ''red'') = 1" "cl_GetName (example_ws ''bob'' ''red'') \<noteq> cmFrom (cot_msg ''b-x'' ''red'' None)"
    "visible_to (cl_GetDevice (example_ws ''bob'' ''red'')) (cot_msg ''b-x'' ''red'' None)"
    by code_simp+
qed

end
