(* ===== verification/Servers.thy ===== *)
theory Servers
  imports Router
begin

text \<open>
  \<open>cmd/goatak_server/tcpserver.go\<close>, \<open>udpserver.go\<close> and the rest of \<open>main.go\<close>: how connections and
  datagrams reach the server; then the server as a step relation, whose steps are a connection, a
  read or a write of a client, a datagram, a message from the HTTP interface, a turn of the message
  loop and the periodic cleaners, in any order.
\<close>

section \<open>Client certificates\<close>

record PeerCert =
  pcCommonName :: string
  pcSerial :: string
  pcEmailAddresses :: "string list"

definition hex_digit :: "nat \<Rightarrow> char" where
  "hex_digit n = ''0123456789abcdef'' ! (n mod 16)"

definition hex_encode :: "string \<Rightarrow> string" where
  "hex_encode bs = concat (map (\<lambda>b. [hex_digit (of_char b div 16), hex_digit (of_char b)]) bs)"

definition getCert :: "PeerCert list \<Rightarrow> PeerCert option" where
  "getCert certs = find (\<lambda>c. pcCommonName c \<noteq> []) certs"

definition getCertUser :: "PeerCert list \<Rightarrow> string \<times> string" where
  "getCertUser certs = (case getCert certs of None \<Rightarrow> ([], []) | Some c \<Rightarrow> (pcCommonName c, hex_encode (pcSerial c)))"

definition getCertUID :: "PeerCert list \<Rightarrow> string" where
  "getCertUID certs = (case getCert certs of None \<Rightarrow> []
     | Some c \<Rightarrow> (case pcEmailAddresses c of [] \<Rightarrow> [] | e # _ \<Rightarrow> e))"

section \<open>Connections\<close>

definition conn_config :: "'db env \<Rightarrow> Device option \<Rightarrow> string \<Rightarrow> HandlerConfig" where
  "conn_config env device sn =
     \<lparr>hcDevice = device, hcSerial = sn, hcUID = [], hcIsClient = False, hcUidChecker = Some (checkUID env)\<rparr>"

definition start_client :: "'db env \<Rightarrow> stamp \<Rightarrow> string \<Rightarrow> string list \<Rightarrow> HandlerConfig \<Rightarrow> 'db App \<Rightarrow> 'db App" where
  "start_client env st name conn cfg app =
     AddClientHandler (Conn (handler_Start (evCodec env) (stClock st) (NewConnClientHandler (stNow st) name conn cfg))) app"

text \<open>A connection that \<open>ListenTCP\<close> accepts has no device.\<close>

definition ListenTCP :: "'db env \<Rightarrow> stamp \<Rightarrow> string \<Rightarrow> string list \<Rightarrow> 'db App \<Rightarrow> 'db App" where
  "ListenTCP env st addr conn app = start_client env st (''tcp:'' @ addr) conn (conn_config env None []) app"

definition users_valid :: "'db env \<Rightarrow> time \<Rightarrow> string \<Rightarrow> string \<Rightarrow> 'db App \<Rightarrow> bool \<times> 'db App" where
  "users_valid env now user sn app =
     (case users_IsValid (evGorm env) (apDb app) now user sn (apUsers app) of (ok, c) \<Rightarrow> (ok, app\<lparr>apUsers := c\<rparr>))"

definition users_get :: "'db env \<Rightarrow> time \<Rightarrow> string \<Rightarrow> 'db App \<Rightarrow> Device option \<times> 'db App" where
  "users_get env now user app =
     (case users_Get (evGorm env) (apDb app) now user (apUsers app) of (d, c) \<Rightarrow> (d, app\<lparr>apUsers := c\<rparr>))"

definition bad_user :: gofail where "bad_user = Error ''bad user''"

definition verifyConnection :: "'db env \<Rightarrow> time \<Rightarrow> PeerCert list \<Rightarrow> 'db App \<Rightarrow> gofail option \<times> 'db App" where
  "verifyConnection env now certs app =
     (case getCertUser certs of (user, sn) \<Rightarrow>
        (case users_valid env now user sn app of (ok, app') \<Rightarrow> (if ok then None else Some bad_user, app')))"

text \<open>\<open>handshake\<close> tells whether the TLS handshake, which includes \<open>verifyConnection\<close>, succeeded.\<close>

definition processTLSConn ::
    "'db env \<Rightarrow> stamp \<Rightarrow> bool \<Rightarrow> PeerCert list \<Rightarrow> string \<Rightarrow> string list \<Rightarrow> 'db App \<Rightarrow> 'db App" where
  "processTLSConn env st handshake certs addr conn app =
     (if \<not> handshake then app
      else case getCertUser certs of (username, sn) \<Rightarrow>
        (case users_valid env (stNow st) username sn app of
           (False, app1) \<Rightarrow> app1
         | (True, app1) \<Rightarrow>
             (let app2 = app1\<lparr>apDb := SaveConnectInfo (evGorm env) (stNow st) username (getCertUID certs) sn (apDb app1)\<rparr>
              in case users_get env (stNow st) username app2 of
                   (device, app3) \<Rightarrow> start_client env st (''ssl:'' @ addr) conn (conn_config env device sn) app3)))"

definition getTakWs :: "string \<Rightarrow> Device option \<Rightarrow> 'db App \<Rightarrow> 'db App" where
  "getTakWs addr user app = AddClientHandler (Ws (NewWsHandler (''ws:'' @ addr) user)) app"

text \<open>The three forms of the connect string of an outgoing connection: host, port, and whether TLS is used.\<close>

definition connect :: "string \<Rightarrow> (string \<times> string \<times> bool) result" where
  "connect connectStr =
     (case Split connectStr CHR '':'' of
        [h, p, t] \<Rightarrow>
          (if t = ''tcp'' then Inr (h, p, False) else if t = ''ssl'' then Inr (h, p, True)
           else Inl (Error (''invalid connect string: '' @ connectStr)))
      | _ \<Rightarrow> Inl (Error (''invalid connect string: '' @ connectStr)))"

section \<open>Datagrams\<close>

text \<open>
  An XML event whose detail is broken is reported but still handed on, with what could be
  converted; a protobuf message with a broken detail is dropped.
\<close>

definition scopeBroadcast :: string where "scopeBroadcast = ''broadcast''"

definition udp_event :: "'db env \<Rightarrow> string \<Rightarrow> 'db App \<Rightarrow> 'db App" where
  "udp_event env b app =
     (case cdEventUnmarshal (evCodec env) b of
        Inl err \<Rightarrow> app
      | Inr ev \<Rightarrow> NewCotMessage (fst (EventToProtoExt (cdDecode (evCodec env)) (cdParseFloat (evCodec env)) (Some ev) [] scopeBroadcast)) app)"

definition ListenUDP :: "'db env \<Rightarrow> string \<Rightarrow> 'db App \<Rightarrow> 'db App" where
  "ListenUDP env buf app =
     (if length buf < 4 then app
      else if buf ! 0 = magic \<and> buf ! 2 = magic then
        (if buf ! 1 = CHR 0x01 then
           (case cdProtoUnmarshal (evCodec env) (drop 3 buf) of
              Inl err \<Rightarrow> app
            | Inr msg \<Rightarrow>
                (case CotFromProto (cdDecode (evCodec env)) (Some msg) [] BroadcastScope of
                   (_, Some err) \<Rightarrow> app | (c, None) \<Rightarrow> NewCotMessage c app))
         else udp_event env (drop 3 buf) app)
      else udp_event env buf app)"

section \<open>The clients' goroutines\<close>

definition set_client :: "string \<Rightarrow> client \<Rightarrow> 'db App \<Rightarrow> 'db App" where
  "set_client k h app = app\<lparr>apHandlers := smStore k h (apHandlers app)\<rparr>"

definition cl_forwarded :: "client \<Rightarrow> CotMessage list" where
  "cl_forwarded h = (case h of Conn h \<Rightarrow> chForwarded h | Ws w \<Rightarrow> whForwarded w)"

definition cl_gone :: "client \<Rightarrow> bool" where
  "cl_gone h = (case h of Conn h \<Rightarrow> \<not> chActive h | Ws w \<Rightarrow> \<not> whActive w)"

text \<open>
  A step of a client: what it passes on goes to the channel; when it stops, it is removed with
  \<open>RemoveHandlerCb\<close> (a connection calls it in \<open>Stop\<close>, a web socket handler's owner after \<open>Listen\<close>).
\<close>

definition client_step :: "(nat \<Rightarrow> stamp) \<Rightarrow> string \<Rightarrow> (client \<Rightarrow> client) \<Rightarrow> 'db App \<Rightarrow> 'db App" where
  "client_step st k f app =
     (case smLoad (apHandlers app) k of
        None \<Rightarrow> app
      | Some h \<Rightarrow>
          (let h' = f h;
               new = drop (length (cl_forwarded h)) (cl_forwarded h');
               app1 = fold (\<lambda>m. NewCotMessage (Some m)) new (set_client k h' app)
           in if cl_gone h' then RemoveHandlerCb st h' app1 else app1))"

fun cl_read :: "codec \<Rightarrow> read_clock \<Rightarrow> frame \<Rightarrow> client \<Rightarrow> client" where
  "cl_read c now f (Conn h) = Conn (read_iter c now h)"
| "cl_read c now f (Ws w) = Ws (ws_read c f w)"

fun cl_write :: "bool \<Rightarrow> client \<Rightarrow> client" where
  "cl_write ok (Conn h) = Conn (write_iter ok h)"
| "cl_write ok (Ws w) = Ws (ws_write ok w)"

fun cl_idle :: "time \<Rightarrow> client \<Rightarrow> client" where
  "cl_idle t (Conn h) = Conn (closeIdle t h)" | "cl_idle t (Ws w) = Ws w"

section \<open>The server\<close>

inductive server_step :: "'db env \<Rightarrow> 'db App \<Rightarrow> 'db App \<Rightarrow> bool" for env :: "'db env" where
  tcp: "server_step env app (ListenTCP env st addr conn app)"
| tls: "server_step env app (processTLSConn env st handshake certs addr conn app)"
| verify: "server_step env app (snd (verifyConnection env now certs app))"
| web_socket: "server_step env app (getTakWs addr user app)"
| udp: "server_step env app (ListenUDP env buf app)"
| injected: "server_step env app (NewCotMessage msg app)"
| client_reads: "server_step env app (client_step sts k (cl_read (evCodec env) now f) app)"
| client_writes: "server_step env app (client_step sts k (cl_write ok) app)"
| client_idles: "server_step env app (client_step sts k (cl_idle t) app)"
| client_stops: "server_step env app (client_step sts k cl_Stop app)"
| process: "server_step env app (messageProcessLoop env sts app)"
| clean_items: "server_step env app (app\<lparr>apItems := cleanOldUnits t (apItems app)\<rparr>)"
| clean_chats: "server_step env app (app\<lparr>apMessages := Storage_clean t (apMessages app)\<rparr>)"
| clean_users: "server_step env app (app\<lparr>apUsers := Cache_Clean locked t (apUsers app)\<rparr>)"
| database: "server_step env app (app\<lparr>apDb := db\<rparr>)"

inductive server_reachable :: "'db env \<Rightarrow> 'db App \<Rightarrow> bool" for env :: "'db env" where
  server_new: "server_reachable env (NewApp (evGorm env) uid db)"
| server_next: "server_reachable env app \<Longrightarrow> server_step env app app' \<Longrightarrow> server_reachable env app'"

inductive_cases server_stepE: "server_step env app app'"

section \<open>The invariant of the server\<close>

text \<open>
  Every client is registered under its name, speaks version 0 or 1, and has a bounded queue; the
  channel is bounded; items and chats are stored under their uids, and no stored chat is nil.
\<close>

definition client_inv :: "string \<Rightarrow> client \<Rightarrow> bool" where
  "client_inv k h \<longleftrightarrow> cl_GetName h = k \<and> cl_GetVersion h \<in> {0, 1} \<and> length (cl_queue h) \<le> cl_cap h"

definition chats_stored :: "Storage \<Rightarrow> bool" where
  "chats_stored s \<longleftrightarrow> smap_wf s \<and> map_all (\<lambda>k c. scMsg c \<noteq> None \<and> GetUID (scMsg c) = k) (smLoad s)"

definition server_inv :: "'db App \<Rightarrow> bool" where
  "server_inv app \<longleftrightarrow> smap_wf (apHandlers app) \<and> map_all client_inv (smLoad (apHandlers app)) \<and>
     length (apCh app) \<le> chCap \<and> repo_inv (apItems app) \<and> chats_stored (apMessages app)"

lemma server_inv_cong:
  "server_inv app \<Longrightarrow> apHandlers app' = apHandlers app \<Longrightarrow> apCh app' = apCh app \<Longrightarrow> apItems app' = apItems app \<Longrightarrow>
   apMessages app' = apMessages app \<Longrightarrow> server_inv app'"
  by (simp add: server_inv_def)

lemma NewCotMessage_inv: "server_inv app \<Longrightarrow> server_inv (NewCotMessage msg app)"
  using chan.send_bound [of "apCh app" chCap]
  by (auto simp: NewCotMessage_def server_inv_def split: option.split)

lemma NewCotMessages_inv: "server_inv app \<Longrightarrow> server_inv (fold (\<lambda>m. NewCotMessage (Some m)) ms app)"
  by (induction ms arbitrary: app) (simp_all add: NewCotMessage_inv)

lemma NewCotMessages_same: "apHandlers (fold (\<lambda>m. NewCotMessage (Some m)) ms app) = apHandlers app"
  by (induction ms arbitrary: app) (simp_all add: NewCotMessage_def)

lemma AddClientHandler_inv:
  "server_inv app \<Longrightarrow> client_inv (cl_GetName h) h \<Longrightarrow> server_inv (AddClientHandler h app)"
  by (auto simp: AddClientHandler_def server_inv_def syncmap.wf_store intro: syncmap.store_all)

lemma set_client_inv: "server_inv app \<Longrightarrow> client_inv k h \<Longrightarrow> server_inv (set_client k h app)"
  by (auto simp: set_client_def server_inv_def syncmap.wf_store intro: syncmap.store_all)

lemma RemoveHandler_inv:
  assumes "server_inv app"
  shows "server_inv (RemoveHandlerCb st cl app)"
proof -
  have rm: "server_inv (RemoveClientHandler n a)" if "server_inv a" for n and a :: "'a App"
    using that by (auto simp: RemoveClientHandler_def server_inv_def syncmap.wf_del intro: syncmap.del_all)
  have off: "server_inv (a\<lparr>apItems := change_item u SetOffline (apItems a)\<rparr>)" if "server_inv a" for u and a :: "'a App"
    using that by (simp add: server_inv_def change_inv)
  have "server_inv (fold (\<lambda>(n, uid, _) app. NewCotMessage (Some (offline_msg (st n) cl uid))
      (app\<lparr>apItems := change_item uid SetOffline (apItems app)\<rparr>)) us a)" if "server_inv a" for us and a :: "'a App"
    using that by (induction us arbitrary: a) (auto simp: NewCotMessage_inv off)
  note each = this
  show ?thesis unfolding RemoveHandlerCb_def by (rule each [OF rm [OF assms]])
qed

lemma client_step_inv:
  assumes inv: "server_inv app" and keeps: "\<And>h. client_inv k h \<Longrightarrow> client_inv k (f h)"
  shows "server_inv (client_step st k f app)"
proof (cases "smLoad (apHandlers app) k")
  case (Some h)
  have "map_all client_inv (smLoad (apHandlers app))" using inv by (simp add: server_inv_def)
  then have "client_inv k h" using Some by (rule map_all_D)
  then have "server_inv (set_client k (f h) app)" by (intro set_client_inv inv keeps)
  then show ?thesis
    using Some by (simp add: client_step_def Let_def NewCotMessages_inv RemoveHandler_inv)
qed (simp add: client_step_def inv)

text \<open>What a connection does keeps its name, its version and the bound of its queue.\<close>

definition conn_keeps :: "Handler \<Rightarrow> Handler \<Rightarrow> bool" where
  "conn_keeps h h' \<longleftrightarrow> chAddr h' = chAddr h \<and> (chVer h \<in> {0, 1} \<longrightarrow> chVer h' \<in> {0, 1}) \<and>
     (length (chSendChan h) \<le> sendCap \<longrightarrow> length (chSendChan h') \<le> sendCap)"

lemma conn_keeps_refl [simp]: "conn_keeps h h"
  by (simp add: conn_keeps_def)

lemma conn_keeps_trans: "conn_keeps h h1 \<Longrightarrow> conn_keeps h1 h2 \<Longrightarrow> conn_keeps h h2"
  by (auto simp: conn_keeps_def)

lemma conn_keeps_frame: "read_frame h h' \<Longrightarrow> conn_keeps h h'"
  by (auto simp: read_frame_def conn_keeps_def)

lemma conn_keeps_ops:
  "conn_keeps h (Stop h)" "conn_keeps h (add_contact uid cs h)" "conn_keeps h (closeIdle t h)"
  "conn_keeps h (h\<lparr>chUids := u\<rparr>)" "conn_keeps h (h\<lparr>chForwarded := f\<rparr>)"
  by (simp_all add: conn_keeps_def Stop_def add_contact_def closeIdle_def Let_def)

lemma write_keeps: "conn_keeps h (write_iter ok h)"
proof (cases "chan_recv (chSendChan h)")
  case (Some p)
  then obtain x q where q: "chan_recv (chSendChan h) = Some (x, q)" by (cases p) simp
  then have "conn_keeps h (h\<lparr>chSendChan := q\<rparr>)"
    using chan.recv_bound [of "chSendChan h" sendCap x q] by (simp add: conn_keeps_def)
  then show ?thesis using q conn_keeps_trans [OF _ conn_keeps_ops(1)] by (simp add: write_iter_def Let_def)
qed (simp add: write_iter_def)

lemma handle_msg_keeps: "conn_keeps h (handle_msg c now msg0 h)"
proof -
  have upd: "conn_keeps h (if b then x\<lparr>chUids := u\<rparr> else x)" if "conn_keeps h x" for x b u
    using that by (simp add: conn_keeps_def)
  have pong: "conn_keeps h (case SendCot c m x of (h3, Some (Panic _)) \<Rightarrow> Stop h3 | (h3, _) \<Rightarrow> h3)" if x: "conn_keeps h x" for x m
  proof -
    obtain h3 e where sc: "SendCot c m x = (h3, e)" by fastforce
    have "conn_keeps h h3"
      using conn_keeps_trans [OF x conn_keeps_frame [OF queue_frame [OF SendCot_queue [of x c m]]]] sc by simp
    then show ?thesis unfolding sc using conn_keeps_trans [OF _ conn_keeps_ops(1)]
      by (auto split: option.split gofail.split)
  qed
  show ?thesis
    unfolding handle_msg_def Let_def
    by (rule if_case2 [where P = "conn_keeps h"], rule conn_keeps_ops,
        rule if_case2 [where P = "conn_keeps h"], rule pong, rule upd, simp add: conn_keeps_ops,
        rule if_case2 [where P = "conn_keeps h"], rule upd, simp add: conn_keeps_ops,
        rule conn_keeps_trans [OF _ conn_keeps_ops(5)], rule upd, simp add: conn_keeps_ops)
qed

lemma read_keeps: "conn_keeps h (read_iter c now h)"
proof (cases "chActive h")
  case True
  let ?r = "if GetVersion h = 0 then processXMLRead c now h
            else if GetVersion h = 1 then processProtoRead c now h else ((None, None), h)"
  obtain m err h1 where r: "?r = ((m, err), h1)" by (metis prod.exhaust)
  have "read_frame h (snd ?r)"
    using xml_frame [of h c now] proto_frame [of h c now] frame_refl [of h] by (simp add: GetVersion_def)
  then have h1: "conn_keeps h h1" using conn_keeps_frame r by simp
  then show ?thesis
    using conn_keeps_trans [OF h1] True unfolding read_iter_def r
    by (auto split: option.split simp: conn_keeps_ops handle_msg_keeps)
qed (simp add: read_iter_def)

definition ws_keeps :: "WsHandler \<Rightarrow> WsHandler \<Rightarrow> bool" where
  "ws_keeps w w' \<longleftrightarrow> whName w' = whName w \<and> (length (whCh w) \<le> wsCap \<longrightarrow> length (whCh w') \<le> wsCap)"

lemma ws_stop_keeps: "ws_keeps w (ws_Stop w)"
  by (simp add: ws_keeps_def ws_Stop_def)

lemma ws_write_keeps: "ws_keeps w (ws_write ok w)"
  using chan.recv_bound [of "whCh w" wsCap]
  by (auto simp: ws_write_def ws_keeps_def ws_Stop_def Let_def split: option.split)

lemma ws_parse_keeps: "whName (snd (ws_parse c b w)) = whName w \<and> whCh (snd (ws_parse c b w)) = whCh w"
  by (simp add: ws_parse_def Let_def split: prod.split sum.split option.split)

lemma ws_read_keeps: "ws_keeps w (ws_read c f w)"
proof (cases f)
  case (Binary b)
  obtain e w' where p: "ws_parse c b w = (e, w')" by fastforce
  then have "whName w' = whName w \<and> whCh w' = whCh w" using ws_parse_keeps [of c b w] by simp
  then show ?thesis using Binary p by (auto simp: ws_read_def ws_keeps_def ws_Stop_def split: option.split gofail.split)
qed (simp_all add: ws_read_def ws_stop_keeps, simp_all add: ws_keeps_def)

lemma conn_client: "client_inv k (Conn h) \<Longrightarrow> conn_keeps h h' \<Longrightarrow> client_inv k (Conn h')"
  by (auto simp: client_inv_def conn_keeps_def GetVersion_def)

lemma ws_client: "client_inv k (Ws w) \<Longrightarrow> ws_keeps w w' \<Longrightarrow> client_inv k (Ws w')"
  by (auto simp: client_inv_def ws_keeps_def ws_GetVersion_def)

lemma client_ops_inv:
  "client_inv k h \<Longrightarrow> client_inv k (cl_read c now f h)" "client_inv k h \<Longrightarrow> client_inv k (cl_write ok h)"
  "client_inv k h \<Longrightarrow> client_inv k (cl_idle t h)" "client_inv k h \<Longrightarrow> client_inv k (cl_Stop h)"
  by (cases h; auto intro: conn_client [OF _ read_keeps] ws_client [OF _ ws_read_keeps]
      conn_client [OF _ write_keeps] ws_client [OF _ ws_write_keeps]
      conn_client [OF _ conn_keeps_ops(1)] conn_client [OF _ conn_keeps_ops(3)] ws_client [OF _ ws_stop_keeps])+

lemma start_client_inv: "server_inv app \<Longrightarrow> server_inv (start_client env st name conn cfg app)"
proof -
  assume inv: "server_inv app"
  have "conn_keeps h (handler_Start c clk h)" for c clk h
    using conn_keeps_frame [OF queue_frame [OF sendEvent_queue]] by (simp add: handler_Start_def)
  then have "client_inv name (Conn (handler_Start (evCodec env) (stClock st) (NewConnClientHandler (stNow st) name conn cfg)))"
    by (auto simp: client_inv_def conn_keeps_def NewConnClientHandler_def GetVersion_def)
  then show ?thesis
    using AddClientHandler_inv [OF inv] unfolding start_client_def by (simp add: client_inv_def)
qed

lemma new_ws_inv: "client_inv name (Ws (NewWsHandler name user))"
  by (simp add: client_inv_def NewWsHandler_def ws_GetVersion_def)

section \<open>The message loop keeps the invariant\<close>

lemma clients_ok_inv:
  assumes "clients_ok c app app'" "smap_wf (apHandlers app)" "map_all client_inv (smLoad (apHandlers app))"
  shows "smap_wf (apHandlers app') \<and> map_all client_inv (smLoad (apHandlers app'))"
proof
  show "smap_wf (apHandlers app')" using assms(1,2) by (simp add: clients_ok_def smap_wf_def)
  have "client_inv k h'" if h': "smLoad (apHandlers app') k = Some h'" for k h'
  proof -
    have "rel_option (client_ok c) (smLoad (apHandlers app) k) (Some h')"
      using assms(1) h' unfolding clients_ok_def by metis
    then obtain h where h: "smLoad (apHandlers app) k = Some h" "client_ok c h h'" by (auto simp: option_rel_Some2)
    have "client_inv k h" by (rule map_all_D [OF assms(3) h(1)])
    then show ?thesis using h(2) by (auto simp: client_inv_def client_ok_def)
  qed
  then show "map_all client_inv (smLoad (apHandlers app'))" by (simp add: map_all_def)
qed

lemma Storage_Add_stored: "chats_stored s \<Longrightarrow> scMsg c \<noteq> None \<Longrightarrow> chats_stored (Storage_Add c s)"
  by (auto simp: chats_stored_def Storage_Add_def syncmap.wf_store intro: syncmap.store_all)

text \<open>What the processors do to the rest of the state.\<close>

definition loop_inv :: "'db App \<Rightarrow> 'db App \<Rightarrow> bool" where
  "loop_inv app app' \<longleftrightarrow> apCh app' = apCh app \<and> (repo_inv (apItems app) \<longrightarrow> repo_inv (apItems app')) \<and>
     (chats_stored (apMessages app) \<longrightarrow> chats_stored (apMessages app'))"

lemma loop_inv_refl: "loop_inv app app"
  by (simp add: loop_inv_def)

lemma loop_inv_trans: "loop_inv a b \<Longrightarrow> loop_inv b d \<Longrightarrow> loop_inv a d"
  by (simp add: loop_inv_def)

lemma loop_inv_quiet:
  "loop_inv app (fileLoggerProcessor env msg app)" "loop_inv app (metricsProcessor s msg app)"
  "loop_inv app (removeItemProcessor msg app)" "loop_inv app (chatProcessor env s msg app)"
proof -
  show "loop_inv app (metricsProcessor s msg app)" "loop_inv app (removeItemProcessor msg app)"
    by (auto simp: metricsProcessor_def removeItemProcessor_def Let_def loop_inv_def SetOnline_def Store_inv Remove_inv
        intro!: change_inv split: option.split)
  show "loop_inv app (fileLoggerProcessor env msg app)"
    by (auto simp: fileLoggerProcessor_def logMessage_def loop_inv_def split: sum.split)
  show "loop_inv app (chatProcessor env s msg app)"
    by (auto simp: chatProcessor_def logChatMessage_def loop_inv_def Let_def FromCot_def intro!: Storage_Add_stored)
qed

lemma loop_inv_save: "loop_inv app (fst (saveItemProcessor env s msg app))"
proof -
  have new: "loop_inv app (fst (processNewContact env s i t (app\<lparr>apItems := Store j (apItems app)\<rparr>)))" for i t j
    using rest_same_D [OF new_contact_rest [of "app\<lparr>apItems := Store j (apItems app)\<rparr>" env s i t]]
    by (simp add: loop_inv_def Store_inv)
  have same: "loop_inv app (app\<lparr>apItems := Store j (apItems app)\<rparr>)" for j by (simp add: loop_inv_def Store_inv)
  show ?thesis
    unfolding saveItemProcessor_def Let_def by (simp add: new same loop_inv_refl split: option.split)
qed

lemma loop_inv_cb: "loop_inv app (fst (fst (run_cb env st msg p app)))"
proof -
  have "loop_inv app (fst (route env st msg app))"
    using route_routing [of app env st msg] by (simp add: routing_same_def loop_inv_def)
  then show ?thesis by (cases p) (simp_all add: run_cb_def loop_inv_quiet loop_inv_save loop_inv_refl)
qed

lemma loop_inv_processors: "loop_inv app (fst (run_processors env st msg ps app))"
proof (induction ps arbitrary: app)
  case (Cons p ps)
  obtain app' pn b where r: "run_cb env st msg (epCb p) app = ((app', pn), b)" by (metis prod.exhaust)
  have "loop_inv app app'" using loop_inv_cb [of app env st msg "epCb p"] r by simp
  then show ?case using Cons [of app'] Cons [of app] r
    by (cases pn; cases b) (auto intro: loop_inv_trans)
qed (simp add: loop_inv_refl)

lemma process_inv: "server_inv app \<Longrightarrow> server_inv (messageProcessLoop env st app)"
proof -
  assume inv: "server_inv app"
  show ?thesis
  proof (cases "apCrashed app \<or> chan_recv (apCh app) = None")
    case False
    then obtain msg q where q: "chan_recv (apCh app) = Some (msg, q)" "\<not> apCrashed app" by fastforce
    let ?app = "app\<lparr>apCh := q\<rparr>"
    obtain app' p where r: "processMessage env st msg ?app = (app', p)" by fastforce
    have "length q \<le> chCap" using chan.recv_bound [of "apCh app" chCap msg q] q inv by (simp add: server_inv_def)
    moreover have "clients_ok (evCodec env) ?app app'" "loop_inv ?app app'"
      using run_processors_clients [of env ?app st msg] loop_inv_processors [of ?app env st msg] r
      by (metis fst_conv processMessage_def)+
    ultimately have "server_inv (app'\<lparr>apCrashed := p\<rparr>)"
      using inv clients_ok_inv [of "evCodec env" ?app app'] by (simp add: server_inv_def loop_inv_def)
    then show ?thesis using q r by (simp add: messageProcessLoop_def)
  qed (auto simp: messageProcessLoop_def inv)
qed

lemma Storage_clean_stored: "chats_stored s \<Longrightarrow> chats_stored (Storage_clean t s)"
proof -
  assume s: "chats_stored s"
  have del: "chats_stored (smDelete u r)" if "chats_stored r" for u r
    using that by (simp add: chats_stored_def syncmap.wf_del syncmap.del_all)
  have "chats_stored (fold (\<lambda>(k, c) s. if GetStaleTime (scMsg c) < t then smDelete (GetUID (scMsg c)) s else s) xs r)"
    if "chats_stored r" for xs r
    using that by (induction xs arbitrary: r) (simp_all add: del split: prod.split)
  then show ?thesis using s by (simp add: Storage_clean_def)
qed

lemma users_inv: "server_inv (snd (users_valid env now u sn app)) = server_inv app"
    "server_inv (snd (users_get env now u app)) = server_inv app"
  by (simp_all add: users_valid_def users_get_def server_inv_def split: prod.split)

lemma tls_inv:
  assumes "server_inv app"
  shows "server_inv (processTLSConn env st handshake certs addr conn app)"
proof -
  obtain u sn where c: "getCertUser certs = (u, sn)" by fastforce
  obtain ok app1 where v: "users_valid env (stNow st) u sn app = (ok, app1)" by fastforce
  let ?app2 = "app1\<lparr>apDb := SaveConnectInfo (evGorm env) (stNow st) u (getCertUID certs) sn (apDb app1)\<rparr>"
  obtain d app3 where g: "users_get env (stNow st) u ?app2 = (d, app3)" by fastforce
  have 1: "server_inv app1" using users_inv(1) [of env "stNow st" u sn app] v assms by simp
  then have "server_inv ?app2" by (simp add: server_inv_def)
  then have "server_inv app3" using users_inv(2) [of env "stNow st" u ?app2] g by simp
  then show ?thesis
    using assms 1 c v g by (cases ok) (simp_all add: processTLSConn_def Let_def start_client_inv)
qed

lemma udp_inv: "server_inv app \<Longrightarrow> server_inv (ListenUDP env buf app)"
  by (auto simp: ListenUDP_def udp_event_def NewCotMessage_inv split: sum.split option.split prod.split)

lemma ws_conn_inv: "server_inv app \<Longrightarrow> server_inv (getTakWs addr user app)"
proof -
  have "cl_GetName (Ws (NewWsHandler n user)) = n" for n by (simp add: NewWsHandler_def)
  then show "server_inv app \<Longrightarrow> server_inv (getTakWs addr user app)"
    unfolding getTakWs_def by (intro AddClientHandler_inv) (simp_all only: new_ws_inv)
qed

lemma server_step_inv: "server_step env app app' \<Longrightarrow> server_inv app \<Longrightarrow> server_inv app'"
proof (induction rule: server_step.induct)
  case (clean_items app t)
  then show ?case by (simp add: server_inv_def clean_inv)
next
  case (clean_chats app t)
  then show ?case by (simp add: server_inv_def Storage_clean_stored)
next
  case (verify app now certs)
  then show ?case using users_inv(1) [of env now "fst (getCertUser certs)" "snd (getCertUser certs)" app]
    by (simp add: verifyConnection_def case_prod_beta)
qed (auto simp: ListenTCP_def start_client_inv ws_conn_inv tls_inv udp_inv NewCotMessage_inv process_inv
     intro: client_step_inv client_ops_inv server_inv_cong)

lemma new_app_inv: "server_inv (NewApp g uid db)"
  by (simp add: server_inv_def NewApp_def chats_stored_def new_inv)

lemma reachable_server_inv: "server_reachable env app \<Longrightarrow> server_inv app"
  by (induction rule: server_reachable.induct) (simp_all add: new_app_inv server_step_inv)

section \<open>No panic when the packets fit\<close>

definition codec_safe :: "codec \<Rightarrow> bool" where
  "codec_safe c \<longleftrightarrow> (\<forall>e p. cdEventMarshal c e \<noteq> Inl (Panic p)) \<and> (\<forall>m p. cdProtoMarshal c m \<noteq> Inl (Panic p)) \<and>
     (\<forall>m d. cdProtoMarshal c m = Inr d \<longrightarrow> length d < 2 ^ 21)"

lemma packet_no_panic: "codec_safe c \<Longrightarrow> MakeProtoPacket (cdProtoMarshal c) m \<noteq> Inl (Panic p)"
proof (cases "cdProtoMarshal c m")
  case (Inr d)
  moreover assume "codec_safe c"
  ultimately show ?thesis using MakeProtoPacket_bytes [of "cdProtoMarshal c" m d] by (simp add: codec_safe_def)
qed (auto simp: MakeProtoPacket_def codec_safe_def)

lemma add_or_off_no_panic: "snd (add_or_off b h) \<noteq> Some (Panic p)"
  by (cases "tryAddPacket b h") (simp add: add_or_off_def client_off_def)

lemma send_no_panic: "codec_safe c \<Longrightarrow> snd (cl_SendMsg c (Some m) h) \<noteq> Some (Panic p)"
proof (cases h)
  case (Conn h)
  moreover assume "codec_safe c"
  ultimately show ?thesis
    using packet_no_panic [of c] add_or_off_no_panic
    by (auto simp: SendMsg_def SendCot_def case_prod_beta codec_safe_def client_off_def split: sum.split)
next
  case (Ws w)
  moreover assume "codec_safe c"
  ultimately show ?thesis
    using packet_no_panic [of c]
    by (auto simp: ws_SendMsg_def ws_SendCot_def case_prod_beta client_off_def split: sum.split)
qed

lemma go_for_no_panic: "(\<And>x s. x \<in> set xs \<Longrightarrow> \<not> snd (f x s)) \<Longrightarrow> \<not> snd (go_for f xs s)"
proof (induction xs arbitrary: s)
  case (Cons x xs)
  have "\<not> snd (f x s)" using Cons.prems by simp
  then show ?case using Cons by (cases "f x s"; cases "snd (f x s)") auto
qed simp

lemma send_if_no_panic: "codec_safe (evCodec env) \<Longrightarrow> \<not> snd (send_if env P (Some m) app)"
proof -
  assume c: "codec_safe (evCodec env)"
  have "\<not> snd (for_clients (\<lambda>ch. if P ch then cl_SendMsg (evCodec env) (Some m) ch else (ch, None)) hs)" for hs
    using send_no_panic [OF c] by (intro for_clients_no_panic) simp
  then show ?thesis by (simp add: send_if_def ForAllClients_def case_prod_beta)
qed

lemma route_no_panic:
  assumes c: "codec_safe (evCodec env)"
  shows "\<not> snd (route env st msg app)"
proof -
  note s = send_if_no_panic [OF c]
  have n: "\<not> snd (notifyMissionSubscribers env x m ch a)" for x m ch a
    by (auto simp: notifyMissionSubscribers_def Let_def sendToUID_def s intro!: go_for_no_panic split: option.split)
  have "\<not> snd (processMissionPoint env x name msg a)" for x name a
    by (auto simp: processMissionPoint_def Let_def n split: option.split prod.split)
  then show ?thesis
    unfolding route_def Let_def by (auto simp: send_defs s intro!: go_for_no_panic split: prod.split)
qed

lemma new_contact_no_panic:
  assumes c: "codec_safe (evCodec env)" and stored: "chats_stored (apMessages app)"
  shows "\<not> snd (processNewContact env st item t app)"
proof -
  note s = send_if_no_panic [OF c]
  have local_some: "LocalCotMessage d (Some tm) \<noteq> None" for d tm
    by (auto simp: LocalCotMessage_def CotFromProto_def Let_def split: prod.split)
  have to: "\<not> snd (sendToUID env u m a)" if "m \<noteq> None" for u m a
    using that s by (auto simp: sendToUID_def)
  have "m \<noteq> None" if "m \<in> set (GetFor (stNow st) item t (apMessages app))" for m
  proof -
    have "m \<in> scMsg ` snd ` set (apMessages app)" using that by (auto simp: GetFor_def smRange_def Let_def)
    then obtain k x where "(k, x) \<in> set (apMessages app)" "m = scMsg x" by auto
    moreover have "smLoad (apMessages app) k = Some x"
      using stored calculation(1) set_smRange [of "apMessages app" k x] by (simp add: chats_stored_def)
    moreover have "map_all (\<lambda>k c. scMsg c \<noteq> None \<and> GetUID (scMsg c) = k) (smLoad (apMessages app))"
      using stored by (simp add: chats_stored_def)
    ultimately show ?thesis using map_all_D by fastforce
  qed
  then have stored_ok: "\<not> snd (go_for (sendToUID env (itUid item)) (GetFor (stNow st) item t (apMessages app)) a)" for a
    by (intro go_for_no_panic to)
  define r where "r = (if t = zero_time \<and> WelcomeForScope (evConfig env) (Item_GetScope item) \<noteq> []
      then sendToUID env (itUid item) (LocalCotMessage (cdDecode (evCodec env)) (Some (MakeServerChat (stClock st) (stTime st) (stUuid st)
        (itUid item) WELCOME_MESSAGE_FROM_UID (Item_GetCallsign item) [] ''RootContactGroup'' (WelcomeForScope (evConfig env) (Item_GetScope item))))) app
      else (app, False))"
  have "\<not> snd r"
    unfolding r_def by (simp add: to [OF local_some])
  moreover have "apMessages (fst r) = apMessages app"
    unfolding r_def by (simp add: sendToUID_def rest_same_D [OF send_if_rest])
  ultimately show ?thesis
    using stored_ok [of "fst r"] unfolding processNewContact_def Let_def r_def [symmetric]
    by (cases r) (simp add: and_then_def)
qed

lemma cb_no_panic:
  assumes "codec_safe (evCodec env)" "chats_stored (apMessages app)"
  shows "\<not> snd (fst (run_cb env st msg p app))"
proof -
  have "\<not> snd (saveItemProcessor env s msg app)" for s
    unfolding saveItemProcessor_def Let_def
    using new_contact_no_panic [OF assms(1), of "app\<lparr>apItems := r\<rparr>" for r] assms(2) by (simp split: option.split)
  then show ?thesis using route_no_panic [OF assms(1)] by (cases p) (simp_all add: run_cb_def)
qed

lemma processors_no_panic:
  assumes "codec_safe (evCodec env)" "chats_stored (apMessages app)"
  shows "\<not> snd (run_processors env st msg ps app)"
  using assms(2)
proof (induction ps arbitrary: app)
  case (Cons p ps)
  obtain app' pn b where r: "run_cb env st msg (epCb p) app = ((app', pn), b)" by (metis prod.exhaust)
  have "\<not> pn" using cb_no_panic [OF assms(1) Cons.prems, of st msg "epCb p"] r by simp
  moreover have "chats_stored (apMessages app')"
    using loop_inv_cb [of app env st msg "epCb p"] r Cons.prems by (simp add: loop_inv_def)
  ultimately show ?case using Cons r by (cases b) simp_all
qed simp

lemma loop_no_panic:
  assumes "codec_safe (evCodec env)" "server_inv app" "\<not> apCrashed app"
  shows "\<not> apCrashed (messageProcessLoop env st app) \<and> apCh (messageProcessLoop env st app) = drop 1 (apCh app)"
proof (cases "apCh app")
  case (Cons msg q)
  let ?app = "app\<lparr>apCh := q\<rparr>"
  obtain app' p where r: "processMessage env st msg ?app = (app', p)" by fastforce
  have "\<not> p" using processors_no_panic [OF assms(1), of ?app st msg "InitMessageProcessors (evConfig env)"] assms(2) r
    by (simp add: server_inv_def processMessage_def)
  moreover have "apCh app' = q"
    using loop_inv_processors [of ?app env st msg "InitMessageProcessors (evConfig env)"] r
    by (simp add: loop_inv_def processMessage_def)
  ultimately show ?thesis using r Cons assms(3) by (simp add: messageProcessLoop_def chan_recv_def)
qed (simp add: messageProcessLoop_def chan_recv_def assms(3))

section \<open>Properties\<close>

text \<open>
  C27: whatever happens to the server, in any order: the channel holds at most 128 messages, every
  client is registered under its own name, speaks protocol version 0 or 1 and has at most 50 packets
  waiting (10 on a web socket), and every item is stored under its own uid.
\<close>

theorem server_limits:
  assumes "server_reachable env app"
  shows "length (apCh app) \<le> 128 \<and>
     (\<forall>k h. smLoad (apHandlers app) k = Some h \<longrightarrow> cl_GetName h = k \<and> cl_GetVersion h \<in> {0, 1} \<and>
        length (cl_queue h) \<le> (case h of Conn _ \<Rightarrow> 50 | Ws _ \<Rightarrow> 10)) \<and>
     (\<forall>uid i. Repo_Get (apItems app) uid = Some i \<longrightarrow> itUid i = uid)"
proof (intro conjI allI impI)
  have inv: "server_inv app" by (rule reachable_server_inv [OF assms])
  then have h: "map_all client_inv (smLoad (apHandlers app))" by (simp add: server_inv_def)
  show "length (apCh app) \<le> 128" using inv by (simp add: server_inv_def chCap_def)
  fix k h
  assume "smLoad (apHandlers app) k = Some h"
  then have c: "client_inv k h" by (rule map_all_D [OF h])
  show "cl_GetName h = k" "cl_GetVersion h \<in> {0, 1}" using c by (simp_all add: client_inv_def)
  show "length (cl_queue h) \<le> (case h of Conn _ \<Rightarrow> 50 | Ws _ \<Rightarrow> 10)"
    using c by (cases h) (simp_all add: client_inv_def sendCap_def wsCap_def)
next
  fix uid i
  assume "Repo_Get (apItems app) uid = Some i"
  moreover have "repo_inv (apItems app)" using reachable_server_inv [OF assms] by (simp add: server_inv_def)
  ultimately show "itUid i = uid" by (intro repo_inv_D)
qed

definition example_state :: "unit App" where
  "example_state = NewCotMessage (Some (cot_msg ''a-f-G'' ''red'' None)) (getTakWs ''10.0.0.1'' None (NewApp no_db ''server'' ()))"

lemma example_reachable: "server_reachable example_env example_state"
proof -
  have "server_reachable example_env (NewApp no_db ''server'' ())"
    using server_new [of example_env "''server''" "()"] by (simp add: example_env_def)
  then show ?thesis unfolding example_state_def by (rule server_next [OF server_next [OF _ web_socket] injected])
qed

theorem server_limits_witness: "length (apCh example_state) \<le> 128"
  using server_limits [OF example_reachable] by simp



text \<open>
  A datagram is dropped or becomes a message of nobody and of scope \<open>broadcast\<close>: it is seen by
  the devices that have or read that scope, so by no connection without a device.
\<close>

theorem datagram_scope:
  "ListenUDP env buf app = app \<or>
   (\<exists>m. ListenUDP env buf app = NewCotMessage (Some m) app \<and> cmFrom m = [] \<and>
      (\<forall>d. visible_to d m \<longleftrightarrow> CanSeeScope d ''broadcast'') \<and> \<not> visible_to None m)"
proof -
  have ok: "(\<forall>d. visible_to d m \<longleftrightarrow> CanSeeScope d ''broadcast'') \<and> \<not> visible_to None m" if "cmScope m = ''broadcast''" for m
    using that by (simp add: visible_to_def IsLocal_def LocalScope_def CanSeeScope_def)
  have msg: "NewCotMessage c app = app \<or> (\<exists>m. NewCotMessage c app = NewCotMessage (Some m) app \<and> cmFrom m = [] \<and>
      (\<forall>d. visible_to d m \<longleftrightarrow> CanSeeScope d ''broadcast'') \<and> \<not> visible_to None m)"
    if "\<And>m. c = Some m \<Longrightarrow> cmFrom m = [] \<and> cmScope m = ''broadcast''" for c
    using that ok by (cases c) (auto simp: NewCotMessage_def)
  have ev: "cmFrom m = [] \<and> cmScope m = ''broadcast''"
    if "fst (EventToProtoExt d f e [] scopeBroadcast) = Some m" for d f e m
    using that by (auto simp: EventToProtoExt_def scopeBroadcast_def split: prod.splits)
  have pb: "cmFrom m = [] \<and> cmScope m = ''broadcast''"
    if "CotFromProto d tm [] BroadcastScope = (Some m, None)" for d tm m
    using that by (auto simp: CotFromProto_def BroadcastScope_def Let_def split: option.splits prod.splits)
  have udp: "udp_event env b app = app \<or> (\<exists>m. udp_event env b app = NewCotMessage (Some m) app \<and> cmFrom m = [] \<and>
      (\<forall>d. visible_to d m \<longleftrightarrow> CanSeeScope d ''broadcast'') \<and> \<not> visible_to None m)" for b
    unfolding udp_event_def using msg ev by (simp split: sum.split)
  show ?thesis
  proof (cases "4 \<le> length buf \<and> buf ! 0 = magic \<and> buf ! 2 = magic \<and> buf ! 1 = CHR 0x01")
    case True
    then have eq: "ListenUDP env buf app = (case cdProtoUnmarshal (evCodec env) (drop 3 buf) of Inl err \<Rightarrow> app
        | Inr m \<Rightarrow> (case CotFromProto (cdDecode (evCodec env)) (Some m) [] BroadcastScope of
             (_, Some err) \<Rightarrow> app | (c, None) \<Rightarrow> NewCotMessage c app))"
      by (simp add: ListenUDP_def)
    show ?thesis
    proof (cases "cdProtoUnmarshal (evCodec env) (drop 3 buf)")
      case (Inr tm)
      obtain c e where c: "CotFromProto (cdDecode (evCodec env)) (Some tm) [] BroadcastScope = (c, e)" by fastforce
      show ?thesis
      proof (cases e)
        case None
        have "cmFrom m = [] \<and> cmScope m = ''broadcast''" if "c = Some m" for m
          using pb [of "cdDecode (evCodec env)" "Some tm" m] c None that by simp
        note sent = msg [OF this]
        then show ?thesis unfolding eq using Inr c None by simp
      qed (simp add: eq Inr c)
    qed (simp add: eq)
  next
    case False
    then have "ListenUDP env buf app = app \<or> ListenUDP env buf app = udp_event env (drop 3 buf) app \<or>
        ListenUDP env buf app = udp_event env buf app" by (auto simp: ListenUDP_def)
    then show ?thesis using udp [of "drop 3 buf"] udp [of buf] by metis
  qed
qed

text \<open>
  A client that goes is taken off the table, its contacts are set offline, and, when the channel
  has room, one offline message per contact is queued, with the name and the scope of the client. The
  message has no parsed detail, so the processor of removals ignores it.
\<close>

theorem disconnect:
  assumes "length (apCh app) + length (cl_GetUids cl) \<le> 128"
  shows "smLoad (apHandlers (RemoveHandlerCb st cl app)) (cl_GetName cl) = None \<and>
     apCh (RemoveHandlerCb st cl app) = apCh app @ map (\<lambda>(n, uid, _). offline_msg (st n) cl uid) (enumerate 0 (cl_GetUids cl)) \<and>
     Repo_Get (apItems (RemoveHandlerCb st cl app)) u =
       (if u \<in> fst ` set (cl_GetUids cl) then map_option SetOffline (Repo_Get (apItems app) u) else Repo_Get (apItems app) u) \<and>
     removeItemProcessor (offline_msg s cl u) app = app"
proof -
  let ?step = "\<lambda>(n, uid, _) app. NewCotMessage (Some (offline_msg (st n) cl uid))
      (app\<lparr>apItems := change_item uid SetOffline (apItems app)\<rparr>)"
  have twice: "map_option SetOffline (map_option SetOffline x) = map_option SetOffline x" for x
    by (cases x) (simp_all add: SetOffline_def)
  have "apHandlers (fold ?step us a) = apHandlers a \<and>
      (length (apCh a) + length us \<le> 128 \<longrightarrow> apCh (fold ?step us a) = apCh a @ map (\<lambda>(n, uid, _). offline_msg (st n) cl uid) us) \<and>
      Repo_Get (apItems (fold ?step us a)) u =
        (if u \<in> (fst \<circ> snd) ` set us then map_option SetOffline (Repo_Get (apItems a) u) else Repo_Get (apItems a) u)"
    for us :: "(nat \<times> string \<times> string) list" and a
    by (induction us arbitrary: a)
       (auto simp: NewCotMessage_def chan_send_def chCap_def Get_change twice)
  note run = this [of "enumerate 0 (cl_GetUids cl)" "RemoveClientHandler (cl_GetName cl) app"]
  have uids: "(fst \<circ> snd) ` set (enumerate 0 (cl_GetUids cl)) = fst ` set (cl_GetUids cl)"
    by (metis image_comp list.set_map map_snd_enumerate)
  show ?thesis
    using run assms unfolding uids
    by (simp add: RemoveHandlerCb_def RemoveClientHandler_def smap_simps removeItemProcessor_def offline_msg_def
        GetFirstLink_def GetDetail_def)
qed

theorem disconnect_witness:
  "map cmScope (apCh (RemoveHandlerCb example_stamps (example_ws ''alice'' ''red'') example_app)) = [''red'']"
proof -
  have 1: "length (apCh example_app) + length (cl_GetUids (example_ws ''alice'' ''red'')) \<le> 128"
    "cl_GetUids (example_ws ''alice'' ''red'') = [(''alice-uid'', ''alice'')]" "apCh example_app = []"
    by code_simp+
  show ?thesis
    using disconnect [OF 1(1), of example_stamps] by (simp add: 1 offline_msg_def) (simp add: example_ws_def NewWsHandler_def Device_GetScope_def)
qed

end
