(* ===== verification/HttpModel.thy ===== *)
theory HttpModel
  imports Servers
begin

text \<open>
  What the HTTP interfaces of the server share: requests and responses as the handlers see them
  through fiber, \<open>util.go\<close>, and the authentication of \<open>auth.go\<close> and \<open>http_server.go\<close>.

  A handler maps a request and the state to a response, or an error it returns (fiber then answers
  with status 500), or a panic; and to the new state. JSON data is a value of \<open>json\<close>, with the
  web forms of the models as leaves, so what is sent is not a string but what it is made of.
\<close>

section \<open>Requests and responses\<close>

text \<open>
  \<open>rqFile\<close> is the part \<open>assetfile\<close> of a form (opening it may fail, and so may reading it); \<open>rqStream\<close> the stream
  of the body, when there is one.
\<close>

record upload =
  upFilename :: string
  upSize :: int
  upMime :: string
  upOpenErr :: "gofail option"
  upData :: "string result"

record request =
  rqPath :: string
  rqParams :: "(string, string) smap"
  rqQuery :: "(string, string) smap"
  rqHeaders :: "(string, string) smap"
  rqCookies :: "(string, string) smap"
  rqForm :: "(string, string) smap"
  rqBody :: string
  rqFile :: "upload result"
  rqStream :: "string result option"
  rqBaseURL :: string
  rqUsername :: "string option"

record MartiContact =
  ctUID :: string
  ctCallsign :: string
  ctTeam :: string
  ctRole :: string
  ctTakv :: string
  ctNotes :: string
  ctFilterGroups :: string

record Connection =
  cnAddr :: string
  cnUser :: string
  cnVer :: int
  cnScope :: string
  cnUids :: "(string, string) smap"
  cnLastSeen :: "time option"

datatype json = JNull | JString string | JInt int | JBool bool | JList "json list" | JObject "(string \<times> json) list"
  | JMission MissionDTO | JRole MissionRoleDTO | JSubscription MissionSubscriptionDTO | JChange MissionChangeDTO
  | JResource ResourceDTO | JResourceRow Resource | JPointRow MissionPoint | JFeed2 Feed2 | JUnit WebUnit | JTrack "Pos list"
  | JDevice DeviceDTO | JCert CertificateDTO | JProfile ProfileDTO | JTime time | JFloat f64 | JChats Storage
  | JContact MartiContact | JConnection Connection | JLayers "LayerDescription list"

datatype body = NoBody | Text string | Json json | XmlEvent "Event option" | XmlFeeds "FeedDTO option list" | Page string "(string \<times> string) list"

record response =
  hrStatus :: nat
  hrHeaders :: "(string \<times> string) list"
  hrBody :: body

type_synonym 'db handler = "request \<Rightarrow> 'db App \<Rightarrow> response result \<times> 'db App"

definition ok_body :: "body \<Rightarrow> response" where
  "ok_body b = \<lparr>hrStatus = 200, hrHeaders = [], hrBody = b\<rparr>"

text \<open>Without a body the text of the status is sent.\<close>

definition status :: "nat \<Rightarrow> response" where
  "status n = \<lparr>hrStatus = n, hrHeaders = [], hrBody = NoBody\<rparr>"

definition status_text :: "nat \<Rightarrow> string \<Rightarrow> response" where
  "status_text n t = \<lparr>hrStatus = n, hrHeaders = [], hrBody = Text t\<rparr>"

definition redirect :: "string \<Rightarrow> response" where
  "redirect url = \<lparr>hrStatus = 302, hrHeaders = [(''Location'', url)], hrBody = NoBody\<rparr>"

text \<open>A nil pointer in JSON.\<close>

definition jopt :: "('a \<Rightarrow> json) \<Rightarrow> 'a option \<Rightarrow> json" where
  "jopt f x = (case x of None \<Rightarrow> JNull | Some v \<Rightarrow> f v)"

definition lookup :: "(string, string) smap \<Rightarrow> string \<Rightarrow> string" where
  "lookup m k = (case smLoad m k of None \<Rightarrow> [] | Some v \<Rightarrow> v)"

definition ctx_Query :: "request \<Rightarrow> string \<Rightarrow> string" where "ctx_Query rq k = lookup (rqQuery rq) k"
definition ctx_Params :: "request \<Rightarrow> string \<Rightarrow> string" where "ctx_Params rq k = lookup (rqParams rq) k"
definition ctx_Get :: "request \<Rightarrow> string \<Rightarrow> string" where "ctx_Get rq k = lookup (rqHeaders rq) k"

definition ctx_QueryInt :: "request \<Rightarrow> string \<Rightarrow> int \<Rightarrow> int" where
  "ctx_QueryInt rq k d = (case Atoi (ctx_Query rq k) of None \<Rightarrow> d | Some n \<Rightarrow> n)"

definition ctx_ParamsInt :: "request \<Rightarrow> string \<Rightarrow> int result" where
  "ctx_ParamsInt rq k = (case Atoi (ctx_Params rq k) of None \<Rightarrow> Inl (Error ''failed to convert'') | Some n \<Rightarrow> Inr n)"

text \<open>\<open>strconv.ParseBool\<close>; anything else is the default.\<close>

definition ctx_QueryBool :: "request \<Rightarrow> string \<Rightarrow> bool \<Rightarrow> bool" where
  "ctx_QueryBool rq k d =
     (let v = ctx_Query rq k
      in if v \<in> {''1'', ''t'', ''T'', ''TRUE'', ''true'', ''True''} then True
         else if v \<in> {''0'', ''f'', ''F'', ''FALSE'', ''false'', ''False''} then False else d)"

text \<open>
  The decoders of request bodies (\<open>encoding/json\<close>, \<open>BodyParser\<close>, \<open>encoding/xml\<close>); a JSON \<open>null\<close> leaves a
  pointer nil.
\<close>

record DevicePutDTO =
  dpAdmin :: bool
  dpDisabled :: bool
  dpPassword :: string
  dpScope :: string
  dpReadScope :: "string list"

record DevicePostDTO = DevicePutDTO +
  dpLogin :: string

record decoders =
  jdEventData :: "string \<Rightarrow> CotEvent"
  jdHttpDate :: "time \<Rightarrow> string"
  jdKeywords :: "string \<Rightarrow> string list result"
  jdContents :: "string \<Rightarrow> (string, string list) smap result"
  jdCot :: "string \<Rightarrow> CotMessage result"
  jdFeeds :: "string \<Rightarrow> FeedDTO option list result"
  jdForm :: "string \<Rightarrow> (string, string) smap result"
  jdDevicePost :: "string \<Rightarrow> DevicePostDTO option result"
  jdDevicePut :: "string \<Rightarrow> DevicePutDTO option result"
  jdProfilePost :: "string \<Rightarrow> ProfilePostDTO option result"
  jdProfilePut :: "string \<Rightarrow> ProfilePutDTO option result"
  jdFeedPost :: "string \<Rightarrow> FeedPostDTO option result"
  jdFeedPut :: "string \<Rightarrow> FeedPutDTO option result"

fun err_text :: "gofail \<Rightarrow> string" where
  "err_text EOF = ''EOF''" | "err_text (Error s) = s" | "err_text (Panic s) = s"

text \<open>\<open>-time.Second * time.Duration(n)\<close> on 64 bits.\<close>

definition seconds_ago :: "int \<Rightarrow> int" where
  "seconds_ago n = sint (word_of_int (- second * n) :: 64 word)"

section \<open>util.go\<close>

definition queryIgnoreCase :: "(string \<Rightarrow> string) \<Rightarrow> request \<Rightarrow> string \<Rightarrow> string" where
  "queryIgnoreCase lower rq name =
     (case find (\<lambda>(k, _). lower k = lower name) (smRange (rqQuery rq)) of Some (_, v) \<Rightarrow> v | None \<Rightarrow> [])"

definition SendError :: "string \<Rightarrow> response" where
  "SendError text = \<lparr>hrStatus = 406, hrHeaders = [], hrBody = Json (JObject [(''error'', JString text)])\<rparr>"

definition Username :: "request \<Rightarrow> string" where
  "Username rq = (case rqUsername rq of None \<Rightarrow> [] | Some u \<Rightarrow> u)"

text \<open>\<open>version.go\<close>, with the variables of the build.\<close>

definition unknown :: string where "unknown = ''unknown''"

definition getVersion :: "string \<Rightarrow> string \<Rightarrow> string" where
  "getVersion gitBranch gitRevision =
     (if gitBranch \<noteq> ''master'' \<and> gitBranch \<noteq> unknown then gitBranch @ '':'' @ gitRevision else gitRevision)"

text \<open>\<open>makeAnswer\<close> of the Marti interface.\<close>

definition nodeID :: string where "nodeID = ''main''"
definition apiVersion :: string where "apiVersion = ''3''"

definition makeAnswer :: "string \<Rightarrow> json \<Rightarrow> body" where
  "makeAnswer typ dat = Json (JObject [(''version'', JString apiVersion), (''type'', JString typ),
     (''nodeId'', JString nodeID), (''data'', dat)])"

section \<open>Authentication\<close>

text \<open>
  Tokens are signed and parsed by a library: \<open>jwtSign key subject expires\<close> and \<open>jwtParse key now token\<close>,
  which gives the subject and whether the token is valid.
\<close>

record jwt =
  jwtSign :: "string \<Rightarrow> string \<Rightarrow> time \<Rightarrow> string result"
  jwtParse :: "string \<Rightarrow> time \<Rightarrow> string \<Rightarrow> (string \<times> bool) result"

record HttpServer =
  hsTokenKey :: string
  hsTokenMaxAge :: int
  hsLoginUrl :: string
  hsNoAuth :: "string list"

definition NewHttp :: "string \<Rightarrow> HttpServer" where
  "NewHttp key = \<lparr>hsTokenKey = key, hsTokenMaxAge = 48 * hour, hsLoginUrl = ''/login'', hsNoAuth = [''/cot_xml'']\<rparr>"

definition noTokenErr :: gofail where "noTokenErr = Error ''api token required''"
definition badToken :: gofail where "badToken = Error ''bad token''"
definition badUser :: gofail where "badUser = Error ''invalid user''"

definition getToken :: "request \<Rightarrow> string" where
  "getToken rq =
     (let s = ctx_Get rq ''Authorization''
      in if length s > 7 \<and> take 6 s = ''Bearer'' then drop 7 s else lookup (rqCookies rq) ''token'')"

definition ErrSignatureInvalid :: gofail where "ErrSignatureInvalid = Error ''signature is invalid''"
definition ErrTokenExpired :: gofail where "ErrTokenExpired = Error ''token has invalid claims: token is expired''"

definition checkToken :: "'db env \<Rightarrow> jwt \<Rightarrow> HttpServer \<Rightarrow> time \<Rightarrow> string \<Rightarrow> 'db App \<Rightarrow> Device result \<times> 'db App" where
  "checkToken env j h now tokenStr app =
     (if tokenStr = [] then (Inl noTokenErr, app)
      else case jwtParse j (hsTokenKey h) now tokenStr of
             Inl err \<Rightarrow> (Inl (if err = ErrSignatureInvalid \<or> err = ErrTokenExpired then badToken else err), app)
           | Inr (subject, valid) \<Rightarrow>
               (if \<not> valid then (Inl badToken, app)
                else case users_get env now subject app of
                       (Some u, app') \<Rightarrow> ((if CanLogIn (Some u) then Inr u else Inl badUser), app')
                     | (None, app') \<Rightarrow> (Inl badUser, app')))"

text \<open>A middleware runs the handler \<open>next\<close>, or answers itself.\<close>

definition HeaderAuth :: "'db env \<Rightarrow> jwt \<Rightarrow> HttpServer \<Rightarrow> time \<Rightarrow> 'db handler \<Rightarrow> 'db handler" where
  "HeaderAuth env j h now next_handler rq app =
     (case checkToken env j h now (getToken rq) app of
        (Inl (Error err), app') \<Rightarrow> (Inr (status_text 401 err), app')
      | (Inl err, app') \<Rightarrow> (Inl err, app')
      | (Inr user, app') \<Rightarrow> next_handler (rq\<lparr>rqUsername := Some (devLogin user)\<rparr>) app')"

definition CookieAuth :: "'db env \<Rightarrow> jwt \<Rightarrow> HttpServer \<Rightarrow> time \<Rightarrow> 'db handler \<Rightarrow> 'db handler" where
  "CookieAuth env j h now next_handler rq app =
     (if rqPath rq = hsLoginUrl h \<or> rqPath rq = ''/token'' then next_handler rq app
      else if list_ex (\<lambda>p. HasPrefix (rqPath rq) p) (hsNoAuth h) then next_handler rq app
      else case checkToken env j h now (getToken rq) app of
             (Inl err, app') \<Rightarrow> (Inr (redirect (hsLoginUrl h)), app')
           | (Inr user, app') \<Rightarrow> next_handler (rq\<lparr>rqUsername := Some (devLogin user)\<rparr>) app')"

definition ErrUnauthorized :: gofail where "ErrUnauthorized = Error ''Unauthorized''"

text \<open>\<open>peer\<close>: the certificates of a TLS connection, or none.\<close>

definition SSLCheckHandler :: "'db env \<Rightarrow> time \<Rightarrow> PeerCert list option \<Rightarrow> 'db handler \<Rightarrow> 'db handler" where
  "SSLCheckHandler env now peer next_handler rq app =
     (case peer of
        None \<Rightarrow> (Inl ErrUnauthorized, app)
      | Some certs \<Rightarrow>
          (case getCertUser certs of (username, serial) \<Rightarrow>
             (case users_valid env now username serial app of
                (True, app') \<Rightarrow> next_handler (rq\<lparr>rqUsername := Some username\<rparr>) app'
              | (False, app') \<Rightarrow> (Inl ErrUnauthorized, app'))))"

text \<open>Basic authentication; \<open>creds\<close> are the decoded credentials of the request.\<close>

definition DeviceAuthHandler ::
    "'db env \<Rightarrow> time \<Rightarrow> (string \<times> string) option \<Rightarrow> 'db handler \<Rightarrow> 'db handler" where
  "DeviceAuthHandler env now creds next_handler rq app =
     (case creds of
        None \<Rightarrow> (Inr (status 401), app)
      | Some (user, pass) \<Rightarrow>
          (case users_CheckAuth (evGorm env) (evCompare env) (apDb app) now user pass (apUsers app) of
             (ok, c) \<Rightarrow>
               (let app' = app\<lparr>apUsers := c\<rparr>
                in if ok then next_handler (rq\<lparr>rqUsername := Some user\<rparr>) app' else (Inr (status 401), app'))))"

definition generateToken :: "jwt \<Rightarrow> time \<Rightarrow> string \<Rightarrow> string \<Rightarrow> int \<Rightarrow> string result" where
  "generateToken j now username key t = jwtSign j key username (now + t)"

end
