(* ===== verification/HttpMissions.thy ===== *)
theory HttpMissions
  imports HttpModel
begin

text \<open>
  \<open>cmd/goatak_server/mission_api.go\<close>: the handlers of the mission interface. Each looks up the user of
  the request and, but for two, the mission of the path among those the user's scopes allow.
\<close>

section \<open>Looking up a mission\<close>

definition user_missions :: "Device option \<Rightarrow> MissionQuery" where
  "user_missions user =
     MissionQuery_ReadScope (Device_GetReadScope user) (MissionQuery_Scope (Device_GetScope user) NewMissionQuery)"

definition find_mission :: "'db env \<Rightarrow> bool \<Rightarrow> Device option \<Rightarrow> string \<Rightarrow> 'db \<Rightarrow> Mission option" where
  "find_mission env full user name db =
     MissionQuery_One (evGorm env)
       ((if full then MissionQuery_Full else id) (MissionQuery_Name name (user_missions user))) db"

text \<open>The common beginning of the handlers: 404 when there is no such mission.\<close>

definition with_mission ::
    "'db env \<Rightarrow> stamp \<Rightarrow> bool \<Rightarrow> (Device option \<Rightarrow> Mission \<Rightarrow> 'db App \<Rightarrow> response result \<times> 'db App) \<Rightarrow> 'db handler" where
  "with_mission env s full f rq app =
     (case users_get env (stNow s) (Username rq) app of
        (user, app1) \<Rightarrow>
          (case find_mission env full user (ctx_Params rq ''missionname'') (apDb app1) of
             None \<Rightarrow> (Inr (status 404), app1)
           | Some m \<Rightarrow> f user m app1))"

definition missionType :: string where "missionType = ''Mission''"
definition missionSubscriptionType :: string where "missionSubscriptionType = ''com.bbn.marti.sync.model.MissionSubscription''"
definition missionInvitationType :: string where "missionInvitationType = ''MissionInvitation''"
definition missionRoleType :: string where "missionRoleType = ''MissionRole''"
definition logEntryType :: string where "logEntryType = ''com.bbn.marti.sync.model.LogEntry''"
definition missionChangeType :: string where "missionChangeType = ''MissionChange''"

definition answer_mission :: "Mission option \<Rightarrow> bool \<Rightarrow> body" where
  "answer_mission m withToken = makeAnswer missionType (JList [jopt JMission (ToMissionDTO m withToken)])"

definition answer_changes :: "Mission \<Rightarrow> Change list \<Rightarrow> body" where
  "answer_changes m ch = makeAnswer missionChangeType (JList (map JChange (MissionDTOList Change_DTO (msName m) ch)))"

section \<open>Handlers\<close>

text \<open>The scope is only shown for missions of another scope than the user's.\<close>

definition getMissionsHandler :: "'db env \<Rightarrow> stamp \<Rightarrow> 'db handler" where
  "getMissionsHandler env s rq app =
     (case users_get env (stNow s) (Username rq) app of
        (user, app1) \<Rightarrow>
          (let ms = MissionQuery_Get (evGorm env)
                      (MissionQuery_Full (MissionQuery_Tool (ctx_Query rq ''tool'') (user_missions user))) (apDb app1)
           in case user of
                None \<Rightarrow> (if ms = [] then Inr (ok_body (makeAnswer missionType (JList []))) else Inl nil_deref, app1)
              | Some u \<Rightarrow>
                  (Inr (ok_body (makeAnswer missionType (JList (map (\<lambda>m.
                     jopt JMission (map_option (\<lambda>d. if msScope m \<noteq> devScope u
                       then d\<lparr>mtoDescription := mtoDescription d @ '' ['' @ msScope m @ '']''\<rparr> else d)
                       (ToMissionDTO (Some m) False))) ms)))), app1)))"

definition getMissionHandler :: "'db env \<Rightarrow> stamp \<Rightarrow> 'db handler" where
  "getMissionHandler env s = with_mission env s True (\<lambda>user m app. (Inr (ok_body (answer_mission (Some m) False)), app))"

definition mission_of_request :: "stamp \<Rightarrow> Device option \<Rightarrow> request \<Rightarrow> Mission" where
  "mission_of_request s user rq = new_Mission
     \<lparr>msName := ctx_Params rq ''missionname'', msScope := Device_GetScope user, msCreator := Username rq,
      msCreatorUID := ctx_Query rq ''creatorUid'', msBaseLayer := ctx_Query rq ''baseLayer'', msBbox := ctx_Query rq ''bbox'',
      msChatRoom := ctx_Query rq ''chatRoom'', msClassification := ctx_Query rq ''classification'',
      msDescription := ctx_Query rq ''description'', msInviteOnly := ctx_QueryBool rq ''inviteOnly'' False,
      msPassword := ctx_Query rq ''password'', msPath := ctx_Query rq ''path'', msTool := ctx_Query rq ''tool'',
      msGroups := [], msKeywords := [], msToken := stUuid s\<rparr>"

definition getMissionPutHandler :: "'db env \<Rightarrow> (nat \<Rightarrow> stamp) \<Rightarrow> 'db handler" where
  "getMissionPutHandler env st rq app =
     (case users_get env (stNow (st 0)) (Username rq) app of
        (user, app1) \<Rightarrow>
          (case CreateMission (Some (evGorm env)) (stNow (st 0)) (Some (mission_of_request (st 0) user rq)) (apDb app1) of
             ((_, Some err), db) \<Rightarrow> (Inr (status_text 409 (err_text err)), app1\<lparr>apDb := db\<rparr>)
           | ((mo, None), db) \<Rightarrow>
               (let m = (case mo of Some m \<Rightarrow> m | None \<Rightarrow> new_Mission);
                    app2 = app1\<lparr>apDb := db\<rparr>;
                    app3 = (if \<not> msInviteOnly m
                            then NewCotMessage (Some (MissionCreateNotificationMsg (stClock (st 1)) (stUuid (st 1)) m)) app2
                            else app2)
                in (Inr \<lparr>hrStatus = 201, hrHeaders = [], hrBody = answer_mission (Some m) True\<rparr>, app3))))"

definition getMissionDeleteHandler :: "'db env \<Rightarrow> stamp \<Rightarrow> 'db handler" where
  "getMissionDeleteHandler env s = with_mission env s True (\<lambda>user m app.
     (Inr (ok_body (answer_mission (Some m) False)),
      app\<lparr>apDb := snd (MissionQuery_Delete (evGorm env) (msID m) (apDb app))\<rparr>))"

definition getMissionsInvitationsHandler :: "'db env \<Rightarrow> 'db handler" where
  "getMissionsInvitationsHandler env rq app =
     (case GetInvitations (evGorm env) (ctx_Query rq ''clientUid'') (apDb app) of
        Inl err \<Rightarrow> (Inl err, app)
      | Inr names \<Rightarrow> (Inr (ok_body (makeAnswer missionInvitationType (JList (map JString names)))), app))"

definition getMissionRoleHandler :: "'db env \<Rightarrow> stamp \<Rightarrow> 'db handler" where
  "getMissionRoleHandler env s = with_mission env s False (\<lambda>user m app.
     (Inr (ok_body (makeAnswer missionRoleType (JRole (GetMissionRole [])))), app))"

definition getMissionRolePutHandler :: "'db env \<Rightarrow> stamp \<Rightarrow> 'db handler" where
  "getMissionRolePutHandler env s = with_mission env s True (\<lambda>user m app.
     (Inr (ok_body (makeAnswer missionRoleType (JRole (GetMissionRole [])))), app))"

definition getMissionLogHandler :: "'db env \<Rightarrow> stamp \<Rightarrow> 'db handler" where
  "getMissionLogHandler env s = with_mission env s False (\<lambda>user m app.
     (Inr (ok_body (makeAnswer logEntryType (JList []))), app))"

definition getMissionKeywordsPutHandler :: "'db env \<Rightarrow> decoders \<Rightarrow> stamp \<Rightarrow> 'db handler" where
  "getMissionKeywordsPutHandler env dec s rq = with_mission env s False (\<lambda>user m app.
     (case jdKeywords dec (rqBody rq) of
        Inl err \<Rightarrow> (Inl err, app)
      | Inr kw \<Rightarrow>
          (case UpdateKw (evGorm env) (ctx_Params rq ''missionname'') (Device_GetScope user) kw (apDb app) of
             (err, db) \<Rightarrow> (case err of None \<Rightarrow> Inr (status 200) | Some e \<Rightarrow> Inl e, app\<lparr>apDb := db\<rparr>)))) rq"

definition getMissionSubscriptionsHandler :: "'db env \<Rightarrow> stamp \<Rightarrow> 'db handler" where
  "getMissionSubscriptionsHandler env s = with_mission env s False (\<lambda>user m app.
     (Inr (ok_body (makeAnswer missionSubscriptionType
        (JList (map JString (GetSubscribers (evGorm env) (msID m) (apDb app)))))), app))"

definition answer_subscription :: "Mission \<Rightarrow> Subscription option \<Rightarrow> body" where
  "answer_subscription m s = makeAnswer missionSubscriptionType (jopt JSubscription (DTOWithToken s (msToken m)))"

definition getMissionSubscriptionHandler :: "'db env \<Rightarrow> stamp \<Rightarrow> 'db handler" where
  "getMissionSubscriptionHandler env s rq = with_mission env s False (\<lambda>user m app.
     (case SubscriptionQuery_One (evGorm env)
             (SubscriptionQuery_Client (ctx_Query rq ''uid'') (SubscriptionQuery_Mission (msID m) NewSubscriptionQuery)) (apDb app) of
        None \<Rightarrow> (Inr (status 404), app)
      | Some sub \<Rightarrow> (Inr (ok_body (answer_subscription m (Some sub))), app))) rq"

definition getMissionSubscriptionPutHandler :: "'db env \<Rightarrow> stamp \<Rightarrow> 'db handler" where
  "getMissionSubscriptionPutHandler env s rq = with_mission env s False (\<lambda>user m app.
     (case Subscribe (evGorm env) user m (ctx_Query rq ''uid'') (ctx_Query rq ''password'') (apDb app) of
        ((sub, Some err), db) \<Rightarrow> (Inr (status_text 403 (err_text err)), app\<lparr>apDb := db\<rparr>)
      | ((sub, None), db) \<Rightarrow>
          (Inr \<lparr>hrStatus = 201, hrHeaders = [], hrBody = answer_subscription m sub\<rparr>, app\<lparr>apDb := db\<rparr>))) rq"

definition getMissionSubscriptionDeleteHandler :: "'db env \<Rightarrow> stamp \<Rightarrow> 'db handler" where
  "getMissionSubscriptionDeleteHandler env s rq = with_mission env s False (\<lambda>user m app.
     (Inr (status 200), app\<lparr>apDb := snd (SubscriptionQuery_Delete (evGorm env)
        (SubscriptionQuery_Client (ctx_Query rq ''uid'') (SubscriptionQuery_Mission (msID m) NewSubscriptionQuery)) (apDb app))\<rparr>)) rq"

definition getMissionSubscriptionRolesHandler :: "'db env \<Rightarrow> stamp \<Rightarrow> 'db handler" where
  "getMissionSubscriptionRolesHandler env s = with_mission env s False (\<lambda>user m app.
     (Inr (ok_body (makeAnswer missionSubscriptionType (JList (map (jopt JSubscription)
        (DTOList (\<lambda>sub. Subscription_DTO (Some sub))
          (SubscriptionQuery_Get (evGorm env) (SubscriptionQuery_Mission (msID m) NewSubscriptionQuery) (apDb app))))))), app))"

definition request_changes :: "'db env \<Rightarrow> stamp \<Rightarrow> request \<Rightarrow> Mission \<Rightarrow> 'db App \<Rightarrow> body" where
  "request_changes env s rq m app =
     answer_changes m (GetChanges (evGorm env) (msID m) (stNow s + seconds_ago (ctx_QueryInt rq ''secago'' 31536000))
       (ctx_QueryBool rq ''squashed'' False) (apDb app))"

definition getMissionChangesHandler :: "'db env \<Rightarrow> stamp \<Rightarrow> 'db handler" where
  "getMissionChangesHandler env s rq = with_mission env s False (\<lambda>user m app.
     (Inr (ok_body (request_changes env s rq m app)), app)) rq"

text \<open>A point whose event cannot be encoded is left out.\<close>

definition point_xml :: "'db env \<Rightarrow> decoders \<Rightarrow> MissionPoint \<Rightarrow> string" where
  "point_xml env dec p =
     (case CotToEvent (cdDecode (evCodec env)) (fst (MissionPoint_GetEvent (jdEventData dec) (Some p))) of
        None \<Rightarrow> []
      | Some evt \<Rightarrow> (case cdEventMarshal (evCodec env) (Some evt) of Inl _ \<Rightarrow> [] | Inr s \<Rightarrow> s))"

definition getMissionCotHandler :: "'db env \<Rightarrow> decoders \<Rightarrow> stamp \<Rightarrow> 'db handler" where
  "getMissionCotHandler env dec s = with_mission env s True (\<lambda>user m app.
     (Inr \<lparr>hrStatus = 200, hrHeaders = [(''Content-Type'', ''application/xml'')],
        hrBody = Text (''<?xml version='' @ [CHR 0x27] @ ''1.0'' @ [CHR 0x27] @ '' encoding='' @ [CHR 0x27] @ ''UTF-8'' @
          [CHR 0x27] @ '' standalone='' @ [CHR 0x27] @ ''yes'' @ [CHR 0x27] @ ''?>'' @ [CHR 0x0A] @ ''<events>'' @ [CHR 0x0A] @
          concat (map (point_xml env dec) (msPoints m)) @ [CHR 0x0A] @ ''</events>'')\<rparr>, app))"

definition getMissionContactsHandler :: "'db env \<Rightarrow> stamp \<Rightarrow> 'db handler" where
  "getMissionContactsHandler env s = with_mission env s True (\<lambda>user m app. (Inr (ok_body (Json (JList []))), app))"

text \<open>The mission is the pointer that \<open>AddMissionResource\<close> changes; a panic of a notification is the handler's.\<close>

definition add_content ::
    "'db env \<Rightarrow> string \<Rightarrow> (nat \<Rightarrow> stamp) \<Rightarrow> nat \<times> string \<Rightarrow> Mission \<times> 'db App \<Rightarrow> (Mission \<times> 'db App) \<times> bool" where
  "add_content env author st = (\<lambda>(n, h) (m, app).
     (case AddMissionResource (Some (evGorm env)) m h author (apDb app) of
        ((change, m'), db) \<Rightarrow>
          (case notifyMissionSubscribers env (st n) (Some m') change (app\<lparr>apDb := db\<rparr>) of (app', p) \<Rightarrow> ((m', app'), p))))"

definition send_panic :: gofail where "send_panic = Panic ''slice bounds out of range''"

definition getMissionContentPutHandler :: "'db env \<Rightarrow> decoders \<Rightarrow> (nat \<Rightarrow> stamp) \<Rightarrow> 'db handler" where
  "getMissionContentPutHandler env dec st rq = with_mission env (st 0) False (\<lambda>user m app.
     (case jdContents dec (rqBody rq) of
        Inl err \<Rightarrow> (Inr (status 500), app)
      | Inr dat \<Rightarrow>
          (case go_for (add_content env (ctx_Query rq ''creatorUid'') st)
                  (enumerate 1 (case smLoad dat ''hashes'' of Some d \<Rightarrow> d | None \<Rightarrow> [])) (m, app) of
             ((m', app'), True) \<Rightarrow> (Inl send_panic, app')
           | ((m', app'), False) \<Rightarrow> (Inr (ok_body (answer_mission (Some m') False)), app')))) rq"

text \<open>The archive is opened, but nothing of it is used.\<close>

definition getMissionContentPackagePutHandler :: "'db env \<Rightarrow> stamp \<Rightarrow> 'db handler" where
  "getMissionContentPackagePutHandler env s rq = with_mission env s False (\<lambda>user m app.
     (case evIoErr env of Some err \<Rightarrow> (Inl err, app)
      | None \<Rightarrow>
          (case evUnzip env (rqBody rq) of Inl err \<Rightarrow> (Inl err, app)
           | Inr _ \<Rightarrow> (Inr (ok_body (request_changes env s rq m app)), app)))) rq"

definition delete_content ::
    "'db env \<Rightarrow> stamp \<Rightarrow> ('db gorm option \<Rightarrow> Mission \<Rightarrow> string \<Rightarrow> string \<Rightarrow> 'db \<Rightarrow> (Change option \<times> Mission) \<times> 'db) \<Rightarrow>
     string \<Rightarrow> string \<Rightarrow> Mission \<times> 'db App \<Rightarrow> (Mission \<times> 'db App) \<times> bool" where
  "delete_content env s del key author = (\<lambda>(m, app).
     (if key = [] then ((m, app), False)
      else case del (Some (evGorm env)) m key author (apDb app) of
             ((change, m'), db) \<Rightarrow>
               (case notifyMissionSubscribers env s (Some m') change (app\<lparr>apDb := db\<rparr>) of (app', p) \<Rightarrow> ((m', app'), p))))"

definition getMissionContentDeleteHandler :: "'db env \<Rightarrow> (nat \<Rightarrow> stamp) \<Rightarrow> 'db handler" where
  "getMissionContentDeleteHandler env st rq = with_mission env (st 0) True (\<lambda>user m app.
     (let author = ctx_Query rq ''creatorUid''
      in case and_then (delete_content env (st 1) DeleteMissionPoint (ctx_Query rq ''uid'') author (m, app))
                (delete_content env (st 2) DeleteMissionContent (ctx_Query rq ''hash'') author) of
           ((m', app'), True) \<Rightarrow> (Inl send_panic, app')
         | ((m', app'), False) \<Rightarrow>
             (Inr (ok_body (answer_mission (MissionQuery_One (evGorm env) (MissionQuery_Full (MissionQuery_Id (msID m') NewMissionQuery))
                (apDb app')) False)), app'))) rq"

definition getInvitePutHandler :: "'db env \<Rightarrow> stamp \<Rightarrow> 'db handler" where
  "getInvitePutHandler env s rq = with_mission env s False (\<lambda>user m app.
     (let typ = ctx_Params rq ''type''
      in if typ \<noteq> ''clientUid'' then (Inr (status 400), app)
         else case Invite (evGorm env) (new_Invitation\<lparr>ivMissionID := msID m, ivTyp := typ, ivInvitee := ctx_Params rq ''uid'',
                    ivCreatorUID := ctx_Query rq ''creatorUid'', ivRole := ctx_Query rq ''role''\<rparr>) (apDb app) of
                ((_, err), db) \<Rightarrow> (case err of None \<Rightarrow> Inr (status 200) | Some e \<Rightarrow> Inl e, app\<lparr>apDb := db\<rparr>))) rq"

definition getInviteDeleteHandler :: "'db env \<Rightarrow> stamp \<Rightarrow> 'db handler" where
  "getInviteDeleteHandler env s rq = with_mission env s False (\<lambda>user m app.
     (Inr (status 200), app\<lparr>apDb := snd (InvitationQuery_Delete (evGorm env) (InvitationQuery_Type (ctx_Params rq ''type'')
        (InvitationQuery_Invitee (ctx_Params rq ''uid'') (InvitationQuery_Mission (msID m) NewInvitationQuery))) (apDb app))\<rparr>)) rq"

end
