(* ===== verification/PrefKeys.thy ===== *)
theory PrefKeys
  imports GoRuntime
begin

text \<open>
  \<open>cmd/goatak_server/mp/prefs.go\<close>: the settings of the ATAK client that a profile may set. Only the
  key and the class of an entry are used by the code.
\<close>

record PrefKey =
  pkName :: string
  pkKey :: string
  pkCls :: string
  pkValues :: string

abbreviation pref_key :: "string \<Rightarrow> string \<Rightarrow> string \<Rightarrow> string \<Rightarrow> PrefKey" where
  "pref_key n k c v \<equiv> \<lparr>pkName = n, pkKey = k, pkCls = c, pkValues = v\<rparr>"

definition prefKeys1 :: "PrefKey list" where
  "prefKeys1 = [
    pref_key ''My Callsign'' ''locationCallsign'' ''String'' ''Alphanumeric'',
    pref_key ''My Team'' ''locationTeam'' ''String'' ''White; Yellow; Orange; Magenta; Red; Maroon; Purple; Dark Blue; Blue; Cyan; Teal; Green; Dark Green; Brown'',
    pref_key ''My Role'' ''atakRoleType'' ''String'' ''Team Member; Team Lead; HQ; Sniper; Medic; Forward Observer; RTO; K9'',
    pref_key ''My Display Type'' ''locationUnitType'' ''String'' ''Ground Troop; Armored Vehicle; Civilian Vehicle; Generic Air Unit; Generic Ground Unit; Generic Sea Surface Unit'',
    pref_key ''GPS Option'' ''mockingOption'' ''String'' ''IgnoreInternalGPS = Ignore Internal GPS / Use External or Network GPS Only; LocalGPS = Internal GPS Only; WRGPS = External or Network GPS / Fallback Internal GPS'',
    pref_key ''Network GPS Port'' ''listenPort'' ''String'' ''0 - 65535 (Default 4349)'',
    pref_key ''Use GPS Time'' ''useGPSTime'' ''Boolean'' ''true; false'',
    pref_key ''Use Elevation Data instead of GPS Elevation'' ''useTerrainElevationSelfMarker'' ''Boolean'' [],
    pref_key ''Non-Bluetooth Laser Range Finders Support'' ''nonBluetoothLaserRangeFinder'' ''Boolean'' [],
    pref_key ''Use Wave Relay Callsign'' ''locationUseWRCallsign'' ''Boolean'' [],
    pref_key ''Bluetooth Support'' ''atakControlBluetooth'' ''Boolean'' [],
    pref_key ''Bluetooth Reconnect Time'' ''atakBluetoothReconnectSeconds'' ''String'' ''Numeric'',
    pref_key ''Publish Phone Number'' ''saHasPhoneNumber'' ''Boolean'' [],
    pref_key ''Publish VoIP Number'' ''saSipAddressAssignment'' ''String'' ''Alphanumeric'',
    pref_key ''VoIP Number'' ''saSipAddress'' ''String'' ''No VOIP; Manual Entry; Use IP Address; Use Callsign and IP Address'',
    pref_key ''Publish XMPP Username'' ''saXmppUsername'' ''String'' ''Alphanumeric'',
    pref_key ''Publish Preferred Email'' ''saEmailAddress'' ''String'' ''Alphanumeric'',
    pref_key ''Unit Reference Number'' ''saURN'' ''String'' ''0 - 16777215'',
    pref_key ''Send Location Over Network'' ''dispatchLocationCotExternal'' ''Boolean'' [],
    pref_key ''Hide my current position'' ''dispatchLocationHidden'' ''Boolean'' [],
    pref_key ''Reporting Strategy'' ''locationReportingStrategy'' ''String'' ''Dynamic; Constant'',
    pref_key ''Dynamic Reporting Rate Stationary (Unreliable)'' ''dynamicReportingRateStationaryUnreliable'' ''String'' ''Numeric'',
    pref_key ''Dynamic Reporting Rate Minimum (Unreliable)'' ''dynamicReportingRateMinUnreliable'' ''String'' ''Numeric'',
    pref_key ''Dynamic Reporting Rate Maximum (Unreliable)'' ''dynamicReportingRateMaxUnreliable'' ''String'' ''Numeric'',
    pref_key ''Dynamic Reporting Rate Stationary (Reliable)'' ''dynamicReportingRateStationaryReliable'' ''String'' ''Numeric'',
    pref_key ''Dynamic Reporting Rate Minimum (Reliable)'' ''dynamicReportingRateMinReliable'' ''String'' ''Numeric'',
    pref_key ''Dynamic Reporting Rate Maximum (Reliable)'' ''dynamicReportingRateMaxReliable'' ''String'' ''Numeric'',
    pref_key ''Constant Reporting Rate (Unreliable)'' ''constantReportingRateUnreliable'' ''String'' ''Numeric'',
    pref_key ''Constant Reporting Rate (Reliable)'' ''constantReportingRateReliable'' ''String'' ''Numeric'',
    pref_key ''Report Location before obtaining location fix'' ''dispatchLocationCotExternalAtStart'' ''Boolean'' [],
    pref_key ''Change Encryption Passphrase'' ''encryptionPassphrase'' ''String'' ''Alphanumeric'',
    pref_key ''Display Connection Widget'' ''displayServerConnectionWidget'' ''Boolean'' [],
    pref_key ''Monitor Server Connections'' ''monitorServerConnections'' ''Boolean'' [],
    pref_key ''Default SSL/TLS TrustStore Location'' ''caLocation'' ''String'' ''Alphanumeric'',
    pref_key ''Default SSL/TLS TrustStore Password'' ''caPassword'' ''String'' ''Alphanumeric'',
    pref_key ''Default SSL/TLS Client Certificate Store'' ''certificateLocation'' ''String'' ''Alphanumeric'',
    pref_key ''Default SSL/TLS Client Certificate Password'' ''clientPassword'' ''String'' ''Alphanumeric'',
    pref_key ''Default SSL/TLS Credentials'' ''default_client_credentials'' ''String'' ''Alphanumeric'',
    pref_key ''Secure Server API port'' ''apiSecureServerPort'' ''String'' ''0-65535'',
    pref_key ''Unsecure Server API port'' ''apiUnsecureServerPort'' ''String'' ''0-65535'',
    pref_key ''Certificate Enrollment API port'' ''apiCertEnrollmentPort'' ''String'' ''0-65535'',
    pref_key ''Certificate Enrollment Key Length'' ''apiCertEnrollmentKeyLength'' ''String'' ''Numeric'',
    pref_key ''Enable Client Certificate Export'' ''certEnrollmentExport'' ''Boolean'' [],
    pref_key ''Apply TAK Server profile updates'' ''deviceProfileEnableOnConnect'' ''Boolean'' [],
    pref_key ''Enable Mesh Network Mode'' ''enableNonStreamingConnections'' ''Boolean'' [],
    pref_key ''Auto Manage Mesh Network Self SA Mode'' ''autoDisableMeshSAWhenStreaming'' ''Boolean'' [],
    pref_key ''TCP Connection Timeout'' ''tcpConnectTimeout'' ''String'' ''Numeric'',
    pref_key ''Multicast Network Rejoin interval'' ''udpNoDataTimeout'' ''String'' ''Numeric'',
    pref_key ''Multicast TTL'' ''multicastTTL'' ''String'' ''Numeric'',
    pref_key ''Multicast Traffic Loopback'' ''network_multicast_loopback'' ''Boolean'' [],
    pref_key ''Point-to-Point Link High Speed Capable'' ''ppp0_highspeed_capable'' ''Boolean'' [],
    pref_key ''Legacy Wave Relay Redirect'' ''waveRelayRedirect'' ''Boolean'' [],
    pref_key ''Enable VPN Proxy Mode'' ''httpClientPermissiveMode'' ''Boolean'' [],
    pref_key ''Auto Start on Placement'' ''autostart_nineline'' ''Boolean'' [],
    pref_key ''Auto Start Menu'' ''autostart_nineline_type'' ''String'' ''cas; cff'',
    pref_key ''Danger Close Coloring'' ''prone_standing_coloring'' ''Boolean'' [],
    pref_key ''Use Keyhole CAS'' ''keyhole_cas'' ''Boolean'' [],
    pref_key ''FAH Distance (NM)'' ''fahDistance'' ''String'' ''0-21600'',
    pref_key ''Default FAH Width'' ''fahWidth'' ''String'' ''0-180'',
    pref_key ''Automatically Display FAH'' ''fahOnCreation'' ''Boolean'' [],
    pref_key ''Automatically Display Reciprocal FAH'' ''fahReciprocalOnCreation'' ''Boolean'' [],
    pref_key ''Laser Basket Distance (NM)'' ''laserBasketDistance'' ''String'' ''0-21600'',
    pref_key ''Laser Basket Measurements'' ''laserBasketDegrees'' ''Boolean'' [],
    pref_key ''FAH Always Edit Mode'' ''nineline_fah_edit_always'' ''Boolean'' [],
    pref_key ''Enable Address Lookup (Geocoder)'' ''enableGeocoder'' ''Boolean'' [],
    pref_key ''Address Provider'' ''selected_geocoder_uid'' ''String'' ''android-geocoder'',
    pref_key ''Notification'' ''alert_notification'' ''Boolean'' [],
    pref_key ''Individual Alert Notifications'' ''individual_alert_notification'' ''Boolean'' [],
    pref_key ''Audible alert'' ''alert_audible'' ''Boolean'' [],
    pref_key ''Vibration alert'' ''alert_vibration'' ''Boolean'' [],
    pref_key ''Alert SMS Numbers'' ''sms_numbers'' ''String'' ''Numeric 11-15 digits'',
    pref_key ''Display Bloodhound Text Widget'' ''rab_bloodhound_display_textwidget'' ''Boolean'' [],
    pref_key ''Display Large Bloodhound Text Widget'' ''rab_bloodhound_large_textwidget'' ''Boolean'' [],
    pref_key ''Flash When Closing In'' ''rab_bloodhound_flash_colors'' ''Boolean'' [],
    pref_key ''Toggle Auto Zoom'' ''rab_bloodhound_zoom'' ''Boolean'' [],
    pref_key ''Flash ETA Threshold'' ''bloodhound_flash_eta'' ''String'' ''Numeric'',
    pref_key ''Outer/Middle ETA Threshold'' ''bloodhound_outer_eta'' ''String'' ''Numeric'',
    pref_key ''Middle/Inner ETA Threshold'' ''bloodhound_inner_eta'' ''String'' ''Numeric'',
    pref_key ''Flash Color'' ''bloodhound_flash_color_pref'' ''String'' ''red; yellow; green; cyan; blue; magenta; white; black'',
    pref_key ''Outer ETA Color'' ''bloodhound_outer_color_pref'' ''String'' [],
    pref_key ''Middle ETA Color'' ''bloodhound_middle_color_pref'' ''String'' [],
    pref_key ''Inner ETA Color'' ''bloodhound_inner_color_pref'' ''String'' [],
    pref_key ''Reroute distance'' ''bloodhound_reroute_distance_pref'' ''String'' ''Numeric'',
    pref_key ''Reroute timer frequency'' ''bloodhound_reroute_timer_pref'' ''String'' ''Numeric'',
    pref_key ''Display Notification'' ''enableToast'' ''Boolean'' [],
    pref_key ''Vibrate phone'' ''vibratePhone'' ''Boolean'' [],
    pref_key ''Audible Chat notifications'' ''audibleNotify'' ''Boolean'' [],
    pref_key ''Chat Address'' ''chatAddress'' ''String'' ''1.1.1.1 - 255.255.255.255'',
    pref_key ''Chat Port'' ''chatPort'' ''String'' ''0-65535'',
    pref_key ''Enable file sharing.'' ''filesharingEnabled'' ''Boolean'' [],
    pref_key ''File Transfer Max size'' ''filesharingSizeThresholdNoGo'' ''String'' ''Numeric'',
    pref_key ''Download attempts'' ''fileshareDownloadAttempts'' ''String'' ''Numeric'',
    pref_key ''Allow HTTP transfers'' ''filesharingWebServerLegacyHttpEnabled'' ''Boolean'' [],
    pref_key ''Server port'' ''filesharingWebServerPort'' ''String'' ''0-65535'',
    pref_key ''Secure Server port'' ''filesharingSecureWebServerPort'' ''String'' ''0-65535'',
    pref_key ''File Transfer Connection Timeout'' ''filesharingConnectionTimeoutSecs'' ''String'' ''Numeric'',
    pref_key ''File Transfer Failure Timeout'' ''filesharingTransferTimeoutSecs'' ''String'' ''Numeric'',
    pref_key ''Use All Servers'' ''filesharingAllServers'' ''Boolean'' [],
    pref_key ''Elevation Server'' ''prefs_dted_stream_server'' ''String'' ''Alphanumeric'',
    pref_key ''Stream Elevation Data'' ''prefs_dted_stream'' ''Boolean'' [],
    pref_key ''Show by Default'' ''prefs_dted_visible'' ''Boolean'' [],
    pref_key ''Rapid MGRS Entry Mode'' ''rapid_mgrs_dialog'' ''Boolean'' [],
    pref_key ''DP/SPI Update Period'' ''spiUpdateDelay'' ''String'' ''Numeric'',
    pref_key ''Automatically Broadcast a Marker'' ''hostileUpdateDelay'' ''String'' ''0; 60; 90; 120'',
    pref_key ''Legacy Toolbar Mode'' ''legacyFiresToolbarMode'' ''Boolean'' [],
    pref_key ''Number of DP/SPIs'' ''firesNumberOfSpis'' ''String'' ''1; 2; 3'',
    pref_key ''DP/RedX FAH Width'' ''spiFahSize'' ''String'' ''0-180'',
    pref_key ''Expanded Danger Close Search'' ''expandedDangerClose'' ''Boolean'' [],
    pref_key ''WMS Connect Timeout'' ''wms_connect_timeout'' ''Integer'' ''3000; 5000; 10000; 15000; 30000'',
    pref_key ''Enable Volume Keys rotating map layers'' ''volumemapswitcher'' ''Boolean'' [],
    pref_key ''Enable Image Overlay Map Interaction'' ''prefs_layer_grg_map_interaction'' ''Boolean'' [],
    pref_key ''Collect Metrics'' ''collect_metrics'' ''Boolean'' [],
    pref_key ''Live Metrics'' ''realtime_metrics'' ''Boolean'' [],
    pref_key ''Advanced CoT Recorder'' ''generate_full_pool'' ''Boolean'' [],
    pref_key ''Advanced CoT Details Recorder'' ''generate_detail_pool'' ''Boolean'' [],
    pref_key ''Checkpoint Name Prefix'' ''waypointPrefix'' ''String'' ''Alphanumeric'',
    pref_key ''Default for unspecified Route Colors'' ''defaultRouteColor'' ''String'' ''-1 through -16777216'',
    pref_key ''Traditional Navigation Mode'' ''route_track_up_locked_on'' ''Boolean'' [],
    pref_key ''Navigational Voice Cues'' ''useRouteVoiceCues'' ''Boolean'' [],
    pref_key ''Vibrate When Arriving at Checkpoint'' ''route_vibrate_at_checkpoint'' ''Boolean'' [],
    pref_key ''Walking Checkpoint Navigation Bubble Radius'' ''waypointBubble.Walking'' ''String'' ''Numeric'',
    pref_key ''Walking Off Route Bubble Radius'' ''waypointOffRouteBubble.Walking'' ''String'' ''Numeric'',
    pref_key ''Driving Checkpoint Navigation Bubble Radius'' ''waypointBubble.Driving'' ''String'' ''Numeric'',
    pref_key ''Driving Off Route Bubble Radius'' ''waypointOffRouteBubble.Driving'' ''String'' ''Numeric'',
    pref_key ''Flying Checkpoint Navigation Bubble Radius'' ''waypointBubble.Flying'' ''String'' ''Numeric'',
    pref_key ''Flying Off Route Bubble Radius'' ''waypointOffRouteBubble.Flying'' ''String'' ''Numeric'',
    pref_key ''Swimming Checkpoint Navigation Bubble Radius'' ''waypointBubble.Swimming'' ''String'' ''Numeric'',
    pref_key ''Swimming Off Route Bubble Radius'' ''waypointOffRouteBubble.Swimming'' ''String'' ''Numeric'',
    pref_key ''Watercraft Checkpoint Navigation Bubble Radius'' ''waypointBubble.Watercraft'' ''String'' ''Numeric'',
    pref_key ''Watercraft Off Route Bubble Radius'' ''waypointOffRouteBubble.Watercraft'' ''String'' ''Numeric'',
    pref_key ''Show Attachment Billboards'' ''route_billboard_enabled'' ''Boolean'' [],
    pref_key ''Billboard Render Distance'' ''route_billboard_distance_m'' ''String'' ''Numeric'',
    pref_key ''Elevation Profile Interpolate Altitudes'' ''elevProfileInterpolateAlt'' ''Boolean'' []]"

definition prefKeys2 :: "PrefKey list" where
  "prefKeys2 = [
    pref_key ''Elevation Profile Center on Seeker'' ''elevProfileCenterOnSeeker'' ''Boolean'' [],
    pref_key ''GPX Import Checkpoints'' ''gpxImportCheckpointsForNamedRoutePoints'' ''Boolean'' [],
    pref_key ''Ignore Elevation Data'' ''kmlExportGroundClamp'' ''Boolean'' [],
    pref_key ''KML Export Checkpoint Mode'' ''kmlExportCheckpointMode'' ''String'' ''Points; Line; Both'',
    pref_key ''Internal Network Configuration'' ''network_config'' ''Boolean'' [],
    pref_key ''DHCP'' ''network_dhcp'' ''Boolean'' [],
    pref_key ''IP address'' ''network_static_ip_address'' ''String'' ''1.1.1.1 - 255.255.255.255'',
    pref_key ''Subnet mask'' ''network_static_subnet_mask'' ''String'' ''1.1.1.1 - 255.255.255.255'',
    pref_key ''Default gateway'' ''network_static_gateway'' ''String'' ''1.1.1.1 - 255.255.255.255'',
    pref_key ''DNS 1'' ''network_static_dns1'' ''String'' ''1.1.1.1 - 255.255.255.255'',
    pref_key ''DNS 2'' ''network_static_dns2'' ''String'' ''1.1.1.1 - 255.255.255.255'',
    pref_key ''Log Tracks'' ''toggle_log_tracks'' ''Boolean'' [],
    pref_key ''Track Prefix'' ''track_prefix'' ''String'' ''Alphanumeric'',
    pref_key ''Auto Rotate Track Colors'' ''toggle_rotate_track_colors'' ''Boolean'' [],
    pref_key ''Default Color'' ''track_history_default_color'' ''String'' ''-1 through -16777216'',
    pref_key ''CSV Export Header'' ''track_csv_export_headers'' ''Boolean'' [],
    pref_key ''KML Export Timestamps'' ''track_kml_export_timestamps'' ''Boolean'' [],
    pref_key ''Server track time gap (minutes)'' ''bread_track_timegap_threshold'' ''String'' ''Numeric'',
    pref_key ''Persistent Self Track'' ''track_infinite'' ''Boolean'' [],
    pref_key ''Set Max Number of Bread Crumbs'' ''max_num_bread_tracks'' ''Integer'' ''0-500'',
    pref_key ''Render bread crumb line to ground in 3-D'' ''track_line_to_surface'' ''Boolean'' [],
    pref_key ''Default Crumb Size'' ''track_crumb_size'' ''String'' ''10; 15; 20'',
    pref_key ''Bread Crumb Distance Threshold'' ''bread_dist_threshold'' ''String'' ''Numeric'',
    pref_key ''Coordinate Display'' ''coord_display_pref'' ''String'' ''MGRS; DD; DM; DMS; UTM'',
    pref_key ''Altitude Display'' ''alt_display_pref'' ''String'' ''HAE; MSL'',
    pref_key ''Altitude Units'' ''alt_unit_pref'' ''String'' ''0 = Feet (ft); 1 = Meters (m)'',
    pref_key ''Display AGL'' ''alt_display_agl'' ''Boolean'' [],
    pref_key ''Speed Units'' ''speed_unit_pref'' ''String'' ''0 = Miles per hour (mph); 1 = KM per hour (kmph); 2 = KGS (kts); 3 = Meters Per Second (mps)'',
    pref_key ''Range and Bearing Line Distance Format'' ''rab_dist_slant_range'' ''String'' ''slantrange; clamped'',
    pref_key ''Bearing Units'' ''rab_brg_units_pref'' ''String'' ''0 = Degrees; 1 = Mils'',
    pref_key ''Range Units'' ''rab_rng_units_pref'' ''String'' ''0 = Feet/Miles; 1 = Meters/Kilometers; 2 = Nautical Miles'',
    pref_key ''North Reference'' ''rab_north_ref_pref'' ''String'' ''0 = True North; 1 = Magnetic North; 2 = Grid North'',
    pref_key ''Feet to Miles'' ''rng_feet_display_pref'' ''String'' ''Numeric'',
    pref_key ''Meters to Kilometers'' ''rng_meters_display_pref'' ''String'' ''Numeric'',
    pref_key ''Default Range and Bearing Color'' ''rab_color_pref'' ''String'' [],
    pref_key ''Display ETA on Range and Bearing Labels'' ''rab_preference_show_eta'' ''Boolean'' [],
    pref_key ''Set Domain Preference'' ''set_domain_pref'' ''String'' ''Ground; Aviation; Maritime'',
    pref_key ''Enable Zoom Controls'' ''map_zoom_visible'' ''Boolean'' [],
    pref_key ''Enable Map Scale Display'' ''map_scale_visible'' ''Boolean'' [],
    pref_key ''Enable Map Scale Rounding'' ''map_scale_rounding'' ''Boolean'' [],
    pref_key ''Designate the Map Center'' ''map_center_designator'' ''Boolean'' [],
    pref_key ''Self Coordinate Information'' ''self_coord_info_display'' ''String'' [],
    pref_key ''SidePane Handle Shade'' ''sidepane_handle_shade'' ''String'' ''Light; Dark'',
    pref_key ''Enable Large Text Mode'' ''largeTextMode'' ''Boolean'' [],
    pref_key ''Enable Large Tool Bar'' ''largeActionBar'' ''Boolean'' [],
    pref_key ''Icon and Text Size'' ''relativeOverlaysScalingRadioList'' ''String'' ''1.00 = Normal; 1.25 = 1.25x; 1.50 = 1.5x; 1.75 = 1.75x; 2.00 = 2x'',
    pref_key ''Default Label Size'' ''label_text_size'' ''String'' ''14 = Normal; 16 = Large; 18 = X-Large'',
    pref_key ''Map Overlay's Dimming/Brightening'' ''dim_map_with_brightness_key'' ''Boolean'' [],
    pref_key ''Adjust for Curved Display'' ''atakAdjustCurvedDisplay'' ''Boolean'' [],
    pref_key ''Enable the Faux Navigation Bar'' ''faux_nav_bar'' ''Boolean'' [],
    pref_key ''Reverse the buttons on the Faux Navigation Bar'' ''faux_nav_bar_reverse'' ''Boolean'' [],
    pref_key ''Disable AutoLink launching for Associated Links'' ''disable_autolink_mapitem_links'' ''Boolean'' [],
    pref_key ''Enable DEX Controls'' ''dexControls'' ''Boolean'' [],
    pref_key ''Enable Globe Display Mode'' ''atakGlobeModeEnabled'' ''Boolean'' [],
    pref_key ''Marker Size'' ''location_marker_scale_key'' ''String'' ''-1 = Default; 40 = 1x; 48 = 2x; 56 = 3x; 64 = 4x'',
    pref_key ''Default'' ''default_gps_icon'' ''Boolean'' [],
    pref_key ''Team Color'' ''team_color_gps_icon'' ''Boolean'' [],
    pref_key ''Custom'' ''custom_color_gps_icon_pref'' ''Boolean'' [],
    pref_key ''Change/Create Icon Main Custom Color'' ''custom_color_selected'' ''String'' ''16-bit Hexadecimal Color'',
    pref_key ''Change/Create Icon Outline Custom Color'' ''custom_outline_color_selected'' ''String'' ''16-bit Hexadecimal Color'',
    pref_key ''Toolbar Side'' ''nav_orientation_right'' ''Boolean'' [],
    pref_key ''Toolbar Icon Color'' ''actionbar_icon_color_key'' ''String'' ''16-bit Hexadecimal Color'',
    pref_key ''Toolbar Background Color'' ''actionbar_background_color_key'' ''String'' ''16-bit Hexadecimal Color'',
    pref_key ''Grid Line Color'' ''pref_grid_color'' ''String'' ''#ffffff = White; #ff00ff = Magenta; #00ff00 = Green; #ffff00 = Yellow; Custom'',
    pref_key ''Grid Line Color'' ''pref_grid_color_value'' ''String'' ''#ffffff = White; #ff00ff = Magenta; #00ff00 = Green; #ffff00 = Yellow; Any other HEX RGB value = Custom'',
    pref_key ''Show by Default'' ''prefs_grid_default_show'' ''Boolean'' [],
    pref_key ''Layer Outline Color'' ''pref_layer_outline_color'' ''String'' ''#ffffff = White; #ff00ff = Magenta; #00ff00 = Green; #ffff00 = Yellow'',
    pref_key ''Show by Default'' ''prefs_layer_outlines_default_show'' ''Boolean'' [],
    pref_key ''Enabled on Start'' ''toggle_offscreen_indicators'' ''Boolean'' [],
    pref_key ''Set Distance Threshold (KM)'' ''offscreen_indicator_dist_threshold'' ''String'' ''Numeric'',
    pref_key ''Set Timeout Threshold (seconds) or zero to disable'' ''offscreen_indicator_timeout_threshold'' ''String'' ''Numeric'',
    pref_key ''Imported Shape Outline Color'' ''pref_overlay_style_outline_color'' ''String'' ''-1 through -16777216'',
    pref_key ''Overlay Manager Width/Height'' ''overlay_manager_width_height'' ''String'' ''50; 33; 25'',
    pref_key ''Forced Application Brightness'' ''atakForcedBrightness'' ''String'' ''-1 = None; 0 = Lowest; 25 = 25 percent; 50 = 50 percent; 75 = 75 percent; 100 = Highest'',
    pref_key ''Disable Screen Saver / Screen Lock'' ''atakScreenLock'' ''Boolean'' [],
    pref_key ''Disable SoftKey Illumination'' ''atakDisableSoftkeyIllumination'' ''Boolean'' [],
    pref_key ''Reverse Landscape Orientation'' ''atakControlReverseOrientation'' ''Boolean'' [],
    pref_key ''Shorten Long Marker Labels'' ''atakControlShortenLabels'' ''Boolean'' [],
    pref_key ''Show Marker Labels'' ''atakControlShowLabels'' ''Boolean'' [],
    pref_key ''Display Notifications for other users'' ''atakControlOtherUserNotification'' ''Boolean'' [],
    pref_key ''Fade Notification Time'' ''fade_notification'' ''String'' ''30 = 30 seconds; 60 = 60 seconds; 90 = 90 seconds; 120 = 2 minutes; 300 = 5 minutes; 600 = 10 minutes; 3600 = 1 hour; -1 = Do Not Fade'',
    pref_key ''Imagery Tab Name'' ''imagery_tab_name'' ''String'' ''Imagery; Maps'',
    pref_key ''Render Speed'' ''frame_limit'' ''String'' ''0 = Full speed; 1 = Battery saver'',
    pref_key ''Secure Delete Timeout'' ''secureDeleteTimeout'' ''String'' ''Numeric'',
    pref_key ''Prefer KLV Frame Center Elevation'' ''prefs_use_klv_elevation'' ''Boolean'' [],
    pref_key ''Camera Application'' ''quickpic.camera_chooser'' ''String'' ''System; TakGeoCam'',
    pref_key ''Force Center while Moving'' ''disableFloatToBottom'' ''Boolean'' [],
    pref_key ''Stale out remote users as they disconnect from TAK Servers'' ''staleRemoteDisconnects'' ''Boolean'' [],
    pref_key ''Remove all marker types from map when they stale out'' ''expireEverything'' ''Boolean'' [],
    pref_key ''Stale item cleanup time'' ''expireStaleItemsTime'' ''String'' ''0 = Immediately; 1 = 1 minute; 5 = 5 minutes; 20 = 20 minutes; 60 = 1 hour; 360 = 6 hours;1440 = 1 day'',
    pref_key ''Remove Unknown markers when they stale out'' ''expireUnknowns'' ''Boolean'' [],
    pref_key ''Quit on Back Press'' ''atakControlQuitOnBack'' ''Boolean'' [],
    pref_key ''Ask Before Quit'' ''atakControlAskToQuit'' ''Boolean'' [],
    pref_key ''Action for Long Pressing the Map'' ''atakLongPressMap'' ''String'' ''nothing = Do Nothing; actionbar = Toggle the Toolbar; dropicon = Drop a Point'',
    pref_key ''Double tap to zoom 2X'' ''atakDoubleTapToZoom'' ''Boolean'' [],
    pref_key ''Tap Coordinate Action'' ''self_coord_action'' ''String'' ''nothing = Do Nothing; cyclecoordinate = Change Coordinates; panto = Pan to Self'',
    pref_key ''Enable enlarging the coordinate display'' ''selfcoord_legacy_enlarge'' ''Boolean'' [],
    pref_key ''Legacy Point Drop Naming Convention'' ''legacyPointDropNaming'' ''Boolean'' [],
    pref_key ''Disable KeyGuard'' ''disableKeyGuard'' ''Boolean'' [],
    pref_key ''Forced Airplane Mode'' ''atakForceAirplaneRadioList'' ''String'' ''none = Do not Force; cell = Force General Radio Off; cell'',
    pref_key ''Continuous Rendering'' ''atakContinuousRender'' ''Boolean'' [],
    pref_key ''Developer Tools'' ''atakDeveloperTools'' ''Boolean'' [],
    pref_key ''Auto Upload App Logs'' ''enableAutoUploadLogs'' ''Boolean'' [],
    pref_key ''Enable Logcat File'' ''loggingfile'' ''Boolean'' [],
    pref_key ''Enable Logcat Errors Only'' ''loggingfile_error_only'' ''Boolean'' [],
    pref_key ''Upload Debug Logs'' ''loggingfile_upload_debug'' ''Boolean'' [],
    pref_key ''Log Network Traffic'' ''lognettraffictofile'' ''Boolean'' [],
    pref_key ''Disable the EUD (End User Device) API option'' ''eud_api_disable_option'' ''Boolean'' [],
    pref_key ''Enable EUD sync sync mapsources'' ''eud_api_sync_mapsources'' ''Boolean'' [],
    pref_key ''Enable EUD sync sync plugins'' ''eud_api_sync_plugins'' ''Boolean'' [],
    pref_key ''Enable scanning for plugins on startup'' ''atakPluginScanningOnStartup'' ''Boolean'' [],
    pref_key ''Toggle visibility of DPGK (Digital Precision Grid Kit) root'' ''dpgkRootVisibilityToggle'' ''Boolean'' [],
    pref_key ''Only allow streaming with VPN enabled'' ''onlyStreamingWithVPN'' ''Boolean'' [],
    pref_key ''Tabs for coordinate entry'' ''coordinate_entry_tabs'' ''String'' [],
    pref_key ''Enable QUIC (Quick UDP Internet Connections) protocol'' ''network_quic_enabled'' ''Boolean'' [],
    pref_key ''Enable repository startup synchronization'' ''repoStartupSync'' ''Boolean'' [],
    pref_key ''Toggle visibility of GRG root'' ''grgRootVisibilityToggle'' ''Boolean'' [],
    pref_key ''Prefer alternate number for display'' ''preferAltNumber'' ''Boolean'' [],
    pref_key ''Insert destination in directed CoT messages'' ''insertDestInDirectedCoT'' ''Boolean'' [],
    pref_key ''Enable update server for app management'' ''appMgmtEnableUpdateServer'' ''Boolean'' [],
    pref_key ''Show map eye altitude'' ''map_eyealt_visible'' ''Boolean'' [],
    pref_key ''Enable smart cache'' ''prefs_enable_smart_cache'' ''Boolean'' [],
    pref_key ''Show TAK version number in dispatch'' ''dispatchTAKVersionNumber'' ''Boolean'' [],
    pref_key ''Auto-close tilt rotation menu'' ''tilt_rotation_menu_auto_close'' ''Boolean'' [],
    pref_key ''Center self on back button press'' ''atakBackButtonCenterSelf'' ''Boolean'' [],
    pref_key ''Compass heading display preference (e.g., Numeric, Cardinal)'' ''compass_heading_display'' ''String'' [],
    pref_key ''Force English language for the application'' ''forceEnglish'' ''Boolean'' [],
    pref_key ''URL for ATAK update server'' ''atakUpdateServerUrl'' ''String'' [],
    pref_key ''Smart cache download limit (in bytes)'' ''prefs_smart_cache_download_limit'' ''String'' [],
    pref_key ''Scroll to self on start'' ''scrollToSelfOnStart'' ''Boolean'' [],
    pref_key ''Restore recorded location on startup'' ''restoreRecordedLocation'' ''Boolean'' [],
    pref_key ''Enable extended buttons in landscape mode'' ''landscape_extended_buttons'' ''Boolean'' [],
    pref_key ''Override permission request'' ''override_permission_request'' ''Boolean'' []]"

definition prefKeys :: "PrefKey list" where "prefKeys = prefKeys1 @ prefKeys2"

definition entry_xml :: "string \<Rightarrow> string \<Rightarrow> string \<Rightarrow> string" where
  "entry_xml key cls val =
     ''<entry key='' @ [CHR 0x22] @ key @ [CHR 0x22] @ '' class='' @ [CHR 0x22] @ ''class java.lang.'' @ cls @ [CHR 0x22] @ ''>'' @
     val @ ''</entry>''"

definition PrefKey_Val :: "PrefKey option \<Rightarrow> string \<Rightarrow> string" where
  "PrefKey_Val p val = (case p of None \<Rightarrow> [] | Some k \<Rightarrow> entry_xml (pkKey k) (pkCls k) val)"

definition hiding_key :: "string \<Rightarrow> bool" where
  "hiding_key key \<longleftrightarrow> HasPrefix key ''disablePreferenceItem_'' \<or> HasPrefix key ''hidePreferenceItem_''"

definition GetEntry :: "string \<Rightarrow> string \<Rightarrow> string" where
  "GetEntry key val =
     (if hiding_key key then entry_xml key ''Boolean'' val
      else PrefKey_Val (find (\<lambda>p. pkKey p = key) prefKeys) val)"

end
