(* ===== verification/MissionPackage.thy ===== *)
theory MissionPackage
  imports PrefKeys
begin

text \<open>
  \<open>cmd/goatak_server/mp/mission_package.go\<close>: the packages of files and settings the server makes for
  its clients. The ZIP writer is an argument, a function of the entries written; a map of Go is the
  list of its entries in the order the range statement visits them.
\<close>

definition APP_PREF :: string where "APP_PREF = ''com.atakmap.app_preferences''"
definition CIV_PREF :: string where "CIV_PREF = ''com.atakmap.app.civ_preferences''"
definition STREAMS :: string where "STREAMS = ''cot_streams''"

section \<open>Files\<close>

text \<open>The interface \<open>FileContent\<close>: a file of bytes or a file of settings.\<close>

datatype FileContent = FsFile string string | PrefFile string "(string, (string, string) smap) smap"

fun file_Name :: "FileContent \<Rightarrow> string" where
  "file_Name (FsFile name _) = name" | "file_Name (PrefFile name _) = name"

fun file_SetName :: "string \<Rightarrow> FileContent \<Rightarrow> FileContent" where
  "file_SetName name (FsFile _ dat) = FsFile name dat" | "file_SetName name (PrefFile _ dat) = PrefFile name dat"

definition NewFsFile :: "(string \<Rightarrow> string result) \<Rightarrow> string \<Rightarrow> string \<Rightarrow> FileContent result" where
  "NewFsFile readFile name path = (case readFile path of Inl err \<Rightarrow> Inl err | Inr dat \<Rightarrow> Inr (FsFile name dat))"

definition NewBlobFile :: "string \<Rightarrow> string \<Rightarrow> FileContent" where "NewBlobFile name dat = FsFile name dat"

definition NewPrefFile :: "string \<Rightarrow> FileContent" where "NewPrefFile name = PrefFile name []"

fun AddParam :: "string \<Rightarrow> string \<Rightarrow> string \<Rightarrow> FileContent \<Rightarrow> FileContent" where
  "AddParam pref k v (PrefFile name dat) =
     PrefFile name (smStore pref (smStore k v (case smLoad dat pref of None \<Rightarrow> [] | Some m \<Rightarrow> m)) dat)"
| "AddParam pref k v (FsFile name dat) = FsFile name dat"

abbreviation lf :: string where "lf \<equiv> [CHR 0x0A]"

definition quoted :: "string \<Rightarrow> string" where "quoted s = [CHR 0x22] @ s @ [CHR 0x22]"

definition entry_line :: "string \<times> string \<Rightarrow> string" where
  "entry_line = (\<lambda>(k, v). let e = GetEntry k v in if e \<noteq> [] then e @ lf else [])"

definition preference_xml :: "string \<times> (string, string) smap \<Rightarrow> string" where
  "preference_xml = (\<lambda>(name, dat).
     ''<preference version='' @ quoted ''1'' @ '' name='' @ quoted name @ ''>'' @ lf @
     concat (map entry_line (smRange dat)) @ ''</preference>'')"

fun file_Content :: "FileContent \<Rightarrow> string" where
  "file_Content (FsFile _ dat) = dat"
| "file_Content (PrefFile _ dat) =
     ''<?xml version='' @ [CHR 0x27] @ ''1.0'' @ [CHR 0x27] @ '' standalone='' @ [CHR 0x27] @ ''yes'' @ [CHR 0x27] @ ''?>'' @ lf @
     ''<preferences>'' @ concat (map preference_xml (smRange dat)) @ ''</preferences>''"

section \<open>Packages\<close>

record MissionPackage =
  pgVersion :: nat
  pgParams :: "(string, string) smap"
  pgFiles :: "FileContent list"

definition NewMissionPackage :: "string \<Rightarrow> string \<Rightarrow> MissionPackage" where
  "NewMissionPackage uid name =
     \<lparr>pgVersion = 2, pgParams = smStore ''name'' name (smStore ''uid'' uid []), pgFiles = []\<rparr>"

definition Param :: "string \<Rightarrow> string \<Rightarrow> MissionPackage \<Rightarrow> MissionPackage" where
  "Param k v m = m\<lparr>pgParams := smStore k v (pgParams m)\<rparr>"

definition AddFiles :: "FileContent list \<Rightarrow> MissionPackage \<Rightarrow> MissionPackage" where
  "AddFiles fs m = m\<lparr>pgFiles := pgFiles m @ fs\<rparr>"

definition Manifest :: "MissionPackage \<Rightarrow> string" where
  "Manifest m =
     ''<MissionPackageManifest version='' @ quoted (Itoa (int (pgVersion m))) @ ''>'' @ lf @ ''<Configuration>'' @ lf @
     concat (map (\<lambda>(k, v). ''  <Parameter name='' @ quoted k @ '' value='' @ quoted v @ ''/>'' @ lf) (smRange (pgParams m))) @
     ''</Configuration>'' @ lf @ ''<Contents>'' @ lf @
     concat (map (\<lambda>f. ''  <Content ignore='' @ quoted ''false'' @ '' zipEntry='' @ quoted (file_Name f) @ ''/>'' @ lf) (pgFiles m)) @
     ''</Contents>'' @ lf @ ''</MissionPackageManifest>''"

definition package_entries :: "MissionPackage \<Rightarrow> (string \<times> string) list" where
  "package_entries m =
     (''MANIFEST/manifest.xml'', Manifest m) # map (\<lambda>f. (file_Name f, file_Content f)) (pgFiles m)"

definition CreatePackage :: "((string \<times> string) list \<Rightarrow> string result) \<Rightarrow> MissionPackage \<Rightarrow> string result" where
  "CreatePackage zip_writer m = zip_writer (package_entries m)"

end
