(* ===== verification/HttpMarti.thy ===== *)
theory HttpMarti
  imports HttpModel MissionPackage
begin

text \<open>
  \<open>cmd/goatak_server/marti_api.go\<close>: the interface the clients use besides their connection: contacts,
  files, profiles, video feeds; and \<open>profiles.go\<close> and \<open>local_api.go\<close>.
\<close>

section \<open>Contacts\<close>

definition contacts_seen :: "Device option \<Rightarrow> 'db App \<Rightarrow> Item list" where
  "contacts_seen user app =
     filter (\<lambda>i. CanSeeScope user (Item_GetScope i) \<and> itClass i = CONTACT) (map snd (smRange (rpItems (apItems app))))"

definition endpoint_info :: "Item \<Rightarrow> json" where
  "endpoint_info i = JObject [(''uid'', JString (itUid i)), (''callsign'', JString (Item_GetCallsign i)),
     (''lastEventTime'', JTime (itLastSeen i)),
     (''lastStatus'', JString (if itOnline i then ''Connected'' else ''Disconnected''))]"

definition getEndpointsHandler :: "'db env \<Rightarrow> stamp \<Rightarrow> 'db handler" where
  "getEndpointsHandler env s rq app =
     (case users_get env (stNow s) (Username rq) app of
        (user, app1) \<Rightarrow>
          (Inr (ok_body (makeAnswer ''com.bbn.marti.remote.ClientEndpoint''
             (JList (map endpoint_info (contacts_seen user app1))))), app1))"

definition contact_of :: "Item \<Rightarrow> MartiContact" where
  "contact_of i = \<lparr>ctUID = itUid i, ctCallsign = Item_GetCallsign i, ctTeam = GetTeam (Some (itMsg i)),
     ctRole = GetRole (Some (itMsg i)), ctTakv = [], ctNotes = [], ctFilterGroups = []\<rparr>"

definition getContactsHandler :: "'db env \<Rightarrow> stamp \<Rightarrow> 'db handler" where
  "getContactsHandler env s rq app =
     (case users_get env (stNow s) (Username rq) app of
        (user, app1) \<Rightarrow> (Inr (ok_body (Json (JList (map (\<lambda>i. JContact (contact_of i)) (contacts_seen user app1))))), app1))"

section \<open>Fixed answers\<close>

definition getVersionHandler :: "string \<Rightarrow> 'db handler" where
  "getVersionHandler version rq app = (Inr (ok_body (Text (''GoATAK server '' @ version))), app)"

definition getVersionConfigHandler :: "string \<Rightarrow> 'db handler" where
  "getVersionConfigHandler version rq app =
     (Inr (ok_body (makeAnswer ''ServerConfig'' (JObject [(''api'', JString apiVersion), (''version'', JString version),
        (''hostname'', JString ''0.0.0.0'')]))), app)"

definition getUserRolesHandler :: "'db handler" where
  "getUserRolesHandler rq app = (Inr (ok_body (Json (JList [JString ''user'', JString ''webuser'']))), app)"

definition getAllGroupsHandler :: "'db handler" where
  "getAllGroupsHandler rq app =
     (Inr (ok_body (makeAnswer ''com.bbn.marti.remote.groups.Group''
        (JList [JObject [(''name'', JString ''__ANON__''), (''direction'', JString ''OUT''), (''created'', JString ''2023-01-01''),
           (''type'', JString ''SYSTEM''), (''bitpos'', JInt 2), (''active'', JBool True)]]))), app)"

definition getAllGroupsCacheHandler :: "'db handler" where
  "getAllGroupsCacheHandler rq app = (Inr (ok_body (makeAnswer ''java.lang.Boolean'' (JBool True))), app)"

definition getCopHierarchyHandler :: "'db handler" where
  "getCopHierarchyHandler rq app = (Inr (ok_body (makeAnswer ''CopHierarchyNode'' (JList []))), app)"

section \<open>Files\<close>

definition resourceUrl :: "string \<Rightarrow> Resource \<Rightarrow> string" where
  "resourceUrl root c = root @ ''/Marti/sync/content?hash='' @ rsHash c"

text \<open>The resources a user may read.\<close>

definition user_resources :: "Device option \<Rightarrow> ResourceQuery" where
  "user_resources user =
     ResourceQuery_ReadScope (Device_GetReadScope user) (ResourceQuery_Scope (Device_GetScope user) NewResourceQuery)"

definition zip_mime :: string where "zip_mime = ''application/x-zip-compressed''"

text \<open>The names in an archive; an error leaves the list empty and is overwritten by what \<open>Create\<close> returns.\<close>

definition listed_files :: "'db env \<Rightarrow> string \<Rightarrow> string \<Rightarrow> string \<Rightarrow> files \<Rightarrow> string list" where
  "listed_files env mime hash scope fs =
     (if mime = zip_mime
      then (case ListFiles (evUnzip env) (blob_dir env) hash scope fs of Inl _ \<Rightarrow> [] | Inr l \<Rightarrow> l) else [])"

definition create_resource :: "'db env \<Rightarrow> Resource \<Rightarrow> 'db App \<Rightarrow> Resource result \<times> 'db App" where
  "create_resource env c app =
     (case dbCreate (Some (evGorm env)) (ResourceRow c) (apDb app) of
        ((row, err), db) \<Rightarrow>
          (case err of Some e \<Rightarrow> Inl e | None \<Rightarrow> (case as_resource row of None \<Rightarrow> Inr c | Some c' \<Rightarrow> Inr c'), app\<lparr>apDb := db\<rparr>))"

text \<open>
  The names of an archive are looked up under the hash of the request, which is empty for an upload
  without one. A wrong hash is an error of \<open>PutFile\<close> already.
\<close>

definition uploadMultipart ::
    "'db env \<Rightarrow> stamp \<Rightarrow> request \<Rightarrow> string \<Rightarrow> string \<Rightarrow> string \<Rightarrow> bool \<Rightarrow> 'db App \<Rightarrow> Resource result \<times> 'db App" where
  "uploadMultipart env s rq uid hash filename pack app =
     (case users_get env (stNow s) (Username rq) app of
        (user, app1) \<Rightarrow>
          (case rqFile rq of
             Inl err \<Rightarrow> (Inl err, app1)
           | Inr fh \<Rightarrow>
               (case upOpenErr fh of
                  Some err \<Rightarrow> (Inl err, app1)
                | None \<Rightarrow>
                    (case PutFile (evSha256 env) (blob_dir env) (evIoErr env) (Device_GetScope user) hash
                            (Some (upData fh)) (apFiles app1) of
                       (Inl err, fs) \<Rightarrow> (Inl err, app1\<lparr>apFiles := fs\<rparr>)
                     | (Inr (hash1, _), fs) \<Rightarrow>
                         create_resource env
                           (new_Resource\<lparr>rsScope := Device_GetScope user, rsHash := hash1, rsUID := uid, rsName := filename,
                              rsFileName := upFilename fh, rsMIMEType := upMime fh, rsSize := upSize fh,
                              rsFiles := listed_files env (upMime fh) hash (Device_GetScope user) fs,
                              rsSubmissionUser := Device_GetLogin user,
                              rsCreatorUID := queryIgnoreCase (evToLower env) rq ''creatorUid'',
                              rsTool := (if pack then ''public'' else []),
                              rsKwSet := Some (StringSet_Add (if pack then [''missionpackage''] else []) []),
                              rsExpiration := - 1\<rparr>)
                           (app1\<lparr>apFiles := fs\<rparr>)))))"

definition uploadFile ::
    "'db env \<Rightarrow> stamp \<Rightarrow> request \<Rightarrow> string \<Rightarrow> string \<Rightarrow> 'db App \<Rightarrow> Resource result \<times> 'db App" where
  "uploadFile env s rq uid filename app =
     (case users_get env (stNow s) (Username rq) app of
        (user, app1) \<Rightarrow>
          (case PutFile (evSha256 env) (blob_dir env) (evIoErr env) (Device_GetScope user) [] (rqStream rq) (apFiles app1) of
             (Inl err, fs) \<Rightarrow> (Inl err, app1\<lparr>apFiles := fs\<rparr>)
           | (Inr (hash, n), fs) \<Rightarrow>
               (let mime = ctx_Get rq ''Content-Type''
                in create_resource env
                     (new_Resource\<lparr>rsScope := Device_GetScope user, rsHash := hash, rsUID := uid, rsName := filename,
                        rsFileName := filename, rsMIMEType := mime, rsSize := int n,
                        rsFiles := listed_files env mime hash (Device_GetScope user) fs,
                        rsSubmissionUser := Device_GetLogin user,
                        rsCreatorUID := queryIgnoreCase (evToLower env) rq ''creatorUid'', rsExpiration := - 1\<rparr>)
                     (app1\<lparr>apFiles := fs\<rparr>))))"

text \<open>The answer to an upload.\<close>

fun upload_answer :: "request \<Rightarrow> Resource result \<times> 'db App \<Rightarrow> response result \<times> 'db App" where
  "upload_answer rq (Inl (Panic msg), app) = (Inl (Panic msg), app)"
| "upload_answer rq (Inl _, app) = (Inr (status 406), app)"
| "upload_answer rq (Inr c, app) = (Inr (ok_body (Text (resourceUrl (rqBaseURL rq) c))), app)"

definition query_text :: "request \<Rightarrow> string" where
  "query_text rq = Join (map (\<lambda>(k, v). k @ ''='' @ v) (smRange (rqQuery rq))) ''&''"

definition getMissionUploadHandler :: "'db env \<Rightarrow> stamp \<Rightarrow> 'db handler" where
  "getMissionUploadHandler env s rq app =
     (let hash = ctx_Query rq ''hash''; fname = ctx_Query rq ''filename''
      in if hash = [] then (Inr (status_text 406 (''no hash'' @ query_text rq)), app)
         else if fname = [] then (Inr (status_text 406 ''no filename''), app)
         else upload_answer rq (uploadMultipart env s rq [] hash fname True app))"

definition getUploadHandler :: "'db env \<Rightarrow> stamp \<Rightarrow> 'db handler" where
  "getUploadHandler env s rq app =
     (let uid = ctx_Query rq ''uid''; fname = ctx_Query rq ''name''
      in if fname = [] then (Inr (status_text 406 ''no name''), app)
         else if ctx_Get rq ''Content-Type'' = ''multipart/form-data''
         then upload_answer rq (uploadMultipart env s rq uid [] fname False app)
         else upload_answer rq (uploadFile env s rq uid fname app))"

definition getMissionQueryHandler :: "'db env \<Rightarrow> stamp \<Rightarrow> 'db handler" where
  "getMissionQueryHandler env s rq app =
     (case users_get env (stNow s) (Username rq) app of
        (user, app1) \<Rightarrow>
          (let hash = ctx_Query rq ''hash''
           in if hash = [] then (Inr (status_text 406 ''no hash''), app1)
              else case ResourceQuery_One (evGorm env) (ResourceQuery_Hash hash (user_resources user)) (apDb app1) of
                     None \<Rightarrow> (Inr (status 404), app1)
                   | Some c \<Rightarrow> (Inr (ok_body (Text (resourceUrl (rqBaseURL rq) c))), app1)))"

text \<open>The file is looked up under the hash of the request, not of the resource found.\<close>

definition getContentGetHandler :: "'db env \<Rightarrow> decoders \<Rightarrow> stamp \<Rightarrow> 'db handler" where
  "getContentGetHandler env dec s rq app =
     (case users_get env (stNow s) (Username rq) app of
        (user, app1) \<Rightarrow>
          (let hash = ctx_Query rq ''hash''; uid = ctx_Query rq ''uid''
           in if hash = [] \<and> uid = [] then (Inr (status_text 406 ''no hash or uid''), app1)
              else case ResourceQuery_One (evGorm env) (ResourceQuery_UID uid (ResourceQuery_Hash hash (user_resources user))) (apDb app1) of
                     None \<Rightarrow> (Inr (status_text 404 ''not found''), app1)
                   | Some fi \<Rightarrow>
                       (case GetFile (blob_dir env) hash (rsScope fi) (apFiles app1) of
                          Inl err \<Rightarrow> (if err = ErrNotFound then Inr (status_text 404 ''not found'') else Inl err, app1)
                        | Inr dat \<Rightarrow>
                            (Inr \<lparr>hrStatus = 200,
                                hrHeaders = [(''Content-Type'', rsMIMEType fi), (''Last-Modified'', jdHttpDate dec (rsCreatedAt fi)),
                                  (''Content-Length'', Itoa (rsSize fi)), (''ETag'', rsHash fi)],
                                hrBody = Text dat\<rparr>, app1))))"

definition getMetadataGetHandler :: "'db env \<Rightarrow> stamp \<Rightarrow> 'db handler" where
  "getMetadataGetHandler env s rq app =
     (case users_get env (stNow s) (Username rq) app of
        (user, app1) \<Rightarrow>
          (let hash = ctx_Params rq ''hash''
           in if hash = [] then (Inr (status_text 406 ''no hash''), app1)
              else case ResourceQuery_One (evGorm env) (ResourceQuery_Hash hash (user_resources user)) (apDb app1) of
                     None \<Rightarrow> (Inr (status 404), app1)
                   | Some cn \<Rightarrow> (Inr (ok_body (Text (if ctx_Params rq ''name'' = ''tool'' then rsTool cn else []))), app1)))"

text \<open>The update goes to the mission with the key of the resource.\<close>

definition getMetadataPutHandler :: "'db env \<Rightarrow> stamp \<Rightarrow> 'db handler" where
  "getMetadataPutHandler env s rq app =
     (case users_get env (stNow s) (Username rq) app of
        (user, app1) \<Rightarrow>
          (let hash = ctx_Params rq ''hash''
           in if hash = [] then (Inr (status_text 406 ''no hash''), app1)
              else case ResourceQuery_One (evGorm env) (ResourceQuery_Hash hash (user_resources user)) (apDb app1) of
                     None \<Rightarrow> (Inr (status 404), app1)
                   | Some cn \<Rightarrow>
                       (Inr (ok_body NoBody), app1\<lparr>apDb := snd (MissionQuery_Update (evGorm env)
                          (MissionQuery_Id (rsID cn) NewMissionQuery) [(ctx_Params rq ''name'', VStr (rqBody rq))] (apDb app1))\<rparr>)))"

definition search_hit :: "Device \<Rightarrow> Resource \<Rightarrow> json" where
  "search_hit u f = jopt JResource (ToResourceDTO (Some
     (if rsScope f \<noteq> devScope u then f\<lparr>rsName := rsName f @ '' ['' @ rsScope f @ '']''\<rparr> else f)))"

definition getSearchHandler :: "'db env \<Rightarrow> stamp \<Rightarrow> 'db handler" where
  "getSearchHandler env s rq app =
     (case users_get env (stNow s) (Username rq) app of
        (user, app1) \<Rightarrow>
          (let res = filter (\<lambda>f. StringSet_Has (kw_set f) (ctx_Query rq ''keywords''))
                       (ResourceQuery_Get (evGorm env) (ResourceQuery_Tool (ctx_Query rq ''tool'') (user_resources user)) (apDb app1));
               answer = (\<lambda>l. Inr (ok_body (Json (JObject [(''resultCount'', JInt (int (length l))), (''results'', JList l)]))))
           in case user of
                None \<Rightarrow> (if res = [] then answer [] else Inl nil_deref, app1)
              | Some u \<Rightarrow> (answer (map (search_hit u) res), app1)))"

section \<open>Profiles\<close>

text \<open>
  \<open>profiles.go\<close>. The directory of the maps gives names with a flag for directories; \<open>uuid.NewSHA1\<close> and
  the ZIP writer are parameters too.
\<close>

record package_tools =
  ptReadDir :: "string \<Rightarrow> (string \<times> bool) list result"
  ptReadFile :: "string \<Rightarrow> string result"
  ptUuidSHA1 :: "string \<Rightarrow> string"
  ptZip :: "(string \<times> string) list \<Rightarrow> string result"

definition set_if :: "string \<Rightarrow> string \<Rightarrow> (string, string) smap \<Rightarrow> (string, string) smap" where
  "set_if k v m = (if v \<noteq> [] then smStore k v m else m)"

definition maps_Copy :: "(string, string) smap \<Rightarrow> (string, string) smap \<Rightarrow> (string, string) smap" where
  "maps_Copy dst src = fold (\<lambda>(k, v). smStore k v) (smRange src) dst"

definition profile_opts :: "bool \<Rightarrow> Profile option \<Rightarrow> (string, string) smap \<Rightarrow> (string, string) smap" where
  "profile_opts callsign p res =
     (case p of
        None \<Rightarrow> res
      | Some p \<Rightarrow>
          maps_Copy
            (if callsign then
               set_if ''locationUnitType'' (pfCotType p) (set_if ''atakRoleType'' (pfRole p)
                 (set_if ''locationTeam'' (pfTeam p) (set_if ''locationCallsign'' (pfCallsign p) res)))
             else res)
            (pfOptions p))"

definition profileOpts :: "bool \<Rightarrow> Profile option list \<Rightarrow> (string, string) smap" where
  "profileOpts callsign profiles = fold (profile_opts callsign) profiles []"

definition find_profile :: "'db gorm \<Rightarrow> string \<Rightarrow> string \<Rightarrow> 'db \<Rightarrow> Profile option" where
  "find_profile g login uid db = ProfileQuery_One g (ProfileQuery_UID uid (ProfileQuery_Login login NewProfileQuery)) db"

definition profile_options :: "'db gorm \<Rightarrow> string \<Rightarrow> string \<Rightarrow> bool \<Rightarrow> 'db \<Rightarrow> (string, string) smap" where
  "profile_options g username uid enrollment db =
     smStore ''deviceProfileEnableOnConnect'' ''true''
       (maps_Copy
          (profileOpts enrollment [find_profile g ''*'' ''*'' db, find_profile g username ''*'' db])
          (profileOpts True [find_profile g ''*'' uid db, find_profile g username uid db]))"

definition pref_file :: "(string, string) smap \<Rightarrow> FileContent" where
  "pref_file options = fold (\<lambda>(k, v). AddParam CIV_PREF k v) (smRange options) (NewPrefFile ''user-profile.pref'')"

definition map_files :: "package_tools \<Rightarrow> string \<Rightarrow> FileContent list" where
  "map_files pt dir =
     (case ptReadDir pt (path_Join [dir, ''maps'']) of
        Inl _ \<Rightarrow> []
      | Inr ps \<Rightarrow>
          List.map_filter (\<lambda>(name, isDir).
            if \<not> isDir \<and> HasSuffix name ''.xml''
            then (case NewFsFile (ptReadFile pt) (''maps/'' @ name) (path_Join [dir, ''maps'', name]) of Inl _ \<Rightarrow> None | Inr f \<Rightarrow> Some f)
            else None) ps)"

definition GetProfileFiles :: "'db env \<Rightarrow> package_tools \<Rightarrow> string \<Rightarrow> string \<Rightarrow> bool \<Rightarrow> 'db \<Rightarrow> FileContent list" where
  "GetProfileFiles env pt username uid enrollment db =
     (let options = profile_options (evGorm env) username uid enrollment db;
          res = (if length options > 0 then [pref_file options] else [])
      in if \<not> enrollment then res else res @ map_files pt (DataDir (evConfig env)))"

text \<open>The package of a profile, which two handlers make.\<close>

definition send_profile :: "package_tools \<Rightarrow> string \<Rightarrow> string \<Rightarrow> FileContent list \<Rightarrow> response result" where
  "send_profile pt seed name files =
     (case CreatePackage (ptZip pt) (AddFiles files (Param ''onReceiveDelete'' ''true'' (Param ''onReceiveImport'' ''true''
             (NewMissionPackage (ptUuidSHA1 pt seed) name)))) of
        Inl err \<Rightarrow> Inl err
      | Inr dat \<Rightarrow>
          Inr \<lparr>hrStatus = 200, hrHeaders = [(''Content-Type'', ''application/zip''),
              (''Content-Disposition'', ''attachment; filename=profile.zip'')], hrBody = Text dat\<rparr>)"

definition getProfileConnectionHandler :: "'db env \<Rightarrow> package_tools \<Rightarrow> 'db handler" where
  "getProfileConnectionHandler env pt rq app =
     (let uid = queryIgnoreCase (evToLower env) rq ''clientUid''
      in if \<not> checkUID env uid then (Inr (status 403), app)
         else let files = GetProfileFiles env pt (Username rq) uid False (apDb app)
              in (if length files = 0 then Inr (status 204) else send_profile pt uid ''Connection'' files, app))"

definition getProfileToolHandler :: "'db env \<Rightarrow> 'db handler" where
  "getProfileToolHandler env rq app =
     (if \<not> checkUID env (queryIgnoreCase (evToLower env) rq ''clientUid'') then (Inr (status 403), app) else (Inr (status 204), app))"

section \<open>Video feeds and events\<close>

definition user_feeds :: "Device \<Rightarrow> FeedQuery" where
  "user_feeds u = FeedQuery_ReadScope (devReadScope u) (FeedQuery_Scope (devScope u) NewFeedQuery)"

definition getVideoListHandler :: "'db env \<Rightarrow> (string \<Rightarrow> url_parts option) \<Rightarrow> stamp \<Rightarrow> 'db handler" where
  "getVideoListHandler env Parse s rq app =
     (case users_get env (stNow s) (Username rq) app of
        (None, app1) \<Rightarrow> (Inl nil_deref, app1)
      | (Some u, app1) \<Rightarrow>
          (Inr (ok_body (XmlFeeds (map (\<lambda>f. DTOOld Parse (Some f)) (FeedQuery_Get (evGorm env) (user_feeds u) (apDb app1))))), app1))"

definition feed_connection :: "Feed2 \<Rightarrow> json" where
  "feed_connection f = JObject [(''feeds'', JList [jopt JFeed2 (Feed2_DTO False (Some f))])]"

definition getVideo2ListHandler :: "'db env \<Rightarrow> stamp \<Rightarrow> 'db handler" where
  "getVideo2ListHandler env s rq app =
     (case users_get env (stNow s) (Username rq) app of
        (None, app1) \<Rightarrow> (Inl nil_deref, app1)
      | (Some u, app1) \<Rightarrow>
          (Inr (ok_body (Json (JObject [(''videoConnections'',
             JList (map feed_connection (FeedQuery_Get (evGorm env) (user_feeds u) (apDb app1))))]))), app1))"

text \<open>An error of \<open>Save\<close> is logged; a nil feed is dereferenced.\<close>

definition save_feed :: "'db env \<Rightarrow> string \<Rightarrow> string \<Rightarrow> FeedDTO option \<Rightarrow> 'db App \<Rightarrow> 'db App \<times> bool" where
  "save_feed env username scope f app =
     (case ToFeed2 f of
        None \<Rightarrow> (app, True)
      | Some f2 \<Rightarrow>
          (app\<lparr>apDb := snd (dbSave (Some (evGorm env)) (FeedRow (f2\<lparr>fdActive := True, fdUser := username, fdScope := scope\<rparr>)) (apDb app))\<rparr>, False))"

definition getVideoPostHandler :: "'db env \<Rightarrow> decoders \<Rightarrow> stamp \<Rightarrow> 'db handler" where
  "getVideoPostHandler env dec s rq app =
     (case users_get env (stNow s) (Username rq) app of
        (user, app1) \<Rightarrow>
          (case jdFeeds dec (rqBody rq) of
             Inl err \<Rightarrow> (Inl err, app1)
           | Inr feeds \<Rightarrow>
               (case go_for (save_feed env (Username rq) (Device_GetScope user)) feeds app1 of
                  (app2, True) \<Rightarrow> (Inl nil_deref, app2) | (app2, False) \<Rightarrow> (Inr (ok_body NoBody), app2))))"

text \<open>The event of an item or else of a mission point, whatever their scope.\<close>

definition getXmlHandler :: "'db env \<Rightarrow> decoders \<Rightarrow> stamp \<Rightarrow> 'db handler" where
  "getXmlHandler env dec s rq app =
     (let uid = ctx_Params rq ''uid''
      in if uid = [] then (Inr (status 400), app)
         else case (case Repo_Get (apItems app) uid of
                      Some i \<Rightarrow> cot_of (Some (itMsg i))
                    | None \<Rightarrow>
                        (case PointQuery_One (evGorm env) (stNow s) (PointQuery_UID uid NewPointQuery) (apDb app) of
                           None \<Rightarrow> None | Some di \<Rightarrow> fst (MissionPoint_GetEvent (jdEventData dec) (Some di)))) of
                None \<Rightarrow> (Inr (status 404), app)
              | Some evt \<Rightarrow> (Inr (ok_body (XmlEvent (CotToEvent (cdDecode (evCodec env)) (Some evt)))), app))"

section \<open>The local interface\<close>

text \<open>\<open>local_api.go\<close>: a message as JSON, also a route of the administration.\<close>

definition getCotPostHandler :: "decoders \<Rightarrow> 'db handler" where
  "getCotPostHandler dec rq app =
     (case jdCot dec (rqBody rq) of
        Inl err \<Rightarrow> (Inl err, app) | Inr c \<Rightarrow> (Inr (ok_body NoBody), NewCotMessage (Some c) app))"

end
