(* ===== verification/HttpAdmin.thy ===== *)
theory HttpAdmin
  imports HttpMissions HttpMarti "HOL-Library.List_Lexorder" "HOL-Library.Char_ord"
begin

text \<open>
  \<open>cmd/goatak_server/admin_api.go\<close>: the web interface of the administrators; every route but the
  login and \<open>/cot_xml\<close> is behind \<open>CookieAuth\<close>.
\<close>

section \<open>Login\<close>

definition token_for :: "jwt \<Rightarrow> HttpServer \<Rightarrow> time \<Rightarrow> string \<Rightarrow> string result" where
  "token_for j h now login = generateToken j now login (hsTokenKey h) (hsTokenMaxAge h)"

text \<open>The pause after a wrong password is left out.\<close>

definition getAdminLoginHandler :: "'db env \<Rightarrow> jwt \<Rightarrow> HttpServer \<Rightarrow> stamp \<Rightarrow> 'db handler" where
  "getAdminLoginHandler env j h s rq app =
     (let login = lookup (rqForm rq) ''login''
      in if login = [] then (Inr (ok_body (Page ''templates/login'' [])), app)
         else case users_get env (stNow s) login app of
                (user, app1) \<Rightarrow>
                  (if CanLogIn user \<and> CheckPassword (evCompare env) user (lookup (rqForm rq) ''password'')
                   then (case token_for j h (stNow s) login of
                           Inl err \<Rightarrow> (Inr (status_text 500 (err_text err)), app1)
                         | Inr token \<Rightarrow>
                             (Inr \<lparr>hrStatus = 302, hrHeaders = [(''Set-Cookie'', ''token='' @ token), (''Location'', ''/'')],
                                hrBody = NoBody\<rparr>, app1))
                   else (Inr (ok_body (Page ''templates/login''
                          [(''login'', login), (''error'', ''bad login or password'')])), app1)))"

definition getAdminTokenHandler :: "'db env \<Rightarrow> decoders \<Rightarrow> jwt \<Rightarrow> HttpServer \<Rightarrow> stamp \<Rightarrow> 'db handler" where
  "getAdminTokenHandler env dec j h s rq app =
     (case jdForm dec (rqBody rq) of
        Inl err \<Rightarrow> (Inl err, app)
      | Inr m \<Rightarrow>
          (let login = lookup m ''login''
           in if login = [] then (Inr (status 401), app)
              else case users_get env (stNow s) login app of
                     (user, app1) \<Rightarrow>
                       (if user \<noteq> None \<and> CanLogIn user \<and> CheckPassword (evCompare env) user (lookup m ''password'')
                        then (case token_for j h (stNow s) login of
                                Inl err \<Rightarrow> (Inl err, app1)
                              | Inr token \<Rightarrow> (Inr (ok_body (Json (JObject [(''token'', JString token)]))), app1))
                        else (Inr (status 401), app1))))"

definition logoutHandler :: "'db handler" where
  "logoutHandler rq app =
     (Inr \<lparr>hrStatus = 302, hrHeaders = [(''Set-Cookie'', ''token=''), (''Location'', ''/'')], hrBody = NoBody\<rparr>, app)"

section \<open>Pages\<close>

definition page :: "string \<Rightarrow> string \<Rightarrow> string \<Rightarrow> 'db handler" where
  "page template name js rq app =
     (Inr (ok_body (Page template ((''theme'', ''auto'') # (if name \<noteq> [] then [(''page'', '' '' @ name)] else []) @ [(''js'', js)]))), app)"

definition getIndexHandler :: "'db handler" where "getIndexHandler = page ''templates/index'' ''dash'' ''main.js''"
definition getUnitsHandler :: "'db handler" where "getUnitsHandler = page ''templates/units'' ''units'' ''units.js''"
definition getMapHandler :: "'db handler" where "getMapHandler = page ''templates/map'' [] ''map.js''"
definition getMissionsPageHandler :: "'db handler" where "getMissionsPageHandler = page ''templates/missions'' ''missions'' ''missions.js''"
definition getFilesPage :: "'db handler" where "getFilesPage = page ''templates/files'' ''files'' ''files.js''"
definition getPointsPage :: "'db handler" where "getPointsPage = page ''templates/points'' ''points'' ''points.js''"
definition getDevicesPage :: "'db handler" where "getDevicesPage = page ''templates/devices'' ''devices'' ''devices.js''"
definition getProfilesPage :: "'db handler" where "getProfilesPage = page ''templates/profiles'' ''profiles'' ''profiles.js''"
definition getFeedsPage :: "'db handler" where "getFeedsPage = page ''templates/feeds'' ''feeds'' ''feeds.js''"

section \<open>The state of the server\<close>

text \<open>The answer is made when the route is; an error of the layers is logged.\<close>

definition getConfigHandler :: "'db env \<Rightarrow> (string \<Rightarrow> LayerDescription list result) \<Rightarrow> string \<Rightarrow> 'db handler" where
  "getConfigHandler env unmarshal version rq app =
     (let k = evConfig env
      in (Inr (ok_body (Json (JObject [(''lat'', JFloat (kFloat64 k ''me.lat'')), (''lon'', JFloat (kFloat64 k ''me.lon'')),
           (''zoom'', JInt (sint (word_of_int (kInt k ''me.zoom'') :: 8 word))), (''version'', JString version),
           (''layers'', case Layers k unmarshal of Inl _ \<Rightarrow> JNull | Inr l \<Rightarrow> JLayers l)]))), app))"

fun map_results :: "('a \<Rightarrow> 'b result) \<Rightarrow> 'a list \<Rightarrow> 'b list result" where
  "map_results f [] = Inr []"
| "map_results f (x # xs) =
     (case f x of Inl err \<Rightarrow> Inl err | Inr y \<Rightarrow> (case map_results f xs of Inl err \<Rightarrow> Inl err | Inr ys \<Rightarrow> Inr (y # ys)))"

definition getUnits :: "(string \<Rightarrow> string) \<Rightarrow> 'db App \<Rightarrow> WebUnit list result" where
  "getUnits ToUpper app = map_results (ToWeb ToUpper) (map snd (smRange (rpItems (apItems app))))"

definition getApiUnitsHandler :: "(string \<Rightarrow> string) \<Rightarrow> 'db handler" where
  "getApiUnitsHandler ToUpper rq app =
     (case getUnits ToUpper app of Inl err \<Rightarrow> Inl err | Inr us \<Rightarrow> Inr (ok_body (Json (JList (map JUnit us)))), app)"

definition getApiUnitTrackHandler :: "'db handler" where
  "getApiUnitTrackHandler rq app =
     (case Repo_Get (apItems app) (ctx_Params rq ''uid'') of
        None \<Rightarrow> (Inr (status 404), app) | Some i \<Rightarrow> (Inr (ok_body (Json (JTrack (itTrack i)))), app))"

definition deleteItemHandler :: "(string \<Rightarrow> string) \<Rightarrow> 'db handler" where
  "deleteItemHandler ToUpper rq app =
     (let app1 = app\<lparr>apItems := Repo_Remove (ctx_Params rq ''uid'') (apItems app)\<rparr>
      in (case getUnits ToUpper app1 of
            Inl err \<Rightarrow> Inl err
          | Inr us \<Rightarrow> Inr (ok_body (Json (JObject [(''units'', JList (map JUnit us)), (''messages'', JChats (apMessages app1))]))), app1))"

fun cl_GetLastSeen :: "client \<Rightarrow> time option" where
  "cl_GetLastSeen (Conn h) = Some (chLastActivity h)" | "cl_GetLastSeen (Ws w) = None"

definition connection_of :: "client \<Rightarrow> Connection" where
  "connection_of h = \<lparr>cnAddr = cl_GetName h, cnUser = Device_GetLogin (cl_GetDevice h), cnVer = cl_GetVersion h,
     cnScope = Device_GetScope (cl_GetDevice h), cnUids = cl_GetUids h, cnLastSeen = cl_GetLastSeen h\<rparr>"

definition getApiConnHandler :: "'db handler" where
  "getApiConnHandler rq app =
     (Inr (ok_body (Json (JList (map JConnection
        (sort_key cnAddr (map (\<lambda>(_, h). connection_of h) (smRange (apHandlers app)))))))), app)"

text \<open>The scope is the client's choice; no route before this handler asks who the client is.\<close>

definition getCotXMLPostHandler :: "'db env \<Rightarrow> 'db handler" where
  "getCotXMLPostHandler env rq app =
     (case cdEventUnmarshal (evCodec env) (rqBody rq) of
        Inl err \<Rightarrow> (Inl err, app)
      | Inr ev \<Rightarrow>
          (case EventToProto (cdDecode (evCodec env)) (cdParseFloat (evCodec env)) (Some ev) of
             (_, Some err) \<Rightarrow> (Inl (Error err), app)
           | (c, None) \<Rightarrow>
               (Inr (ok_body NoBody), NewCotMessage (map_option (\<lambda>m. m\<lparr>cmScope := cmp_Or (ctx_Query rq ''scope'') ''test''\<rparr>) c) app)))"

section \<open>Missions and points\<close>

definition getApiAllMissionHandler :: "'db env \<Rightarrow> 'db handler" where
  "getApiAllMissionHandler env rq app =
     (Inr (ok_body (Json (JList (map (\<lambda>m. jopt JMission (ToMissionDTOAdm (Some m)))
        (MissionQuery_Get (evGorm env) (MissionQuery_Full NewMissionQuery) (apDb app)))))), app)"

text \<open>\<open>uint(id)\<close> of an \<open>int\<close>.\<close>

definition to_uint :: "int \<Rightarrow> nat" where "to_uint i = unat (word_of_int i :: 64 word)"

definition getApiAllMissionChangesHandler :: "'db env \<Rightarrow> stamp \<Rightarrow> 'db handler" where
  "getApiAllMissionChangesHandler env s rq app =
     (case ctx_ParamsInt rq ''id'' of
        Inl err \<Rightarrow> (Inl err, app)
      | Inr i \<Rightarrow>
          (case MissionQuery_One (evGorm env) (MissionQuery_Id (to_uint i) NewMissionQuery) (apDb app) of
             None \<Rightarrow> (Inl nil_deref, app)
           | Some m \<Rightarrow>
               (Inr (ok_body (Json (JList (map JChange (MissionDTOList Change_DTO (msName m)
                  (GetChanges (evGorm env) (msID m) (stNow s - hour * 24 * 365) False (apDb app))))))), app)))"

definition getApiPointsHandler :: "'db env \<Rightarrow> stamp \<Rightarrow> 'db handler" where
  "getApiPointsHandler env s rq app =
     (Inr (ok_body (Json (JList (map JPointRow
        (PointQuery_Get (evGorm env) (stNow s) (PointQuery_Order ''created_at DESC'' NewPointQuery) (apDb app)))))), app)"

section \<open>Files\<close>

definition getApiFilesHandler :: "'db env \<Rightarrow> 'db handler" where
  "getApiFilesHandler env rq app =
     (Inr (ok_body (Json (JList (map JResourceRow
        (ResourceQuery_Get (evGorm env) (ResourceQuery_Order ''scope, created_at DESC'' NewResourceQuery) (apDb app)))))), app)"

text \<open>The common beginning of the handlers of one file.\<close>

definition with_file ::
    "'db env \<Rightarrow> request \<Rightarrow> bool \<Rightarrow> (Resource \<Rightarrow> 'db App \<Rightarrow> response result \<times> 'db App) \<Rightarrow> 'db App \<Rightarrow> response result \<times> 'db App" where
  "with_file env rq bad f app =
     (case ctx_ParamsInt rq ''id'' of
        Inl err \<Rightarrow> (Inl err, app)
      | Inr i \<Rightarrow>
          (if i = 0 \<or> bad then (Inr (status 400), app)
           else case ResourceQuery_One (evGorm env) (ResourceQuery_Id (to_uint i) NewResourceQuery) (apDb app) of
                  None \<Rightarrow> (Inr (status 404), app)
                | Some pi \<Rightarrow> f pi app))"

definition file_headers :: "decoders \<Rightarrow> Resource \<Rightarrow> (string \<times> string) list" where
  "file_headers dec r =
     [(''Etag'', rsHash r), (''Content-Type'', rsMIMEType r), (''Last-Modified'', jdHttpDate dec (rsCreatedAt r)),
      (''Content-Length'', Itoa (rsSize r))] @
     (if \<not> HasPrefix (rsMIMEType r) ''image/''
      then [(''Content-Disposition'', ''attachment; filename='' @ rsFileName r @
             (if rsMIMEType r = zip_mime \<and> \<not> HasSuffix (rsFileName r) ''.zip'' then ''.zip'' else []))]
      else [])"

definition getApiFileHandler :: "'db env \<Rightarrow> decoders \<Rightarrow> 'db handler" where
  "getApiFileHandler env dec rq = with_file env rq False (\<lambda>r app.
     (case GetFile (blob_dir env) (rsHash r) (rsScope r) (apFiles app) of
        Inl err \<Rightarrow> Inl err
      | Inr dat \<Rightarrow> Inr \<lparr>hrStatus = 200, hrHeaders = file_headers dec r, hrBody = Text dat\<rparr>, app))"

text \<open>\<open>filepath.Ext\<close> and \<open>filepath.Base\<close>.\<close>

definition path_Base :: "string \<Rightarrow> string" where
  "path_Base path =
     (if path = [] then ''.''
      else let p = rev (dropWhile (\<lambda>c. c = CHR ''/'') (rev path))
           in if p = [] then ''/'' else last (Split p CHR ''/''))"

definition path_Ext :: "string \<Rightarrow> string" where
  "path_Ext path =
     (let l = last (Split path CHR ''/'')
      in if CHR ''.'' \<in> set l then CHR ''.'' # last (Split l CHR ''.'') else [])"

definition getMime :: "(string \<Rightarrow> string) \<Rightarrow> string \<Rightarrow> string" where
  "getMime lower ext =
     (let e = lower ext
      in if e = ''.jpg'' \<or> e = ''.jpeg'' then ''image/jpeg''
         else if e = ''.gif'' then ''image/gif''
         else if e = ''.kml'' then ''application/vnd.google-earth.kml+xml''
         else if e = ''.kmz'' then ''application/vnd.google-earth.kmz''
         else if e = ''.gpx'' then ''application/gpx+xml''
         else if e = ''.xml'' \<or> e = ''.cot'' then ''application/xml''
         else if e = ''.txt'' then ''text/txt''
         else if e = ''.json'' then ''application/json; charset=utf-8''
         else ''application/octet-stream'')"

text \<open>\<open>modified\<close>: the time of an entry of an archive. An entry that can not be read is left out here.\<close>

definition getApiZipFileHandler :: "'db env \<Rightarrow> decoders \<Rightarrow> (string \<Rightarrow> time) \<Rightarrow> 'db handler" where
  "getApiZipFileHandler env dec modified rq =
     (let fname = ctx_Query rq ''name''
      in with_file env rq (fname = []) (\<lambda>r app.
           (if rsMIMEType r \<noteq> zip_mime then Inr (status 400)
            else case GetZipFile (evUnzip env) (blob_dir env) (rsHash r) (rsScope r) fname (apFiles app) of
                   Inl err \<Rightarrow> Inl err
                 | Inr (n, dat) \<Rightarrow>
                     Inr \<lparr>hrStatus = 200,
                       hrHeaders = [(''Content-Type'', getMime (evToLower env) (path_Ext fname)), (''Last-Modified'', jdHttpDate dec (modified n)),
                         (''Content-Length'', Itoa (int (length dat))), (''Content-Disposition'', ''inline; filename='' @ path_Base fname)],
                       hrBody = Text dat\<rparr>, app)))"

text \<open>The row goes first; the errors of both deletions are ignored.\<close>

definition getApiFileDeleteHandler :: "'db env \<Rightarrow> 'db handler" where
  "getApiFileDeleteHandler env rq = with_file env rq False (\<lambda>r app.
     (let db = snd (ResourceQuery_Delete (evGorm env) (ResourceQuery_Id (case ctx_ParamsInt rq ''id'' of Inl _ \<Rightarrow> 0 | Inr i \<Rightarrow> to_uint i)
                  NewResourceQuery) (apDb app));
          fs = snd (DeleteFile (blob_dir env) (rsHash r) (rsScope r) (apFiles app))
      in (Inr (redirect ''/files''), app\<lparr>apDb := db, apFiles := fs\<rparr>)))"

section \<open>Devices and certificates\<close>

definition getApiDevicesHandler :: "'db env \<Rightarrow> 'db handler" where
  "getApiDevicesHandler env rq app =
     (Inr (ok_body (Json (JList (map (\<lambda>d. jopt JDevice (Device_DTO (Some d)))
        (DeviceQuery_Get (evGorm env) (DeviceQuery_Full NewDeviceQuery) (apDb app)))))), app)"

text \<open>The answer to a row that was written, or the error of writing it.\<close>

definition written :: "(row \<Rightarrow> json) \<Rightarrow> (row \<times> gofail option) \<times> 'db \<Rightarrow> 'db App \<Rightarrow> response result \<times> 'db App" where
  "written dto r app =
     (case r of
        ((row, Some (Panic msg)), db) \<Rightarrow> (Inl (Panic msg), app\<lparr>apDb := db\<rparr>)
      | ((row, Some err), db) \<Rightarrow> (Inr (SendError (err_text err)), app\<lparr>apDb := db\<rparr>)
      | ((row, None), db) \<Rightarrow> (Inr (ok_body (Json (dto row))), app\<lparr>apDb := db\<rparr>))"

definition device_json :: "row \<Rightarrow> json" where "device_json r = jopt JDevice (Device_DTO (as_device r))"

definition getApiDevicePostHandler :: "'db env \<Rightarrow> decoders \<Rightarrow> 'db handler" where
  "getApiDevicePostHandler env dec rq app =
     (case jdDevicePost dec (rqBody rq) of
        Inl err \<Rightarrow> (Inl err, app)
      | Inr None \<Rightarrow> (Inl nil_deref, app)
      | Inr (Some m) \<Rightarrow>
          (if dpLogin m = [] then (Inr (SendError ''empty login''), app)
           else if dpPassword m = [] then (Inr (SendError ''empty password''), app)
           else if dpScope m = [] then (Inr (SendError ''empty scope''), app)
           else case SetPassword (evGenerate env) (dpPassword m)
                       (new_Device\<lparr>devLogin := dpLogin m, devAdmin := dpAdmin m, devDisabled := dpDisabled m,
                          devScope := dpScope m, devReadScope := dpReadScope m\<rparr>) of
                  Inl err \<Rightarrow> (Inl err, app)
                | Inr d \<Rightarrow> written device_json (dbCreate (Some (evGorm env)) (DeviceRow d) (apDb app)) app))"

text \<open>An error of \<open>Save\<close> is ignored; the scope is not checked to be set.\<close>

definition getApiDevicePutHandler :: "'db env \<Rightarrow> decoders \<Rightarrow> 'db handler" where
  "getApiDevicePutHandler env dec rq app =
     (case DeviceQuery_One (evGorm env) (DeviceQuery_Login (ctx_Params rq ''id'') NewDeviceQuery) (apDb app) of
        None \<Rightarrow> (Inr (status 404), app)
      | Some d \<Rightarrow>
          (case jdDevicePut dec (rqBody rq) of
             Inl err \<Rightarrow> (Inl err, app)
           | Inr None \<Rightarrow> (Inl nil_deref, app)
           | Inr (Some m) \<Rightarrow>
               (case (if dpPassword m \<noteq> [] then SetPassword (evGenerate env) (dpPassword m) d else Inr d) of
                  Inl err \<Rightarrow> (Inl err, app)
                | Inr d1 \<Rightarrow>
                    (case dbSave (Some (evGorm env))
                            (DeviceRow (d1\<lparr>devScope := dpScope m, devReadScope := dpReadScope m, devDisabled := dpDisabled m\<rparr>)) (apDb app) of
                       ((r, _), db) \<Rightarrow> (Inr (ok_body (Json (device_json r))), app\<lparr>apDb := db\<rparr>)))))"

definition getApiCertsHandler :: "'db env \<Rightarrow> 'db handler" where
  "getApiCertsHandler env rq app =
     (Inr (ok_body (Json (JList (map (\<lambda>c. jopt JCert (Certificate_DTO (Some c))) (CertQuery_Get (evGorm env) NewCertQuery (apDb app)))))), app)"

section \<open>Profiles\<close>

definition profile_json :: "row \<Rightarrow> json" where "profile_json r = jopt JProfile (Profile_DTO (as_profile r))"

definition getApiProfilesHandler :: "'db env \<Rightarrow> 'db handler" where
  "getApiProfilesHandler env rq app =
     (Inr (ok_body (Json (JList (map (\<lambda>p. jopt JProfile (Profile_DTO (Some p)))
        (ProfileQuery_Get (evGorm env) NewProfileQuery (apDb app)))))), app)"

definition getApiProfilePostHandler :: "'db env \<Rightarrow> decoders \<Rightarrow> 'db handler" where
  "getApiProfilePostHandler env dec rq app =
     (case jdProfilePost dec (rqBody rq) of
        Inl err \<Rightarrow> (Inl err, app)
      | Inr None \<Rightarrow> (Inl nil_deref, app)
      | Inr (Some m) \<Rightarrow>
          written profile_json
            (dbCreate (Some (evGorm env)) (ProfileRow (new_Profile\<lparr>pfLogin := cmp_Or (ppLogin m) ''*'', pfUID := cmp_Or (ppUID m) ''*'',
                pfCallsign := ppCallsign m, pfTeam := ppTeam m, pfRole := ppRole m, pfCotType := ppCotType m, pfOptions := ppOptions m\<rparr>))
               (apDb app)) app)"

definition getApiProfilePutHandler :: "'db env \<Rightarrow> decoders \<Rightarrow> 'db handler" where
  "getApiProfilePutHandler env dec rq app =
     (case find_profile (evGorm env) (ctx_Params rq ''login'') (ctx_Params rq ''uid'') (apDb app) of
        None \<Rightarrow> (Inr (status 404), app)
      | Some p \<Rightarrow>
          (case jdProfilePut dec (rqBody rq) of
             Inl err \<Rightarrow> (Inl err, app)
           | Inr None \<Rightarrow> (Inl nil_deref, app)
           | Inr (Some m) \<Rightarrow>
               written profile_json
                 (dbForceSave (Some (evGorm env)) (ProfileRow (p\<lparr>pfCallsign := ppCallsign m, pfTeam := ppTeam m, pfRole := ppRole m,
                     pfCotType := ppCotType m, pfOptions := ppOptions m\<rparr>)) (apDb app)) app))"

definition status_ok :: json where "status_ok = JObject [(''status'', JString ''ok'')]"

text \<open>The answer to a deletion.\<close>

definition deleted :: "gofail option \<times> 'db \<Rightarrow> 'db App \<Rightarrow> response result \<times> 'db App" where
  "deleted r app = (case r of (err, db) \<Rightarrow>
     (case err of None \<Rightarrow> Inr (ok_body (Json status_ok)) | Some (Panic msg) \<Rightarrow> Inl (Panic msg) | Some e \<Rightarrow> Inr (SendError (err_text e)),
      app\<lparr>apDb := db\<rparr>))"

definition getApiProfileDeleteHandler :: "'db env \<Rightarrow> 'db handler" where
  "getApiProfileDeleteHandler env rq app =
     deleted (ProfileQuery_Delete (evGorm env)
        (ProfileQuery_UID (ctx_Params rq ''uid'') (ProfileQuery_Login (ctx_Params rq ''login'') NewProfileQuery)) (apDb app)) app"

section \<open>Video feeds\<close>

definition feed_json :: "row \<Rightarrow> json" where "feed_json r = jopt JFeed2 (Feed2_DTO True (as_feed r))"

definition getApiFeedsHandler :: "'db env \<Rightarrow> 'db handler" where
  "getApiFeedsHandler env rq app =
     (Inr (ok_body (Json (JList (map (\<lambda>f. jopt JFeed2 (Feed2_DTO True (Some f)))
        (FeedQuery_Get (evGorm env) (FeedQuery_All True NewFeedQuery) (apDb app)))))), app)"

definition getApiFeedPostHandler :: "'db env \<Rightarrow> decoders \<Rightarrow> stamp \<Rightarrow> 'db handler" where
  "getApiFeedPostHandler env dec s rq app =
     (case jdFeedPost dec (rqBody rq) of
        Inl err \<Rightarrow> (Inl err, app)
      | Inr None \<Rightarrow> (Inl nil_deref, app)
      | Inr (Some m) \<Rightarrow>
          written feed_json
            (dbCreate (Some (evGorm env)) (FeedRow (new_Feed2\<lparr>fdUID := cmp_Or (fpUID m) (stUuid s), fdActive := fpActive m,
                fdAlias := fpAlias m, fdURL := fpURL m, fdLatitude := fpLatitude m, fdLongitude := fpLongitude m, fdFov := fpFov m,
                fdHeading := fpHeading m, fdRange := fpRange m, fdUser := Username rq, fdScope := fpScope m\<rparr>)) (apDb app)) app)"

definition getApiFeedPutHandler :: "'db env \<Rightarrow> decoders \<Rightarrow> 'db handler" where
  "getApiFeedPutHandler env dec rq app =
     (case FeedQuery_One (evGorm env) (FeedQuery_All True (FeedQuery_UID (ctx_Params rq ''uid'') NewFeedQuery)) (apDb app) of
        None \<Rightarrow> (Inr (status 404), app)
      | Some f \<Rightarrow>
          (case jdFeedPut dec (rqBody rq) of
             Inl err \<Rightarrow> (Inl err, app)
           | Inr None \<Rightarrow> (Inl nil_deref, app)
           | Inr (Some m) \<Rightarrow>
               written feed_json
                 (dbSave (Some (evGorm env)) (FeedRow (f\<lparr>fdActive := fpActive m, fdAlias := fpAlias m, fdURL := fpURL m,
                     fdLatitude := fpLatitude m, fdLongitude := fpLongitude m, fdFov := fpFov m, fdHeading := fpHeading m,
                     fdRange := fpRange m, fdScope := fpScope m\<rparr>)) (apDb app)) app))"

definition getApiFeedDeleteHandler :: "'db env \<Rightarrow> 'db handler" where
  "getApiFeedDeleteHandler env rq app =
     deleted (FeedQuery_Delete (evGorm env) (FeedQuery_UID (ctx_Params rq ''uid'') NewFeedQuery) (apDb app)) app"

definition getPluginsManifestHandler :: "'db handler" where
  "getPluginsManifestHandler rq app =
     (Inr (ok_body (Json (JObject [(''plugins'', JList []), (''iconSets'', JList [])]))), app)"

end
