(* ===== verification/TlsUtil.thy ===== *)
theory TlsUtil
  imports GoRuntime
begin

text \<open>
  \<open>pkg/tlsutil/util.go\<close>: certificates as text. The encoder of \<open>encoding/pem\<close> is written out over the lines
  of base64; decoding, X.509, RSA and PKCS 12 are parameters, the fields of \<open>crypto\<close>, with the laws
  that describe them in the locale \<open>pem_library\<close>.
\<close>

section \<open>Certificates\<close>

record Name =
  nmCommonName :: string
  nmCountry :: "string list"
  nmProvince :: "string list"
  nmLocality :: "string list"
  nmOrganization :: "string list"
  nmOrganizationalUnit :: "string list"

record CertificateRequest =
  csSignature :: string
  csSignatureAlgorithm :: nat
  csPublicKeyAlgorithm :: nat
  csPublicKey :: string
  csSubject :: Name

datatype KeyUsage = DigitalSignature | OtherUsage nat
datatype ExtKeyUsage = ClientAuth | OtherExtUsage nat

text \<open>\<open>xcSerial\<close>: the bytes of the serial number.\<close>

record X509 =
  xcRaw :: string
  xcSignature :: string
  xcSignatureAlgorithm :: nat
  xcPublicKeyAlgorithm :: nat
  xcPublicKey :: string
  xcSerial :: string
  xcIssuer :: Name
  xcSubject :: Name
  xcNotBefore :: time
  xcNotAfter :: time
  xcKeyUsage :: KeyUsage
  xcExtKeyUsage :: "ExtKeyUsage list"
  xcEmailAddresses :: "string list"

record crypto =
  crPemDecode :: "string \<Rightarrow> ((string \<times> string) \<times> string) option"
  crBase64 :: "string \<Rightarrow> string list"
  crParseCert :: "string \<Rightarrow> X509 result"
  crParseCsr :: "string \<Rightarrow> CertificateRequest result"
  crCreateCert :: "X509 \<Rightarrow> X509 \<Rightarrow> string \<Rightarrow> string \<Rightarrow> string result"
  crCreateCsr :: "Name \<Rightarrow> string \<Rightarrow> string"
  crTrustStore :: "(X509 \<times> string) list \<Rightarrow> string \<Rightarrow> string result"

section \<open>PEM\<close>

abbreviation newline :: string where "newline \<equiv> [CHR 0x0A]"

definition pem_begin :: "string \<Rightarrow> string" where "pem_begin typ = ''-----BEGIN '' @ typ @ ''-----''"
definition pem_end :: "string \<Rightarrow> string" where "pem_end typ = ''-----END '' @ typ @ ''-----''"

definition EncodeToMemory :: "crypto \<Rightarrow> string \<Rightarrow> string \<Rightarrow> string" where
  "EncodeToMemory c typ b =
     pem_begin typ @ newline @ concat (map (\<lambda>l. l @ newline) (crBase64 c b)) @ pem_end typ @ newline"

definition ParseBlock :: "crypto \<Rightarrow> string \<Rightarrow> string \<Rightarrow> (string \<times> string) option" where
  "ParseBlock c typ b = map_option fst (crPemDecode c (pem_begin typ @ newline @ b @ newline @ pem_end typ))"

definition ParseCert :: "crypto \<Rightarrow> string \<Rightarrow> X509 result" where
  "ParseCert c s = (case ParseBlock c ''CERTIFICATE'' s of
     Some (_, b) \<Rightarrow> crParseCert c b | None \<Rightarrow> Inl (Error ''no CERTIFICATE block''))"

definition ParseCsr :: "crypto \<Rightarrow> string \<Rightarrow> CertificateRequest result" where
  "ParseCsr c b = (case ParseBlock c ''REQUEST'' b of
     Some (_, d) \<Rightarrow> crParseCsr c d | None \<Rightarrow> Inl (Error ''no REQUEST block''))"

definition MakeP12TrustStoreNamed :: "crypto \<Rightarrow> string \<Rightarrow> (string, X509) smap \<Rightarrow> string result" where
  "MakeP12TrustStoreNamed c passwd certs = crTrustStore c (map (\<lambda>(k, v). (v, k)) (smRange certs)) passwd"

definition MakeP12TrustStore :: "crypto \<Rightarrow> string \<Rightarrow> X509 list \<Rightarrow> string result" where
  "MakeP12TrustStore c passwd certs = crTrustStore c (map (\<lambda>v. (v, [])) certs) passwd"

definition CertToStr :: "crypto \<Rightarrow> X509 \<Rightarrow> bool \<Rightarrow> string" where
  "CertToStr c cert withHeader =
     (let s = EncodeToMemory c ''CERTIFICATE'' (xcRaw cert)
      in if withHeader then s
         else concat (map (\<lambda>l. l @ newline) (filter (\<lambda>l. \<not> (l = [] \<or> HasPrefix l ''----'')) (Split s CHR 0x0A))))"

definition MakeCertPool :: "X509 option list \<Rightarrow> X509 list" where "MakeCertPool certs = List.map_filter id certs"

text \<open>The loop ends when there is no block left; that it ends is a property of the decoder.\<close>

partial_function (option) DecodeAllByType :: "crypto \<Rightarrow> string \<Rightarrow> string \<Rightarrow> X509 list \<Rightarrow> (X509 list \<times> gofail option) option" where
  "DecodeAllByType c typ bytes certs =
     (case crPemDecode c bytes of
        None \<Rightarrow> Some (certs, None)
      | Some ((t, b), rest) \<Rightarrow>
          (if t = typ then
             (case crParseCert c b of
                Inl err \<Rightarrow> Some (certs, Some err) | Inr cert \<Rightarrow> DecodeAllByType c typ rest (certs @ [cert]))
           else DecodeAllByType c typ rest certs))"

definition DecodeAllCerts :: "crypto \<Rightarrow> string \<Rightarrow> (X509 list \<times> gofail option) option" where
  "DecodeAllCerts c bytes = DecodeAllByType c ''CERTIFICATE'' bytes []"

section \<open>What the libraries promise\<close>

text \<open>
  A decoder takes the first block off the text, ignores the line breaks within it, and leaves less
  text; the lines of base64 are not empty and hold neither a dash nor a line break; a parsed
  certificate keeps its bytes.
\<close>

definition block_type :: "string \<Rightarrow> bool" where
  "block_type typ \<longleftrightarrow> CHR ''-'' \<notin> set typ \<and> CHR 0x0A \<notin> set typ"

definition pem_laws :: "crypto \<Rightarrow> bool" where
  "pem_laws c \<longleftrightarrow>
     (\<forall>b. \<forall>l \<in> set (crBase64 c b). l \<noteq> [] \<and> CHR 0x0A \<notin> set l \<and> CHR ''-'' \<notin> set l) \<and>
     (\<forall>typ b rest. block_type typ \<longrightarrow> crPemDecode c (EncodeToMemory c typ b @ rest) = Some ((typ, b), rest)) \<and>
     (\<forall>typ b body. block_type typ \<and> filter (\<lambda>x. x \<noteq> CHR 0x0A) body = concat (crBase64 c b) \<longrightarrow>
        ParseBlock c typ body = Some (typ, b)) \<and>
     crPemDecode c [] = None \<and>
     (\<forall>s blk rest. crPemDecode c s = Some (blk, rest) \<longrightarrow> length rest < length s) \<and>
     (\<forall>b cert. crParseCert c b = Inr cert \<longrightarrow> xcRaw cert = b)"

lemma pem_lawsD:
  assumes "pem_laws c"
  shows "l \<in> set (crBase64 c b) \<Longrightarrow> l \<noteq> [] \<and> CHR 0x0A \<notin> set l \<and> CHR ''-'' \<notin> set l"
    "block_type typ \<Longrightarrow> crPemDecode c (EncodeToMemory c typ b @ rest) = Some ((typ, b), rest)"
    "block_type typ \<Longrightarrow> filter (\<lambda>x. x \<noteq> CHR 0x0A) body = concat (crBase64 c b) \<Longrightarrow> ParseBlock c typ body = Some (typ, b)"
    "crPemDecode c [] = None"
    "crPemDecode c s = Some (blk, rest') \<Longrightarrow> length rest' < length s"
    "crParseCert c d = Inr cert \<Longrightarrow> xcRaw cert = d"
  using assms unfolding pem_laws_def by blast+

section \<open>Texts of certificates\<close>

definition text_lines :: "string list \<Rightarrow> string" where "text_lines ls = concat (map (\<lambda>l. l @ newline) ls)"

lemma Split_lines:
  "(\<And>l. l \<in> set ls \<Longrightarrow> CHR 0x0A \<notin> set l) \<Longrightarrow> Split (text_lines ls @ r) CHR 0x0A = ls @ Split r CHR 0x0A"
proof (induction ls)
  case (Cons l ls)
  have "Split (l @ CHR 0x0A # s) CHR 0x0A = l # Split s CHR 0x0A" for s
    using Cons.prems [of l] by (induction l) auto
  with Cons show ?case by (simp add: text_lines_def)
qed (simp add: text_lines_def)

lemma filter_lines:
  "(\<And>l. l \<in> set ls \<Longrightarrow> CHR 0x0A \<notin> set l) \<Longrightarrow> filter (\<lambda>x. x \<noteq> CHR 0x0A) (text_lines ls) = concat ls"
  by (induction ls) (auto simp: text_lines_def filter_id_conv)

text \<open>Without headers the text is the base64 of the certificate, line by line.\<close>

lemma CertToStr_lines:
  assumes "pem_laws c"
  shows "CertToStr c cert False = text_lines (crBase64 c (xcRaw cert))"
proof -
  let ?ls = "crBase64 c (xcRaw cert)"
  have ls: "l \<noteq> []" "CHR 0x0A \<notin> set l" "CHR ''-'' \<notin> set l" if "l \<in> set ?ls" for l
    using pem_lawsD(1) [OF assms that] by auto
  have nodash: "\<not> HasPrefix l ''----''" if "l \<in> set ?ls" for l
    using ls(3) [OF that] by (cases l) (auto simp: HasPrefix_def)
  have "EncodeToMemory c ''CERTIFICATE'' (xcRaw cert) =
      text_lines (pem_begin ''CERTIFICATE'' # ?ls @ [pem_end ''CERTIFICATE'']) @ []"
    by (simp add: EncodeToMemory_def text_lines_def)
  moreover have "CHR 0x0A \<notin> set l" if "l \<in> set (pem_begin ''CERTIFICATE'' # ?ls @ [pem_end ''CERTIFICATE''])" for l
    using that ls(2) by (auto simp: pem_begin_def pem_end_def)
  ultimately have "Split (EncodeToMemory c ''CERTIFICATE'' (xcRaw cert)) CHR 0x0A =
      pem_begin ''CERTIFICATE'' # ?ls @ [pem_end ''CERTIFICATE'', []]"
    using Split_lines [of "pem_begin ''CERTIFICATE'' # ?ls @ [pem_end ''CERTIFICATE'']" "[]"] by simp
  moreover have "filter (\<lambda>l. \<not> (l = [] \<or> HasPrefix l ''----'')) ?ls = ?ls"
    using ls(1) nodash by (simp add: filter_id_conv)
  ultimately show ?thesis
    by (simp add: CertToStr_def Let_def text_lines_def pem_begin_def pem_end_def HasPrefix_def)
qed

lemma ParseCert_CertToStr:
  assumes "pem_laws c"
  shows "ParseCert c (CertToStr c cert False) = crParseCert c (xcRaw cert)"
proof -
  have "ParseBlock c ''CERTIFICATE'' (CertToStr c cert False) = Some (''CERTIFICATE'', xcRaw cert)"
    unfolding CertToStr_lines [OF assms]
    by (rule pem_lawsD(3) [OF assms]) (simp_all add: block_type_def filter_lines pem_lawsD(1) [OF assms])
  then show ?thesis by (simp add: ParseCert_def)
qed

section \<open>Properties\<close>

lemma DecodeAll_append:
  assumes "pem_laws c" "\<forall>cert \<in> set certs. crParseCert c (xcRaw cert) = Inr cert"
  shows "DecodeAllByType c ''CERTIFICATE'' (concat (map (\<lambda>cert. CertToStr c cert True) certs)) acc = Some (acc @ certs, None)"
  using assms(2)
proof (induction certs arbitrary: acc)
  case Nil
  then show ?case by (simp add: DecodeAllByType.simps pem_lawsD(4) [OF assms(1)])
next
  case (Cons cert certs)
  have "crPemDecode c (CertToStr c cert True @ rest) = Some ((''CERTIFICATE'', xcRaw cert), rest)" for rest
    unfolding CertToStr_def Let_def if_True by (rule pem_lawsD(2) [OF assms(1)]) (simp add: block_type_def)
  with Cons show ?case by (subst DecodeAllByType.simps) simp
qed

text \<open>
  C7: reading the certificates of a text always ends, whatever the text holds; and a file with the
  texts of some certificates, one after the other, is read back as these certificates, in order.
\<close>

theorem DecodeAllCerts_bundle:
  assumes "pem_laws c"
  shows "(\<exists>r. DecodeAllByType c typ bytes acc = Some r) \<and>
     ((\<forall>cert \<in> set certs. crParseCert c (xcRaw cert) = Inr cert) \<longrightarrow>
        DecodeAllCerts c (concat (map (\<lambda>cert. CertToStr c cert True) certs)) = Some (certs, None))"
proof
  show "\<exists>r. DecodeAllByType c typ bytes acc = Some r"
  proof (induction bytes arbitrary: acc rule: length_induct)
    case (1 bytes)
    show ?case
    proof (cases "crPemDecode c bytes")
      case (Some r)
      obtain t b rest where r: "r = ((t, b), rest)" by (metis surj_pair)
      then have IH: "\<exists>r. DecodeAllByType c typ rest acc = Some r" for acc
        using 1 pem_lawsD(5) [OF assms] Some by blast
      show ?thesis
        using IH [of acc] IH [of "acc @ [projr (crParseCert c b)]"] Some r
        by (subst DecodeAllByType.simps) (cases "crParseCert c b"; simp)
    qed (simp add: DecodeAllByType.simps)
  qed
  show "(\<forall>cert \<in> set certs. crParseCert c (xcRaw cert) = Inr cert) \<longrightarrow>
      DecodeAllCerts c (concat (map (\<lambda>cert. CertToStr c cert True) certs)) = Some (certs, None)"
    using DecodeAll_append [OF assms] by (simp add: DecodeAllCerts_def)
qed

section \<open>A library to evaluate\<close>

text \<open>
  Two letters per byte stand for base64, one line per byte; a certificate is its fields in letters,
  with semicolons between them.
\<close>

definition letters :: "char \<Rightarrow> string" where
  "letters x = [char_of (65 + (of_char x :: nat) div 16), char_of (65 + (of_char x :: nat) mod 16)]"

fun unletters :: "string \<Rightarrow> string" where
  "unletters (a # b # s) = char_of (((of_char a :: nat) - 65) * 16 + (of_char b - 65)) # unletters s"
| "unletters s = []"

definition example_pem_decode :: "string \<Rightarrow> ((string \<times> string) \<times> string) option" where
  "example_pem_decode s =
     (if HasPrefix s ''-----BEGIN '' then
        let typ = takeWhile (\<lambda>x. x \<noteq> CHR ''-'') (drop 11 s);
            r = drop (11 + length typ + 6) s;
            body = takeWhile (\<lambda>x. x \<noteq> CHR ''-'') r
        in Some ((typ, unletters (filter (\<lambda>x. x \<noteq> CHR 0x0A) body)), drop (length body + length typ + 15) r)
      else None)"

definition no_name :: Name where
  "no_name = \<lparr>nmCommonName = [], nmCountry = [], nmProvince = [], nmLocality = [], nmOrganization = [], nmOrganizationalUnit = []\<rparr>"

definition flat :: "string \<Rightarrow> string" where "flat s = concat (map letters s)"

definition raw_cert :: "string \<Rightarrow> string \<Rightarrow> string \<Rightarrow> string list \<Rightarrow> string" where
  "raw_cert name key serial mails = Join (map flat (name # key # serial # mails)) '';''"

definition example_cert :: "string \<Rightarrow> X509 result" where
  "example_cert b =
     (case map unletters (Split b CHR '';'') of
        n # k # sn # mails \<Rightarrow>
          Inr \<lparr>xcRaw = b, xcSignature = [], xcSignatureAlgorithm = 0, xcPublicKeyAlgorithm = 0, xcPublicKey = k, xcSerial = sn,
            xcIssuer = no_name, xcSubject = no_name\<lparr>nmCommonName := n\<rparr>, xcNotBefore = 0, xcNotAfter = 0,
            xcKeyUsage = DigitalSignature, xcExtKeyUsage = [ClientAuth], xcEmailAddresses = mails\<rparr>
      | _ \<Rightarrow> Inl (Error ''malformed certificate''))"

definition example_csr :: "string \<Rightarrow> CertificateRequest result" where
  "example_csr b =
     (case map unletters (Split b CHR '';'') of
        [n, k] \<Rightarrow> Inr \<lparr>csSignature = [], csSignatureAlgorithm = 0, csPublicKeyAlgorithm = 0, csPublicKey = k,
            csSubject = no_name\<lparr>nmCommonName := n\<rparr>\<rparr>
      | _ \<Rightarrow> Inl (Error ''malformed request''))"

definition example_crypto :: crypto where
  "example_crypto = \<lparr>crPemDecode = example_pem_decode, crBase64 = map letters, crParseCert = example_cert,
     crParseCsr = example_csr,
     crCreateCert = (\<lambda>tpl parent pub key. Inr (raw_cert (nmCommonName (xcSubject tpl)) pub (xcSerial tpl) (xcEmailAddresses tpl))),
     crCreateCsr = (\<lambda>subj key. Join [flat (nmCommonName subj), flat key] '';''),
     crTrustStore = (\<lambda>_ _. Inr [])\<rparr>"

lemma letters_range:
  assumes "x \<in> set (letters b)"
  shows "65 \<le> (of_char x :: nat)" "(of_char x :: nat) < 81"
proof -
  have b: "(of_char b :: nat) < 256" by simp
  have 1: "(of_char b :: nat) div 16 < 16" using b by (simp add: less_mult_imp_div_less)
  have 2: "(of_char b :: nat) mod 16 < 16" by simp
  have "(of_char (char_of (65 + (of_char b :: nat) div 16) :: char) :: nat) = 65 + of_char b div 16"
    "(of_char (char_of (65 + (of_char b :: nat) mod 16) :: char) :: nat) = 65 + of_char b mod 16"
    using 1 2 by (simp_all add: of_char_of)
  with assms 1 show "65 \<le> (of_char x :: nat)" "(of_char x :: nat) < 81" by (auto simp: letters_def)
qed

lemma unletters_letters: "unletters (concat (map letters b)) = b"
proof (induction b)
  case (Cons x b)
  have b: "(of_char x :: nat) < 256" by simp
  have 1: "(of_char x :: nat) div 16 < 16" using b by (simp add: less_mult_imp_div_less)
  have "(of_char (char_of (65 + (of_char x :: nat) div 16) :: char) :: nat) = 65 + of_char x div 16"
    "(of_char (char_of (65 + (of_char x :: nat) mod 16) :: char) :: nat) = 65 + of_char x mod 16"
    using 1 by (simp_all add: of_char_of)
  with Cons show ?case by (simp add: letters_def)
qed simp

lemma letters_plain: "l \<in> set (map letters b) \<Longrightarrow> l \<noteq> [] \<and> CHR 0x0A \<notin> set l \<and> CHR ''-'' \<notin> set l"
proof -
  assume "l \<in> set (map letters b)"
  then obtain x where l: "l = letters x" by auto
  have "CHR 0x0A \<notin> set (letters x)" "CHR ''-'' \<notin> set (letters x)" using letters_range [of _ x] by fastforce+
  moreover have "letters x \<noteq> []" by (simp add: letters_def)
  ultimately show ?thesis using l by simp
qed

lemma example_decode:
  assumes "block_type typ" "CHR ''-'' \<notin> set body"
  shows "example_pem_decode (pem_begin typ @ newline @ body @ pem_end typ @ newline @ rest) =
      Some ((typ, unletters (filter (\<lambda>x. x \<noteq> CHR 0x0A) body)), rest)"
    "example_pem_decode (pem_begin typ @ newline @ body @ pem_end typ) =
      Some ((typ, unletters (filter (\<lambda>x. x \<noteq> CHR 0x0A) body)), [])"
proof -
  have tw: "takeWhile (\<lambda>x. x \<noteq> CHR ''-'') (s @ CHR ''-'' # r) = s" if "CHR ''-'' \<notin> set s" for s r
    using that by (subst takeWhile_append2) auto
  have ty: "CHR ''-'' \<notin> set typ" using assms(1) by (simp add: block_type_def)
  show "example_pem_decode (pem_begin typ @ newline @ body @ pem_end typ @ newline @ rest) =
      Some ((typ, unletters (filter (\<lambda>x. x \<noteq> CHR 0x0A) body)), rest)"
    "example_pem_decode (pem_begin typ @ newline @ body @ pem_end typ) =
      Some ((typ, unletters (filter (\<lambda>x. x \<noteq> CHR 0x0A) body)), [])"
    by (simp_all add: example_pem_decode_def pem_begin_def pem_end_def HasPrefix_def tw [OF ty] tw [OF assms(2)] Let_def numeral_eq_Suc)
qed

lemma example_fields:
  "crPemDecode example_crypto = example_pem_decode" "crBase64 example_crypto b = map letters b"
  by (simp_all add: example_crypto_def)

lemma unletters_lines: "unletters (filter (\<lambda>x. x \<noteq> CHR 0x0A) (text_lines (map letters b))) = b"
proof -
  have "filter (\<lambda>x. x \<noteq> CHR 0x0A) (text_lines (map letters b)) = concat (map letters b)"
    by (rule filter_lines) (use letters_plain [of _ b] in blast)
  then show ?thesis by (simp only: unletters_letters)
qed

lemma letter_lines: "CHR ''-'' \<notin> set (text_lines (map letters b))"
proof
  assume "CHR ''-'' \<in> set (text_lines (map letters b))"
  then obtain x where "CHR ''-'' \<in> set (letters x)" by (auto simp: text_lines_def split: if_splits)
  with letters_range(2) [of "CHR ''-''" x] letters_range(1) [of "CHR ''-''" x] show False by simp
qed

lemma example_decode_first:
  assumes "block_type t"
  shows "crPemDecode example_crypto (EncodeToMemory example_crypto t b @ rest) = Some ((t, b), rest)"
proof -
  have "EncodeToMemory example_crypto t b @ rest =
      pem_begin t @ newline @ text_lines (map letters b) @ pem_end t @ newline @ rest"
    by (simp only: EncodeToMemory_def example_fields text_lines_def append_assoc)
  then show ?thesis
    using example_decode(1) [OF assms letter_lines, of b rest] by (simp only: example_fields unletters_lines)
qed

lemma example_decode_body:
  assumes "block_type t" "filter (\<lambda>x. x \<noteq> CHR 0x0A) body = concat (map letters b)"
  shows "ParseBlock example_crypto t body = Some (t, b)"
proof -
  have "CHR ''-'' \<notin> set (filter (\<lambda>x. x \<noteq> CHR 0x0A) body)"
    unfolding assms(2) using letters_plain [of _ b] by fastforce
  then have "CHR ''-'' \<notin> set (body @ newline)" by simp
  from example_decode(2) [OF assms(1) this] show ?thesis
    by (simp add: ParseBlock_def example_fields assms(2) unletters_letters)
qed

lemma example_decode_shrinks:
  assumes "example_pem_decode s = Some (blk, rest)"
  shows "length rest < length s"
proof -
  have "s \<noteq> []" using assms by (auto simp: example_pem_decode_def HasPrefix_def)
  with assms show ?thesis by (auto simp: example_pem_decode_def Let_def split: if_splits)
qed

lemma example_parse: "crParseCert example_crypto b = Inr cert \<Longrightarrow> xcRaw cert = b"
  by (auto simp: example_crypto_def example_cert_def split: list.splits)

lemma example_laws: "pem_laws example_crypto"
  unfolding pem_laws_def
proof (intro conjI allI ballI impI)
  show "crPemDecode example_crypto [] = None" by (simp add: example_fields example_pem_decode_def HasPrefix_def)
  show "l \<noteq> []" "CHR 0x0A \<notin> set l" "CHR ''-'' \<notin> set l" if "l \<in> set (crBase64 example_crypto b)" for l b
    using letters_plain [of l b] that by (simp_all add: example_fields)
  show "ParseBlock example_crypto t body = Some (t, b)"
    if "block_type t \<and> filter (\<lambda>x. x \<noteq> CHR 0x0A) body = concat (crBase64 example_crypto b)" for t b body
    using example_decode_body that by (simp only: example_fields)
  show "length rest < length s" if "crPemDecode example_crypto s = Some (blk, rest)" for s blk rest
    using example_decode_shrinks that by (simp only: example_fields)
qed (simp_all only: example_decode_first example_parse)

lemma Split_flat: "ts \<noteq> [] \<Longrightarrow> map unletters (Split (Join (map flat ts) '';'') CHR '';'') = ts"
proof -
  assume "ts \<noteq> []"
  moreover have "CHR '';'' \<notin> set (flat t)" for t
    using letters_range [of "CHR '';''"] by (fastforce simp: flat_def)
  ultimately have "Split (Join (map flat ts) '';'') CHR '';'' = map flat ts" by (intro Split_Join) auto
  then show ?thesis by (simp add: flat_def unletters_letters o_def)
qed

lemma example_csr_fields:
  "crParseCsr example_crypto (crCreateCsr example_crypto subj key) = Inr \<lparr>csSignature = [], csSignatureAlgorithm = 0,
     csPublicKeyAlgorithm = 0, csPublicKey = key, csSubject = no_name\<lparr>nmCommonName := nmCommonName subj\<rparr>\<rparr>"
  "crCreateCsr example_crypto subj key \<noteq> []"
  using Split_flat [of "[nmCommonName subj, key]"] by (simp_all add: example_crypto_def example_csr_def)

definition cert_of :: "string \<Rightarrow> string \<Rightarrow> string \<Rightarrow> string list \<Rightarrow> X509" where
  "cert_of name key serial mails =
     \<lparr>xcRaw = raw_cert name key serial mails, xcSignature = [], xcSignatureAlgorithm = 0, xcPublicKeyAlgorithm = 0,
      xcPublicKey = key, xcSerial = serial, xcIssuer = no_name, xcSubject = no_name\<lparr>nmCommonName := name\<rparr>,
      xcNotBefore = 0, xcNotAfter = 0, xcKeyUsage = DigitalSignature, xcExtKeyUsage = [ClientAuth], xcEmailAddresses = mails\<rparr>"

lemma example_cert_of: "crParseCert example_crypto (raw_cert name key serial mails) = Inr (cert_of name key serial mails)"
  using Split_flat [of "name # key # serial # mails"]
  by (simp add: example_crypto_def example_cert_def cert_of_def raw_cert_def del: Join.simps list.map)

theorem DecodeAllCerts_bundle_witness:
  "DecodeAllCerts example_crypto (CertToStr example_crypto (cert_of ''bob'' ''k'' ''1'' [''u1'']) True @
     CertToStr example_crypto (cert_of ''ca'' ''k2'' ''2'' []) True) =
   Some ([cert_of ''bob'' ''k'' ''1'' [''u1''], cert_of ''ca'' ''k2'' ''2'' []], None)"
proof -
  let ?cs = "[cert_of ''bob'' ''k'' ''1'' [''u1''], cert_of ''ca'' ''k2'' ''2'' []]"
  have "\<forall>cert \<in> set ?cs. crParseCert example_crypto (xcRaw cert) = Inr cert"
    by (simp add: example_cert_of cert_of_def [THEN arg_cong [of _ _ xcRaw]])
  then show ?thesis using DecodeAllCerts_bundle [OF example_laws, of "[]" "[]" "[]" ?cs] by simp
qed

end
