(* ===== verification/HttpCert.thy ===== *)
theory HttpCert
  imports HttpMarti TlsUtil
begin

text \<open>
  \<open>cmd/goatak_server/cert_api.go\<close>: the enrolment interface, where a client with a password gets a
  certificate; and \<open>internal/client/enroll.go\<close>, the client's side of it.
\<close>

definition p12Password :: string where "p12Password = ''atakatak''"

type_synonym certs_config = "(string, X509) AppConfig"

section \<open>The server\<close>

definition getTLSConfigHandler :: "'db env \<Rightarrow> (string, string) smap \<Rightarrow> 'db handler" where
  "getTLSConfigHandler env names rq app =
     (Inr \<lparr>hrStatus = 200, hrHeaders = [(''Content-Type'', ''application/xml'')],
        hrBody = Text (''<?xml version='' @ quoted ''1.0'' @ '' encoding='' @ quoted ''UTF-8'' @ ''?>'' @ lf @
          ''<certificateConfig validityDays='' @ quoted (Itoa (CertTTLDays (evConfig env))) @ ''><nameEntries>'' @
          concat (map (\<lambda>(k, v). ''<nameEntry name='' @ quoted k @ '' value='' @ quoted v @ ''/>'') (smRange names)) @
          ''</nameEntries></certificateConfig>'')\<rparr>, app)"

definition tls_names :: "(string, string) smap" where
  "tls_names = [(''C'', ''RU''), (''ST'', ''RU''), (''L'', ''SPB''), (''O'', ''goatak''), (''OU'', ''goatak'')]"

text \<open>\<open>serial\<close> and \<open>now\<close>: what \<open>rand.Int\<close> and the clock give.\<close>

definition getCertTemplate :: "string \<Rightarrow> time \<Rightarrow> Name \<Rightarrow> CertificateRequest \<Rightarrow> string \<Rightarrow> time \<Rightarrow> X509" where
  "getCertTemplate serial now issuer csr uid till =
     \<lparr>xcRaw = [], xcSignature = csSignature csr, xcSignatureAlgorithm = csSignatureAlgorithm csr,
      xcPublicKeyAlgorithm = csPublicKeyAlgorithm csr, xcPublicKey = csPublicKey csr, xcSerial = serial,
      xcIssuer = issuer, xcSubject = csSubject csr, xcNotBefore = now, xcNotAfter = till,
      xcKeyUsage = DigitalSignature, xcExtKeyUsage = [ClientAuth], xcEmailAddresses = [uid]\<rparr>"

definition signClientCert ::
    "crypto \<Rightarrow> string \<Rightarrow> time \<Rightarrow> string \<Rightarrow> CertificateRequest \<Rightarrow> X509 \<Rightarrow> string \<Rightarrow> time \<Rightarrow> X509 result" where
  "signClientCert c serial now uid csr serverCert key till =
     (case crCreateCert c (getCertTemplate serial now (xcSubject serverCert) csr uid till) serverCert (csPublicKey csr) key of
        Inl (Error err) \<Rightarrow> Inl (Error (''failed to generate certificate, error: '' @ err))
      | Inl err \<Rightarrow> Inl err
      | Inr certBytes \<Rightarrow> crParseCert c certBytes)"

text \<open>\<open>time.Duration(days * 24) * time.Hour\<close> on 64 bits.\<close>

definition cert_ttl :: "'db env \<Rightarrow> int" where
  "cert_ttl env = sint (word_of_int (CertTTLDays (evConfig env) * 24 * hour) :: 64 word)"

text \<open>Without a server certificate its fields are read through nil.\<close>

definition processSignRequest ::
    "'db env \<Rightarrow> crypto \<Rightarrow> certs_config \<Rightarrow> stamp \<Rightarrow> string \<Rightarrow> request \<Rightarrow> 'db App \<Rightarrow> X509 result \<times> 'db App" where
  "processSignRequest env c cfg s serial rq app =
     (let username = Username rq; uid = queryIgnoreCase (evToLower env) rq ''clientUid''
      in case users_valid env (stNow s) username [] app of
           (False, app1) \<Rightarrow> (Inl (Error ''bad user''), app1)
         | (True, app1) \<Rightarrow>
             (case ParseCsr c (rqBody rq) of
                Inl _ \<Rightarrow> (Inl (Error ''empty csr block''), app1)
              | Inr csr \<Rightarrow>
                  (if username \<noteq> nmCommonName (csSubject csr) then (Inl (Error ''bad user in csr''), app1)
                   else case (acServerCert cfg, acTlsCert cfg) of
                          (Some serverCert, Some key) \<Rightarrow>
                            (let till = stNow s + cert_ttl env
                             in case signClientCert c serial (stNow s) uid csr serverCert key till of
                                  Inl err \<Rightarrow> (Inl err, app1)
                                | Inr signedCert \<Rightarrow>
                                    (Inr signedCert, app1\<lparr>apDb := SaveSignInfo (evGorm env) username uid
                                       (hex_encode (xcSerial signedCert)) till (apDb app1)\<rparr>))
                        | _ \<Rightarrow> (Inl nil_deref, app1))))"

definition ca_names :: "X509 list \<Rightarrow> (string \<times> X509) list" where
  "ca_names cs = map (\<lambda>(i, x). (''ca'' @ Itoa (int i + 1), x)) (enumerate 0 cs)"

definition getSignHandler :: "'db env \<Rightarrow> crypto \<Rightarrow> certs_config \<Rightarrow> stamp \<Rightarrow> string \<Rightarrow> 'db handler" where
  "getSignHandler env c cfg s serial rq app =
     (if \<not> checkUID env (queryIgnoreCase (evToLower env) rq ''clientUid'') then (Inr (status 403), app)
      else case processSignRequest env c cfg s serial rq app of
             (Inl err, app1) \<Rightarrow> (Inl err, app1)
           | (Inr signedCert, app1) \<Rightarrow>
               (case acServerCert cfg of
                  None \<Rightarrow> (Inl nil_deref, app1)
                | Some serverCert \<Rightarrow>
                    (case MakeP12TrustStoreNamed c p12Password
                            (fold (\<lambda>(k, v). smStore k v) (ca_names (acCA cfg))
                               (smStore ''ca0'' serverCert (smStore ''signedCert'' signedCert []))) of
                       Inl err \<Rightarrow> (Inl err, app1) | Inr dat \<Rightarrow> (Inr (ok_body (Text dat)), app1))))"

fun Contains :: "string \<Rightarrow> string \<Rightarrow> bool" where
  "Contains [] sub \<longleftrightarrow> sub = []"
| "Contains (x # s) sub \<longleftrightarrow> HasPrefix (x # s) sub \<or> Contains s sub"

text \<open>The two forms of the answer.\<close>

definition signed_json :: "crypto \<Rightarrow> X509 \<Rightarrow> X509 \<Rightarrow> X509 list \<Rightarrow> (string, string) smap" where
  "signed_json c signedCert serverCert cas =
     fold (\<lambda>(k, v). smStore k (CertToStr c v False)) (ca_names cas)
       (smStore ''ca0'' (CertToStr c serverCert False) (smStore ''signedCert'' (CertToStr c signedCert False) []))"

definition signed_xml :: "crypto \<Rightarrow> X509 \<Rightarrow> X509 \<Rightarrow> X509 list \<Rightarrow> string" where
  "signed_xml c signedCert serverCert cas =
     ''<?xml version='' @ quoted ''1.0'' @ '' encoding='' @ quoted ''UTF-8'' @ ''?><enrollment><signedCert>'' @
     CertToStr c signedCert False @ ''</signedCert>'' @
     concat (map (\<lambda>x. ''<ca>'' @ CertToStr c x False @ ''</ca>'') (serverCert # cas)) @ ''</enrollment>''"

definition getSignHandlerV2 :: "'db env \<Rightarrow> crypto \<Rightarrow> certs_config \<Rightarrow> stamp \<Rightarrow> string \<Rightarrow> 'db handler" where
  "getSignHandlerV2 env c cfg s serial rq app =
     (if \<not> checkUID env (queryIgnoreCase (evToLower env) rq ''clientUid'') then (Inr (status 403), app)
      else case processSignRequest env c cfg s serial rq app of
             (Inl err, app1) \<Rightarrow> (Inl err, app1)
           | (Inr signedCert, app1) \<Rightarrow>
               (case acServerCert cfg of
                  None \<Rightarrow> (Inl nil_deref, app1)
                | Some serverCert \<Rightarrow>
                    (let accept = ctx_Get rq ''Accept''
                     in if accept = [] \<or> Contains accept ''*/*'' \<or> Contains accept ''application/json''
                        then (Inr (ok_body (Json (JObject (map (\<lambda>(k, v). (k, JString v))
                                (smRange (signed_json c signedCert serverCert (acCA cfg))))))), app1)
                        else if Contains accept ''application/xml''
                        then (Inr \<lparr>hrStatus = 200, hrHeaders = [(''Content-Type'', ''application/xml; charset=utf-8'')],
                                hrBody = Text (signed_xml c signedCert serverCert (acCA cfg))\<rparr>, app1)
                        else (Inr (status 400), app1))))"

definition getProfileEnrollmentHandler :: "'db env \<Rightarrow> package_tools \<Rightarrow> 'db handler" where
  "getProfileEnrollmentHandler env pt rq app =
     (let uid = queryIgnoreCase (evToLower env) rq ''clientUid''
      in if \<not> checkUID env uid then (Inr (status 403), app)
         else let files = GetProfileFiles env pt (Username rq) uid True (apDb app)
              in (if length files = 0 then Inr (status 204) else send_profile pt (Username rq) ''Enrollment'' files, app))"

section \<open>The client\<close>

definition minCertAge :: int where "minCertAge = hour * 24"

record Enroller =
  enHost :: string
  enPort :: int
  enUser :: string
  enPasswd :: string
  enP12Password :: string
  enSave :: bool

definition NewEnroller :: "string \<Rightarrow> string \<Rightarrow> string \<Rightarrow> bool \<Rightarrow> string \<Rightarrow> Enroller" where
  "NewEnroller host user passwd save pw =
     \<lparr>enHost = host, enPort = 8446, enUser = user, enPasswd = passwd, enP12Password = [], enSave = save\<rparr>"

definition getURL :: "Enroller \<Rightarrow> string \<Rightarrow> string" where
  "getURL e path = ''https://'' @ enHost e @ '':'' @ Itoa (enPort e) @ path"

text \<open>The entries of the configuration of the server become fields of the subject.\<close>

definition add_entry :: "string \<times> string \<Rightarrow> Name \<Rightarrow> Name" where
  "add_entry = (\<lambda>(name, v) n.
     if name = ''C'' then n\<lparr>nmCountry := nmCountry n @ [v]\<rparr>
     else if name = ''ST'' then n\<lparr>nmProvince := nmProvince n @ [v]\<rparr>
     else if name = ''L'' then n\<lparr>nmLocality := nmLocality n @ [v]\<rparr>
     else if name = ''O'' then n\<lparr>nmOrganization := nmOrganization n @ [v]\<rparr>
     else if name = ''OU'' then n\<lparr>nmOrganizationalUnit := nmOrganizationalUnit n @ [v]\<rparr>
     else n)"

definition subject_of :: "string \<Rightarrow> (string \<times> string) list \<Rightarrow> Name" where
  "subject_of user entries = fold add_entry entries (no_name\<lparr>nmCommonName := user\<rparr>)"

text \<open>\<open>strings.ReplaceAll\<close> of a text that is not empty by nothing.\<close>

function RemoveAll :: "string \<Rightarrow> string \<Rightarrow> string" where
  "RemoveAll old s =
     (if s = [] \<or> old = [] then s
      else if HasPrefix s old then RemoveAll old (drop (length old) s) else hd s # RemoveAll old (tl s))"
  by pat_completeness auto
termination by (relation "measure (\<lambda>(_, s). length s)") auto

declare RemoveAll.simps [simp del]

definition makeCsr :: "crypto \<Rightarrow> Name \<Rightarrow> string \<Rightarrow> string" where
  "makeCsr c subj key =
     RemoveAll (newline @ pem_end ''CERTIFICATE REQUEST'')
       (RemoveAll (pem_begin ''CERTIFICATE REQUEST'' @ newline)
          (EncodeToMemory c ''CERTIFICATE REQUEST'' (crCreateCsr c subj key)))"

text \<open>The certificates of an answer; the last \<open>signedCert\<close> and every name with the prefix \<open>ca\<close>.\<close>

fun parse_answer :: "crypto \<Rightarrow> (string \<times> string) list \<Rightarrow> X509 option \<Rightarrow> X509 list \<Rightarrow> (X509 option \<times> X509 list) result" where
  "parse_answer c [] cert ca = Inr (cert, ca)"
| "parse_answer c ((name, v) # kvs) cert ca =
     (case ParseCert c v of
        Inl err \<Rightarrow> Inl err
      | Inr crt \<Rightarrow>
          (if name = ''signedCert'' then parse_answer c kvs (Some crt) ca
           else parse_answer c kvs cert (if HasPrefix name ''ca'' then ca @ [crt] else ca)))"

definition LoadP12 ::
    "(string \<Rightarrow> string result) \<Rightarrow> (string \<Rightarrow> string \<Rightarrow> (string \<times> X509 \<times> X509 list) result) \<Rightarrow> time \<Rightarrow> string \<Rightarrow> string \<Rightarrow>
     (string \<times> X509 \<times> X509 list) result" where
  "LoadP12 readFile decodeChain now filename password =
     (case readFile filename of
        Inl err \<Rightarrow> Inl err
      | Inr dat \<Rightarrow>
          (case decodeChain dat password of
             Inl err \<Rightarrow> Inl err
           | Inr (key, cert, cas) \<Rightarrow>
               (if xcNotAfter cert < now + minCertAge then Inl (Error ''cert is too old'') else Inr (key, cert, cas))))"

text \<open>
  \<open>p12\<close> is what \<open>LoadP12\<close> gives; \<open>config\<close> the answer to the first request (its error ends the
  enrolment); \<open>sign\<close> the answer to the second one, a function of the body it posts. The files that
  are written afterwards (the key store and the profile) do not change the result.
\<close>

definition GetOrEnrollCert ::
    "crypto \<Rightarrow> Enroller \<Rightarrow> (string \<times> X509 \<times> X509 list) result \<Rightarrow> (string \<times> string) list result \<Rightarrow> string \<Rightarrow>
     (string \<Rightarrow> (string, string) smap result) \<Rightarrow> (string \<times> X509 \<times> X509 list) result" where
  "GetOrEnrollCert c e p12 config key sign =
     (case p12 of
        Inr r \<Rightarrow> Inr r
      | Inl _ \<Rightarrow>
          (case config of
             Inl err \<Rightarrow> Inl err
           | Inr entries \<Rightarrow>
               (case sign (makeCsr c (subject_of (enUser e) entries) key) of
                  Inl err \<Rightarrow> Inl err
                | Inr certs \<Rightarrow>
                    (case parse_answer c (smRange certs) None [] of
                       Inl err \<Rightarrow> Inl err
                     | Inr (None, _) \<Rightarrow> Inl (Error ''no signed cert in answer'')
                     | Inr (Some cert, ca) \<Rightarrow> Inr (key, cert, ca)))))"

section \<open>What the certificate library promises\<close>

text \<open>
  \<open>pub\<close> is the public part of a private key. A parsed request or certificate has the fields it was
  made with, and signing does not fail.
\<close>

definition x509_laws :: "crypto \<Rightarrow> (string \<Rightarrow> string) \<Rightarrow> bool" where
  "x509_laws c pub \<longleftrightarrow> pem_laws c \<and>
     (\<forall>subj key. crBase64 c (crCreateCsr c subj key) \<noteq> [] \<and>
        (\<exists>csr. crParseCsr c (crCreateCsr c subj key) = Inr csr \<and> nmCommonName (csSubject csr) = nmCommonName subj \<and>
           csPublicKey csr = pub key)) \<and>
     (\<forall>tpl parent pk key. \<exists>raw cert. crCreateCert c tpl parent pk key = Inr raw \<and> crParseCert c raw = Inr cert \<and>
        nmCommonName (xcSubject cert) = nmCommonName (xcSubject tpl) \<and> xcSerial cert = xcSerial tpl \<and>
        xcEmailAddresses cert = xcEmailAddresses tpl \<and> xcPublicKey cert = pk)"

section \<open>The request\<close>

lemma RemoveAll_skip: "old \<noteq> [] \<Longrightarrow> x \<noteq> hd old \<Longrightarrow> RemoveAll old (x # s) = x # RemoveAll old s"
  by (subst RemoveAll.simps) (auto simp: HasPrefix_def neq_Nil_conv)

lemma RemoveAll_skip_all: "old \<noteq> [] \<Longrightarrow> hd old \<notin> set t \<Longrightarrow> RemoveAll old (t @ s) = t @ RemoveAll old s"
  by (induction t) (auto simp: RemoveAll_skip)

lemma RemoveAll_match: "old \<noteq> [] \<Longrightarrow> RemoveAll old (old @ s) = RemoveAll old s"
  by (subst RemoveAll.simps) (auto simp: HasPrefix_def)

lemma RemoveAll_end_lines:
  assumes "ls \<noteq> []" "\<And>l. l \<in> set ls \<Longrightarrow> l \<noteq> [] \<and> CHR 0x0A \<notin> set l \<and> CHR ''-'' \<notin> set l"
  shows "RemoveAll (newline @ pem_end t) (text_lines ls @ pem_end t @ newline) = Join ls newline @ newline"
  using assms
proof (induction ls rule: induct_list012)
  case (2 l)
  have "RemoveAll (newline @ pem_end t) ((newline @ pem_end t) @ newline) = RemoveAll (newline @ pem_end t) newline"
    by (rule RemoveAll_match) simp
  then have "RemoveAll (newline @ pem_end t) (l @ (newline @ pem_end t) @ newline) = l @ RemoveAll (newline @ pem_end t) newline"
    using 2 by (subst RemoveAll_skip_all) auto
  moreover have "RemoveAll (newline @ pem_end t) newline = newline"
    by (simp add: RemoveAll.simps [of _ newline] RemoveAll.simps [of _ "[]"] HasPrefix_def pem_end_def)
  ultimately show ?case by (simp add: text_lines_def)
next
  case (3 l l' ls)
  have IH: "RemoveAll (newline @ pem_end t) (text_lines (l' # ls) @ pem_end t @ newline) = Join (l' # ls) newline @ newline"
    using 3 by simp
  have l': "l' \<noteq> []" "hd l' \<noteq> CHR ''-''" using "3.prems"(2) [of l'] by (cases l'; auto)+
  have "RemoveAll (newline @ pem_end t) (newline @ text_lines (l' # ls) @ pem_end t @ newline) =
      newline @ RemoveAll (newline @ pem_end t) (text_lines (l' # ls) @ pem_end t @ newline)"
    using l' by (subst RemoveAll.simps) (auto simp: HasPrefix_def pem_end_def text_lines_def neq_Nil_conv)
  moreover have "RemoveAll (newline @ pem_end t) (l @ newline @ text_lines (l' # ls) @ pem_end t @ newline) =
      l @ RemoveAll (newline @ pem_end t) (newline @ text_lines (l' # ls) @ pem_end t @ newline)"
    using "3.prems"(2) [of l] by (subst RemoveAll_skip_all) auto
  ultimately show ?case using IH by (simp add: text_lines_def Join_Cons)
qed simp

lemma filter_Join:
  "(\<And>l. l \<in> set ls \<Longrightarrow> CHR 0x0A \<notin> set l) \<Longrightarrow> filter (\<lambda>x. x \<noteq> CHR 0x0A) (Join ls newline) = concat ls"
  by (induction ls rule: induct_list012) (auto simp: filter_id_conv)

lemma ParseCsr_makeCsr:
  assumes "x509_laws c pub"
  shows "ParseCsr c (makeCsr c subj key) = crParseCsr c (crCreateCsr c subj key)"
proof -
  let ?b = "crCreateCsr c subj key"
  have laws: "pem_laws c" and ne: "crBase64 c ?b \<noteq> []" using assms by (auto simp: x509_laws_def)
  note ls = pem_lawsD(1) [OF laws, of _ ?b]
  have "CHR ''-'' \<notin> set (text_lines (crBase64 c ?b))" using ls by (auto simp: text_lines_def)
  then have "RemoveAll (pem_begin ''CERTIFICATE REQUEST'' @ newline) (text_lines (crBase64 c ?b) @ pem_end ''CERTIFICATE REQUEST'' @ newline) =
      text_lines (crBase64 c ?b) @ RemoveAll (pem_begin ''CERTIFICATE REQUEST'' @ newline) (pem_end ''CERTIFICATE REQUEST'' @ newline)"
    by (subst RemoveAll_skip_all) (auto simp: pem_begin_def)
  moreover have "RemoveAll (pem_begin ''CERTIFICATE REQUEST'' @ newline) (pem_end ''CERTIFICATE REQUEST'' @ newline) =
      pem_end ''CERTIFICATE REQUEST'' @ newline"
    by code_simp
  moreover have "EncodeToMemory c ''CERTIFICATE REQUEST'' ?b =
      (pem_begin ''CERTIFICATE REQUEST'' @ newline) @ text_lines (crBase64 c ?b) @ pem_end ''CERTIFICATE REQUEST'' @ newline"
    by (simp add: EncodeToMemory_def text_lines_def)
  ultimately have "makeCsr c subj key = Join (crBase64 c ?b) newline @ newline"
    using RemoveAll_end_lines [OF ne ls] unfolding makeCsr_def by (simp add: RemoveAll_match del: append_assoc) 
  moreover have "filter (\<lambda>x. x \<noteq> CHR 0x0A) (Join (crBase64 c ?b) newline @ newline) = concat (crBase64 c ?b)"
    using ls by (simp add: filter_Join)
  ultimately have "ParseBlock c ''REQUEST'' (makeCsr c subj key) = Some (''REQUEST'', ?b)"
    using pem_lawsD(3) [OF laws] by (simp add: block_type_def)
  then show ?thesis by (simp add: ParseCsr_def)
qed

section \<open>Properties\<close>

lemma parse_answer_ca:
  assumes "pem_laws c" "\<forall>x \<in> set (map snd cs). crParseCert c (xcRaw x) = Inr x" "\<forall>k \<in> set (map fst cs). HasPrefix k ''ca''"
  shows "parse_answer c (map (\<lambda>(k, x). (k, CertToStr c x False)) cs) cert ca = Inr (cert, ca @ map snd cs)"
  using assms(2,3)
proof (induction cs arbitrary: ca)
  case (Cons kx cs)
  obtain k x where "kx = (k, x)" by fastforce
  moreover from this Cons.prems have "k \<noteq> ''signedCert''" by (auto simp: HasPrefix_def)
  ultimately show ?case using Cons by (simp add: ParseCert_CertToStr [OF assms(1)])
qed simp

lemma Itoa_inject: "0 \<le> m \<Longrightarrow> 0 \<le> n \<Longrightarrow> Itoa m = Itoa n \<longleftrightarrow> m = n"
proof
  assume "0 \<le> m" "0 \<le> n" "Itoa m = Itoa n"
  then have "digits_of (nat m) = digits_of (nat n)" by (simp only: Itoa_def not_less [symmetric] if_False)
  then have "nat m = nat n" by (metis read_digits_of option.inject)
  with \<open>0 \<le> m\<close> \<open>0 \<le> n\<close> show "m = n" by simp
qed simp

lemma ca_names_props:
  "map snd (ca_names cs) = cs" "k \<in> set (map fst (ca_names cs)) \<Longrightarrow> \<exists>i \<ge> 0. k = ''ca'' @ Itoa (i + 1)"
  "distinct (map fst (ca_names cs))"
proof -
  have keys: "map fst (ca_names cs) = map (\<lambda>i. ''ca'' @ Itoa (int i + 1)) [0..<length cs]"
    by (rule nth_equalityI) (simp_all add: ca_names_def nth_enumerate_eq)
  show "map snd (ca_names cs) = cs" by (rule nth_equalityI) (simp_all add: ca_names_def nth_enumerate_eq)
  show "\<exists>i \<ge> 0. k = ''ca'' @ Itoa (i + 1)" if "k \<in> set (map fst (ca_names cs))"
  proof -
    obtain x :: nat where "k = ''ca'' @ Itoa (int x + 1)" using \<open>k \<in> set (map fst (ca_names cs))\<close> unfolding keys by auto
    then show ?thesis by (intro exI [of _ "int x"]) simp
  qed
  show "distinct (map fst (ca_names cs))" unfolding keys by (simp add: distinct_map inj_on_def Itoa_inject)
qed

lemma store_fresh: "k \<notin> set (map fst m) \<Longrightarrow> smStore k v m = m @ [(k, v)]"
  by (induction m) (auto simp: smStore_def)

lemma stores_fresh:
  "distinct (map fst kvs) \<Longrightarrow> set (map fst kvs) \<inter> set (map fst m) = {} \<Longrightarrow> fold (\<lambda>(k, v). smStore k v) kvs m = m @ kvs"
proof (induction kvs arbitrary: m)
  case (Cons kv kvs)
  obtain k v where "kv = (k, v)" by fastforce
  moreover from this Cons.prems have "smStore k v m = m @ [(k, v)]" by (intro store_fresh) auto
  ultimately show ?case using Cons by auto
qed simp

lemma signed_json_eq:
  "signed_json c crt server cas =
     (''signedCert'', CertToStr c crt False) # map (\<lambda>(k, x). (k, CertToStr c x False)) ((''ca0'', server) # ca_names cas)"
proof -
  let ?kvs = "map (\<lambda>(k, x). (k, CertToStr c x False)) (ca_names cas)"
  let ?m = "[(''signedCert'', CertToStr c crt False), (''ca0'', CertToStr c server False)]"
  have keys: "map fst ?kvs = map fst (ca_names cas)" by (induction "ca_names cas") auto
  have "k \<noteq> ''signedCert'' \<and> k \<noteq> ''ca0''" if k: "k \<in> set (map fst ?kvs)" for k
  proof -
    obtain i where i: "i \<ge> 0" "k = ''ca'' @ Itoa (i + 1)" using ca_names_props(2) k unfolding keys by blast
    have "Itoa 0 = ''0''" by code_simp
    then have "Itoa (i + 1) \<noteq> ''0''" using Itoa_inject [of "i + 1" 0] i(1) by auto
    with i(2) show ?thesis by auto
  qed
  then have "set (map fst ?kvs) \<inter> set (map fst ?m) = {}" unfolding keys by force
  then have "fold (\<lambda>(k, v). smStore k v) ?kvs ?m = ?m @ ?kvs"
    using ca_names_props(3) [of cas] by (intro stores_fresh) (simp_all only: keys)
  moreover have "smStore ''ca0'' y (smStore ''signedCert'' x []) = [(''signedCert'', x), (''ca0'', y)]" for x y :: string
    by (simp add: smStore_def)
  ultimately show ?thesis
    by (simp add: signed_json_def fold_map o_def case_prod_unfold)
qed

text \<open>The part of a certificate a TLS connection shows.\<close>

definition peer_of :: "X509 \<Rightarrow> PeerCert" where
  "peer_of x = \<lparr>pcCommonName = nmCommonName (xcSubject x), pcSerial = xcSerial x, pcEmailAddresses = xcEmailAddresses x\<rparr>"

lemma subject_of_name: "nmCommonName (subject_of user entries) = user"
proof -
  have "nmCommonName (fold add_entry es n) = nmCommonName n" for es n
    by (induction es arbitrary: n) (auto simp: add_entry_def)
  then show ?thesis by (simp add: subject_of_def)
qed

lemma processSignRequest_ok:
  assumes laws: "x509_laws c pub" and cfg: "acServerCert cfg = Some sc" "acTlsCert cfg = Some k"
    and user: "fst (users_valid env (stNow s) user [] app)" "rqUsername rq = Some user"
    and body: "rqBody rq = makeCsr c (subject_of user entries) key" "queryIgnoreCase (evToLower env) rq ''clientUid'' = uid"
  obtains cert app' where "processSignRequest env c cfg s serial rq app = (Inr cert, app')" "crParseCert c (xcRaw cert) = Inr cert"
    "nmCommonName (xcSubject cert) = user" "xcSerial cert = serial" "xcEmailAddresses cert = [uid]" "xcPublicKey cert = pub key"
    "apDb app' = SaveSignInfo (evGorm env) user uid (hex_encode serial) (stNow s + cert_ttl env)
       (apDb (snd (users_valid env (stNow s) user [] app)))"
proof -
  have pem: "pem_laws c" using laws by (simp add: x509_laws_def)
  obtain csr where csr: "ParseCsr c (rqBody rq) = Inr csr" "nmCommonName (csSubject csr) = user" "csPublicKey csr = pub key"
    using laws unfolding body(1) ParseCsr_makeCsr [OF laws] x509_laws_def by (metis subject_of_name)
  define tpl where "tpl = getCertTemplate serial (stNow s) (xcSubject sc) csr uid (stNow s + cert_ttl env)"
  obtain raw cert where crt: "crCreateCert c tpl sc (csPublicKey csr) k = Inr raw" "crParseCert c raw = Inr cert"
    "nmCommonName (xcSubject cert) = nmCommonName (xcSubject tpl)" "xcSerial cert = xcSerial tpl"
    "xcEmailAddresses cert = xcEmailAddresses tpl" "xcPublicKey cert = csPublicKey csr"
    using laws unfolding x509_laws_def by blast
  obtain app1 where valid: "users_valid env (stNow s) user [] app = (True, app1)"
    using user(1) by (cases "users_valid env (stNow s) user [] app") auto
  have sign: "signClientCert c serial (stNow s) uid csr sc k (stNow s + cert_ttl env) = Inr cert"
    using crt(1,2) by (simp add: signClientCert_def tpl_def)
  show thesis
  proof (rule that)
    show "processSignRequest env c cfg s serial rq app = (Inr cert, app1\<lparr>apDb := SaveSignInfo (evGorm env) user uid
        (hex_encode (xcSerial cert)) (stNow s + cert_ttl env) (apDb app1)\<rparr>)"
      using csr sign by (simp add: processSignRequest_def Username_def user(2) body(2) valid cfg Let_def)
  qed (use crt csr pem_lawsD(6) [OF pem] valid in \<open>auto simp: tpl_def getCertTemplate_def\<close>)
qed


text \<open>A server with one user, and her request.\<close>

definition bob :: Device where "bob = new_Device\<lparr>devLogin := ''bob'', devScope := ''red''\<rparr>"

definition users_env :: "Device list option env" where
  "users_env = \<lparr>evGorm = example_gorm, evCodec = example_codec, evConfig = example_konf, evToLower = id, evUnescape = id,
     evOpenLog = None, evOpenChatLog = None, evIoErr = None, evSha256 = id, evUnzip = (\<lambda>_. Inr []),
     evCompare = (=), evGenerate = Inr\<rparr>"

definition users_app :: "Device list option App" where
  "users_app = NewApp example_gorm ''server'' (Some [bob])"

definition example_request :: "string \<Rightarrow> (string, string) smap \<Rightarrow> string \<Rightarrow> request" where
  "example_request user query body = \<lparr>rqPath = ''/'', rqParams = [], rqQuery = query, rqHeaders = [], rqCookies = [], rqForm = [],
     rqBody = body, rqFile = Inl EOF, rqStream = None, rqBaseURL = [], rqUsername = Some user\<rparr>"

definition example_certs :: certs_config where
  "example_certs = \<lparr>acTlsCert = Some ''ca-key'', acCertPool = [], acServerCert = Some (cert_of ''server'' ''k'' ''1'' []),
     acCA = [cert_of ''ca'' ''k2'' ''2'' []]\<rparr>"

lemma example_x509: "x509_laws example_crypto id"
proof -
  have "crBase64 example_crypto (crCreateCsr example_crypto subj key) \<noteq> []" for subj key
    using example_csr_fields(2) by (simp add: example_fields)
  moreover have "crCreateCert example_crypto tpl parent pk key =
      Inr (raw_cert (nmCommonName (xcSubject tpl)) pk (xcSerial tpl) (xcEmailAddresses tpl))" for tpl parent pk key
    by (simp add: example_crypto_def)
  ultimately show ?thesis
    unfolding x509_laws_def using example_laws by (auto simp: example_csr_fields(1) example_cert_of cert_of_def)
qed


end
