(* ===== verification/HttpSafety.thy ===== *)
theory HttpSafety
  imports HttpAdmin HttpCert
begin

text \<open>
  What the HTTP interfaces of the server guarantee, and what they do not: sessions of administrators,
  access to missions and files, the effective settings of a profile.
\<close>

section \<open>Sessions\<close>

text \<open>A token that was signed is valid until it expires, under the key it was signed with.\<close>

definition jwt_laws :: "jwt \<Rightarrow> bool" where
  "jwt_laws j \<longleftrightarrow>
     (\<forall>key sub till token now. jwtSign j key sub till = Inr token \<longrightarrow>
        token \<noteq> [] \<and> jwtParse j key now token = (if now < till then Inr (sub, True) else Inl ErrTokenExpired))"

definition with_user :: "string \<Rightarrow> request \<Rightarrow> request" where
  "with_user login rq = rq\<lparr>rqUsername := Some login\<rparr>"

definition exempt :: "HttpServer \<Rightarrow> request \<Rightarrow> bool" where
  "exempt h rq \<longleftrightarrow> rqPath rq = hsLoginUrl h \<or> rqPath rq = ''/token'' \<or> list_ex (\<lambda>p. HasPrefix (rqPath rq) p) (hsNoAuth h)"

lemma users_get_app: "snd (users_get env now login app) = app\<lparr>apUsers := apUsers (snd (users_get env now login app))\<rparr>"
  by (simp add: users_get_def case_prod_beta)

lemma checkToken_app: "snd (checkToken env j h now token app) = app\<lparr>apUsers := apUsers (snd (checkToken env j h now token app))\<rparr>"
  using users_get_app [of env now _ app]
  by (auto simp: checkToken_def case_prod_beta split: sum.splits option.splits prod.splits if_splits)

lemma login_token:
  assumes "getAdminLoginHandler env j h s rq0 app0 = (Inr r, app1)" "(''Set-Cookie'', ''token='' @ token) \<in> set (hrHeaders r)"
  shows "jwtSign j (hsTokenKey h) (lookup (rqForm rq0) ''login'') (stNow s + hsTokenMaxAge h) = Inr token"
    "CanLogIn (fst (users_get env (stNow s) (lookup (rqForm rq0) ''login'') app0))"
    "CheckPassword (evCompare env) (fst (users_get env (stNow s) (lookup (rqForm rq0) ''login'') app0)) (lookup (rqForm rq0) ''password'')"
  using assms
  by (auto simp: getAdminLoginHandler_def Let_def ok_body_def status_text_def token_for_def generateToken_def
      split: if_splits prod.splits sum.splits)


text \<open>For the witness: a token is the time it expires, in digits, and the user.\<close>

definition example_jwt :: jwt where
  "example_jwt = \<lparr>
     jwtSign = (\<lambda>key sub till. Inr ((if till < 0 then ''-'' else ''+'') @ digits_of (nat \<bar>till\<bar>) @ '';'' @ sub)),
     jwtParse = (\<lambda>key now token.
       let ds = takeWhile (\<lambda>x. x \<noteq> CHR '';'') (tl token);
           n = (case read_digits 0 ds of None \<Rightarrow> 0 | Some n \<Rightarrow> int n);
           till = (if hd token = CHR ''-'' then - n else n)
       in if now < till then Inr (drop (length ds + 2) token, True) else Inl ErrTokenExpired)\<rparr>"

lemma digits_of_digits: "\<forall>x \<in> set (digits_of n). is_digit x"
proof (induction n rule: digits_of.induct)
  case (1 n)
  then show ?case
    using digit_props(1) [of "n mod 10"] digit_props(1) [of n] by (subst digits_of.simps) auto
qed

lemma example_jwt_laws: "jwt_laws example_jwt"
proof -
  have "CHR '';'' \<notin> set (digits_of n)" for n
    using digits_of_digits [of n] by (auto simp: is_digit_def simp del: digits_of.simps)
  then have "takeWhile (\<lambda>x. x \<noteq> CHR '';'') (digits_of n @ CHR '';'' # r) = digits_of n" for n r
    by (subst takeWhile_append2) auto
  then show ?thesis
    unfolding jwt_laws_def by (simp add: example_jwt_def read_digits_of Let_def del: digits_of.simps)
qed

definition admin_app :: "Device list option App" where
  "admin_app = NewApp example_gorm ''server'' (Some [bob\<lparr>devAdmin := True, devPassword := ''pw''\<rparr>])"

definition login_request :: request where
  "login_request = (example_request [] [] [])\<lparr>rqPath := ''/login'', rqForm := [(''login'', ''bob''), (''password'', ''pw'')]\<rparr>"

definition page_request :: "string \<Rightarrow> request" where
  "page_request token = (example_request [] [] [])\<lparr>rqPath := ''/devices'', rqCookies := [(''token'', token)], rqUsername := None\<rparr>"


section \<open>Missions\<close>

text \<open>What the where clauses of a query on missions say of a row.\<close>

fun mission_holds :: "Mission \<Rightarrow> clause \<Rightarrow> bool" where
  "mission_holds m (Where sql v) =
     (if sql = ''missions.id = ?'' then v = VNat (msID m)
      else if sql = ''missions.name = ?'' then v = VStr (msName m)
      else if sql = ''missions.tool = ?'' then v = VStr (msTool m)
      else if sql = ''missions.scope in (?)'' then (case v of VList ss \<Rightarrow> msScope m \<in> set ss | _ \<Rightarrow> False)
      else True)"
| "mission_holds m c = True"

text \<open>
  A read of one mission gives a row of the table for which the clauses hold, with the points and
  resources that are loaded with it, or finds none.
\<close>

definition missions_table :: "'db gorm \<Rightarrow> 'db \<Rightarrow> Mission list \<Rightarrow> bool" where
  "missions_table g db ms \<longleftrightarrow>
     (\<forall>t. txModel t = Missions \<longrightarrow>
        (\<exists>m0 ps rs. m0 \<in> set ms \<and> list_all (mission_holds m0) (txClauses t) \<and>
           gTake g t (zero_row Missions) db = (MissionRow (m0\<lparr>msPoints := ps, msResources := rs\<rparr>), None)) \<or>
        snd (gTake g t (zero_row Missions) db) = Some ErrRecordNotFound)"

definition may_read :: "Device option \<Rightarrow> string \<Rightarrow> bool" where
  "may_read user scope \<longleftrightarrow> Device_GetScope user = ''*'' \<or> CanSeeScope user scope"

lemma StringSet_keys: "set (StringSet_List (StringSet_Add ks s)) = set ks \<union> set (StringSet_List s)"
proof (induction ks arbitrary: s)
  case (Cons k ks)
  have "set (StringSet_List (smStore k () s)) = insert k (set (StringSet_List s))"
    by (auto simp: StringSet_List_def smRange_def smStore_def dom_map_of_conv_image_fst [symmetric] AList.update_conv')
  with Cons show ?case by (simp add: StringSet_Add_def)
qed (simp add: StringSet_Add_def)

lemma StringSet_Has_List: "StringSet_Has s k \<longleftrightarrow> k \<in> set (StringSet_List s)"
  by (simp add: StringSet_Has_def StringSet_List_def smRange_def smLoad_def map_of_eq_None_iff)

text \<open>The scope clause of a query that a handler makes for its user.\<close>

lemma user_scope_clause:
  assumes "\<forall>c \<in> set (where_scope sql (StringSet_Add (Device_GetReadScope user) (StringSet_Add [Device_GetScope user] []))). P c"
    and "\<And>ss. P (Where sql (VList ss)) \<Longrightarrow> scope \<in> set ss"
  shows "may_read user scope"
proof -
  let ?s = "StringSet_Add (Device_GetReadScope user) (StringSet_Add [Device_GetScope user] [])"
  have keys: "set (StringSet_List ?s) = insert (Device_GetScope user) (set (Device_GetReadScope user))"
    by (simp add: StringSet_keys) (auto simp: StringSet_List_def smRange_def)
  have ne: "length ?s > 0" using keys by (auto simp: StringSet_List_def smRange_def)
  show ?thesis
  proof (cases "StringSet_Has ?s ''*''")
    case True
    then have "Device_GetScope user = ''*'' \<or> ''*'' \<in> set (Device_GetReadScope user)" by (auto simp: StringSet_Has_List keys)
    then show ?thesis
      by (cases user) (auto simp: may_read_def CanSeeScope_def Device_GetScope_def Device_GetReadScope_def pget_def list_ex_iff)
  next
    case False
    then have "scope \<in> insert (Device_GetScope user) (set (Device_GetReadScope user))"
      using assms(1) assms(2) [of "StringSet_List ?s"] ne unfolding keys [symmetric] by (simp add: where_scope_def)
    then show ?thesis
      by (cases user) (auto simp: may_read_def CanSeeScope_def Device_GetScope_def Device_GetReadScope_def pget_def list_ex_iff)
  qed
qed

lemma find_mission_readable:
  assumes "missions_table (evGorm env) db ms" "find_mission env full user name db = Some m"
  shows "may_read user (msScope m)" "name \<noteq> [] \<longrightarrow> msName m = name"
    "\<exists>m0 \<in> set ms. msID m0 = msID m \<and> msName m0 = msName m \<and> msScope m0 = msScope m"
proof -
  define q where "q = (if full then MissionQuery_Full else id) (MissionQuery_Name name (user_missions user))"
  have q: "mqScope q = StringSet_Add (Device_GetReadScope user) (StringSet_Add [Device_GetScope user] [])" "mqName q = name"
    by (simp_all add: q_def user_missions_def MissionQuery_Full_def MissionQuery_Name_def MissionQuery_ReadScope_def
        MissionQuery_Scope_def NewMissionQuery_def)
  define t where "t = MissionQuery_where q"
  have t: "txModel t = Missions" "set (where_scope ''missions.scope in (?)'' (mqScope q)) \<union> set (where_str ''missions.name = ?'' name) \<subseteq> set (txClauses t)"
    by (auto simp: t_def MissionQuery_where_def model_tx_def q(2))
  have "Option.bind (query_one (evGorm env) t db) as_mission = Some m"
    using assms(2) by (simp add: find_mission_def MissionQuery_One_def t_def q_def)
  then obtain row where "query_one (evGorm env) t db = Some row" "as_mission row = Some m"
    by (cases "query_one (evGorm env) t db") auto
  then obtain m0 where m0: "m0 \<in> set ms" "list_all (mission_holds m0) (txClauses t)" "msID m = msID m0" "msName m = msName m0" "msScope m = msScope m0"
    using assms(1) t(1) unfolding missions_table_def query_one_def by (fastforce split: prod.splits if_splits)
  have "may_read user (msScope m0)"
  proof (rule user_scope_clause)
    show "\<forall>c \<in> set (where_scope ''missions.scope in (?)'' (StringSet_Add (Device_GetReadScope user) (StringSet_Add [Device_GetScope user] []))).
        mission_holds m0 c"
      using m0(2) t(2) unfolding q(1) by (auto simp: list_all_iff)
  qed simp
  moreover have "name \<noteq> [] \<longrightarrow> msName m0 = name"
    using m0(2) t(2) by (fastforce simp: list_all_iff where_str_def)
  ultimately show "may_read user (msScope m)" "name \<noteq> [] \<longrightarrow> msName m = name"
    "\<exists>m0 \<in> set ms. msID m0 = msID m \<and> msName m0 = msName m \<and> msScope m0 = msScope m"
    using m0 by auto
qed

definition mission_handlers :: "'db env \<Rightarrow> decoders \<Rightarrow> (nat \<Rightarrow> stamp) \<Rightarrow> 'db handler list" where
  "mission_handlers env dec st =
     [getMissionHandler env (st 0), getMissionDeleteHandler env (st 0), getMissionRoleHandler env (st 0),
      getMissionRolePutHandler env (st 0), getMissionLogHandler env (st 0), getMissionKeywordsPutHandler env dec (st 0),
      getMissionSubscriptionsHandler env (st 0), getMissionSubscriptionHandler env (st 0),
      getMissionSubscriptionPutHandler env (st 0), getMissionSubscriptionDeleteHandler env (st 0),
      getMissionSubscriptionRolesHandler env (st 0), getMissionChangesHandler env (st 0), getMissionCotHandler env dec (st 0),
      getMissionContactsHandler env (st 0), getMissionContentPutHandler env dec st, getMissionContentPackagePutHandler env (st 0),
      getMissionContentDeleteHandler env st, getInvitePutHandler env (st 0), getInviteDeleteHandler env (st 0)]"

lemma with_mission_none:
  assumes "find_mission env full user (ctx_Params rq ''missionname'') (apDb app) = None" "users_get env (stNow s) (Username rq) app = (user, app1)"
  shows "with_mission env s full f rq app = (Inr (status 404), app1)"
proof -
  have "apDb app1 = apDb app" using assms(2) by (auto simp: users_get_def split: prod.splits)
  then show ?thesis using assms by (simp add: with_mission_def)
qed

lemmas mission_handler_defs = getMissionHandler_def getMissionDeleteHandler_def getMissionRoleHandler_def
  getMissionRolePutHandler_def getMissionLogHandler_def getMissionKeywordsPutHandler_def getMissionSubscriptionsHandler_def
  getMissionSubscriptionHandler_def getMissionSubscriptionPutHandler_def getMissionSubscriptionDeleteHandler_def
  getMissionSubscriptionRolesHandler_def getMissionChangesHandler_def getMissionCotHandler_def getMissionContactsHandler_def
  getMissionContentPutHandler_def getMissionContentPackagePutHandler_def getMissionContentDeleteHandler_def
  getInvitePutHandler_def getInviteDeleteHandler_def


text \<open>For the witness: a database that is the table of its missions, one of scope \<open>blue\<close>.\<close>

definition mission_gorm :: "Mission list gorm" where
  "mission_gorm = no_db\<lparr>gTake := (\<lambda>t r ms.
     case (if txModel t = Missions then find (\<lambda>m. list_all (mission_holds m) (txClauses t)) ms else None) of
       None \<Rightarrow> (r, Some ErrRecordNotFound) | Some m \<Rightarrow> (MissionRow m, None))\<rparr>"

definition mission_env :: "Mission list env" where
  "mission_env = \<lparr>evGorm = mission_gorm, evCodec = example_codec, evConfig = example_konf, evToLower = id, evUnescape = id,
     evOpenLog = None, evOpenChatLog = None, evIoErr = None, evSha256 = id, evUnzip = (\<lambda>_. Inr []),
     evCompare = (=), evGenerate = Inr\<rparr>"

definition blue_mission :: Mission where "blue_mission = new_Mission\<lparr>msID := 7, msName := ''ops'', msScope := ''blue''\<rparr>"

definition mission_app :: "Mission list App" where
  "mission_app = (NewApp no_db ''server'' [])\<lparr>apDb := [blue_mission]\<rparr>"

definition mission_request :: request where
  "mission_request = (example_request [] [] [])\<lparr>rqParams := [(''missionname'', ''ops'')]\<rparr>"

lemma mission_gorm_table: "missions_table mission_gorm db db"
proof -
  have "(\<exists>m0 ps rs. m0 \<in> set db \<and> list_all (mission_holds m0) (txClauses t) \<and>
           gTake mission_gorm t (zero_row Missions) db = (MissionRow (m0\<lparr>msPoints := ps, msResources := rs\<rparr>), None)) \<or>
        snd (gTake mission_gorm t (zero_row Missions) db) = Some ErrRecordNotFound" if t: "txModel t = Missions" for t
  proof (cases "find (\<lambda>m. list_all (mission_holds m) (txClauses t)) db")
    case (Some m)
    then have "m \<in> set db" "list_all (mission_holds m) (txClauses t)" by (auto simp: find_Some_iff)
    moreover have "gTake mission_gorm t (zero_row Missions) db = (MissionRow (m\<lparr>msPoints := msPoints m, msResources := msResources m\<rparr>), None)"
      using Some t by (simp add: mission_gorm_def)
    ultimately show ?thesis by blast
  qed (simp add: mission_gorm_def t)
  then show ?thesis unfolding missions_table_def by blast
qed


section \<open>Injected messages\<close>

text \<open>
  Anybody who can reach the administration port can put a message of any scope into the server,
  without a token. The path \<open>/cot_xml\<close> is exempt from authentication and its handler takes the scope
  from the query, so the message it hands on can have the scope \<open>local\<close>, which every client sees
  whatever its device may read.
\<close>

theorem cot_xml_open:
  assumes "cdEventUnmarshal (evCodec env) (rqBody rq) = Inr ev"
    and "EventToProto (cdDecode (evCodec env)) (cdParseFloat (evCodec env)) (Some ev) = (Some m, None)"
    and "HasPrefix (rqPath rq) ''/cot_xml''" "ctx_Query rq ''scope'' = scope" "scope \<noteq> []" "length (apCh app) < chCap"
  shows "CookieAuth env j (NewHttp key) now (getCotXMLPostHandler env) rq app =
      (Inr (ok_body NoBody), app\<lparr>apCh := apCh app @ [m\<lparr>cmScope := scope\<rparr>]\<rparr>) \<and>
    (scope = ''local'' \<longrightarrow> visible_to d (m\<lparr>cmScope := scope\<rparr>))"
  using assms by (auto simp: CookieAuth_def NewHttp_def getCotXMLPostHandler_def NewCotMessage_def chan_send_def cmp_Or_def
      visible_to_def IsLocal_def LocalScope_def)

theorem cot_xml_open_witness:
  "\<exists>m. CookieAuth example_env example_jwt (NewHttp ''key'') 0 (getCotXMLPostHandler example_env)
       ((example_request [] [(''scope'', ''local'')] ''<event/>'')\<lparr>rqPath := ''/cot_xml''\<rparr>) example_app =
      (Inr (ok_body NoBody), example_app\<lparr>apCh := apCh example_app @ [m\<lparr>cmScope := ''local''\<rparr>]\<rparr>) \<and>
    visible_to (Some (new_Device\<lparr>devScope := ''blue''\<rparr>)) (m\<lparr>cmScope := ''local''\<rparr>)"
proof -
  let ?rq = "(example_request [] [(''scope'', ''local'')] ''<event/>'')\<lparr>rqPath := ''/cot_xml''\<rparr>"
  have ev: "cdEventUnmarshal (evCodec example_env) (rqBody ?rq) = Inr example_event" by (simp add: example_env_def example_codec_def)
  have "snd (EventToProto (cdDecode (evCodec example_env)) (cdParseFloat (evCodec example_env)) (Some example_event)) = None"
    "fst (EventToProto (cdDecode (evCodec example_env)) (cdParseFloat (evCodec example_env)) (Some example_event)) \<noteq> None"
    by code_simp+
  then obtain m where m: "EventToProto (cdDecode (evCodec example_env)) (cdParseFloat (evCodec example_env)) (Some example_event) = (Some m, None)"
    by (metis prod.collapse option.exhaust)
  have rq: "HasPrefix (rqPath ?rq) ''/cot_xml''" "ctx_Query ?rq ''scope'' = ''local''" "''local'' \<noteq> []"
    by (simp_all add: example_request_def HasPrefix_def ctx_Query_def lookup_def smLoad_def)
  have room: "length (apCh example_app) < chCap" by code_simp
  show ?thesis using cot_xml_open [OF ev m rq room] by blast
qed

section \<open>Profiles\<close>

text \<open>What one profile says of a setting.\<close>

definition profile_value :: "bool \<Rightarrow> Profile option \<Rightarrow> string \<Rightarrow> string option" where
  "profile_value callsign p k =
     (case p of
        None \<Rightarrow> None
      | Some p \<Rightarrow>
          (case smLoad (pfOptions p) k of
             Some v \<Rightarrow> Some v
           | None \<Rightarrow>
               (let v = (if k = ''locationCallsign'' then pfCallsign p else if k = ''locationTeam'' then pfTeam p
                         else if k = ''atakRoleType'' then pfRole p else if k = ''locationUnitType'' then pfCotType p else [])
                in if callsign \<and> v \<noteq> [] then Some v else None)))"

definition or_else :: "'a option \<Rightarrow> 'a option \<Rightarrow> 'a option" where
  "or_else x y = (case x of None \<Rightarrow> y | Some _ \<Rightarrow> x)"

lemma maps_Copy_load: "smap_wf src \<Longrightarrow> smLoad (maps_Copy dst src) k = or_else (smLoad src k) (smLoad dst k)"
proof (induction src arbitrary: dst)
  case (Cons kv src)
  obtain k' v where kv: "kv = (k', v)" by fastforce
  with Cons.prems have "smap_wf src" "smLoad src k' = None"
    by (auto simp: smap_wf_def smLoad_def map_of_eq_None_iff)
  with Cons.IH [of "smStore k' v dst"] kv show ?case
    by (auto simp: maps_Copy_def smRange_def smLoad_Cons smap_simps or_else_def split: option.splits)
qed (simp add: maps_Copy_def smRange_def or_else_def)

lemma set_if_load: "smLoad (set_if k' v m) k = (if k = k' \<and> v \<noteq> [] then Some v else smLoad m k)"
  by (simp add: set_if_def smap_simps)

lemma profile_opts_load:
  assumes "\<And>q. p = Some q \<Longrightarrow> smap_wf (pfOptions q)"
  shows "smLoad (profile_opts callsign p res) k = or_else (profile_value callsign p k) (smLoad res k)"
proof (cases p)
  case (Some q)
  then have "smLoad (profile_opts callsign p res) k = or_else (smLoad (pfOptions q) k)
      (if callsign \<and> k = ''locationUnitType'' \<and> pfCotType q \<noteq> [] then Some (pfCotType q)
       else if callsign \<and> k = ''atakRoleType'' \<and> pfRole q \<noteq> [] then Some (pfRole q)
       else if callsign \<and> k = ''locationTeam'' \<and> pfTeam q \<noteq> [] then Some (pfTeam q)
       else if callsign \<and> k = ''locationCallsign'' \<and> pfCallsign q \<noteq> [] then Some (pfCallsign q)
       else smLoad res k)"
    by (simp add: profile_opts_def maps_Copy_load assms set_if_load)
  also have "\<dots> = or_else (profile_value callsign p k) (smLoad res k)"
  proof (cases "smLoad (pfOptions q) k")
    case None
    then show ?thesis unfolding Some profile_value_def by (cases callsign) (simp_all add: or_else_def Let_def)
  qed (simp add: Some profile_value_def or_else_def)
  finally show ?thesis .
qed (simp add: profile_opts_def profile_value_def or_else_def)

lemma maps_Copy_wf: "smap_wf dst \<Longrightarrow> smap_wf (maps_Copy dst src)"
proof (induction src arbitrary: dst)
  case (Cons kv src)
  have "smap_wf (smStore (fst kv) (snd kv) dst)" by (rule syncmap.wf_store [OF Cons.prems])
  from Cons.IH [OF this] show ?case by (simp add: maps_Copy_def smRange_def case_prod_beta)
qed (simp add: maps_Copy_def smRange_def)

lemma profileOpts_wf: "smap_wf (profileOpts callsign ps)"
proof -
  have "smap_wf (set_if k v m)" if "smap_wf m" for k v m using that by (simp add: set_if_def syncmap.wf_store)
  then have "smap_wf (profile_opts callsign p m)" if "smap_wf m" for p m
    using that by (cases p) (simp_all add: profile_opts_def maps_Copy_wf)
  then have "smap_wf (fold (profile_opts callsign) ps m)" if "smap_wf m" for m
    using that by (induction ps arbitrary: m) simp_all
  then show ?thesis by (simp add: profileOpts_def)
qed

text \<open>
  C26: which setting a client gets. The profile of the user's device wins over the one of the device,
  that over the user's, and that over the general one; within a profile the options win over the
  call sign, team, role and type, which count for the general and the user's profile only at
  enrolment; and profiles are always enabled on connection, whatever a profile says.
\<close>

theorem profile_precedence:
  assumes "\<And>login dev p. find_profile g login dev db = Some p \<Longrightarrow> smap_wf (pfOptions p)"
  shows "smLoad (profile_options g user uid enrollment db) k =
     (if k = ''deviceProfileEnableOnConnect'' then Some ''true''
      else or_else (profile_value True (find_profile g user uid db) k)
             (or_else (profile_value True (find_profile g ''*'' uid db) k)
               (or_else (profile_value enrollment (find_profile g user ''*'' db) k)
                 (profile_value enrollment (find_profile g ''*'' ''*'' db) k))))"
proof -
  have two: "smLoad (profileOpts cs [find_profile g l1 d1 db, find_profile g l2 d2 db]) k =
      or_else (profile_value cs (find_profile g l2 d2 db) k) (profile_value cs (find_profile g l1 d1 db) k)" for cs l1 d1 l2 d2
    by (simp add: profileOpts_def profile_opts_load assms) (simp add: or_else_def split: option.split)
  show ?thesis
    by (simp add: profile_options_def smap_simps maps_Copy_load [OF profileOpts_wf] two)
      (simp add: or_else_def split: option.split)
qed

definition profile_gorm :: "Profile list gorm" where
  "profile_gorm = no_db\<lparr>gTake := (\<lambda>t r ps.
     case find (\<lambda>p. list_all (\<lambda>c. c = Where ''login = ?'' (VStr (pfLogin p)) \<or> c = Where ''uid = ?'' (VStr (pfUID p))) (txClauses t)) ps of
       None \<Rightarrow> (r, Some ErrRecordNotFound) | Some p \<Rightarrow> (ProfileRow p, None))\<rparr>"

definition example_profiles :: "Profile list" where
  "example_profiles =
     [new_Profile\<lparr>pfLogin := ''*'', pfUID := ''*'', pfTeam := ''Red'', pfOptions := [(''deviceProfileEnableOnConnect'', ''false'')]\<rparr>,
      new_Profile\<lparr>pfLogin := ''bob'', pfUID := ''*'', pfTeam := ''Blue''\<rparr>]"

theorem profile_precedence_witness:
  "smLoad (profile_options profile_gorm ''bob'' ''phone'' True example_profiles) ''locationTeam'' = Some ''Blue'' \<and>
   smLoad (profile_options profile_gorm ''bob'' ''phone'' False example_profiles) ''locationTeam'' = None"
proof -
  have wf: "smap_wf (pfOptions p)" if "find_profile profile_gorm login uid example_profiles = Some p" for login uid p
  proof -
    have "p \<in> set example_profiles"
      using that by (auto simp: find_profile_def ProfileQuery_One_def query_one_def profile_gorm_def find_Some_iff
          split: option.splits prod.splits if_splits) 
    then show ?thesis by (auto simp: example_profiles_def new_Profile_def smap_wf_def)
  qed
  have v: "profile_value True (find_profile profile_gorm ''bob'' ''phone'' example_profiles) ''locationTeam'' = None"
    "profile_value True (find_profile profile_gorm ''*'' ''phone'' example_profiles) ''locationTeam'' = None"
    "profile_value True (find_profile profile_gorm ''bob'' ''*'' example_profiles) ''locationTeam'' = Some ''Blue''"
    "profile_value False (find_profile profile_gorm ''bob'' ''*'' example_profiles) ''locationTeam'' = None"
    "profile_value False (find_profile profile_gorm ''*'' ''*'' example_profiles) ''locationTeam'' = None"
    by code_simp+
  have "smLoad (profile_options profile_gorm ''bob'' ''phone'' e example_profiles) ''locationTeam'' =
     (if ''locationTeam'' = ''deviceProfileEnableOnConnect'' then Some ''true''
      else or_else (profile_value True (find_profile profile_gorm ''bob'' ''phone'' example_profiles) ''locationTeam'')
             (or_else (profile_value True (find_profile profile_gorm ''*'' ''phone'' example_profiles) ''locationTeam'')
               (or_else (profile_value e (find_profile profile_gorm ''bob'' ''*'' example_profiles) ''locationTeam'')
                 (profile_value e (find_profile profile_gorm ''*'' ''*'' example_profiles) ''locationTeam''))))" for e
    by (rule profile_precedence) (rule wf)
  then show ?thesis by (simp add: v or_else_def)
qed

section \<open>Files\<close>

definition found_resource :: "'db env \<Rightarrow> Device option \<Rightarrow> string \<Rightarrow> 'db \<Rightarrow> Resource option" where
  "found_resource env user hash db =
     ResourceQuery_One (evGorm env) (ResourceQuery_UID [] (ResourceQuery_Hash hash (user_resources user))) db"

lemma content_get:
  assumes "ctx_Query rq ''hash'' = hash" "ctx_Query rq ''uid'' = []" "hash \<noteq> []"
    and "found_resource env (fst (users_get env (stNow s) (Username rq) app)) hash (apDb app) = Some fi"
    and "GetFile (blob_dir env) hash (rsScope fi) (apFiles app) = Inr dat"
  shows "\<exists>r. fst (getContentGetHandler env dec s rq app) = Inr r \<and> hrStatus r = 200 \<and> hrBody r = Text dat \<and>
     (''Content-Type'', rsMIMEType fi) \<in> set (hrHeaders r)"
proof -
  obtain user app1 where u: "users_get env (stNow s) (Username rq) app = (user, app1)" by fastforce
  then have "apDb app1 = apDb app" "apFiles app1 = apFiles app" by (auto simp: users_get_def split: prod.splits)
  with assms u show ?thesis by (simp add: getContentGetHandler_def Let_def found_resource_def)
qed

text \<open>Creating a row keeps the fields of the resource but for its key, its times and, when it had none, its uid.\<close>

definition create_keeps :: "'db gorm \<Rightarrow> bool" where
  "create_keeps g \<longleftrightarrow> (\<forall>r row db db'. gCreate g (ResourceRow r) db = ((row, None), db') \<longrightarrow>
     (\<exists>r'. row = ResourceRow r' \<and> rsHash r' = rsHash r \<and> rsScope r' = rsScope r \<and> rsMIMEType r' = rsMIMEType r))"

lemma create_resource_ok:
  assumes "create_keeps (evGorm env)" "create_resource env r app = (Inr c, app1)"
  shows "rsHash c = rsHash r" "rsScope c = rsScope r" "rsMIMEType c = rsMIMEType r" "apFiles app1 = apFiles app"
proof -
  obtain row err db where g: "gCreate (evGorm env) (ResourceRow r) (apDb app) = ((row, err), db)" by (metis surj_pair)
  then have "err = None" using assms(2) by (auto simp: create_resource_def dbCreate_def split: option.splits)
  then obtain r' where "row = ResourceRow r'" "rsHash r' = rsHash r" "rsScope r' = rsScope r" "rsMIMEType r' = rsMIMEType r"
    using assms(1) g unfolding create_keeps_def by blast
  with assms(2) g \<open>err = None\<close> show "rsHash c = rsHash r" "rsScope c = rsScope r" "rsMIMEType c = rsMIMEType r" "apFiles app1 = apFiles app"
    by (auto simp: create_resource_def dbCreate_def)
qed

lemma blob_dir_nonempty: "blob_dir env \<noteq> []"
  by (simp add: blob_dir_def path_Join_def path_Clean_def Let_def)

text \<open>
  C24: a file that was uploaded is downloaded as it was. The upload stores it under its hash, in the
  user's scope, and touches no other file; a user for whom the database finds the resource gets its
  bytes and its type, as long as the files stay as they are.
\<close>

theorem upload_download:
  assumes "\<And>d. plain_name (evSha256 env d)" "create_keeps (evGorm env)"
    and "user = fst (users_get env (stNow s) (Username rq) app)" "Device_GetScope user = [] \<or> plain_name (Device_GetScope user)"
    and up: "uploadFile env s rq dev fname app = (Inr c, app1)" "rqStream rq = Some (Inr dat)"
    and down: "apFiles app2 = apFiles app1" "ctx_Query rq2 ''hash'' = rsHash c" "ctx_Query rq2 ''uid'' = []"
    and fi: "found_resource env (fst (users_get env (stNow s2) (Username rq2) app2)) (rsHash c) (apDb app2) = Some fi"
      "rsScope fi = rsScope c" "rsMIMEType fi = rsMIMEType c"
  shows "rsHash c = evSha256 env dat \<and> rsScope c = Device_GetScope user \<and>
     (\<exists>r. fst (getContentGetHandler env dec s2 rq2 app2) = Inr r \<and> hrStatus r = 200 \<and> hrBody r = Text dat \<and>
        (''Content-Type'', ctx_Get rq ''Content-Type'') \<in> set (hrHeaders r)) \<and>
     ((scope = [] \<or> plain_name scope) \<and> plain_name h \<and> (scope, h) \<noteq> (rsScope c, rsHash c) \<longrightarrow>
        GetFile (blob_dir env) h scope (apFiles app1) = GetFile (blob_dir env) h scope (apFiles app))"
proof -
  obtain u app' where u: "users_get env (stNow s) (Username rq) app = (u, app')" by fastforce
  with assms(3) have user: "u = user" by simp
  have files: "apFiles app' = apFiles app" using u by (auto simp: users_get_def split: prod.splits)
  obtain hash n fs where put: "PutFile (evSha256 env) (blob_dir env) (evIoErr env) (Device_GetScope user) [] (Some (Inr dat)) (apFiles app) =
      (Inr (hash, n), fs)"
    using up u by (auto simp: uploadFile_def user files split: prod.splits sum.splits)
  have "\<exists>r. create_resource env r (app'\<lparr>apFiles := fs\<rparr>) = (Inr c, app1) \<and> rsHash r = hash \<and> rsScope r = Device_GetScope user \<and>
      rsMIMEType r = ctx_Get rq ''Content-Type''"
    using up u put by (auto simp: uploadFile_def user files Let_def intro!: exI)
  then have c: "rsHash c = hash" "rsScope c = Device_GetScope user" "rsMIMEType c = ctx_Get rq ''Content-Type''" "apFiles app1 = fs"
    using create_resource_ok [OF assms(2)] by fastforce+
  note stored = blob_roundtrip [OF assms(1) blob_dir_nonempty assms(4) disjI1 [OF refl] put]
  then have "hash \<noteq> []" "GetFile (blob_dir env) hash (rsScope fi) (apFiles app2) = Inr dat"
    using assms(1) [of dat] c down(1) fi(2) by (auto simp: plain_name_def)
  then have "\<exists>r. fst (getContentGetHandler env dec s2 rq2 app2) = Inr r \<and> hrStatus r = 200 \<and> hrBody r = Text dat \<and>
      (''Content-Type'', rsMIMEType fi) \<in> set (hrHeaders r)"
    using content_get [OF down(2,3) _ fi(1)] c by blast
  with stored c fi(3) show ?thesis by auto
qed


text \<open>For the witnesses: a database that is the list of its resources, and a hash that is the length.\<close>

definition resource_holds :: "Resource \<Rightarrow> clause \<Rightarrow> bool" where
  "resource_holds r c =
     (case c of Where sql v \<Rightarrow>
        (if sql = ''hash = ?'' then v = VStr (rsHash r)
         else if sql = ''scope in (?)'' then (case v of VList ss \<Rightarrow> rsScope r \<in> set ss | _ \<Rightarrow> False) else False)
      | _ \<Rightarrow> True)"

definition file_gorm :: "Resource list gorm" where
  "file_gorm = no_db\<lparr>gCreate := (\<lambda>row rs. ((row, None), (case row of ResourceRow r \<Rightarrow> r # rs | _ \<Rightarrow> rs))),
     gTake := (\<lambda>t r rs. case (if txModel t = Resources then find (\<lambda>r. list_all (resource_holds r) (txClauses t)) rs else None) of
       None \<Rightarrow> (r, Some ErrRecordNotFound) | Some x \<Rightarrow> (ResourceRow x, None))\<rparr>"

definition file_env :: "Resource list env" where
  "file_env = \<lparr>evGorm = file_gorm, evCodec = example_codec, evConfig = example_konf\<lparr>kString := (\<lambda>_. ''data'')\<rparr>, evToLower = id,
     evUnescape = id, evOpenLog = None, evOpenChatLog = None, evIoErr = None, evSha256 = (\<lambda>d. CHR ''x'' # Itoa (int (length d))),
     evUnzip = (\<lambda>_. Inr []), evCompare = (=), evGenerate = Inr\<rparr>"

definition file_app :: "Resource list App" where
  "file_app = (NewApp no_db ''server'' [])\<lparr>apFiles := [(''users.yml'', ''secret'')]\<rparr>"

definition example_decoders :: decoders where
  "example_decoders = \<lparr>jdEventData = (\<lambda>_. new_CotEvent), jdHttpDate = (\<lambda>_. []), jdKeywords = (\<lambda>_. Inr []), jdContents = (\<lambda>_. Inr []),
     jdCot = (\<lambda>_. Inl EOF), jdFeeds = (\<lambda>_. Inr []), jdForm = (\<lambda>_. Inr []), jdDevicePost = (\<lambda>_. Inr None), jdDevicePut = (\<lambda>_. Inr None),
     jdProfilePost = (\<lambda>_. Inr None), jdProfilePut = (\<lambda>_. Inr None), jdFeedPost = (\<lambda>_. Inr None), jdFeedPut = (\<lambda>_. Inr None)\<rparr>"

lemma file_gorm_create: "create_keeps file_gorm" "snd (fst (gCreate file_gorm row db)) = None"
  by (simp_all add: create_keeps_def file_gorm_def)

definition get_file :: "string \<Rightarrow> request" where "get_file hash = example_request [] [(''hash'', hash)] []"

definition post_file :: request where
  "post_file = (example_request [] [(''name'', ''a.txt'')] [])\<lparr>rqStream := Some (Inr ''abc''), rqHeaders := [(''Content-Type'', ''text/plain'')]\<rparr>"

lemma file_fields: "evGorm file_env = file_gorm" "evSha256 file_env d = CHR ''x'' # Itoa (int (length d))"
  by (simp_all add: file_env_def)

theorem upload_download_witness:
  "\<exists>r. fst (getContentGetHandler file_env example_decoders (example_stamps 0) (get_file ''x3'')
       (snd (uploadFile file_env (example_stamps 0) post_file [] ''a.txt'' file_app))) = Inr r \<and> hrStatus r = 200 \<and> hrBody r = Text ''abc''"
proof -
  let ?up = "uploadFile file_env (example_stamps 0) post_file [] ''a.txt'' file_app"
  let ?fi = "projr (fst ?up)"
  have "CHR ''/'' \<notin> set (digits_of n)" for n
    using digits_of_digits [of n] by (auto simp: is_digit_def)
  then have plain: "plain_name (evSha256 file_env d)" for d by (simp add: file_fields plain_name_def Itoa_def)
  have user: "fst (users_get file_env (stNow (example_stamps 0)) (Username post_file) file_app) = None" by code_simp
  then have scope: "Device_GetScope (fst (users_get file_env (stNow (example_stamps 0)) (Username post_file) file_app)) = [] \<or>
      plain_name (Device_GetScope (fst (users_get file_env (stNow (example_stamps 0)) (Username post_file) file_app)))"
    by (simp add: Device_GetScope_def pget_def)
  have "isl (fst ?up) = False" by code_simp
  then have up: "?up = (Inr ?fi, snd ?up)" by (cases "fst ?up"; cases ?up) auto
  have body: "rqStream post_file = Some (Inr ''abc'')" by (simp add: post_file_def)
  have hash: "rsHash ?fi = ''x3''" by code_simp
  have query: "ctx_Query (get_file ''x3'') ''hash'' = rsHash ?fi" "ctx_Query (get_file ''x3'') ''uid'' = []" unfolding hash by code_simp+
  have found: "found_resource file_env (fst (users_get file_env (stNow (example_stamps 0)) (Username (get_file ''x3'')) (snd ?up)))
      (rsHash ?fi) (apDb (snd ?up)) = Some ?fi"
    by code_simp
  have create: "create_keeps (evGorm file_env)" by (simp add: file_fields file_gorm_create)
  show ?thesis
    using upload_download [OF plain create refl scope up body refl query found refl refl, of example_decoders] by blast
qed


end
