(* ===== verification/HttpRoutes.thy ===== *)
theory HttpRoutes
  imports HttpSafety
begin

text \<open>
  The routes of the four HTTP interfaces and the middleware in front of them: \<open>NewAdminAPI\<close>,
  \<open>NewMartiAPI\<close>, \<open>NewCertAPI\<close>, \<open>NewLocalAPI\<close> and \<open>addMissionApi\<close>. A table is the list of routes in the
  order of their registration. The router of fiber is a parameter: it matches a pattern with a path
  and gives the values of the parameters; the first route that matches is taken. WebSockets, static
  files, stack dumps and metrics are external handlers.
\<close>

section \<open>Services\<close>

record 'db services =
  svEnv :: "'db env"
  svDec :: decoders
  svJwt :: jwt
  svHttp :: HttpServer
  svStamp :: "nat \<Rightarrow> stamp"
  svPkg :: package_tools
  svCrypto :: crypto
  svCerts :: certs_config
  svSerial :: string
  svVersion :: string
  svLayers :: "string \<Rightarrow> LayerDescription list result"
  svToUpper :: "string \<Rightarrow> string"
  svModTime :: "string \<Rightarrow> time"
  svParseUrl :: "string \<Rightarrow> url_parts option"
  svTlsNames :: "(string, string) smap"
  svMatch :: "string \<Rightarrow> string \<Rightarrow> (string, string) smap option"
  svStatic :: "request \<Rightarrow> response option"
  svExternal :: "string \<Rightarrow> 'db handler"

type_synonym 'db http_route = "string \<times> string \<times> 'db handler"

definition serves :: "string \<Rightarrow> string \<Rightarrow> bool" where
  "serves m meth \<longleftrightarrow> m = meth \<or> (m = ''GET'' \<and> meth = ''HEAD'')"

definition not_found :: "'db services \<Rightarrow> 'db http_route list \<Rightarrow> 'db handler" where
  "not_found sv routes rq app =
     (Inr (status (if list_ex (\<lambda>(m, p, h). svMatch sv p (rqPath rq) \<noteq> None) routes then 405 else 404)), app)"

definition dispatch :: "'db services \<Rightarrow> 'db http_route list \<Rightarrow> string \<Rightarrow> 'db handler" where
  "dispatch sv routes meth rq app =
     (case find (\<lambda>(m, p, h). serves m meth \<and> svMatch sv p (rqPath rq) \<noteq> None) routes of
        None \<Rightarrow> not_found sv routes rq app
      | Some (m, p, h) \<Rightarrow> h (rq\<lparr>rqParams := the (svMatch sv p (rqPath rq))\<rparr>) app)"

section \<open>The tables\<close>

definition missions_at :: "string \<Rightarrow> string" where "missions_at p = ''/Marti/api/missions'' @ p"

definition mission_routes :: "'db services \<Rightarrow> 'db http_route list" where
  "mission_routes sv =
     (let env = svEnv sv; dec = svDec sv; st = svStamp sv; s = st 0
      in [(''GET'', missions_at ''/'', getMissionsHandler env s),
          (''GET'', missions_at ''/all/invitations'', getMissionsInvitationsHandler env),
          (''GET'', missions_at ''/:missionname'', getMissionHandler env s),
          (''PUT'', missions_at ''/:missionname'', getMissionPutHandler env st),
          (''DELETE'', missions_at ''/:missionname'', getMissionDeleteHandler env s),
          (''GET'', missions_at ''/:missionname/changes'', getMissionChangesHandler env s),
          (''GET'', missions_at ''/:missionname/cot'', getMissionCotHandler env dec s),
          (''GET'', missions_at ''/:missionname/contacts'', getMissionContactsHandler env s),
          (''PUT'', missions_at ''/:missionname/contents'', getMissionContentPutHandler env dec st),
          (''PUT'', missions_at ''/:missionname/contents/missionpackage'', getMissionContentPackagePutHandler env s),
          (''DELETE'', missions_at ''/:missionname/contents'', getMissionContentDeleteHandler env st),
          (''GET'', missions_at ''/:missionname/log'', getMissionLogHandler env s),
          (''PUT'', missions_at ''/:missionname/keywords'', getMissionKeywordsPutHandler env dec s),
          (''GET'', missions_at ''/:missionname/role'', getMissionRoleHandler env s),
          (''PUT'', missions_at ''/:missionname/role'', getMissionRolePutHandler env s),
          (''GET'', missions_at ''/:missionname/subscription'', getMissionSubscriptionHandler env s),
          (''PUT'', missions_at ''/:missionname/subscription'', getMissionSubscriptionPutHandler env s),
          (''DELETE'', missions_at ''/:missionname/subscription'', getMissionSubscriptionDeleteHandler env s),
          (''GET'', missions_at ''/:missionname/subscriptions'', getMissionSubscriptionsHandler env s),
          (''GET'', missions_at ''/:missionname/subscriptions/roles'', getMissionSubscriptionRolesHandler env s),
          (''PUT'', missions_at ''/:missionname/invite/:type/:uid'', getInvitePutHandler env s),
          (''DELETE'', missions_at ''/:missionname/invite/:type/:uid'', getInviteDeleteHandler env s)])"

definition marti_routes :: "'db services \<Rightarrow> 'db http_route list" where
  "marti_routes sv =
     (let env = svEnv sv; dec = svDec sv; s = svStamp sv 0
      in [(''GET'', ''/Marti/api/version'', getVersionHandler (svVersion sv)),
          (''GET'', ''/Marti/api/version/config'', getVersionConfigHandler (svVersion sv)),
          (''GET'', ''/Marti/api/clientEndPoints'', getEndpointsHandler env s),
          (''GET'', ''/Marti/api/contacts/all'', getContactsHandler env s),
          (''GET'', ''/Marti/api/util/user/roles'', getUserRolesHandler),
          (''GET'', ''/Marti/api/groups/all'', getAllGroupsHandler),
          (''GET'', ''/Marti/api/groups/groupCacheEnabled'', getAllGroupsCacheHandler),
          (''GET'', ''/Marti/api/cops/hierarchy'', getCopHierarchyHandler),
          (''GET'', ''/Marti/api/device/profile/connection'', getProfileConnectionHandler env (svPkg sv)),
          (''GET'', ''/Marti/api/device/profile/tool/:name'', getProfileToolHandler env),
          (''GET'', ''/Marti/sync/search'', getSearchHandler env s),
          (''GET'', ''/Marti/sync/missionquery'', getMissionQueryHandler env s),
          (''POST'', ''/Marti/sync/missionupload'', getMissionUploadHandler env s),
          (''GET'', ''/Marti/sync/content'', getContentGetHandler env dec s),
          (''POST'', ''/Marti/sync/upload'', getUploadHandler env s),
          (''GET'', ''/Marti/api/cot/xml/:uid'', getXmlHandler env dec s),
          (''GET'', ''/Marti/api/sync/metadata/:hash/:name'', getMetadataGetHandler env s),
          (''PUT'', ''/Marti/api/sync/metadata/:hash/:name'', getMetadataPutHandler env s),
          (''GET'', ''/Marti/vcm'', getVideoListHandler env (svParseUrl sv) s),
          (''POST'', ''/Marti/vcm'', getVideoPostHandler env dec s),
          (''GET'', ''/Marti/api/video'', getVideo2ListHandler env s)] @ mission_routes sv)"

definition admin_routes :: "'db services \<Rightarrow> string \<Rightarrow> 'db http_route list" where
  "admin_routes sv webtakRoot =
     (let env = svEnv sv; dec = svDec sv; s = svStamp sv 0; login = getAdminLoginHandler env (svJwt sv) (svHttp sv) s
      in [(''GET'', ''/login'', login), (''POST'', ''/login'', login),
          (''POST'', ''/token'', getAdminTokenHandler env dec (svJwt sv) (svHttp sv) s),
          (''GET'', ''/logout'', logoutHandler),
          (''GET'', ''/'', getIndexHandler), (''GET'', ''/units'', getUnitsHandler), (''GET'', ''/map'', getMapHandler),
          (''GET'', ''/missions'', getMissionsPageHandler), (''GET'', ''/files'', getFilesPage), (''GET'', ''/points'', getPointsPage),
          (''GET'', ''/devices'', getDevicesPage), (''GET'', ''/profiles'', getProfilesPage), (''GET'', ''/feeds'', getFeedsPage),
          (''GET'', ''/api/config'', getConfigHandler env (svLayers sv) (svVersion sv)),
          (''GET'', ''/api/connections'', getApiConnHandler),
          (''GET'', ''/api/unit'', getApiUnitsHandler (svToUpper sv)),
          (''GET'', ''/api/unit/:uid/track'', getApiUnitTrackHandler),
          (''DELETE'', ''/api/unit/:uid'', deleteItemHandler (svToUpper sv)),
          (''GET'', ''/ws'', svExternal sv ''ws''), (''GET'', ''/takproto/1'', svExternal sv ''takproto''),
          (''POST'', ''/cot'', getCotPostHandler dec), (''POST'', ''/cot_xml'', getCotXMLPostHandler env),
          (''GET'', ''/api/file'', getApiFilesHandler env), (''GET'', ''/api/file/:id/zip'', getApiZipFileHandler env dec (svModTime sv)),
          (''GET'', ''/api/file/:id'', getApiFileHandler env dec), (''GET'', ''/api/file/delete/:id'', getApiFileDeleteHandler env),
          (''GET'', ''/api/point'', getApiPointsHandler env s),
          (''GET'', ''/api/device'', getApiDevicesHandler env), (''POST'', ''/api/device'', getApiDevicePostHandler env dec),
          (''PUT'', ''/api/device/:id'', getApiDevicePutHandler env dec),
          (''GET'', ''/api/cert'', getApiCertsHandler env),
          (''GET'', ''/api/profile'', getApiProfilesHandler env), (''POST'', ''/api/profile'', getApiProfilePostHandler env dec),
          (''PUT'', ''/api/profile/:login/:uid'', getApiProfilePutHandler env dec),
          (''DELETE'', ''/api/profile/:login/:uid'', getApiProfileDeleteHandler env),
          (''GET'', ''/api/feed'', getApiFeedsHandler env), (''POST'', ''/api/feed'', getApiFeedPostHandler env dec s),
          (''PUT'', ''/api/feed/:uid'', getApiFeedPutHandler env dec), (''DELETE'', ''/api/feed/:uid'', getApiFeedDeleteHandler env),
          (''GET'', ''/api/mission'', getApiAllMissionHandler env),
          (''GET'', ''/api/mission/:id/changes'', getApiAllMissionChangesHandler env s)] @
         (if webtakRoot \<noteq> [] then
            [(''GET'', ''/webtak/*'', svExternal sv ''webtak''),
             (''GET'', ''/webtak-plugins/webtak-manifest.json'', getPluginsManifestHandler)] @ marti_routes sv
          else []))"

definition cert_routes :: "'db services \<Rightarrow> 'db http_route list" where
  "cert_routes sv =
     (let env = svEnv sv; s = svStamp sv 0
      in [(''GET'', ''/Marti/api/tls/config'', getTLSConfigHandler env (svTlsNames sv)),
          (''POST'', ''/Marti/api/tls/signClient'', getSignHandler env (svCrypto sv) (svCerts sv) s (svSerial sv)),
          (''POST'', ''/Marti/api/tls/signClient/v2'', getSignHandlerV2 env (svCrypto sv) (svCerts sv) s (svSerial sv)),
          (''GET'', ''/Marti/api/tls/profile/enrollment'', getProfileEnrollmentHandler env (svPkg sv))])"

definition local_routes :: "'db services \<Rightarrow> 'db http_route list" where
  "local_routes sv =
     [(''POST'', ''/cot'', getCotPostHandler (svDec sv)), (''GET'', ''/stack'', svExternal sv ''stack''),
      (''GET'', ''/metrics'', svExternal sv ''metrics'')]"

section \<open>The interfaces\<close>

definition AdminAPI :: "'db services \<Rightarrow> string \<Rightarrow> string \<Rightarrow> 'db handler" where
  "AdminAPI sv webtakRoot meth =
     CookieAuth (svEnv sv) (svJwt sv) (svHttp sv) (stNow (svStamp sv 0))
       (\<lambda>rq app. case svStatic sv rq of Some r \<Rightarrow> (Inr r, app) | None \<Rightarrow> dispatch sv (admin_routes sv webtakRoot) meth rq app)"

definition MartiAPI :: "'db services \<Rightarrow> PeerCert list option \<Rightarrow> string \<Rightarrow> 'db handler" where
  "MartiAPI sv peer meth =
     (if MartiSSL (evConfig (svEnv sv))
      then SSLCheckHandler (svEnv sv) (stNow (svStamp sv 0)) peer (dispatch sv (marti_routes sv) meth)
      else dispatch sv (marti_routes sv) meth)"

definition CertAPI :: "'db services \<Rightarrow> (string \<times> string) option \<Rightarrow> string \<Rightarrow> 'db handler" where
  "CertAPI sv creds meth = DeviceAuthHandler (svEnv sv) (stNow (svStamp sv 0)) creds (dispatch sv (cert_routes sv) meth)"

definition LocalAPI :: "'db services \<Rightarrow> string \<Rightarrow> 'db handler" where
  "LocalAPI sv meth = dispatch sv (local_routes sv) meth"

text \<open>The interfaces that are opened, by the settings, with their addresses.\<close>

definition listeners :: "koanf \<Rightarrow> (string \<times> string) list" where
  "listeners k =
     (if kString k ''admin_addr'' \<noteq> [] then [(''admin api calls'', kString k ''admin_addr'')] else []) @
     (if kString k ''cert_addr'' \<noteq> [] then [(''cert api calls'', kString k ''cert_addr'')] else []) @
     [(''marti api calls'', kString k ''api_addr''), (''local api calls'', kString k ''local_addr'')]"


section \<open>What can be reached without a session\<close>

text \<open>
  What fiber's router guarantees and the property needs: a pattern that begins with a literal segment
  matches only paths that begin with the same segment, up to the case of letters.
\<close>

definition lower_char :: "char \<Rightarrow> char" where
  "lower_char c = (if CHR ''A'' \<le> c \<and> c \<le> CHR ''Z'' then char_of (of_char c + 32 :: nat) else c)"

definition first_seg :: "string \<Rightarrow> string" where
  "first_seg p = map lower_char (takeWhile (\<lambda>c. c \<noteq> CHR ''/'') (tl p))"

definition literal_router :: "(string \<Rightarrow> string \<Rightarrow> (string, string) smap option) \<Rightarrow> bool" where
  "literal_router m \<longleftrightarrow> (\<forall>pat path. m pat path \<noteq> None \<longrightarrow> HasPrefix (first_seg pat) '':'' \<or> first_seg path = first_seg pat)"

text \<open>The first segments of the paths that are exempt.\<close>

definition open_seg :: "string \<Rightarrow> bool" where
  "open_seg s \<longleftrightarrow> s = ''login'' \<or> s = ''token'' \<or> HasPrefix s ''cot_xml''"

definition admin_open :: "'db services \<Rightarrow> 'db handler \<Rightarrow> bool" where
  "admin_open sv h \<longleftrightarrow>
     h = getAdminLoginHandler (svEnv sv) (svJwt sv) (svHttp sv) (svStamp sv 0) \<or>
     h = getAdminTokenHandler (svEnv sv) (svDec sv) (svJwt sv) (svHttp sv) (svStamp sv 0) \<or>
     h = getCotXMLPostHandler (svEnv sv)"

lemma lower_char_M: "lower_char CHR ''M'' = CHR ''m''"
  by code_simp

lemma lower_char_low: "c \<in> set ''abcdefghijklmnopqrstuvwxyz_-:*1'' \<Longrightarrow> lower_char c = c"
  by (auto simp: lower_char_def less_eq_char_def)

lemmas lower_char_eqs = lower_char_M lower_char_low

lemma mission_segs: "list_all (\<lambda>(m, p, h). first_seg p = ''marti'') (mission_routes sv)"
  by (simp add: mission_routes_def missions_at_def first_seg_def lower_char_eqs Let_def)

lemma marti_segs: "list_all (\<lambda>(m, p, h). first_seg p = ''marti'') (marti_routes sv)"
  by (simp add: marti_routes_def first_seg_def lower_char_eqs Let_def mission_segs [unfolded first_seg_def])

lemma admin_segs:
  "list_all (\<lambda>(m, p, h). \<not> HasPrefix (first_seg p) '':'' \<and> (open_seg (first_seg p) \<longrightarrow> admin_open sv h)) (admin_routes sv w)"
proof -
  have "list_all (\<lambda>(m, p, h). \<not> HasPrefix (first_seg p) '':'' \<and> (open_seg (first_seg p) \<longrightarrow> admin_open sv h)) (marti_routes sv)"
    using marti_segs by (rule list.pred_mono_strong) (auto simp: open_seg_def)
  then show ?thesis
    by (simp add: admin_routes_def Let_def first_seg_def lower_char_eqs open_seg_def admin_open_def)
qed


lemma exempt_seg:
  assumes "svHttp sv = NewHttp key" "exempt (svHttp sv) rq"
  shows "open_seg (first_seg (rqPath rq))"
proof -
  have "rqPath rq = ''/login'' \<or> rqPath rq = ''/token'' \<or> HasPrefix (rqPath rq) ''/cot_xml''"
    using assms by (simp add: exempt_def NewHttp_def)
  then show ?thesis by (auto simp: open_seg_def first_seg_def lower_char_eqs HasPrefix_iff)
qed

text \<open>
  C33: what a visitor without a session can reach on the administration port. Outside the exempt paths
  a request without a valid token is sent to the login page and changes nothing, whichever route it
  names; on the exempt paths the only handlers it can reach, of all that are registered (the Marti
  interface included, when it is served there), are the login, the token and the \<open>/cot_xml\<close> handler;
  everything else there is \<open>404\<close> or \<open>405\<close>.
\<close>

theorem admin_surface:
  assumes "literal_router (svMatch sv)" "svHttp sv = NewHttp key" "svStatic sv rq = None"
    and "\<forall>sub. jwtParse (svJwt sv) key (stNow (svStamp sv 0)) (getToken rq) \<noteq> Inr (sub, True)"
  shows "if exempt (svHttp sv) rq
     then AdminAPI sv w meth rq app = not_found sv (admin_routes sv w) rq app \<or>
       (\<exists>h ps. admin_open sv h \<and> AdminAPI sv w meth rq app = h (rq\<lparr>rqParams := ps\<rparr>) app)
     else AdminAPI sv w meth rq app = (Inr (redirect ''/login''), app)"
proof (cases "exempt (svHttp sv) rq")
  case True
  have path: "rqPath rq = ''/login'' \<or> rqPath rq = ''/token'' \<or> HasPrefix (rqPath rq) ''/cot_xml''"
    using True assms(2) by (simp add: exempt_def NewHttp_def)
  then have run: "AdminAPI sv w meth rq app = dispatch sv (admin_routes sv w) meth rq app"
    using assms(2,3) by (auto simp: AdminAPI_def CookieAuth_def NewHttp_def)
  show ?thesis
  proof (cases "find (\<lambda>(m, p, h). serves m meth \<and> svMatch sv p (rqPath rq) \<noteq> None) (admin_routes sv w)")
    case None
    then show ?thesis using True by (simp add: run dispatch_def)
  next
    case (Some r)
    obtain m p h where r: "r = (m, p, h)" by (cases r)
    have "(m, p, h) \<in> set (admin_routes sv w)" "svMatch sv p (rqPath rq) \<noteq> None"
      using Some r by (auto simp: find_Some_iff in_set_conv_nth)
    then have p: "\<not> HasPrefix (first_seg p) '':''" "open_seg (first_seg p) \<longrightarrow> admin_open sv h"
      using admin_segs [of sv w] by (auto simp: list_all_iff)
    have "svMatch sv p (rqPath rq) \<noteq> None" using Some r by (auto simp: find_Some_iff)
    then have "first_seg (rqPath rq) = first_seg p" using p(1) assms(1) unfolding literal_router_def by blast
    then have "admin_open sv h" using exempt_seg [OF assms(2) True] p(2) by simp
    then show ?thesis using True Some r by (auto simp: run dispatch_def)
  qed
next
  case False
  then have "rqPath rq \<noteq> ''/login''" "rqPath rq \<noteq> ''/token''" "\<not> HasPrefix (rqPath rq) ''/cot_xml''"
    using assms(2) by (simp_all add: exempt_def NewHttp_def)
  moreover have "\<exists>err. checkToken (svEnv sv) (svJwt sv) (svHttp sv) (stNow (svStamp sv 0)) (getToken rq) app = (Inl err, app)"
    using assms(2,4) by (auto simp: checkToken_def NewHttp_def split: sum.splits prod.splits)
  ultimately show ?thesis using False assms(2) by (auto simp: AdminAPI_def CookieAuth_def NewHttp_def)
qed


definition example_services :: "unit services" where
  "example_services = \<lparr>svEnv = example_env, svDec = example_decoders, svJwt = example_jwt, svHttp = NewHttp ''key'', svStamp = example_stamps,
     svPkg = \<lparr>ptReadDir = (\<lambda>_. Inl EOF), ptReadFile = (\<lambda>_. Inl EOF), ptUuidSHA1 = id, ptZip = (\<lambda>_. Inr [])\<rparr>,
     svCrypto = example_crypto, svCerts = example_certs, svSerial = ''1'', svVersion = ''1.0'', svLayers = (\<lambda>_. Inr []), svToUpper = id,
     svModTime = (\<lambda>_. 0), svParseUrl = (\<lambda>_. None), svTlsNames = [], svMatch = (\<lambda>pat path. if path = pat then Some [] else None),
     svStatic = (\<lambda>_. None), svExternal = (\<lambda>_ rq app. (Inr (status 200), app))\<rparr>"

definition example_visit :: "string \<Rightarrow> request" where
  "example_visit path = (example_request [] [] [])\<lparr>rqPath := path\<rparr>"

theorem admin_surface_witness:
  "AdminAPI example_services ''webtak'' ''DELETE'' (example_visit ''/Marti/api/missions/m1'') example_app =
     (Inr (redirect ''/login''), example_app) \<and>
   (AdminAPI example_services [] ''POST'' (example_visit ''/cot_xml'') example_app =
      not_found example_services (admin_routes example_services []) (example_visit ''/cot_xml'') example_app \<or>
    (\<exists>h ps. admin_open example_services h \<and> AdminAPI example_services [] ''POST'' (example_visit ''/cot_xml'') example_app =
      h ((example_visit ''/cot_xml'')\<lparr>rqParams := ps\<rparr>) example_app))"
proof -
  have sv: "literal_router (svMatch example_services)" "svHttp example_services = NewHttp ''key''" "svStatic example_services rq = None" for rq
    by (simp_all add: literal_router_def example_services_def)
  have tok: "getToken (example_visit p) = []" for p
    by (simp add: getToken_def example_visit_def example_request_def lookup_def ctx_Get_def)
  have "\<forall>sub. jwtParse example_jwt ''key'' (stNow (example_stamps 0)) [] \<noteq> Inr (sub, True)"
    by (simp add: example_jwt_def example_stamps_def)
  then have no: "\<forall>sub. jwtParse (svJwt example_services) ''key'' (stNow (svStamp example_services 0)) (getToken (example_visit p)) \<noteq> Inr (sub, True)" for p
    unfolding tok by (simp add: example_services_def)
  have e: "\<not> exempt (svHttp example_services) (example_visit ''/Marti/api/missions/m1'')"
    "exempt (svHttp example_services) (example_visit ''/cot_xml'')"
    by (simp_all add: exempt_def sv(2) NewHttp_def example_visit_def)
  show ?thesis
    using admin_surface [OF sv no, of "''/Marti/api/missions/m1''" "''webtak''" "''DELETE''" example_app]
      admin_surface [OF sv no, of "''/cot_xml''" "[]" "''POST''" example_app] e by simp
qed

end
