(* ===== verification/ServerMain.thy ===== *)
theory ServerMain
  imports HttpRoutes
begin

text \<open>
  The start of the server: the settings (\<open>NewAppConfig\<close>, \<open>Load\<close>, \<open>LoadEnv\<close> of
  \<open>internal/config/config.go\<close>), \<open>main\<close>, \<open>NewApp\<close> and \<open>Run\<close> of \<open>cmd/goatak_server/main.go\<close>, and the
  connections the server opens to other servers. The settings are a map from flat keys
  (\<open>section.name\<close>) to values; \<open>koanf\<close>'s typed lookups on such a map are a parameter, and so are
  the YAML parser (which gives the leaves of a file), reading of files, the key pair loader and the
  opening of the database.
\<close>

section \<open>Settings\<close>

datatype setting = SStr string | SInt int | SBool bool | SFloat f64 | SList "string list"

type_synonym settings = "(string, setting) smap"

definition setAll :: "(string \<times> setting) list \<Rightarrow> settings \<Rightarrow> settings" where
  "setAll kvs m = fold (\<lambda>(k, v). smStore k v) kvs m"

definition setDefaults :: "settings \<Rightarrow> settings" where
  "setDefaults = setAll
     [(''udp_addr'', SStr '':8999''), (''tcp_addr'', SStr '':8999''), (''tls_addr'', SStr '':8089''),
      (''api_addr'', SStr '':8080''), (''local_addr'', SStr ''localhost:8888''), (''data_dir'', SStr ''data''),
      (''db'', SStr ''db.sqlite''), (''delay'', SBool True), (''me.lat'', SFloat 0x404DEB780346DC5D),
      (''me.lon'', SFloat 0x403F0573EAB367A1), (''users_file'', SStr ''users.yml''), (''me.zoom'', SInt 10),
      (''ssl.cert_ttl_days'', SInt 365)]"

definition NewAppConfig :: settings where "NewAppConfig = setDefaults []"

text \<open>A file that cannot be loaded is only reported.\<close>

definition Load :: "(string \<Rightarrow> settings result) \<Rightarrow> string list \<Rightarrow> settings \<Rightarrow> bool \<times> settings" where
  "Load yaml filenames m =
     fold (\<lambda>name (loaded, m). case yaml name of Inl err \<Rightarrow> (loaded, m) | Inr kvs \<Rightarrow> (True, setAll kvs m)) filenames (False, m)"

text \<open>The variables of the environment that begin with the prefix are settings of type string; koanf skips an empty key.\<close>

definition LoadEnv :: "(string \<Rightarrow> string) \<Rightarrow> string \<Rightarrow> (string, string) smap \<Rightarrow> settings \<Rightarrow> settings" where
  "LoadEnv lower pre environ m =
     setAll (filter (\<lambda>(k, v). k \<noteq> [])
       (map (\<lambda>(k, v). (env_key lower pre k, SStr v)) (filter (\<lambda>(k, v). HasPrefix k pre) environ))) m"

text \<open>What the lookups of koanf promise for a key that is no section.\<close>

definition leaf :: "settings \<Rightarrow> string \<Rightarrow> bool" where
  "leaf m k \<longleftrightarrow> (\<forall>k' \<in> set (map fst m). \<not> HasPrefix k' (k @ ''.''))"

definition koanf_lookups :: "(settings \<Rightarrow> koanf) \<Rightarrow> bool" where
  "koanf_lookups view \<longleftrightarrow> (\<forall>m k. leaf m k \<longrightarrow>
     (smLoad m k = None \<longrightarrow> kString (view m) k = [] \<and> \<not> kBool (view m) k \<and> kInt (view m) k = 0 \<and> kFloat64 (view m) k = 0) \<and>
     (\<forall>s. smLoad m k = Some (SStr s) \<longrightarrow> kString (view m) k = s) \<and>
     (\<forall>b. smLoad m k = Some (SBool b) \<longrightarrow> kBool (view m) k = b) \<and>
     (\<forall>i. smLoad m k = Some (SInt i) \<longrightarrow> kInt (view m) k = i) \<and>
     (\<forall>x. smLoad m k = Some (SFloat x) \<longrightarrow> kFloat64 (view m) k = x))"

section \<open>Start\<close>

datatype listener =
    ListenUdp string
  | ListenTcp string
  | ListenTls string
  | ListenHttp string string bool

datatype dialector = MySql string | Sqlite string

definition dialector_of :: "string \<Rightarrow> dialector" where
  "dialector_of dsn = (if HasPrefix dsn ''mysql:'' then MySql (TrimPrefix dsn ''mysql:'') else Sqlite dsn)"

definition GetDatabase :: "(dialector \<Rightarrow> 'db result) \<Rightarrow> string \<Rightarrow> 'db result" where
  "GetDatabase open_db dsn = open_db (dialector_of dsn)"

record 'db world =
  woEnv :: "'db env"
  woView :: "settings \<Rightarrow> koanf"
  woYaml :: "string \<Rightarrow> settings result"
  woEnviron :: "(string, string) smap"
  woReadFile :: "string \<Rightarrow> string result"
  woDecodeCerts :: "string \<Rightarrow> X509 list result"
  woLoadPair :: "string \<Rightarrow> string \<Rightarrow> string result"
  woOpen :: "dialector \<Rightarrow> 'db result"
  woMigrate :: "'db \<Rightarrow> gofail option \<times> 'db"
  woUsers :: "string \<Rightarrow> users_file"
  woUuid :: string

record 'db started =
  srApp :: "'db App"
  srEnv :: "'db env"
  srCerts :: "(string, X509) AppConfig"
  srLat :: f64
  srLon :: f64
  srZoom :: "8 word"
  srListeners :: "listener list"
  srConnections :: "string list"

definition panic_of :: "gofail \<Rightarrow> gofail" where
  "panic_of err = (case err of EOF \<Rightarrow> Panic ''EOF'' | Error e \<Rightarrow> Panic e | Panic p \<Rightarrow> Panic p)"

text \<open>
  The interfaces of \<open>NewHttp\<close>. The Marti and the certificate interface copy the key pair when they
  are to use TLS: without one that is a nil pointer.
\<close>

definition http_listeners :: "koanf \<Rightarrow> bool \<Rightarrow> listener list result" where
  "http_listeners k has_cert =
     (if kString k ''cert_addr'' \<noteq> [] \<and> EnrollSSL k \<and> \<not> has_cert then Inl nil_deref
      else if MartiSSL k \<and> \<not> has_cert then Inl nil_deref
      else Inr (map (\<lambda>(name, addr). ListenHttp name addr
             ((name = ''cert api calls'' \<and> EnrollSSL k) \<or> (name = ''marti api calls'' \<and> MartiSSL k))) (listeners k)))"

definition tcp_listeners :: "koanf \<Rightarrow> bool \<Rightarrow> listener list" where
  "tcp_listeners k has_cert =
     (if kString k ''udp_addr'' \<noteq> [] then [ListenUdp (kString k ''udp_addr'')] else []) @
     (if kString k ''tcp_addr'' \<noteq> [] then [ListenTcp (kString k ''tcp_addr'')] else []) @
     (if kString k ''tls_addr'' \<noteq> [] \<and> has_cert then [ListenTls (kString k ''tls_addr'')] else [])"

definition server_NewApp :: "'db world \<Rightarrow> koanf \<Rightarrow> 'db App result" where
  "server_NewApp w k =
     (case GetDatabase (woOpen w) (kString k ''db'') of
        Inl err \<Rightarrow> Inl (panic_of err)
      | Inr db \<Rightarrow>
          (case woMigrate w db of
             (Some err, _) \<Rightarrow> Inl (panic_of err)
           | (None, db1) \<Rightarrow> Inr (NewApp (evGorm (woEnv w)) (woUuid w) db1)))"

text \<open>An error of \<open>users.Start\<close> ends the process (\<open>log.Fatal\<close>).\<close>

definition Run :: "'db world \<Rightarrow> koanf \<Rightarrow> bool \<Rightarrow> 'db App \<Rightarrow> ('db App \<times> listener list) result" where
  "Run w k has_cert app =
     (case users_Start (evGorm (woEnv w)) (evGenerate (woEnv w)) (woUsers w (UsersFile k)) (apDb app) of
        (Some err, _) \<Rightarrow> Inl err
      | (None, db) \<Rightarrow>
          (case http_listeners k has_cert of
             Inl err \<Rightarrow> Inl err
           | Inr hs \<Rightarrow> Inr (app\<lparr>apDb := db\<rparr>, tcp_listeners k has_cert @ hs)))"

definition load_settings :: "'db world \<Rightarrow> string \<Rightarrow> settings" where
  "load_settings w configName =
     LoadEnv (evToLower (woEnv w)) ''GOATAK_'' (woEnviron w) (snd (Load (woYaml w) [configName] NewAppConfig))"

text \<open>An error of \<open>ProcessCerts\<close> is only logged.\<close>

definition server_main :: "'db world \<Rightarrow> string \<Rightarrow> 'db started result" where
  "server_main w configName =
     (let k = woView w (load_settings w configName);
          conf = fst (ProcessCerts k (woReadFile w) (woDecodeCerts w) (woLoadPair w)
                   \<lparr>acTlsCert = None, acCertPool = [], acServerCert = None, acCA = []\<rparr>)
      in case server_NewApp w k of
           Inl err \<Rightarrow> Inl err
         | Inr app \<Rightarrow>
             (case Run w k (acTlsCert conf \<noteq> None) app of
                Inl err \<Rightarrow> Inl err
              | Inr (app1, ls) \<Rightarrow>
                  Inr \<lparr>srApp = app1, srEnv = (woEnv w)\<lparr>evConfig := k\<rparr>, srCerts = conf, srLat = kFloat64 k ''me.lat'',
                       srLon = kFloat64 k ''me.lon'', srZoom = word_of_int (kInt k ''me.zoom''), srListeners = ls,
                       srConnections = Connections k\<rparr>))"

section \<open>Connections to other servers\<close>

text \<open>
  One round of \<open>ConnectTo\<close>: the handler is a client's, without a device; when it ends it is only taken
  out of the table. The certificate comes from a PKCS12 file: every error there is a panic.
\<close>

definition server_getTLSConfig ::
    "(string \<Rightarrow> string result) \<Rightarrow> (string \<Rightarrow> string \<Rightarrow> (string \<times> X509 \<times> X509 list) result) \<Rightarrow> koanf \<Rightarrow> (string \<times> X509) result" where
  "server_getTLSConfig readFile decodeChain k =
     (case readFile (kString k ''ssl.cert'') of
        Inl err \<Rightarrow> Inl (panic_of err)
      | Inr dat \<Rightarrow>
          (case decodeChain dat (kString k ''ssl.password'') of
             Inl err \<Rightarrow> Inl (panic_of err)
           | Inr (key, cert, cas) \<Rightarrow> Inr (key, cert)))"

definition server_dial ::
    "((string \<times> X509) option \<Rightarrow> string \<Rightarrow> 'c result) \<Rightarrow> ('c \<Rightarrow> gofail option) \<Rightarrow> (string \<times> X509) result \<Rightarrow> string \<Rightarrow> 'c result" where
  "server_dial dial handshake conf connectStr =
     (case connect connectStr of
        Inl err \<Rightarrow> Inl err
      | Inr (host, port, tls) \<Rightarrow>
          (let addr = host @ '':'' @ port
           in if tls then
                (case conf of
                   Inl err \<Rightarrow> Inl err
                 | Inr c \<Rightarrow>
                     (case dial (Some c) addr of
                        Inl err \<Rightarrow> Inl err
                      | Inr conn \<Rightarrow> (case handshake conn of Some err \<Rightarrow> Inl err | None \<Rightarrow> Inr conn)))
              else dial None addr))"

definition ConnectTo :: "'db env \<Rightarrow> stamp \<Rightarrow> string \<Rightarrow> string list result \<Rightarrow> 'db App \<Rightarrow> 'db App" where
  "ConnectTo env st addr dialled app =
     (case dialled of
        Inl err \<Rightarrow> app
      | Inr conn \<Rightarrow>
          start_client env st (''ext_'' @ addr) conn
            \<lparr>hcDevice = None, hcSerial = [], hcUID = apUid app, hcIsClient = True, hcUidChecker = None\<rparr> app)"

definition ext_removed :: "string \<Rightarrow> 'db App \<Rightarrow> 'db App" where
  "ext_removed addr app = app\<lparr>apHandlers := smDelete (''ext_'' @ addr) (apHandlers app)\<rparr>"


section \<open>Properties\<close>

lemma smLoad_smStore: "smLoad (smStore k v m) x = (if x = k then Some v else smLoad m x)"
  by (simp add: smLoad_def smStore_def update_conv')

lemma smLoad_setAll: "smLoad (setAll kvs m) k = (case map_of (rev kvs) k of Some v \<Rightarrow> Some v | None \<Rightarrow> smLoad m k)"
  by (induction kvs arbitrary: m) (auto simp: setAll_def smLoad_smStore map_add_def split: option.splits)

text \<open>
  Which value a setting has: the variable of the environment that stands for it, else the value
  of the configuration file, else the default; a file that cannot be read is as one without settings.
\<close>

theorem settings_precedence:
  "smLoad (load_settings w f) k =
     (case map_of (rev (map (\<lambda>(n, v). (env_key (evToLower (woEnv w)) ''GOATAK_'' n, SStr v))
             (filter (\<lambda>(n, v). HasPrefix n ''GOATAK_'' \<and> env_key (evToLower (woEnv w)) ''GOATAK_'' n \<noteq> []) (woEnviron w)))) k of
        Some v \<Rightarrow> Some v
      | None \<Rightarrow>
          (case (case woYaml w f of Inl err \<Rightarrow> None | Inr kvs \<Rightarrow> map_of (rev kvs) k) of
             Some v \<Rightarrow> Some v
           | None \<Rightarrow> smLoad NewAppConfig k))"
proof -
  have f: "filter (\<lambda>(k, v). k \<noteq> []) (map (\<lambda>(n, v). (env_key lower pre n, SStr v)) (filter (\<lambda>(n, v). HasPrefix n pre) e)) =
      map (\<lambda>(n, v). (env_key lower pre n, SStr v)) (filter (\<lambda>(n, v). HasPrefix n pre \<and> env_key lower pre n \<noteq> []) e)"
    for lower pre and e :: "(string, string) smap"
    by (induction e) auto
  show ?thesis
    unfolding load_settings_def LoadEnv_def f smLoad_setAll
    by (cases "woYaml w f") (simp_all add: Load_def smLoad_setAll split: option.split)
qed

text \<open>Listeners that do not use TLS.\<close>

fun clear_text :: "listener \<Rightarrow> bool" where
  "clear_text (ListenTls a) = False"
| "clear_text (ListenHttp n a tls) = (\<not> tls)"
| "clear_text l = True"


lemma http_clear: "http_listeners k False = Inr hs \<Longrightarrow> l \<in> set hs \<Longrightarrow> clear_text l"
  by (auto simp: http_listeners_def listeners_def split: if_splits)

lemma tcp_clear: "l \<in> set (tcp_listeners k False) \<Longrightarrow> clear_text l"
  by (auto simp: tcp_listeners_def split: if_splits)

lemma RunE:
  assumes "Run w k c app = Inr (app1, ls)"
  obtains db hs where "app1 = app\<lparr>apDb := db\<rparr>" "http_listeners k c = Inr hs" "ls = tcp_listeners k c @ hs"
  using assms by (auto simp: Run_def split: prod.splits option.splits sum.splits)

lemma server_mainE:
  assumes "server_main w f = Inr s"
  obtains db db1 hs where "srApp s = (NewApp (evGorm (woEnv w)) (woUuid w) db)\<lparr>apDb := db1\<rparr>"
    "srEnv s = (woEnv w)\<lparr>evConfig := woView w (load_settings w f)\<rparr>"
    "http_listeners (evConfig (srEnv s)) (acTlsCert (srCerts s) \<noteq> None) = Inr hs"
    "srListeners s = tcp_listeners (evConfig (srEnv s)) (acTlsCert (srCerts s) \<noteq> None) @ hs"
proof -
  let ?k = "woView w (load_settings w f)"
  obtain app where a: "server_NewApp w ?k = Inr app"
    using assms by (cases "server_NewApp w ?k") (simp_all add: server_main_def Let_def)
  then obtain db where app: "app = NewApp (evGorm (woEnv w)) (woUuid w) db"
    by (auto simp: server_NewApp_def split: sum.splits prod.splits option.splits)
  let ?c = "acTlsCert (srCerts s) \<noteq> None"
  obtain app1 ls where r: "Run w ?k ?c app = Inr (app1, ls)" "srApp s = app1" "srListeners s = ls"
      "srEnv s = (woEnv w)\<lparr>evConfig := ?k\<rparr>"
    using assms a by (auto simp: server_main_def Let_def split: sum.splits prod.splits)
  obtain db1 hs where "app1 = app\<lparr>apDb := db1\<rparr>" "http_listeners ?k ?c = Inr hs" "ls = tcp_listeners ?k ?c @ hs"
    by (rule RunE [OF r(1)])
  then show thesis using r app by (intro that) simp_all
qed

text \<open>
  C34: a server that has started is in a state from which the guarantees of the running server hold: its
  reachable states begin there. It listens on TLS only with a key pair, and when none could be
  loaded, whatever the reason, every port it opens is in the clear.
\<close>

theorem server_start:
  assumes "server_main w f = Inr s"
  shows "server_reachable (srEnv s) (srApp s) \<and> smRange (apHandlers (srApp s)) = [] \<and> apCh (srApp s) = [] \<and>
     (acTlsCert (srCerts s) = None \<longrightarrow> list_all clear_text (srListeners s))"
proof -
  obtain db db1 hs where s: "srApp s = (NewApp (evGorm (woEnv w)) (woUuid w) db)\<lparr>apDb := db1\<rparr>"
      "srEnv s = (woEnv w)\<lparr>evConfig := woView w (load_settings w f)\<rparr>"
      "http_listeners (evConfig (srEnv s)) (acTlsCert (srCerts s) \<noteq> None) = Inr hs"
      "srListeners s = tcp_listeners (evConfig (srEnv s)) (acTlsCert (srCerts s) \<noteq> None) @ hs"
    by (rule server_mainE [OF assms])
  have "server_reachable (srEnv s) (NewApp (evGorm (srEnv s)) (woUuid w) db)" by (rule server_new)
  then have "server_reachable (srEnv s) (srApp s)" using s(1,2) by (auto intro: server_next database)
  moreover have "list_all clear_text (srListeners s)" if "acTlsCert (srCerts s) = None"
    using that s(3,4) by (auto simp: list_all_iff intro: http_clear tcp_clear)
  ultimately show ?thesis using s(1) by (simp add: NewApp_def smRange_def)
qed

definition example_world :: "unit world" where
  "example_world = \<lparr>woEnv = example_env, woView = (\<lambda>m. example_konf\<lparr>
       kString := (\<lambda>k. case smLoad m k of Some (SStr s) \<Rightarrow> s | _ \<Rightarrow> []), kBool := (\<lambda>k. smLoad m k = Some (SBool True)),
       kInt := (\<lambda>k. case smLoad m k of Some (SInt i) \<Rightarrow> i | _ \<Rightarrow> 0), kFloat64 := (\<lambda>k. case smLoad m k of Some (SFloat x) \<Rightarrow> x | _ \<Rightarrow> 0)\<rparr>),
     woYaml = (\<lambda>_. Inl (Error ''no such file'')), woEnviron = [(''HOME'', ''/root'')], woReadFile = (\<lambda>_. Inl (Error ''no such file'')),
     woDecodeCerts = (\<lambda>_. Inr []), woLoadPair = (\<lambda>_ _. Inr ''key''), woOpen = (\<lambda>_. Inr ()), woMigrate = (\<lambda>db. (None, db)),
     woUsers = (\<lambda>_. Missing), woUuid = ''server''\<rparr>"

lemma example_lookups: "koanf_lookups (woView example_world)"
  by (simp add: koanf_lookups_def example_world_def)

text \<open>
  C35: without a readable configuration file and without variables of the environment, whatever the
  file was to say, the server starts all the same: with the SQLite file \<open>db.sqlite\<close>, it accepts any client
  on port 8999 over TCP and UDP, and serves the Marti interface on port 8080, all in the clear; there
  is no administration port.
\<close>

theorem unconfigured_server:
  assumes "koanf_lookups (woView w)" "woYaml w f = Inl err" "\<And>n v. (n, v) \<in> set (woEnviron w) \<Longrightarrow> \<not> HasPrefix n ''GOATAK_''"
    and "woOpen w (Sqlite ''db.sqlite'') = Inr db" "woMigrate w db = (None, db1)"
    and "users_Start (evGorm (woEnv w)) (evGenerate (woEnv w)) (woUsers w ''users.yml'') (AddDefaults (evGorm (woEnv w)) db1) = (None, db2)"
  shows "\<exists>s. server_main w f = Inr s \<and> acTlsCert (srCerts s) = None \<and> apDb (srApp s) = db2 \<and>
     srListeners s = [ListenUdp '':8999'', ListenTcp '':8999'', ListenHttp ''marti api calls'' '':8080'' False,
       ListenHttp ''local api calls'' ''localhost:8888'' False]"
proof -
  have "filter (\<lambda>(n, v). HasPrefix n ''GOATAK_'') (woEnviron w) = []" using assms(3) by (auto simp: filter_empty_conv)
  then have m: "load_settings w f = NewAppConfig"
    using assms(2) by (simp add: load_settings_def LoadEnv_def Load_def setAll_def)
  let ?k = "woView w NewAppConfig"
  have leaf: "list_all (leaf NewAppConfig) [''db'', ''udp_addr'', ''tcp_addr'', ''tls_addr'', ''api_addr'', ''local_addr'', ''users_file'',
      ''admin_addr'', ''cert_addr'', ''ssl.ca'', ''ssl.use_ssl'', ''ssl.marti'', ''ssl.enroll'']"
    by code_simp
  have s: "smLoad NewAppConfig ''db'' = Some (SStr ''db.sqlite'')" "smLoad NewAppConfig ''udp_addr'' = Some (SStr '':8999'')"
    "smLoad NewAppConfig ''tcp_addr'' = Some (SStr '':8999'')" "smLoad NewAppConfig ''api_addr'' = Some (SStr '':8080'')"
    "smLoad NewAppConfig ''local_addr'' = Some (SStr ''localhost:8888'')" "smLoad NewAppConfig ''users_file'' = Some (SStr ''users.yml'')"
    "smLoad NewAppConfig ''admin_addr'' = None" "smLoad NewAppConfig ''cert_addr'' = None" "smLoad NewAppConfig ''ssl.ca'' = None"
    "smLoad NewAppConfig ''ssl.use_ssl'' = None" "smLoad NewAppConfig ''ssl.marti'' = None" "smLoad NewAppConfig ''ssl.enroll'' = None"
    by code_simp+
  have str: "kString ?k x = v" if "leaf NewAppConfig x" "smLoad NewAppConfig x = Some (SStr v)" for x v
    using assms(1) that by (simp add: koanf_lookups_def)
  have unset: "kString ?k x = [] \<and> \<not> kBool ?k x" if "leaf NewAppConfig x" "smLoad NewAppConfig x = None" for x
    using assms(1) that by (simp add: koanf_lookups_def)
  have k: "kString ?k ''db'' = ''db.sqlite''" "kString ?k ''udp_addr'' = '':8999''" "kString ?k ''tcp_addr'' = '':8999''"
    "kString ?k ''api_addr'' = '':8080''" "kString ?k ''local_addr'' = ''localhost:8888''" "kString ?k ''users_file'' = ''users.yml''"
    "kString ?k ''admin_addr'' = []" "kString ?k ''cert_addr'' = []" "kString ?k ''ssl.ca'' = []"
    "\<not> kBool ?k ''ssl.use_ssl''" "\<not> kBool ?k ''ssl.marti''" "\<not> kBool ?k ''ssl.enroll''"
    using leaf s str unset by simp_all
  show ?thesis
    using assms(4-6) unfolding server_main_def m
    by (simp add: k Let_def server_NewApp_def GetDatabase_def dialector_of_def HasPrefix_def Run_def UsersFile_def NewApp_def
        http_listeners_def MartiSSL_def EnrollSSL_def listeners_def tcp_listeners_def ProcessCerts_def)
qed

theorem unconfigured_server_witness:
  "\<exists>s. server_main example_world ''goatak_server.yml'' = Inr s \<and>
     ListenTcp '':8999'' \<in> set (srListeners s)"
proof -
  have "\<exists>s. server_main example_world ''goatak_server.yml'' = Inr s \<and> acTlsCert (srCerts s) = None \<and> apDb (srApp s) = () \<and>
     srListeners s = [ListenUdp '':8999'', ListenTcp '':8999'', ListenHttp ''marti api calls'' '':8080'' False,
       ListenHttp ''local api calls'' ''localhost:8888'' False]"
    by (rule unconfigured_server [OF example_lookups]) (simp_all add: example_world_def HasPrefix_def prod_eq_iff, code_simp)
  then show ?thesis by auto
qed

text \<open>A connection to another server keeps the invariant of the server.\<close>

lemma ConnectTo_inv: "server_inv app \<Longrightarrow> server_inv (ConnectTo env st addr dialled app)"
  by (auto simp: ConnectTo_def intro: start_client_inv split: sum.split)


theorem server_start_witness:
  "\<exists>s. server_main example_world ''goatak_server.yml'' = Inr s \<and> server_reachable (srEnv s) (srApp s)"
proof -
  have "\<not> isl (server_main example_world ''goatak_server.yml'')" by code_simp
  then obtain s where "server_main example_world ''goatak_server.yml'' = Inr s"
    by (cases "server_main example_world ''goatak_server.yml''") simp_all
  with server_start [OF this] show ?thesis by auto
qed

end
