(* ===== verification/WebClient.thy ===== *)
theory WebClient
  imports HttpCert HttpAdmin
begin

text \<open>
  \<open>cmd/webclient\<close>: the client with a web interface. Its state (\<open>App\<close> there, \<open>WcApp\<close> here) has the items
  and conversations it shows, its own position and identity, and one connection to a server; messages
  from the connection run through the processors of \<open>processors.go\<close>. The server replies of
  \<open>api.go\<close>, parsing of the bodies of web requests, the dialling of the server and MD5 are parameters.
\<close>

section \<open>State\<close>

datatype wc_processor = WLogger | WFileLogger | WRemove | WChat | WChatReceipt | WItems

record WcEventProcessor =
  wpName :: string
  wpInclude :: "string list"
  wpCb :: wc_processor

text \<open>The contacts of the chat window are kept here; \<open>wcChatCb\<close> are the messages given to the callback.\<close>

record WcApp =
  wcHost :: string
  wcTcpPort :: string
  wcWebPort :: int
  wcGpsd :: string
  wcItems :: ItemsMemoryRepo
  wcChats :: ChatMessages
  wcContacts :: "(string, MartiContact) smap"
  wcTls :: bool
  wcTlsStrict :: bool
  wcTlsCert :: "(string \<times> X509) option"
  wcCas :: "X509 list"
  wcCl :: "Handler option"
  wcChatCb :: "ChatMessage list"
  wcProcessors :: "WcEventProcessor list"
  wcApiTls :: bool
  wcSaveFile :: string
  wcLog :: "string list"
  wcConnected :: bool
  wcCallsign :: string
  wcUid :: string
  wcTyp :: string
  wcTeam :: string
  wcDevice :: string
  wcVersion :: string
  wcPlatform :: string
  wcOs :: string
  wcRole :: string
  wcPos :: "Pos option"
  wcZoom :: "8 word"

record wc_tools =
  wtCodec :: codec
  wtUnescape :: "string \<Rightarrow> string"
  wtToUpper :: "string \<Rightarrow> string"
  wtOpenLog :: "gofail option"
  wtParseDp :: "request \<Rightarrow> (f64 \<times> f64 \<times> string) result"
  wtParsePos :: "request \<Rightarrow> (string, f64) smap result"
  wtParseUnit :: "request \<Rightarrow> WebUnit result"
  wtParseChat :: "request \<Rightarrow> ChatMessage result"

section \<open>main.go\<close>

text \<open>\<open>None\<close> when the number of parts is wrong; the last part must name a protocol.\<close>

definition wc_NewApp :: "string \<Rightarrow> string \<Rightarrow> string \<Rightarrow> int \<Rightarrow> WcApp option result" where
  "wc_NewApp uid callsign connectStr webPort =
     (let app = \<lparr>wcHost = [], wcTcpPort = [], wcWebPort = webPort, wcGpsd = [], wcItems = NewItemsMemoryRepo [5 * minute],
            wcChats = NewChatMessages uid, wcContacts = [], wcTls = False, wcTlsStrict = False, wcTlsCert = None, wcCas = [],
            wcCl = None, wcChatCb = [], wcProcessors = [], wcApiTls = False, wcSaveFile = [], wcLog = [], wcConnected = False,
            wcCallsign = callsign, wcUid = uid, wcTyp = [], wcTeam = [], wcDevice = [], wcVersion = [], wcPlatform = [],
            wcOs = [], wcRole = [], wcPos = None, wcZoom = 0\<rparr>
      in if connectStr = [] then Inr (Some app)
         else let parts = Split connectStr CHR '':''
              in if length parts \<noteq> 3 then Inr None
                 else let app1 = app\<lparr>wcHost := parts ! 0, wcTcpPort := parts ! 1\<rparr>
                      in if parts ! 2 = ''tcp'' then Inr (Some (app1\<lparr>wcTls := False\<rparr>))
                         else if parts ! 2 = ''ssl'' then Inr (Some (app1\<lparr>wcTls := True\<rparr>))
                         else Inl (Panic (''invalid connect string '' @ connectStr)))"

text \<open>\<open>Sum\<close> appends the hash of what was written (nothing) to its argument: \<open>emptyMd5\<close> is that hash.\<close>

definition makeUID :: "string \<Rightarrow> string \<Rightarrow> string" where
  "makeUID emptyMd5 callsign = ''ANDROID-'' @ take 16 (hex_encode (callsign @ emptyMd5))"

definition SetConnected :: "bool \<Rightarrow> WcApp \<Rightarrow> WcApp" where "SetConnected b app = app\<lparr>wcConnected := b\<rparr>"
definition IsConnected :: "WcApp \<Rightarrow> bool" where "IsConnected app = wcConnected app"

definition MakeMe :: "clock3 \<Rightarrow> WcApp \<Rightarrow> TakMessage" where
  "MakeMe now app =
     set_event (\<lambda>e. e\<lparr>ceLat := Pos_GetLat (wcPos app), ceLon := Pos_GetLon (wcPos app), ceHae := Pos_GetAlt (wcPos app),
         ceCe := Pos_GetCe (wcPos app),
         ceDetail := Some (new_Detail
           \<lparr>dContact := Some \<lparr>conEndpoint = ''*:-1:stcp'', conCallsign = wcCallsign app\<rparr>,
            dGroup := Some \<lparr>grpName = wcTeam app, grpRole = wcRole app\<rparr>,
            dTakv := Some \<lparr>tvDevice = wcDevice app, tvPlatform = wcPlatform app, tvOs = wcOs app, tvVersion = wcVersion app\<rparr>,
            dTrack := Some \<lparr>trSpeed = Pos_GetSpeed (wcPos app), trCourse = Pos_GetTrack (wcPos app)\<rparr>,
            dPrecisionLocation := Some \<lparr>plGeopointsrc = ''GPS'', plAltsrc = ''GPS''\<rparr>,
            dStatus := Some \<lparr>stBattery = 39\<rparr>,
            dXmlDetail := ''<uid Droid='' @ [CHR 0x22] @ wcCallsign app @ [CHR 0x22] @ ''></uid>''\<rparr>)\<rparr>)
       (BasicMsg now (wcTyp app) (wcUid app) (2 * minute))"

definition wc_GetVersion :: "WcApp \<Rightarrow> string" where
  "wc_GetVersion app = wcPlatform app @ '' '' @ wcVersion app"

definition alfaNum :: string where "alfaNum = ''abcdefghijklmnopqrstuvwxyz012346789''"

text \<open>\<open>rnd\<close>: what the calls of \<open>rand.Intn\<close> return.\<close>

definition RandString :: "(nat \<Rightarrow> nat) \<Rightarrow> nat \<Rightarrow> string" where
  "RandString rnd strlen = map (\<lambda>i. alfaNum ! rnd i) [0..<strlen]"

text \<open>An error of \<open>SendCot\<close> is logged; a panic in it is returned.\<close>

definition wc_SendMsg :: "codec \<Rightarrow> TakMessage option \<Rightarrow> WcApp \<Rightarrow> WcApp \<times> gofail option" where
  "wc_SendMsg c msg app =
     (case wcCl app of
        None \<Rightarrow> (app, None)
      | Some h \<Rightarrow>
          (case SendCot c msg h of
             (h', err) \<Rightarrow> (app\<lparr>wcCl := Some h'\<rparr>, case err of Some (Panic p) \<Rightarrow> Some (Panic p) | _ \<Rightarrow> None)))"

fun send_all :: "codec \<Rightarrow> TakMessage option list \<Rightarrow> WcApp \<Rightarrow> WcApp \<times> gofail option" where
  "send_all c [] app = (app, None)"
| "send_all c (m # ms) app = (case wc_SendMsg c m app of (app', Some p) \<Rightarrow> (app', Some p) | (app', None) \<Rightarrow> send_all c ms app')"

definition sendMyPoints :: "codec \<Rightarrow> WcApp \<Rightarrow> WcApp \<times> gofail option" where
  "sendMyPoints c app =
     send_all c (map (\<lambda>i. GetTakMessage (Some (itMsg i))) (filter itSend (map snd (smRange (rpItems (wcItems app)))))) app"

text \<open>One tick of \<open>myPosSender\<close>; it sends the position alone when it starts.\<close>

definition myPosTick :: "codec \<Rightarrow> clock3 \<Rightarrow> WcApp \<Rightarrow> WcApp \<times> gofail option" where
  "myPosTick c now app =
     (case wc_SendMsg c (Some (MakeMe now app)) app of (app', Some p) \<Rightarrow> (app', Some p) | (app', None) \<Rightarrow> sendMyPoints c app')"

record wc_tls_config =
  tcCert :: "string \<times> X509"
  tcRootCAs :: "X509 list"
  tcClientCAs :: "X509 list"
  tcInsecureSkipVerify :: bool

definition getTLSConfig :: "bool \<Rightarrow> WcApp \<Rightarrow> wc_tls_config result" where
  "getTLSConfig strict app =
     (case wcTlsCert app of
        None \<Rightarrow> Inl nil_deref
      | Some cert \<Rightarrow> Inr \<lparr>tcCert = cert, tcRootCAs = wcCas app, tcClientCAs = wcCas app, tcInsecureSkipVerify = \<not> strict\<rparr>)"

section \<open>processors.go\<close>

definition wc_InitMessageProcessors :: "WcApp \<Rightarrow> WcEventProcessor list" where
  "wc_InitMessageProcessors app =
     [\<lparr>wpName = ''logger'', wpInclude = [''.-''], wpCb = WLogger\<rparr>] @
     (if wcSaveFile app \<noteq> [] then [\<lparr>wpName = ''file_logger'', wpInclude = [''.-''], wpCb = WFileLogger\<rparr>] else []) @
     [\<lparr>wpName = ''remove'', wpInclude = [''t-x-d-d''], wpCb = WRemove\<rparr>,
      \<lparr>wpName = ''chat'', wpInclude = [''b-t-f''], wpCb = WChat\<rparr>,
      \<lparr>wpName = ''chat_r'', wpInclude = [''b-t-f-''], wpCb = WChatReceipt\<rparr>,
      \<lparr>wpName = ''items'', wpInclude = [''a-'', ''b-'', ''u-''], wpCb = WItems\<rparr>]"

definition wc_removeItemProcessor :: "CotMessage \<Rightarrow> WcApp \<Rightarrow> WcApp" where
  "wc_removeItemProcessor msg app =
     (case GetFirstLink ''p-p'' (Some msg) of
        None \<Rightarrow> app
      | Some link \<Rightarrow>
          (let uid = GetAttr ''uid'' (Some link)
           in if uid = [] then app
              else case Repo_Get (wcItems app) uid of
                     None \<Rightarrow> app
                   | Some v \<Rightarrow>
                       (if itClass v = CONTACT then app\<lparr>wcItems := Store (Some (SetOffline v)) (wcItems app)\<rparr>
                        else if itClass v = UNIT \<or> itClass v = POINT then app\<lparr>wcItems := Repo_Remove uid (wcItems app)\<rparr>
                        else app)))"

definition wc_chatProcessor :: "wc_tools \<Rightarrow> CotMessage \<Rightarrow> WcApp \<Rightarrow> WcApp" where
  "wc_chatProcessor wt msg app =
     (case MsgToChat (wtUnescape wt) (Some msg) of
        None \<Rightarrow> app
      | Some c0 \<Rightarrow>
          (let c = (if chFrom c0 = [] then c0\<lparr>chFrom := Repo_GetCallsign (wcItems app) (chFromUID c0)\<rparr> else c0)
           in app\<lparr>wcChats := ChatMessages_Add c (wcChats app), wcChatCb := wcChatCb app @ [c]\<rparr>))"

definition wc_saveItemProcessor :: "time \<Rightarrow> CotMessage \<Rightarrow> WcApp \<Rightarrow> WcApp" where
  "wc_saveItemProcessor now msg app =
     (if \<not> IsMapItem (Some msg) then app
      else if GetUID (Some msg) = wcUid app then app
      else case Repo_Get (wcItems app) (GetUID (Some msg)) of
             Some c \<Rightarrow> app\<lparr>wcItems := Store (Some (Update now (Some msg) c)) (wcItems app)\<rparr>
           | None \<Rightarrow> app\<lparr>wcItems := Store (FromMsg now (Some msg)) (wcItems app)\<rparr>)"

definition wc_logMessage :: "wc_tools \<Rightarrow> CotMessage \<Rightarrow> WcApp \<Rightarrow> WcApp" where
  "wc_logMessage wt msg app =
     (if wtOpenLog wt \<noteq> None then app
      else case cdProtoMarshal (wtCodec wt) (GetTakMessage (Some msg)) of
             Inl err \<Rightarrow> app
           | Inr d \<Rightarrow> app\<lparr>wcLog := wcLog app @ [log_header d @ d]\<rparr>)"

definition wc_fileLoggerProcessor :: "wc_tools \<Rightarrow> CotMessage \<Rightarrow> WcApp \<Rightarrow> WcApp" where
  "wc_fileLoggerProcessor wt msg app =
     (if wcSaveFile app = [] then app else if IsPing (Some msg) then app else wc_logMessage wt msg app)"

definition wc_run_cb :: "wc_tools \<Rightarrow> time \<Rightarrow> CotMessage \<Rightarrow> wc_processor \<Rightarrow> WcApp \<Rightarrow> WcApp" where
  "wc_run_cb wt now msg p app = (case p of
     WLogger \<Rightarrow> app
   | WFileLogger \<Rightarrow> wc_fileLoggerProcessor wt msg app
   | WRemove \<Rightarrow> wc_removeItemProcessor msg app
   | WChat \<Rightarrow> wc_chatProcessor wt msg app
   | WChatReceipt \<Rightarrow> app
   | WItems \<Rightarrow> wc_saveItemProcessor now msg app)"

text \<open>Every processor whose mask matches runs, in their order.\<close>

definition ProcessEvent :: "wc_tools \<Rightarrow> time \<Rightarrow> CotMessage \<Rightarrow> WcApp \<Rightarrow> WcApp" where
  "ProcessEvent wt now msg app =
     fold (\<lambda>prc. if MatchAnyPattern (GetType (Some msg)) (wpInclude prc) then wc_run_cb wt now msg (wpCb prc) else id)
       (wcProcessors app) app"

definition Init :: "WcApp \<Rightarrow> WcApp result" where
  "Init app =
     (if wcTls app then
        (case getTLSConfig (wcTlsStrict app) app of
           Inl err \<Rightarrow> Inl err
         | Inr _ \<Rightarrow> Inr (app\<lparr>wcApiTls := True, wcProcessors := wcProcessors app @ wc_InitMessageProcessors app\<rparr>))
      else Inr (app\<lparr>wcProcessors := wcProcessors app @ wc_InitMessageProcessors app\<rparr>))"

section \<open>The connection\<close>

text \<open>\<open>dial\<close>, \<open>handshake\<close>: what the network does with an address, in clear (\<open>None\<close>) or over TLS.\<close>

definition wc_connect ::
    "(wc_tls_config option \<Rightarrow> string \<Rightarrow> 'c result) \<Rightarrow> ('c \<Rightarrow> gofail option) \<Rightarrow> WcApp \<Rightarrow> 'c result" where
  "wc_connect dial handshake app =
     (let addr = wcHost app @ '':'' @ wcTcpPort app
      in if wcTls app then
           (case getTLSConfig (wcTlsStrict app) app of
              Inl err \<Rightarrow> Inl err
            | Inr conf \<Rightarrow>
                (case dial (Some conf) addr of
                   Inl err \<Rightarrow> Inl err
                 | Inr conn \<Rightarrow> (case handshake conn of Some err \<Rightarrow> Inl err | None \<Rightarrow> Inr conn)))
         else dial None addr)"

text \<open>
  What \<open>Run\<close> does with a connection that delivers the chunks \<open>conn\<close>: the handler is a client's, without
  a device. Its callback for the end of the connection only clears the flag.
\<close>

definition wc_config :: "WcApp \<Rightarrow> HandlerConfig" where
  "wc_config app = \<lparr>hcDevice = None, hcSerial = [], hcUID = wcUid app, hcIsClient = True, hcUidChecker = None\<rparr>"

definition on_connect :: "codec \<Rightarrow> time \<Rightarrow> clock3 \<Rightarrow> string list \<Rightarrow> WcApp \<Rightarrow> WcApp" where
  "on_connect c now clock conn app =
     (let app1 = SetConnected True app
      in app1\<lparr>wcCl := Some (handler_Start c clock
           (NewConnClientHandler now (wcHost app @ '':'' @ wcTcpPort app) conn (wc_config app)))\<rparr>)"

definition on_disconnect :: "WcApp \<Rightarrow> WcApp" where "on_disconnect app = SetConnected False app"

section \<open>api.go\<close>

definition wc_getURL :: "WcApp \<Rightarrow> string \<Rightarrow> string" where
  "wc_getURL app path =
     (if wcApiTls app then ''https://'' @ wcHost app @ '':8443'' @ path else ''http://'' @ wcHost app @ '':8080'' @ path)"

text \<open>\<open>get\<close>: the answer to a request for the contacts under a URL.\<close>

definition getContacts :: "(string \<Rightarrow> MartiContact list result) \<Rightarrow> WcApp \<Rightarrow> MartiContact list result" where
  "getContacts get app = get (wc_getURL app ''/Marti/api/contacts/all'')"

definition periodicGet :: "(string \<Rightarrow> MartiContact list result) \<Rightarrow> WcApp \<Rightarrow> WcApp" where
  "periodicGet get app =
     (case getContacts get app of
        Inl err \<Rightarrow> app
      | Inr dat \<Rightarrow> app\<lparr>wcContacts := fold (\<lambda>c. smStore (ctUID c) c) dat (wcContacts app)\<rparr>)"

text \<open>
  The profile of the server is saved to a file of the client. \<open>get\<close>: the status, its text and the
  body of the answer; \<open>create\<close>: the error of opening the file.
\<close>

definition getConfig ::
    "(string \<Rightarrow> (string, string) smap \<Rightarrow> (nat \<times> string \<times> string option) result) \<Rightarrow> (string \<Rightarrow> gofail option) \<Rightarrow> string \<Rightarrow> WcApp \<Rightarrow>
     files \<Rightarrow> string result \<times> files" where
  "getConfig get create uid app fs =
     (case get (wc_getURL app ''/Marti/api/device/profile/connection'') [(''clientUid'', uid)] of
        Inl err \<Rightarrow> (Inl err, fs)
      | Inr (code, text, body) \<Rightarrow>
          (if code \<noteq> 200 then (Inl (Error (''bad status '' @ text)), fs)
           else case body of
                  None \<Rightarrow> (Inl (Error ''null body''), fs)
                | Some b \<Rightarrow>
                    (let fname = ''config_'' @ uid @ ''.zip''
                     in case create fname of Some err \<Rightarrow> (Inl err, fs) | None \<Rightarrow> (Inr fname, smStore fname b fs))))"


section \<open>http\_server.go\<close>

type_synonym wc_handler = "request \<Rightarrow> WcApp \<Rightarrow> response result \<times> WcApp"

text \<open>A message is sent; a panic of the encoding ends the handler.\<close>

definition after_send ::
    "codec \<Rightarrow> TakMessage option \<Rightarrow> (WcApp \<Rightarrow> response result \<times> WcApp) \<Rightarrow> WcApp \<Rightarrow> response result \<times> WcApp" where
  "after_send c msg k app = (case wc_SendMsg c msg app of (app', Some p) \<Rightarrow> (Inl p, app') | (app', None) \<Rightarrow> k app')"

definition wc_getUnits :: "wc_tools \<Rightarrow> WcApp \<Rightarrow> WebUnit list result" where
  "wc_getUnits wt app = map_results (ToWeb (wtToUpper wt)) (map snd (smRange (rpItems (wcItems app))))"

text \<open>The conversations in JSON; a list to which nothing was added is \<open>null\<close>.\<close>

definition message_json :: "ChatMessage \<Rightarrow> json" where
  "message_json m = JObject [(''message_id'', JString (chID m)), (''time'', JTime (chTime m)), (''parent'', JString (chParent m)),
     (''chatroom'', JString (chChatroom m)), (''from'', JString (chFrom m)), (''from_uid'', JString (chFromUID m)),
     (''to_uid'', JString (chToUID m)), (''direct'', JBool (chDirect m)), (''text'', JString (chText m))]"

definition chat_json :: "Chat \<Rightarrow> json" where
  "chat_json c = JObject [(''from'', JString (ctFrom c)), (''uid'', JString (Chat.ctUID c)),
     (''messages'', if ctMessages c = [] then JNull else JList (map message_json (ctMessages c)))]"

definition chats_json :: "WcApp \<Rightarrow> json" where
  "chats_json app = JObject (map (\<lambda>(k, c). (k, chat_json c)) (smRange (csChats (wcChats app))))"

definition wc_getIndexHandler :: wc_handler where
  "wc_getIndexHandler rq app = (Inr (ok_body (Page ''templates/map'' [(''js'', ''util.js''), (''js'', ''map.js'')])), app)"

definition wc_getUnitsHandler :: "wc_tools \<Rightarrow> wc_handler" where
  "wc_getUnitsHandler wt rq app =
     (case wc_getUnits wt app of Inl err \<Rightarrow> Inl err | Inr us \<Rightarrow> Inr (ok_body (Json (JList (map JUnit us)))), app)"

definition getMessagesHandler :: wc_handler where
  "getMessagesHandler rq app = (Inr (ok_body (Json (chats_json app))), app)"

definition layer_json :: "string \<Rightarrow> string \<Rightarrow> int \<Rightarrow> string list \<Rightarrow> json" where
  "layer_json name url maxzoom parts = JObject ([(''name'', JString name), (''url'', JString url), (''maxzoom'', JInt maxzoom)] @
     (if parts = [] then [] else [(''parts'', JList (map JString parts))]))"

definition getLayers :: "json list" where
  "getLayers =
     [layer_json ''Google Hybrid'' ''http://mt{s}.google.com/vt/lyrs=y&x={x}&y={y}&z={z}&s=Galileo&scale=2'' 20 [''0'', ''1'', ''2'', ''3''],
      layer_json ''OSM'' ''https://{s}.tile.openstreetmap.org/{z}/{x}/{y}.png'' 19 [''a'', ''b'', ''c''],
      layer_json ''Opentopo.cz'' ''https://tile-{s}.opentopomap.cz/{z}/{x}/{y}.png'' 18 [''a'', ''b'', ''c''],
      layer_json ''Yandex maps'' ''https://core-renderer-tiles.maps.yandex.net/tiles?l=map&x={x}&y={y}&z={z}&scale=2&lang=ru_RU&projection=web_mercator'' 20 []]"

definition wc_getConfigHandler :: "string \<Rightarrow> wc_handler" where
  "wc_getConfigHandler version rq app =
     (let (lat, lon) = Pos_GetCoord (wcPos app)
      in (Inr (ok_body (Json (JObject [(''version'', JString version), (''uid'', JString (wcUid app)), (''lat'', JFloat lat),
            (''lon'', JFloat lon), (''zoom'', JInt (sint (wcZoom app))), (''myuid'', JString (wcUid app)),
            (''callsign'', JString (wcCallsign app)), (''team'', JString (wcTeam app)), (''role'', JString (wcRole app)),
            (''layers'', JList getLayers)]))), app))"

definition getDpHandler :: "wc_tools \<Rightarrow> stamp \<Rightarrow> wc_handler" where
  "getDpHandler wt s rq app =
     (case wtParseDp wt rq of
        Inl err \<Rightarrow> (Inl err, app)
      | Inr (lat, lon, name) \<Rightarrow>
          after_send (wtCodec wt) (Some (MakeDpMsg (stClock s) (wcUid app) (wcTyp app) (wcCallsign app @ ''.'' @ name) lat lon))
            (\<lambda>app. (Inr (ok_body (Text ''Ok'')), app)) app)"

definition getPosHandler :: "wc_tools \<Rightarrow> stamp \<Rightarrow> wc_handler" where
  "getPosHandler wt s rq app =
     (case wtParsePos wt rq of
        Inl err \<Rightarrow> (Inl err, app)
      | Inr pos \<Rightarrow>
          (let app1 = (case (smLoad pos ''lat'', smLoad pos ''lon'') of
                         (Some lat, Some lon) \<Rightarrow> app\<lparr>wcPos := Some (NewPos (stNow s) lat lon)\<rparr>
                       | _ \<Rightarrow> app)
           in after_send (wtCodec wt) (Some (MakeMe (stClock s) app1)) (\<lambda>app. (Inr (ok_body (Text ''Ok'')), app)) app1))"

text \<open>
  The category decides whether an item is made. In every other case, and when a new item has no
  class, the code goes on with a nil pointer.
\<close>

definition store_unit :: "stamp \<Rightarrow> WebUnit \<Rightarrow> CotMessage \<Rightarrow> WcApp \<Rightarrow> (Item option \<times> WcApp) result" where
  "store_unit s wu msg app =
     (if wuCategory wu = ''unit'' \<or> wuCategory wu = ''point'' then
        (case Repo_Get (wcItems app) (GetUID (Some msg)) of
           Some u \<Rightarrow>
             (let u' = SetSend (wuSend wu) (Update (stNow s) (Some msg) u)
              in Inr (Some u', app\<lparr>wcItems := Store (Some u') (wcItems app)\<rparr>))
         | None \<Rightarrow>
             (case FromMsg (stNow s) (Some msg) of
                None \<Rightarrow> Inl nil_deref
              | Some u \<Rightarrow>
                  (let u' = SetSend (wuSend wu) (SetLocal (wuLocal wu) u)
                   in Inr (Some u', app\<lparr>wcItems := Store (Some u') (wcItems app)\<rparr>))))
      else Inr (None, app))"

definition addItemHandler :: "wc_tools \<Rightarrow> stamp \<Rightarrow> wc_handler" where
  "addItemHandler wt s rq app =
     (case wtParseUnit wt rq of
        Inl err \<Rightarrow> (Inl err, app)
      | Inr wu \<Rightarrow>
          (let msg = ToMsg (stClock s) (stUuid s) wu;
               store = (\<lambda>app. case store_unit s wu msg app of
                          Inl err \<Rightarrow> (Inl err, app)
                        | Inr (None, app') \<Rightarrow> (Inl nil_deref, app')
                        | Inr (Some u, app') \<Rightarrow>
                            (case ToWeb (wtToUpper wt) u of
                               Inl err \<Rightarrow> (Inl err, app') | Inr w \<Rightarrow> (Inr (ok_body (Json (JUnit w))), app')))
           in if wuSend wu then after_send (wtCodec wt) (GetTakMessage (Some msg)) store app else store app))"

definition complete_message :: "stamp \<Rightarrow> ChatMessage \<Rightarrow> ChatMessage" where
  "complete_message s m =
     (let m1 = (if chID m = [] then m\<lparr>chID := stUuid s\<rparr> else m);
          m2 = (if chTime m1 = zero_time then m1\<lparr>chTime := stNow s\<rparr> else m1)
      in if chChatroom m2 \<noteq> chToUID m2 then m2\<lparr>chDirect := True\<rparr> else m2)"

definition addMessageHandler :: "wc_tools \<Rightarrow> stamp \<Rightarrow> wc_handler" where
  "addMessageHandler wt s rq app =
     (case wtParseChat wt rq of
        Inl err \<Rightarrow> (Inl err, app)
      | Inr m0 \<Rightarrow>
          (let msg = complete_message s m0
           in after_send (wtCodec wt) (Some (MakeChatMessage (stClock s) (stTime s) msg))
                (\<lambda>app. let app' = app\<lparr>wcChats := ChatMessages_Add msg (wcChats app)\<rparr>
                       in (Inr (ok_body (Json (chats_json app'))), app')) app))"

definition wc_deleteItemHandler :: "wc_tools \<Rightarrow> wc_handler" where
  "wc_deleteItemHandler wt rq app =
     (let app1 = app\<lparr>wcItems := Repo_Remove (ctx_Params rq ''uid'') (wcItems app)\<rparr>
      in (case wc_getUnits wt app1 of
            Inl err \<Rightarrow> Inl err
          | Inr us \<Rightarrow> Inr (ok_body (Json (JObject [(''units'', JList (map JUnit us)),
              (''messages'', JObject [(''Chats'', chats_json app1), (''Contacts'', JObject [])])]))), app1))"

section \<open>The program\<close>

text \<open>
  The settings are read through koanf, after the defaults and the file; \<open>identity\<close> is what the
  enrolment (when a user is set) or the key store gives. The program ends without a connection when
  the settings or the identity are bad.
\<close>

record wc_flags =
  wfNoWeb :: bool
  wfFile :: string

definition set_identity :: "koanf \<Rightarrow> (bool \<Rightarrow> (string \<times> X509 \<times> X509 list) result) \<Rightarrow> WcApp \<Rightarrow> WcApp result" where
  "set_identity k identity app =
     (if \<not> wcTls app then Inr app
      else let enrol = (kString k ''ssl.enroll_user'' \<noteq> [])
           in if enrol \<and> kString k ''ssl.enroll_password'' = [] then Inl (Error ''no enroll_password'')
              else case identity enrol of
                     Inl err \<Rightarrow> Inl err
                   | Inr (key, cert, cas) \<Rightarrow>
                       Inr (app\<lparr>wcTlsCert := Some (key, cert), wcCas := MakeCertPool (map Some cas)\<rparr>))"

definition wc_main ::
    "string \<Rightarrow> koanf \<Rightarrow> wc_flags \<Rightarrow> time \<Rightarrow> (bool \<Rightarrow> (string \<times> X509 \<times> X509 list) result) \<Rightarrow> WcApp result" where
  "wc_main emptyMd5 k flags now identity =
     (let uid0 = kString k ''me.uid'';
          uid = (if uid0 = ''auto'' \<or> uid0 = [] then makeUID emptyMd5 (kString k ''me.callsign'') else uid0)
      in case wc_NewApp uid (kString k ''me.callsign'') (kString k ''server_address'') (kInt k ''web_port'') of
           Inl p \<Rightarrow> Inl p
         | Inr None \<Rightarrow> Inl nil_deref
         | Inr (Some app0) \<Rightarrow>
             (let app1 = app0\<lparr>wcSaveFile := wfFile flags, wcWebPort := (if wfNoWeb flags then - 1 else wcWebPort app0),
                    wcPos := Some (NewPos now (kFloat64 k ''me.lat'') (kFloat64 k ''me.lon'')),
                    wcZoom := word_of_int (kInt k ''me.zoom''), wcTyp := kString k ''me.type'', wcTeam := kString k ''me.team'',
                    wcRole := kString k ''me.role'', wcDevice := kString k ''me.device'', wcVersion := kString k ''me.version'',
                    wcPlatform := kString k ''me.platform'', wcOs := kString k ''me.os'', wcGpsd := kString k ''gpsd''\<rparr>
              in case set_identity k identity app1 of Inl err \<Rightarrow> Inl err | Inr app2 \<Rightarrow> Init app2))"

end
