(* ===== verification/ClientSafety.thy ===== *)
theory ClientSafety
  imports WebClient
begin

text \<open>
  What the client does with the messages of its server and of its web interface: its identity, the
  position reports and chat messages that two clients exchange, the items of the web interface, and
  the invariant of its state.
\<close>

section \<open>The uid of a client\<close>

lemma hex_digit_inj: "m < 16 \<Longrightarrow> n < 16 \<Longrightarrow> hex_digit m = hex_digit n \<longleftrightarrow> m = n"
proof -
  have d: "distinct ''0123456789abcdef''" by code_simp
  assume "m < 16" "n < 16"
  then show ?thesis using nth_eq_iff_index_eq [OF d, of m n] by (simp add: hex_digit_def)
qed

lemma hex_digit_mod: "hex_digit (n mod 16) = hex_digit n"
  by (simp add: hex_digit_def)

lemma hex_encode_Cons: "hex_encode (b # s) = hex_digit (of_char b div 16) # hex_digit (of_char b) # hex_encode s"
  by (simp add: hex_encode_def)

lemma hex_encode_Nil [simp]: "hex_encode [] = []"
  by (simp add: hex_encode_def)

lemma of_char_bound: "(of_char c :: nat) < 256"
  by (metis of_char_mod_256 mod_less_divisor zero_less_numeral)

lemma hex_encode_take: "take (2 * n) (hex_encode s) = hex_encode (take n s)"
proof (induction s arbitrary: n)
  case (Cons b s)
  then show ?case by (cases n) (simp_all add: hex_encode_Cons) 
qed simp

lemma hex_encode_inj: "hex_encode s = hex_encode t \<longleftrightarrow> s = t"
proof (induction s arbitrary: t)
  case Nil
  then show ?case by (cases t) (simp_all add: hex_encode_Cons)
next
  case (Cons b s)
  show ?case
  proof (cases t)
    case Nil
    then show ?thesis by (simp add: hex_encode_Cons)
  next
    case t: (Cons c t')
    have "of_char b div 16 < (16 :: nat)" "of_char c div 16 < (16 :: nat)"
      using of_char_bound [of b] of_char_bound [of c] by linarith+
    then have "hex_digit (of_char b div 16) = hex_digit (of_char c div 16) \<longleftrightarrow> (of_char b div 16 :: nat) = of_char c div 16"
      by (rule hex_digit_inj)
    moreover have "hex_digit (of_char b) = hex_digit (of_char c) \<longleftrightarrow> (of_char b mod 16 :: nat) = of_char c mod 16"
      using hex_digit_inj [of "of_char b mod 16" "of_char c mod 16"] by (simp add: hex_digit_mod)
    moreover have "(of_char b div 16 :: nat) = of_char c div 16 \<and> (of_char b mod 16 :: nat) = of_char c mod 16 \<longleftrightarrow> b = c"
      by (metis div_mult_mod_eq of_char_eq_iff)
    ultimately show ?thesis by (auto simp: t hex_encode_Cons Cons.IH)
  qed
qed

text \<open>
  The uid a client gives itself is not a hash: it is the first eight bytes of its call sign in
  hexadecimal (padded with the hash of nothing). Two clients have the same uid exactly when these
  bytes agree, so all call signs with a common beginning of eight bytes share one.
\<close>

theorem makeUID_collisions:
  "(makeUID e c = makeUID e c' \<longleftrightarrow> take 8 (c @ e) = take 8 (c' @ e)) \<and>
   (length p = 8 \<longrightarrow> makeUID e (p @ x) = makeUID e (p @ y))"
proof -
  have u: "makeUID e c = ''ANDROID-'' @ hex_encode (take 8 (c @ e))" for c
    using hex_encode_take [of 8 "c @ e"] by (simp add: makeUID_def)
  show ?thesis unfolding u by (auto simp: hex_encode_inj)
qed

theorem makeUID_collisions_witness:
  "makeUID e ''Operator1'' = makeUID e ''Operator2'' \<and> makeUID e ''Operator1'' \<noteq> makeUID e ''Observer1''"
proof (rule conjI)
  show "makeUID e ''Operator1'' = makeUID e ''Operator2''"
    using makeUID_collisions [of e "[]" "[]" "''Operator''" "''1''" "''2''"] by simp
  show "makeUID e ''Operator1'' \<noteq> makeUID e ''Observer1''"
    using makeUID_collisions [of e "''Operator1''" "''Observer1''" "[]" "[]" "[]"] by simp
qed

section \<open>The processors\<close>

lemma wc_masks:
  "MatchAnyPattern t [''t-x-d-d''] \<longleftrightarrow> t = ''t-x-d-d''"
  "MatchAnyPattern t [''b-t-f''] \<longleftrightarrow> t = ''b-t-f''"
  "MatchAnyPattern t [''a-'', ''b-'', ''u-''] \<longleftrightarrow> HasPrefix t ''a-'' \<or> HasPrefix t ''b-'' \<or> HasPrefix t ''u-''"
  by (auto simp: MatchAnyPattern_def MatchPattern_exact MatchPattern_prefix HasSuffix_def)

lemma wc_log_keeps [simp]:
  "wcItems (wc_fileLoggerProcessor wt msg app) = wcItems app"
  "wcChats (wc_fileLoggerProcessor wt msg app) = wcChats app"
  "wcChatCb (wc_fileLoggerProcessor wt msg app) = wcChatCb app"
  "wcUid (wc_fileLoggerProcessor wt msg app) = wcUid app"
  "wcProcessors (wc_fileLoggerProcessor wt msg app) = wcProcessors app"
  by (simp_all add: wc_fileLoggerProcessor_def wc_logMessage_def split: sum.splits)

lemma wc_chat_keeps [simp]:
  "wcItems (wc_chatProcessor wt msg app) = wcItems app" "wcUid (wc_chatProcessor wt msg app) = wcUid app"
  "wcProcessors (wc_chatProcessor wt msg app) = wcProcessors app"
  by (simp_all add: wc_chatProcessor_def Let_def split: option.splits)

lemma wc_remove_keeps [simp]:
  "wcChats (wc_removeItemProcessor msg app) = wcChats app" "wcChatCb (wc_removeItemProcessor msg app) = wcChatCb app"
  "wcUid (wc_removeItemProcessor msg app) = wcUid app" "wcProcessors (wc_removeItemProcessor msg app) = wcProcessors app"
  by (auto simp: wc_removeItemProcessor_def Let_def split: option.splits)

lemma wc_save_keeps [simp]:
  "wcChats (wc_saveItemProcessor now msg app) = wcChats app" "wcChatCb (wc_saveItemProcessor now msg app) = wcChatCb app"
  "wcUid (wc_saveItemProcessor now msg app) = wcUid app" "wcProcessors (wc_saveItemProcessor now msg app) = wcProcessors app"
  by (auto simp: wc_saveItemProcessor_def split: option.splits)

lemma wc_save_items: "wcItems x = wcItems y \<Longrightarrow> wcUid x = wcUid y \<Longrightarrow>
    wcItems (wc_saveItemProcessor now msg x) = wcItems (wc_saveItemProcessor now msg y)"
  by (auto simp: wc_saveItemProcessor_def split: option.splits)

text \<open>A position report meets the item processor, a chat message the chat processor.\<close>

lemma ProcessEvent_unit:
  assumes "wcProcessors app = wc_InitMessageProcessors app0" "HasPrefix (GetType (Some msg)) ''a-''"
  shows "wcItems (ProcessEvent wt now msg app) = wcItems (wc_saveItemProcessor now msg app)"
proof -
  have t: "GetType (Some msg) \<noteq> ''t-x-d-d''" "GetType (Some msg) \<noteq> ''b-t-f''" using assms(2) by auto
  show ?thesis
    using assms(2) t by (auto simp: ProcessEvent_def assms(1) wc_InitMessageProcessors_def wc_masks wc_run_cb_def intro: wc_save_items)
qed

lemma ProcessEvent_chat:
  assumes "wcProcessors app = wc_InitMessageProcessors app0" "IsChat (Some msg)"
  shows "wcItems (ProcessEvent wt now msg app) = wcItems app"
    "wcChats (ProcessEvent wt now msg app) = wcChats (wc_chatProcessor wt msg app)"
    "wcChatCb (ProcessEvent wt now msg app) = wcChatCb (wc_chatProcessor wt msg app)"
proof -
  have t: "GetType (Some msg) = ''b-t-f''" using assms(2) by (simp add: IsChat_def)
  have "\<not> IsMapItem (Some msg)" using assms(2) t by (simp add: IsMapItem_iff)
  then have s: "wc_saveItemProcessor now msg x = x" for x by (simp add: wc_saveItemProcessor_def)
  have c: "wcChats (wc_chatProcessor wt msg (wc_fileLoggerProcessor wt msg app)) = wcChats (wc_chatProcessor wt msg app)"
    "wcChatCb (wc_chatProcessor wt msg (wc_fileLoggerProcessor wt msg app)) = wcChatCb (wc_chatProcessor wt msg app)"
    by (simp_all add: wc_chatProcessor_def Let_def split: option.splits)
  show "wcItems (ProcessEvent wt now msg app) = wcItems app"
    "wcChats (ProcessEvent wt now msg app) = wcChats (wc_chatProcessor wt msg app)"
    "wcChatCb (ProcessEvent wt now msg app) = wcChatCb (wc_chatProcessor wt msg app)"
    by (auto simp: ProcessEvent_def assms(1) wc_InitMessageProcessors_def wc_masks wc_run_cb_def t s c)
qed


section \<open>Position reports\<close>

lemma MakeMe_event:
  "\<exists>ev. tmCotEvent (MakeMe now a) = Some ev \<and> ceType ev = wcTyp a \<and> ceUid ev = wcUid a \<and>
     ceLat ev = Pos_GetLat (wcPos a) \<and> ceLon ev = Pos_GetLon (wcPos a) \<and>
     (\<exists>d. ceDetail ev = Some d \<and> dContact d = Some \<lparr>conEndpoint = ''*:-1:stcp'', conCallsign = wcCallsign a\<rparr> \<and>
        dGroup d = Some \<lparr>grpName = wcTeam a, grpRole = wcRole a\<rparr>)"
  by (simp add: MakeMe_def set_event_def BasicMsg_def split_beta)

lemma MakeMe_fields:
  assumes "cmTakMessage msg = Some (MakeMe clock a)"
  shows "GetUID (Some msg) = wcUid a" "GetType (Some msg) = wcTyp a" "GetEndpoint (Some msg) = ''*:-1:stcp''"
    "wcCallsign a \<noteq> [] \<Longrightarrow> GetCallsign (Some msg) = wcCallsign a"
    "wcTeam a \<noteq> [] \<Longrightarrow> GetTeam (Some msg) = wcTeam a" "wcRole a \<noteq> [] \<Longrightarrow> GetRole (Some msg) = wcRole a"
    "GetLat (Some msg) = Pos_GetLat (wcPos a)" "GetLon (Some msg) = Pos_GetLon (wcPos a)"
  using MakeMe_event [of clock a] assms
  by (auto simp: GetUID_def GetType_def GetEndpoint_def GetCallsign_def GetTeam_def GetRole_def GetLat_def GetLon_def GetTakMessage_def)

text \<open>
  C30: the position of a client on the map of another. A client of a friendly type whose call sign is
  set reports its position with \<open>MakeMe\<close>; whatever the receiver had under that uid, after the report
  it shows a contact, on line and seen now, with the sender's call sign, team, role and coordinates,
  and no other item has changed. The report changes nothing on the map of a client with the same uid.
\<close>

theorem position_report:
  assumes "wcProcessors b = wc_InitMessageProcessors b0" "repo_inv (wcItems b)" "cmTakMessage msg = Some (MakeMe clock a)"
    and "HasPrefix (wcTyp a) ''a-''" "wcCallsign a \<noteq> []" "wcTeam a \<noteq> []" "wcRole a \<noteq> []"
  shows "(if wcUid b = wcUid a then wcItems (ProcessEvent wt now msg b) = wcItems b
      else \<exists>i. Repo_Get (wcItems (ProcessEvent wt now msg b)) (wcUid a) = Some i \<and> itClass i = CONTACT \<and> itOnline i \<and>
         itLastSeen i = now \<and> Item_GetCallsign i = wcCallsign a \<and> GetTeam (Some (itMsg i)) = wcTeam a \<and>
         GetRole (Some (itMsg i)) = wcRole a \<and> GetLanLon i = (Pos_GetLat (wcPos a), Pos_GetLon (wcPos a)) \<and>
         (\<forall>u. u \<noteq> wcUid a \<longrightarrow> Repo_Get (wcItems (ProcessEvent wt now msg b)) u = Repo_Get (wcItems b) u))"
proof -
  note f = MakeMe_fields [OF assms(3)]
  have map: "IsMapItem (Some msg)" and t: "HasPrefix (GetType (Some msg)) ''a-''" using f(2) assms(4) by (simp_all add: IsMapItem_iff)
  have cls: "GetClass (Some msg) = CONTACT" using f(2,3) assms(4) by (simp add: GetClass_def)
  note items = ProcessEvent_unit [OF assms(1) t, of wt now]
  show ?thesis
  proof (cases "wcUid b = wcUid a")
    case True
    then show ?thesis using f(1) unfolding items by (simp add: wc_saveItemProcessor_def)
  next
    case False
    define i where "i = (case Repo_Get (wcItems b) (wcUid a) of Some c \<Rightarrow> Update now (Some msg) c | None \<Rightarrow> the (FromMsg now (Some msg)))"
    have i: "itUid i = wcUid a" "itClass i = CONTACT" "itOnline i" "itLastSeen i = now" "itMsg i = msg"
      using repo_inv_D [OF assms(2), of "wcUid a"] cls f(1)
      by (auto simp: i_def Update_def FromMsg_def Let_def class_names split: option.splits)
    have "FromMsg now (Some msg) = Some (the (FromMsg now (Some msg)))"
      using cls by (simp add: FromMsg_def Let_def class_names)
    then have "wcItems (ProcessEvent wt now msg b) = Store (Some i) (wcItems b)"
      using False map f(1) unfolding items
      by (cases "Repo_Get (wcItems b) (wcUid a)") (simp_all add: wc_saveItemProcessor_def i_def)
    then show ?thesis
      using False i f(4-8) assms(5-7) by (auto simp: Get_Store Item_GetCallsign_def GetLanLon_def)
  qed
qed

definition example_client :: "string \<Rightarrow> string \<Rightarrow> WcApp" where
  "example_client uid callsign =
     (let app = the (projr (wc_NewApp uid callsign [] 8080))
      in app\<lparr>wcTyp := ''a-f-G-U-C'', wcTeam := ''Blue'', wcRole := ''HQ'', wcPos := Some (NewPos 0 1 2),
           wcProcessors := wc_InitMessageProcessors app\<rparr>)"

definition example_tools :: wc_tools where
  "example_tools = \<lparr>wtCodec = example_codec, wtUnescape = id, wtToUpper = id, wtOpenLog = None, wtParseDp = (\<lambda>_. Inl EOF),
     wtParsePos = (\<lambda>_. Inl EOF), wtParseUnit = (\<lambda>_. Inl EOF), wtParseChat = (\<lambda>_. Inl EOF)\<rparr>"

lemma example_client_simps [simp]:
  "wcUid (example_client uid cs) = uid" "wcCallsign (example_client uid cs) = cs" "wcTyp (example_client uid cs) = ''a-f-G-U-C''"
  "wcTeam (example_client uid cs) = ''Blue''" "wcRole (example_client uid cs) = ''HQ''"
  "wcPos (example_client uid cs) = Some (NewPos 0 1 2)" "wcItems (example_client uid cs) = NewItemsMemoryRepo [5 * minute]"
  "wcChats (example_client uid cs) = NewChatMessages uid" "wcCl (example_client uid cs) = None" "wcChatCb (example_client uid cs) = []"
  by (simp_all add: example_client_def wc_NewApp_def Let_def)

lemma example_client_processors: "\<exists>app. wcProcessors (example_client uid cs) = wc_InitMessageProcessors app"
  by (simp add: example_client_def wc_NewApp_def Let_def) blast

definition report_of :: "WcApp \<Rightarrow> CotMessage" where
  "report_of a = \<lparr>cmFrom = [], cmScope = [], cmTakMessage = Some (MakeMe (0, 0, 0) a), cmDetail = None\<rparr>"

theorem position_report_witness:
  "(\<exists>i. Repo_Get (wcItems (ProcessEvent example_tools 7 (report_of (example_client ''a'' ''Alice'')) (example_client ''b'' ''Bob''))) ''a'' = Some i \<and>
      itClass i = CONTACT \<and> Item_GetCallsign i = ''Alice'' \<and> GetLanLon i = (1, 2))"
proof -
  obtain app where "wcProcessors (example_client ''b'' ''Bob'') = wc_InitMessageProcessors app"
    using example_client_processors by blast
  from position_report [OF this, of "report_of (example_client ''a'' ''Alice'')" "(0, 0, 0)" "example_client ''a'' ''Alice''" example_tools 7]
  show ?thesis by (auto simp: report_of_def new_inv Pos_GetLat_def Pos_GetLon_def NewPos_def NewPosFull_def)
qed


section \<open>Chat\<close>

lemma SendMsg_keeps:
  "wc_SendMsg c msg app = (app', p) \<Longrightarrow> app' = app\<lparr>wcCl := wcCl app'\<rparr>"
  by (auto simp: wc_SendMsg_def split: option.splits prod.splits)

lemma complete_direct: "chChatroom m \<noteq> chToUID m \<Longrightarrow> chDirect (complete_message s m)"
  "chToUID (complete_message s m) = chToUID m" "chChatroom (complete_message s m) = chChatroom m"
  "chFromUID (complete_message s m) = chFromUID m" "chText (complete_message s m) = chText m"
  "chFrom (complete_message s m) = chFrom m"
  by (simp_all add: complete_message_def Let_def)


definition chat_request :: wc_tools where
  "chat_request = example_tools\<lparr>wtParseChat := \<lambda>_. Inr \<lparr>chID = ''m1'', chTime = 1, chParent = [], chChatroom = ''Bob'', chFrom = ''Alice'',
     chFromUID = ''a'', chToUID = ''b'', chDirect = False, chText = ''hello''\<rparr>\<rparr>"



section \<open>Items of the web interface\<close>

text \<open>
  The items a user puts on the map. A unit or point is shown under its uid with the data that
  was entered and, when \<open>send\<close> is set, is sent to the server now and with every later position report;
  no other item changes. Any other category, and a new item of a type that has no class, makes the
  handler run into a nil pointer after the message was sent, and nothing is shown.
\<close>

theorem web_item:
  assumes "wtParseUnit wt rq = Inr wu" "ToMsg (stClock s) (stUuid s) wu = msg" "repo_inv (wcItems app)" "GetUID (Some msg) = uid"
    and "snd (wc_SendMsg (wtCodec wt) (GetTakMessage (Some msg)) app) = None"
    and "addItemHandler wt s rq app = (r, app')"
  shows "if wuCategory wu \<in> {''unit'', ''point''} \<and> (Repo_Get (wcItems app) uid \<noteq> None \<or> GetClass (Some msg) \<noteq> []) then
       (\<exists>i. Repo_Get (wcItems app') uid = Some i \<and> itMsg i = msg \<and> itSend i = wuSend wu) \<and>
       (\<forall>u. u \<noteq> uid \<longrightarrow> Repo_Get (wcItems app') u = Repo_Get (wcItems app) u)
     else r = Inl nil_deref \<and> wcItems app' = wcItems app"
proof -
  obtain app1 where app1: "wc_SendMsg (wtCodec wt) (GetTakMessage (Some msg)) app = (app1, None)"
    using assms(5) by (metis prod.collapse)
  then have items1: "wcItems app1 = wcItems app"
    using SendMsg_keeps [OF app1] by (metis WcApp.ext_inject WcApp.surjective WcApp.update_convs(12))
  define x where "x = (if wuSend wu then app1 else app)"
  have x: "wcItems x = wcItems app" by (simp add: x_def items1)
  have run: "addItemHandler wt s rq app = (case store_unit s wu msg x of
       Inl err \<Rightarrow> (Inl err, x) | Inr (None, app') \<Rightarrow> (Inl nil_deref, app')
     | Inr (Some u, app') \<Rightarrow> (case ToWeb (wtToUpper wt) u of Inl err \<Rightarrow> (Inl err, app') | Inr w \<Rightarrow> (Inr (ok_body (Json (JUnit w))), app')))"
    unfolding x_def using assms(1,2) app1 by (simp add: addItemHandler_def after_send_def Let_def)
  show ?thesis
  proof (cases "wuCategory wu = ''unit'' \<or> wuCategory wu = ''point''")
    case False
    then show ?thesis using assms(6) x unfolding run by (simp add: store_unit_def)
  next
    case cat: True
    show ?thesis
    proof (cases "Repo_Get (wcItems app) uid")
      case None
      show ?thesis
      proof (cases "FromMsg (stNow s) (Some msg)")
        case no: None
        then have "GetClass (Some msg) = []" by (simp add: FromMsg_def Let_def split: if_splits)
        then show ?thesis using None no assms(4,6) x cat unfolding run by (simp add: store_unit_def)
      next
        case (Some u)
        then have u: "itUid u = uid" "itMsg u = msg" "GetClass (Some msg) \<noteq> []"
          using FromMsg_Some [OF Some] assms(4) by auto
        then show ?thesis
          using None Some assms(4,6) x cat unfolding run
          by (auto simp: store_unit_def Get_Store SetSend_def SetLocal_def Let_def split: sum.splits)
      qed
    next
      case (Some c)
      then have "itUid c = uid" using assms(3) repo_inv_D by blast
      moreover have "itMsg (Update (stNow s) (Some msg) c) = msg" by (simp add: Update_def Let_def)
      ultimately show ?thesis
        using Some assms(4,6) x cat unfolding run
        by (auto simp: store_unit_def Get_Store SetSend_def Let_def split: sum.splits)
    qed
  qed
qed

definition example_unit :: "string \<Rightarrow> WebUnit" where
  "example_unit cat = \<lparr>wuUID = ''p1'', wuCallsign = ''P'', wuCategory = cat, wuScope = [], wuTeam = [], wuRole = [], wuExRole = [],
     wuTime = 0, wuLastSeen = 0, wuStaleTime = 1, wuStartTime = 1, wuSendTime = 1, wuType = ''b-m-p'', wuLat = 1, wuLon = 2, wuHae = 0,
     wuSpeed = 0, wuCourse = 0, wuSidc = [], wuTakVersion = [], wuDevice = [], wuStatus = [], wuBattery = 0, wuText = [],
     wuColor = [], wuIcon = [], wuParentCallsign = [], wuParentUID = [], wuLocal = True, wuSend = False, wuMissions = []\<rparr>"

theorem web_item_witness:
  "(\<exists>i. Repo_Get (wcItems (snd (addItemHandler (example_tools\<lparr>wtParseUnit := \<lambda>_. Inr (example_unit ''point'')\<rparr>) (example_stamps 0)
       (example_request [] [] []) (example_client ''a'' ''Alice'')))) ''p1'' = Some i) \<and>
   fst (addItemHandler (example_tools\<lparr>wtParseUnit := \<lambda>_. Inr (example_unit ''route'')\<rparr>) (example_stamps 0)
       (example_request [] [] []) (example_client ''a'' ''Alice'')) = Inl nil_deref"
proof -
  let ?run = "\<lambda>cat. addItemHandler (example_tools\<lparr>wtParseUnit := \<lambda>_. Inr (example_unit cat)\<rparr>) (example_stamps 0)
       (example_request [] [] []) (example_client ''a'' ''Alice'')"
  have uid: "GetUID (Some (ToMsg (stClock (example_stamps 0)) (stUuid (example_stamps 0)) (example_unit cat))) = ''p1''"
    "GetType (Some (ToMsg (stClock (example_stamps 0)) (stUuid (example_stamps 0)) (example_unit cat))) = ''b-m-p''" for cat
    by (simp_all add: GetUID_def GetType_def GetTakMessage_def ToMsg_def example_unit_def Let_def split_beta)
  have cls: "GetClass (Some (ToMsg (stClock (example_stamps 0)) (stUuid (example_stamps 0)) (example_unit cat))) \<noteq> []" for cat
    by (simp add: GetClass_def uid MatchAnyPattern_def MatchPattern_prefix HasSuffix_def class_names)
  have send: "snd (wc_SendMsg c m (example_client ''a'' ''Alice'')) = None" for c m by (simp add: wc_SendMsg_def)
  note w = web_item [of "example_tools\<lparr>wtParseUnit := \<lambda>_. Inr (example_unit cat)\<rparr>" "example_request [] [] []" "example_unit cat" "example_stamps 0"
      "ToMsg (stClock (example_stamps 0)) (stUuid (example_stamps 0)) (example_unit cat)" "example_client ''a'' ''Alice''" "''p1''" "fst (?run cat)" "snd (?run cat)" for cat]
  have "if wuCategory (example_unit ''point'') \<in> {''unit'', ''point''} then \<exists>i. Repo_Get (wcItems (snd (?run ''point''))) ''p1'' = Some i else True"
    using w [of "''point''"] uid cls send by (auto simp: new_inv)
  moreover have "if wuCategory (example_unit ''route'') \<in> {''unit'', ''point''} then True else fst (?run ''route'') = Inl nil_deref"
    using w [of "''route''"] uid send by (auto simp: new_inv)
  ultimately show ?thesis by (simp add: example_unit_def)
qed


section \<open>Histories of a client\<close>

text \<open>
  What the goroutines of the client do, in any order: requests to the web interface, the ticks of the
  position sender, connections, reads and writes of the connection (whose messages are processed, and
  whose end clears the flag), answers with contacts, positions from the GPS, and the cleaner.
\<close>

definition deliver :: "wc_tools \<Rightarrow> time \<Rightarrow> Handler \<Rightarrow> Handler \<Rightarrow> WcApp \<Rightarrow> WcApp" where
  "deliver wt now h h' app =
     (let app1 = fold (ProcessEvent wt now) (drop (length (chForwarded h)) (chForwarded h')) (app\<lparr>wcCl := Some h'\<rparr>)
      in if chRemoved h < chRemoved h' then on_disconnect app1 else app1)"

definition wc_handlers :: "wc_tools \<Rightarrow> stamp \<Rightarrow> string \<Rightarrow> wc_handler list" where
  "wc_handlers wt s version =
     [wc_getIndexHandler, wc_getConfigHandler version, getDpHandler wt s, getPosHandler wt s, wc_getUnitsHandler wt, addItemHandler wt s,
      getMessagesHandler, addMessageHandler wt s, wc_deleteItemHandler wt]"

inductive wc_step :: "wc_tools \<Rightarrow> WcApp \<Rightarrow> WcApp \<Rightarrow> bool" for wt :: wc_tools where
  request: "act \<in> set (wc_handlers wt s version) \<Longrightarrow> wc_step wt app (snd (act rq app))"
| tick: "wc_step wt app (fst (myPosTick (wtCodec wt) clk app))"
| connects: "\<not> IsConnected app \<Longrightarrow> wc_step wt app (on_connect (wtCodec wt) now clk conn app)"
| traffic: "wcCl app = Some h \<Longrightarrow> handler_step (wtCodec wt) h h' \<Longrightarrow> wc_step wt app (deliver wt now h h' app)"
| contacts: "wc_step wt app (periodicGet get app)"
| gps: "wc_step wt app (app\<lparr>wcPos := Some (NewPosFull now lat lon alt speed track)\<rparr>)"
| cleans: "wc_step wt app (app\<lparr>wcItems := cleanOldUnits now (wcItems app)\<rparr>)"

inductive wc_reachable :: "wc_tools \<Rightarrow> WcApp \<Rightarrow> WcApp \<Rightarrow> bool" for wt :: wc_tools and app0 :: WcApp where
  init: "wc_reachable wt app0 app0"
| step: "wc_reachable wt app0 app \<Longrightarrow> wc_step wt app app' \<Longrightarrow> wc_reachable wt app0 app'"

inductive_cases wc_stepE: "wc_step wt app app'"

definition wc_inv :: "string \<Rightarrow> WcApp \<Rightarrow> bool" where
  "wc_inv uid app \<longleftrightarrow> wcUid app = uid \<and> repo_inv (wcItems app) \<and> chats_inv uid (wcChats app) \<and>
     map_all (\<lambda>k c. ctUID c = k) (smLoad (wcContacts app)) \<and>
     (\<forall>h. wcCl app = Some h \<longrightarrow> (\<exists>h0. chDevice h0 = None \<and> handler_inv h0 h)) \<and>
     (IsConnected app \<longleftrightarrow> (\<exists>h. wcCl app = Some h \<and> chActive h))"

lemma wc_cb_inv: "wc_inv uid app \<Longrightarrow> wc_inv uid (wc_run_cb wt now msg p app)"
proof (cases p)
  case WFileLogger
  moreover assume "wc_inv uid app"
  ultimately show ?thesis
    by (simp add: wc_run_cb_def wc_inv_def IsConnected_def wc_fileLoggerProcessor_def wc_logMessage_def split: sum.splits)
next
  case WRemove
  moreover assume "wc_inv uid app"
  ultimately show ?thesis
    by (auto simp: wc_run_cb_def wc_inv_def IsConnected_def wc_removeItemProcessor_def Let_def Store_inv Remove_inv split: option.splits)
next
  case WChat
  moreover assume "wc_inv uid app"
  ultimately show ?thesis
    by (auto simp: wc_run_cb_def wc_inv_def IsConnected_def wc_chatProcessor_def Let_def Add_inv split: option.splits)
next
  case WItems
  moreover assume "wc_inv uid app"
  ultimately show ?thesis
    by (auto simp: wc_run_cb_def wc_inv_def IsConnected_def wc_saveItemProcessor_def Let_def Store_inv split: option.splits)
qed (simp_all add: wc_run_cb_def)

lemma ProcessEvent_inv: "wc_inv uid app \<Longrightarrow> wc_inv uid (ProcessEvent wt now msg app)"
proof -
  assume "wc_inv uid app"
  then have "wc_inv uid (fold (\<lambda>prc. if MatchAnyPattern (GetType (Some msg)) (wpInclude prc) then wc_run_cb wt now msg (wpCb prc) else id) ps app)" for ps
    by (induction ps arbitrary: app) (simp_all add: wc_cb_inv)
  then show ?thesis by (simp add: ProcessEvent_def)
qed

text \<open>Sending changes nothing but the queue of the connection.\<close>

lemma wc_SendMsg_inv:
  assumes "wc_inv uid app" "wc_SendMsg c msg app = (app', p)"
  shows "wc_inv uid app'"
proof (cases "wcCl app")
  case (Some h)
  have q: "queue_only h (fst (SendCot c msg h))" by (rule SendCot_queue)
  obtain h0 where h0: "chDevice h0 = None" "handler_inv h0 h" using assms(1) Some by (auto simp: wc_inv_def)
  have "handler_inv h0 (fst (SendCot c msg h))" using frame_inv [OF h0(2) queue_frame [OF q]] .
  moreover have "chActive (fst (SendCot c msg h)) = chActive h" using q by (auto simp: queue_only_def)
  ultimately show ?thesis
    using assms Some h0(1) by (auto simp: wc_SendMsg_def wc_inv_def IsConnected_def split: prod.splits)
qed (use assms in \<open>simp add: wc_SendMsg_def\<close>)

lemma send_all_inv: "wc_inv uid app \<Longrightarrow> wc_inv uid (fst (send_all c ms app))"
proof (induction ms arbitrary: app)
  case (Cons m ms)
  obtain app' p where s: "wc_SendMsg c m app = (app', p)" by fastforce
  then have "wc_inv uid app'" using wc_SendMsg_inv Cons.prems by blast
  then show ?case using Cons.IH s by (cases p) simp_all
qed simp

lemma after_send_inv:
  assumes "wc_inv uid app" "\<And>app'. wc_inv uid app' \<Longrightarrow> wc_inv uid (snd (k app'))"
  shows "wc_inv uid (snd (after_send c msg k app))"
proof -
  obtain app' p where s: "wc_SendMsg c msg app = (app', p)" by fastforce
  then have "wc_inv uid app'" using wc_SendMsg_inv assms(1) by blast
  then show ?thesis using s assms(2) by (cases p) (simp_all add: after_send_def)
qed

lemma wc_inv_parts [simp]:
  "wc_inv uid app \<Longrightarrow> repo_inv r \<Longrightarrow> wc_inv uid (app\<lparr>wcItems := r\<rparr>)"
  "wc_inv uid app \<Longrightarrow> chats_inv uid c \<Longrightarrow> wc_inv uid (app\<lparr>wcChats := c\<rparr>)"
  "wc_inv uid app \<Longrightarrow> wc_inv uid (app\<lparr>wcPos := pos\<rparr>)"
  by (simp_all add: wc_inv_def IsConnected_def)

lemma wc_inv_D: "wc_inv uid app \<Longrightarrow> repo_inv (wcItems app)" "wc_inv uid app \<Longrightarrow> chats_inv uid (wcChats app)"
  by (simp_all add: wc_inv_def)

lemma store_unit_inv: "wc_inv uid app \<Longrightarrow> store_unit s wu msg app = Inr (u, app') \<Longrightarrow> wc_inv uid app'"
  by (auto simp: store_unit_def Let_def Store_inv wc_inv_D(1) split: if_splits option.splits)

lemma request_inv:
  assumes "wc_inv uid app" "act \<in> set (wc_handlers wt s version)"
  shows "wc_inv uid (snd (act rq app))"
proof -
  have store: "wc_inv uid (snd (case store_unit s wu msg app of
       Inl err \<Rightarrow> (Inl err, app) | Inr (None, app') \<Rightarrow> (Inl nil_deref, app')
     | Inr (Some u, app') \<Rightarrow> (case ToWeb up u of Inl err \<Rightarrow> (Inl err, app') | Inr w \<Rightarrow> (Inr (ok_body (Json (JUnit w))), app'))))"
    if "wc_inv uid app" for app wu msg up
    using that store_unit_inv [OF that, of s wu msg] by (auto split: sum.splits option.splits)
  have quiet: "wc_inv uid (snd (wc_getIndexHandler rq app))" "wc_inv uid (snd (wc_getConfigHandler version rq app))"
    "wc_inv uid (snd (wc_getUnitsHandler wt rq app))" "wc_inv uid (snd (getMessagesHandler rq app))"
    "wc_inv uid (snd (wc_deleteItemHandler wt rq app))"
    using assms(1) by (simp_all add: wc_getIndexHandler_def wc_getConfigHandler_def wc_getUnitsHandler_def getMessagesHandler_def
        wc_deleteItemHandler_def Let_def split_beta Remove_inv wc_inv_D)
  have dp: "wc_inv uid (snd (getDpHandler wt s rq app))"
    using assms(1) by (auto simp: getDpHandler_def intro!: after_send_inv split: sum.splits)
  have pos: "wc_inv uid (snd (getPosHandler wt s rq app))"
    using assms(1) by (auto simp: getPosHandler_def Let_def intro!: after_send_inv split: sum.splits option.splits)
  have item: "wc_inv uid (snd (addItemHandler wt s rq app))"
  proof (cases "wtParseUnit wt rq")
    case (Inr wu)
    show ?thesis
      unfolding addItemHandler_def Let_def Inr sum.case
      by (cases "wuSend wu") (simp_all only: if_True if_False after_send_inv [OF assms(1) store] store [OF assms(1)])
  qed (simp add: addItemHandler_def assms(1))
  have msg: "wc_inv uid (snd (addMessageHandler wt s rq app))"
    using assms(1) by (auto simp: addMessageHandler_def Let_def Add_inv wc_inv_D intro!: after_send_inv split: sum.splits)
  show ?thesis using assms(2) quiet dp pos item msg by (auto simp: wc_handlers_def)
qed


lemma handler_inactive:
  assumes "handler_step c h h'" "\<not> chActive h"
  shows "\<not> chActive h'"
  using assms(1)
proof cases
  case (reads now)
  then show ?thesis using assms(2) by (simp only: read_iter_def not_False_eq_True if_True)
next
  case (sends msg)
  then show ?thesis using SendMsg_queue [of h c msg] assms(2) by (auto simp: queue_only_def)
next
  case (writes ok)
  then show ?thesis using assms(2) by (simp add: write_iter_def Let_def Stop_def split: option.split prod.split)
next
  case (pings clk)
  then show ?thesis using SendCot_queue [of h c] assms(2) by (auto simp: queue_only_def ping_tick_def)
next
  case stops
  then show ?thesis using assms(2) by (simp add: Stop_def)
next
  case (idles t)
  then show ?thesis using assms(2) by (simp add: closeIdle_def)
qed

lemma ProcessEvent_flag:
  "ProcessEvent wt now msg (app\<lparr>wcConnected := b\<rparr>) = (ProcessEvent wt now msg app)\<lparr>wcConnected := b\<rparr>"
proof -
  have cb: "wc_run_cb wt now msg p (app\<lparr>wcConnected := b\<rparr>) = (wc_run_cb wt now msg p app)\<lparr>wcConnected := b\<rparr>" for p app
    by (cases p) (simp_all add: wc_run_cb_def wc_fileLoggerProcessor_def wc_logMessage_def wc_removeItemProcessor_def
        wc_chatProcessor_def wc_saveItemProcessor_def Let_def split: option.split sum.split)
  have "fold (\<lambda>prc. if P prc then wc_run_cb wt now msg (wpCb prc) else id) ps (app\<lparr>wcConnected := b\<rparr>) =
      (fold (\<lambda>prc. if P prc then wc_run_cb wt now msg (wpCb prc) else id) ps app)\<lparr>wcConnected := b\<rparr>" for P ps
    by (induction ps arbitrary: app) (simp_all add: cb)
  then show ?thesis by (simp add: ProcessEvent_def)
qed

lemma traffic_inv:
  assumes inv: "wc_inv uid app" and cl: "wcCl app = Some h" and st: "handler_step (wtCodec wt) h h'"
  shows "wc_inv uid (deliver wt now h h' app)"
proof -
  obtain h0 where h0: "chDevice h0 = None" "handler_inv h0 h" using inv cl by (auto simp: wc_inv_def)
  have h': "handler_inv h0 h'" by (rule step_inv [OF h0(2) st])
  have gone: "chRemoved h = (if chActive h then 0 else 1)" "chRemoved h' = (if chActive h' then 0 else 1)"
    using h0(2) h' by (simp_all only: handler_inv_def)
  have on: "wcConnected app = chActive h" using inv cl by (simp add: wc_inv_def IsConnected_def)
  define app1 where "app1 = app\<lparr>wcCl := Some h', wcConnected := chActive h'\<rparr>"
  have "\<exists>h0. chDevice h0 = None \<and> handler_inv h0 h'" using h0(1) h' by blast
  then have inv1: "wc_inv uid app1" using inv by (simp add: wc_inv_def app1_def IsConnected_def)
  define new where "new = drop (length (chForwarded h)) (chForwarded h')"
  have frame: "fold (ProcessEvent wt now) ms (a\<lparr>wcConnected := b\<rparr>) = (fold (ProcessEvent wt now) ms a)\<lparr>wcConnected := b\<rparr>" for ms a b
    by (induction ms arbitrary: a) (simp_all add: ProcessEvent_flag)
  have run: "wc_inv uid (fold (ProcessEvent wt now) ms a)" if "wc_inv uid a" for ms a
    using that by (induction ms arbitrary: a) (simp_all add: ProcessEvent_inv)
  have "deliver wt now h h' app = fold (ProcessEvent wt now) new app1"
  proof (cases "chRemoved h < chRemoved h'")
    case True
    then have "\<not> chActive h'" using gone by (simp split: if_splits)
    then show ?thesis
      using True frame [where ms = new and a = "app\<lparr>wcCl := Some h'\<rparr>" and b = False]
      by (simp add: deliver_def app1_def on_disconnect_def SetConnected_def new_def)
  next
    case False
    then have "chActive h' = chActive h" using gone handler_inactive [OF st] by (auto split: if_splits)
    then have "app1 = app\<lparr>wcCl := Some h'\<rparr>" using on by (simp add: app1_def)
    then show ?thesis using False by (simp add: deliver_def new_def)
  qed
  then show ?thesis using run [OF inv1] by simp
qed


lemma new_connection_inv:
  "wc_inv uid app \<Longrightarrow> chDevice h = None \<Longrightarrow> handler_inv h h \<Longrightarrow> chActive h \<Longrightarrow>
   wc_inv uid (app\<lparr>wcConnected := True, wcCl := Some h\<rparr>)"
  by (auto simp: wc_inv_def IsConnected_def)

lemma tick_inv:
  assumes "wc_inv uid app"
  shows "wc_inv uid (fst (myPosTick c clk app))"
proof -
  obtain app1 p where s: "wc_SendMsg c (Some (MakeMe clk app)) app = (app1, p)" by fastforce
  then have "wc_inv uid app1" by (rule wc_SendMsg_inv [OF assms])
  then show ?thesis using s by (cases p) (simp_all add: myPosTick_def sendMyPoints_def send_all_inv)
qed

lemma connects_inv:
  assumes "wc_inv uid app"
  shows "wc_inv uid (on_connect c now clk conn app)"
proof -
  let ?h0 = "NewConnClientHandler now (wcHost app @ '':'' @ wcTcpPort app) conn (wc_config app)"
  have start: "handler_Start c clk ?h0 = ?h0" by (simp add: handler_Start_def NewConnClientHandler_def wc_config_def)
  have "chDevice ?h0 = None" "chActive ?h0" by (simp_all add: NewConnClientHandler_def wc_config_def)
  then show ?thesis
    unfolding on_connect_def Let_def start SetConnected_def
    by (rule new_connection_inv [OF assms _ new_inv_handler])
qed

lemma contacts_inv:
  assumes "wc_inv uid app"
  shows "wc_inv uid (periodicGet get app)"
proof -
  have "map_all (\<lambda>k c. ctUID c = k) (smLoad (fold (\<lambda>c. smStore (ctUID c) c) dat m))"
    if "map_all (\<lambda>k c. ctUID c = k) (smLoad m)" for dat :: "MartiContact list" and m
    using that by (induction dat arbitrary: m) (simp_all add: syncmap.store_all)
  then show ?thesis using assms by (simp add: periodicGet_def wc_inv_def IsConnected_def split: sum.split)
qed

lemma cleans_inv:
  assumes "wc_inv uid app"
  shows "wc_inv uid (app\<lparr>wcItems := cleanOldUnits now (wcItems app)\<rparr>)"
  by (rule wc_inv_parts(1) [OF assms clean_inv [OF wc_inv_D(1) [OF assms]]])

lemma wc_step_inv:
  assumes "wc_inv uid app" "wc_step wt app app'"
  shows "wc_inv uid app'"
  using assms(2,1)
  by (induction rule: wc_step.induct)
     (rule request_inv tick_inv connects_inv traffic_inv contacts_inv wc_inv_parts(3) cleans_inv; assumption)+

lemma NewApp_inv:
  assumes "wc_NewApp uid cs addr port = Inr (Some app)"
  shows "wc_inv uid app"
proof -
  have "chats_inv uid (NewChatMessages uid)"
    by (simp add: chats_inv_def NewChatMessages_def smap_wf_def smLoad_def map_all_def)
  then show ?thesis
    using assms by (auto simp: wc_NewApp_def wc_inv_def IsConnected_def new_inv Let_def split: if_splits)
qed

lemma set_identity_inv: "wc_inv uid app \<Longrightarrow> set_identity k identity app = Inr app' \<Longrightarrow> wc_inv uid app'"
  by (auto simp: set_identity_def wc_inv_def IsConnected_def Let_def split: if_splits sum.splits prod.splits)

lemma Init_inv: "wc_inv uid app \<Longrightarrow> Init app = Inr app' \<Longrightarrow> wc_inv uid app'"
  by (auto simp: Init_def wc_inv_def IsConnected_def split: if_splits sum.splits)

lemma wc_main_inv:
  assumes "wc_main e k flags now identity = Inr app0"
  shows "wc_inv (wcUid app0) app0"
proof -
  define uid where "uid = (if kString k ''me.uid'' = ''auto'' \<or> kString k ''me.uid'' = [] then makeUID e (kString k ''me.callsign'') else kString k ''me.uid'')"
  obtain a where a: "wc_NewApp uid (kString k ''me.callsign'') (kString k ''server_address'') (kInt k ''web_port'') = Inr (Some a)"
    using assms by (auto simp: wc_main_def Let_def uid_def split: sum.splits option.splits)
  define b where "b = a\<lparr>wcSaveFile := wfFile flags, wcWebPort := (if wfNoWeb flags then - 1 else wcWebPort a),
     wcPos := Some (NewPos now (kFloat64 k ''me.lat'') (kFloat64 k ''me.lon'')),
     wcZoom := word_of_int (kInt k ''me.zoom''), wcTyp := kString k ''me.type'', wcTeam := kString k ''me.team'',
     wcRole := kString k ''me.role'', wcDevice := kString k ''me.device'', wcVersion := kString k ''me.version'',
     wcPlatform := kString k ''me.platform'', wcOs := kString k ''me.os'', wcGpsd := kString k ''gpsd''\<rparr>"
  have "wc_inv uid b" using NewApp_inv [OF a] by (simp add: wc_inv_def b_def IsConnected_def)
  moreover obtain d where "set_identity k identity b = Inr d" "Init d = Inr app0"
    using assms a by (auto simp: wc_main_def Let_def uid_def [symmetric] b_def split: sum.splits)
  ultimately have inv: "wc_inv uid app0" using set_identity_inv Init_inv by blast
  then have "wcUid app0 = uid" by (simp add: wc_inv_def)
  then show ?thesis using inv by simp
qed

text \<open>
  C32: the state of a client in every history. From the start of the program on, whatever requests,
  messages, connections, positions and cleanings come in whatever order: the identity does not change,
  each item and each conversation stands under its own uid and holds no message twice, the contacts
  stand under theirs, the queue of the connection is within its bound, its version is 0 or 1, and the
  client is marked connected exactly while its connection is active.
\<close>

theorem client_invariant:
  assumes "wc_main e k flags now identity = Inr app0" "wc_reachable wt app0 app"
  shows "wcUid app = wcUid app0 \<and> repo_inv (wcItems app) \<and> chats_inv (wcUid app0) (wcChats app) \<and>
     map_all (\<lambda>k c. ctUID c = k) (smLoad (wcContacts app)) \<and>
     (\<forall>h. wcCl app = Some h \<longrightarrow> length (chSendChan h) \<le> sendCap \<and> chVer h \<in> {0, 1} \<and> chDevice h = None) \<and>
     (IsConnected app \<longleftrightarrow> (\<exists>h. wcCl app = Some h \<and> chActive h))"
proof -
  have "wc_inv (wcUid app0) app0" by (rule wc_main_inv [OF assms(1)])
  from assms(2) this have "wc_inv (wcUid app0) app"
    by (induction rule: wc_reachable.induct) (auto intro: wc_step_inv)
  then show ?thesis by (auto simp: wc_inv_def handler_inv_def)
qed


theorem client_invariant_witness:
  "\<exists>app0 app. wc_main [] example_konf \<lparr>wfNoWeb = False, wfFile = []\<rparr> 0 (\<lambda>_. Inl EOF) = Inr app0 \<and>
     wc_reachable example_tools app0 app \<and> IsConnected app \<and> (\<exists>h. wcCl app = Some h \<and> chActive h) \<and> repo_inv (wcItems app)"
proof -
  obtain app0 where app0: "wc_main [] example_konf \<lparr>wfNoWeb = False, wfFile = []\<rparr> 0 (\<lambda>_. Inl EOF) = Inr app0" "\<not> IsConnected app0"
    by (simp add: wc_main_def example_konf_def wc_NewApp_def set_identity_def Init_def IsConnected_def Let_def)
  define app where "app = on_connect (wtCodec example_tools) 0 (0, 0, 0) [] app0"
  have reach: "wc_reachable example_tools app0 app"
    unfolding app_def by (rule wc_reachable.step [OF wc_reachable.init wc_step.connects [OF app0(2)]])
  have "IsConnected app" by (simp add: app_def on_connect_def SetConnected_def IsConnected_def)
  then show ?thesis using client_invariant [OF app0(1) reach] app0(1) reach by blast
qed

end
