(* ===== verification/GpsdClient.thy ===== *)
theory GpsdClient
  imports ClientSafety
begin

text \<open>
  \<open>pkg/gpsd/gpsd.go\<close>, the client of a GPS daemon, and what the web client does with the positions it
  gets (\<open>Run\<close> of \<open>cmd/webclient/main.go\<close>). What the network, the timer and the context do are
  events; the client is a function from events to its next phase and its actions. The decoder of
  JSON into the structures is written out over a parsed object; parsing the text, reading a number
  or a time from a literal and the folding of the case of names are parameters.
\<close>

section \<open>Messages\<close>

datatype json_value = JvNum string | JvStr string | JvNull | JvOther

datatype json_top = TopObject "(string \<times> json_value) list" | TopNull | TopOther

record json_tools =
  jtParse :: "string \<Rightarrow> json_top result"
  jtFloat :: "string \<Rightarrow> f64 option"
  jtInt :: "string \<Rightarrow> int option"
  jtTime :: "string \<Rightarrow> time result"
  jtFold :: "string \<Rightarrow> string"

record TPVMsg =
  tpClass :: string
  tpTag :: string
  tpDevice :: string
  tpMode :: int
  tpTime :: time
  tpEpt :: f64
  tpLat :: f64
  tpLon :: f64
  tpAlt :: f64
  tpEpx :: f64
  tpEpy :: f64
  tpEpv :: f64
  tpTrack :: f64
  tpSpeed :: f64
  tpClimb :: f64
  tpEpd :: f64
  tpEps :: f64
  tpEpc :: f64
  tpEph :: f64

record VERSIONMsg =
  veClass :: string
  veRelease :: string
  veRev :: string
  veProtoMajor :: int
  veProtoMinor :: int
  veRemote :: string

definition new_TPVMsg :: TPVMsg where
  "new_TPVMsg = \<lparr>tpClass = [], tpTag = [], tpDevice = [], tpMode = 0, tpTime = zero_time, tpEpt = 0, tpLat = 0, tpLon = 0, tpAlt = 0,
     tpEpx = 0, tpEpy = 0, tpEpv = 0, tpTrack = 0, tpSpeed = 0, tpClimb = 0, tpEpd = 0, tpEps = 0, tpEpc = 0, tpEph = 0\<rparr>"

definition new_VERSIONMsg :: VERSIONMsg where
  "new_VERSIONMsg = \<lparr>veClass = [], veRelease = [], veRev = [], veProtoMajor = 0, veProtoMinor = 0, veRemote = []\<rparr>"

text \<open>
  The fields of a structure: their names in JSON and how a value is stored. A value of the wrong type
  leaves the field as it is and the decoder goes on; it reports the first such error at the end. An
  error of \<open>time.Time\<close>'s own decoder ends the decoding.
\<close>

datatype 'm field =
    FStr "(string \<Rightarrow> string) \<Rightarrow> 'm \<Rightarrow> 'm"
  | FInt "(int \<Rightarrow> int) \<Rightarrow> 'm \<Rightarrow> 'm"
  | FFloat "(f64 \<Rightarrow> f64) \<Rightarrow> 'm \<Rightarrow> 'm"
  | FTime "(time \<Rightarrow> time) \<Rightarrow> 'm \<Rightarrow> 'm"

definition bad_type :: gofail where "bad_type = Error ''json: cannot unmarshal value''"

fun store_value :: "json_tools \<Rightarrow> 'm field \<Rightarrow> json_value \<Rightarrow> 'm \<Rightarrow> ('m \<times> gofail option) \<times> bool" where
  "store_value jt f JvNull m = ((m, None), True)"
| "store_value jt (FStr u) (JvStr s) m = ((u (\<lambda>_. s) m, None), True)"
| "store_value jt (FInt u) (JvNum l) m =
     (case jtInt jt l of Some i \<Rightarrow> ((u (\<lambda>_. i) m, None), True) | None \<Rightarrow> ((m, Some bad_type), True))"
| "store_value jt (FFloat u) (JvNum l) m =
     (case jtFloat jt l of Some x \<Rightarrow> ((u (\<lambda>_. x) m, None), True) | None \<Rightarrow> ((m, Some bad_type), True))"
| "store_value jt (FTime u) (JvStr s) m =
     (case jtTime jt s of Inr t \<Rightarrow> ((u (\<lambda>_. t) m, None), True) | Inl err \<Rightarrow> ((m, Some err), False))"
| "store_value jt (FTime u) v m = ((m, Some bad_type), False)"
| "store_value jt f v m = ((m, Some bad_type), True)"

definition find_field :: "json_tools \<Rightarrow> (string \<times> 'm field) list \<Rightarrow> string \<Rightarrow> 'm field option" where
  "find_field jt fs k =
     (case map_of fs k of Some f \<Rightarrow> Some f | None \<Rightarrow> map_option snd (find (\<lambda>(n, f). jtFold jt n = jtFold jt k) fs))"

fun decode_object ::
    "json_tools \<Rightarrow> (string \<times> 'm field) list \<Rightarrow> (string \<times> json_value) list \<Rightarrow> 'm \<times> gofail option \<Rightarrow> 'm \<times> gofail option" where
  "decode_object jt fs [] r = r"
| "decode_object jt fs ((k, v) # kvs) (m, err) =
     (case find_field jt fs k of
        None \<Rightarrow> decode_object jt fs kvs (m, err)
      | Some f \<Rightarrow>
          (case store_value jt f v m of
             ((m', e), True) \<Rightarrow> decode_object jt fs kvs (m', if err = None then e else err)
           | ((m', e), False) \<Rightarrow> (m', e)))"

text \<open>\<open>json.Unmarshal\<close> into a structure, and into a nil pointer to one, which \<open>null\<close> leaves nil.\<close>

definition json_unmarshal :: "json_tools \<Rightarrow> (string \<times> 'm field) list \<Rightarrow> string \<Rightarrow> 'm \<Rightarrow> 'm \<times> gofail option" where
  "json_unmarshal jt fs dat m =
     (case jtParse jt dat of
        Inl err \<Rightarrow> (m, Some err)
      | Inr (TopObject kvs) \<Rightarrow> decode_object jt fs kvs (m, None)
      | Inr TopNull \<Rightarrow> (m, None)
      | Inr TopOther \<Rightarrow> (m, Some bad_type))"

definition json_unmarshal_ptr :: "json_tools \<Rightarrow> (string \<times> 'm field) list \<Rightarrow> string \<Rightarrow> 'm \<Rightarrow> 'm option \<times> gofail option" where
  "json_unmarshal_ptr jt fs dat new =
     (case jtParse jt dat of
        Inl err \<Rightarrow> (None, Some err)
      | Inr TopNull \<Rightarrow> (None, None)
      | Inr _ \<Rightarrow> (case json_unmarshal jt fs dat new of (m, err) \<Rightarrow> (Some m, err)))"

definition BaseMsg_fields :: "(string \<times> string field) list" where "BaseMsg_fields = [(''class'', FStr (\<lambda>u m. u m))]"

definition TPVMsg_fields :: "(string \<times> TPVMsg field) list" where
  "TPVMsg_fields =
     [(''class'', FStr tpClass_update), (''tag'', FStr tpTag_update), (''device'', FStr tpDevice_update),
      (''mode'', FInt tpMode_update), (''time'', FTime tpTime_update), (''ept'', FFloat tpEpt_update),
      (''lat'', FFloat tpLat_update), (''lon'', FFloat tpLon_update), (''alt'', FFloat tpAlt_update),
      (''epx'', FFloat tpEpx_update), (''epy'', FFloat tpEpy_update), (''epv'', FFloat tpEpv_update),
      (''track'', FFloat tpTrack_update), (''speed'', FFloat tpSpeed_update), (''climb'', FFloat tpClimb_update),
      (''epd'', FFloat tpEpd_update), (''eps'', FFloat tpEps_update), (''epc'', FFloat tpEpc_update),
      (''eph'', FFloat tpEph_update)]"

definition VERSIONMsg_fields :: "(string \<times> VERSIONMsg field) list" where
  "VERSIONMsg_fields =
     [(''class'', FStr veClass_update), (''release'', FStr veRelease_update), (''rev'', FStr veRev_update),
      (''proto_major'', FInt veProtoMajor_update), (''proto_minor'', FInt veProtoMinor_update), (''remote'', FStr veRemote_update)]"

section \<open>The client\<close>

text \<open>
  The phases of \<open>Listen\<close> and \<open>connect\<close>: dialling, waiting after a failed attempt (both with the time to
  wait), reading from the connection, and returned. A nil pointer ends the program.
\<close>

datatype gps_phase = Dialing int | Waiting int | Reading | Returned | GpsPanic

record GpsdClient =
  gcAddr :: string
  gcPhase :: gps_phase
  gcCancelled :: bool

datatype gps_action = GDial string | GSend string | GClose | GPos f64 f64 f64 f64 f64 | GInfo string | GError

definition DefaultAddress :: string where "DefaultAddress = ''localhost:2947''"

text \<open>The client before the head of the loop of \<open>Listen\<close>, which starts to dial.\<close>

definition gpsd_New :: "string \<Rightarrow> GpsdClient" where
  "gpsd_New addr = \<lparr>gcAddr = (if addr \<noteq> [] then addr else DefaultAddress), gcPhase = Dialing (5 * second), gcCancelled = False\<rparr>"

datatype gps_event =
    Dialled bool
  | TimeOver
  | CancelSeen
  | Cancel
  | ReadLine string
  | ReadFails

definition loop_head :: "bool \<Rightarrow> GpsdClient \<Rightarrow> GpsdClient" where
  "loop_head has_conn c =
     c\<lparr>gcPhase := (if gcCancelled c then Returned else if has_conn then Reading else Dialing (5 * second))\<rparr>"

definition watch_command :: string where
  "watch_command = ''?WATCH={'' @ [CHR 0x22] @ ''enable'' @ [CHR 0x22] @ '':true,'' @ [CHR 0x22] @ ''json'' @ [CHR 0x22] @ '':true}''"

definition dialled :: "bool \<Rightarrow> int \<Rightarrow> GpsdClient \<Rightarrow> GpsdClient \<times> gps_action list" where
  "dialled ok timeout c =
     (if ok then (c\<lparr>gcPhase := Reading\<rparr>, [GDial (gcAddr c), GSend watch_command])
      else (c\<lparr>gcPhase := Waiting timeout\<rparr>, [GDial (gcAddr c), GError]))"

definition handle_line :: "json_tools \<Rightarrow> string \<Rightarrow> GpsdClient \<Rightarrow> GpsdClient \<times> gps_action list" where
  "handle_line jt line c =
     (case json_unmarshal jt BaseMsg_fields line [] of
        (cls, Some err) \<Rightarrow> (loop_head False c, [GError, GClose])
      | (cls, None) \<Rightarrow>
          (if cls = ''TPV'' then
             (case json_unmarshal_ptr jt TPVMsg_fields line new_TPVMsg of
                (None, err) \<Rightarrow> (c\<lparr>gcPhase := GpsPanic\<rparr>, [])
              | (Some r, err) \<Rightarrow>
                  (loop_head True c, (if err = None then [] else [GError]) @
                     [GPos (tpLat r) (tpLon r) (tpAlt r) (tpSpeed r) (tpTrack r)]))
           else if cls = ''VERSION'' then
             (case json_unmarshal_ptr jt VERSIONMsg_fields line new_VERSIONMsg of
                (None, err) \<Rightarrow> (c\<lparr>gcPhase := GpsPanic\<rparr>, [])
              | (Some r, err) \<Rightarrow>
                  (loop_head True c, (if err = None then [] else [GError]) @
                     [GInfo (''got version '' @ veRelease r @ '', rev. '' @ veRev r)]))
           else (loop_head True c, [])))"

text \<open>An event that does not fit the phase does not happen then, and leaves the client as it is.\<close>

fun gps_step :: "json_tools \<Rightarrow> gps_event \<Rightarrow> GpsdClient \<Rightarrow> GpsdClient \<times> gps_action list" where
  "gps_step jt Cancel c = (c\<lparr>gcCancelled := True\<rparr>, [])"
| "gps_step jt (Dialled ok) c = (case gcPhase c of Dialing timeout \<Rightarrow> dialled ok timeout c | _ \<Rightarrow> (c, []))"
| "gps_step jt TimeOver c =
     (case gcPhase c of
        Waiting timeout \<Rightarrow> (c\<lparr>gcPhase := Dialing (if timeout < minute then timeout * 2 else timeout)\<rparr>, [])
      | _ \<Rightarrow> (c, []))"
| "gps_step jt CancelSeen c =
     (case gcPhase c of Waiting timeout \<Rightarrow> (if gcCancelled c then (c\<lparr>gcPhase := Returned\<rparr>, [GError]) else (c, [])) | _ \<Rightarrow> (c, []))"
| "gps_step jt (ReadLine line) c = (if gcPhase c = Reading then handle_line jt line c else (c, []))"
| "gps_step jt ReadFails c = (if gcPhase c = Reading then (loop_head False c, [GError, GClose]) else (c, []))"

fun gps_run :: "json_tools \<Rightarrow> gps_event list \<Rightarrow> GpsdClient \<Rightarrow> GpsdClient \<times> gps_action list" where
  "gps_run jt [] c = (c, [])"
| "gps_run jt (e # es) c =
     (case gps_step jt e c of (c1, as1) \<Rightarrow> (case gps_run jt es c1 of (c2, as2) \<Rightarrow> (c2, as1 @ as2)))"

section \<open>The position of the web client\<close>

fun gps_action_on :: "time \<Rightarrow> gps_action \<Rightarrow> WcApp \<Rightarrow> WcApp" where
  "gps_action_on now (GPos lat lon alt speed track) app = app\<lparr>wcPos := Some (NewPosFull now lat lon alt speed track)\<rparr>"
| "gps_action_on now a app = app"

definition gps_actions_on :: "time \<Rightarrow> gps_action list \<Rightarrow> WcApp \<Rightarrow> WcApp" where
  "gps_actions_on now as app = fold (gps_action_on now) as app"


section \<open>Attempts to connect\<close>

text \<open>The delays in use: five seconds, doubled up to four times.\<close>

definition gps_delays :: "int set" where "gps_delays = (\<lambda>n. 5 * second * 2 ^ n) ` {0..4}"

definition gps_inv :: "GpsdClient \<Rightarrow> bool" where
  "gps_inv c \<longleftrightarrow> (case gcPhase c of Dialing t \<Rightarrow> t \<in> gps_delays | Waiting t \<Rightarrow> t \<in> gps_delays | GpsPanic \<Rightarrow> False | _ \<Rightarrow> True)"

lemma gps_delays_first [simp]: "5 * second \<in> gps_delays"
  by (auto simp: gps_delays_def image_iff intro: bexI [of _ 0])

lemma gps_delays_eq: "gps_delays = {5 * second, 10 * second, 20 * second, 40 * second, 80 * second}"
proof -
  have "{0..4} = {0, 1, 2, 3, 4 :: nat}" by auto
  then show ?thesis by (simp add: gps_delays_def)
qed

lemma gps_delays_next: "t \<in> gps_delays \<Longrightarrow> (if t < minute then t * 2 else t) \<in> gps_delays"
  by (auto simp: gps_delays_eq minute_def second_def)

lemma loop_head_inv: "gps_inv (loop_head b c)"
  by (simp add: loop_head_def gps_inv_def)

text \<open>An object in which the class was found is never a nil pointer.\<close>

lemma unmarshal_ptr_Some:
  "json_unmarshal jt BaseMsg_fields line [] = (cls, None) \<Longrightarrow> cls \<noteq> [] \<Longrightarrow> fst (json_unmarshal_ptr jt fs line new) \<noteq> None"
  by (auto simp: json_unmarshal_def json_unmarshal_ptr_def split: sum.splits json_top.splits prod.splits)

lemma handle_line_inv: "gps_inv (fst (handle_line jt line c))"
proof (cases "json_unmarshal jt BaseMsg_fields line []")
  case (Pair cls e)
  show ?thesis
  proof (cases e)
    case None
    with Pair have "json_unmarshal jt BaseMsg_fields line [] = (cls, None)" by simp
    note p = unmarshal_ptr_Some [OF this]
    show ?thesis
      using Pair None p [of TPVMsg_fields new_TPVMsg] p [of VERSIONMsg_fields new_VERSIONMsg]
      by (auto simp: handle_line_def loop_head_inv split: prod.split option.split)
  qed (simp add: handle_line_def Pair loop_head_inv)
qed

lemma gps_step_inv:
  assumes "gps_inv c"
  shows "gps_inv (fst (gps_step jt e c))"
proof (cases e)
  case TimeOver
  show ?thesis
  proof (cases "gcPhase c")
    case (Waiting t)
    then have "t \<in> gps_delays" using assms by (simp add: gps_inv_def)
    from gps_delays_next [OF this] show ?thesis by (simp add: TimeOver Waiting gps_inv_def split: if_splits)
  qed (use assms TimeOver in \<open>simp_all\<close>)
next
  case (Dialled ok)
  with assms show ?thesis by (auto simp: dialled_def gps_inv_def split: gps_phase.splits)
next
  case Cancel
  with assms show ?thesis by (simp add: gps_inv_def)
next
  case CancelSeen
  with assms show ?thesis by (auto simp: gps_inv_def split: gps_phase.splits)
qed (use assms in \<open>simp_all add: handle_line_inv loop_head_inv\<close>)

lemma gps_run_Cons: "fst (gps_run jt (e # es) c) = fst (gps_run jt es (fst (gps_step jt e c)))"
  by (simp split: prod.split)

lemma gps_run_inv: "gps_inv c \<Longrightarrow> gps_inv (fst (gps_run jt es c))"
proof (induction es arbitrary: c)
  case (Cons e es)
  then show ?case unfolding gps_run_Cons by (intro Cons.IH gps_step_inv)
qed simp

lemma gps_failures:
  "gcPhase (fst (gps_run jt (concat (replicate n [Dialled False, TimeOver])) (c\<lparr>gcPhase := Dialing t\<rparr>))) =
     Dialing (((\<lambda>t. if t < minute then t * 2 else t) ^^ n) t)"
proof (induction n arbitrary: t)
  case (Suc n)
  have "concat (replicate (Suc n) [Dialled False, TimeOver]) = Dialled False # TimeOver # concat (replicate n [Dialled False, TimeOver])"
    by simp
  then show ?case
    by (simp only: gps_run_Cons funpow_Suc_right o_apply) (simp add: dialled_def Suc.IH del: gps_run.simps)
qed simp

lemma gps_delay_pow: "((\<lambda>t. if t < minute then t * 2 else t) ^^ n) (5 * second) = 5 * second * 2 ^ min n 4"
proof (induction n)
  case (Suc n)
  consider "n = 0" | "n = 1" | "n = 2" | "n = 3" | "4 \<le> n" by linarith
  then show ?case unfolding funpow.simps o_apply Suc by cases (simp_all add: minute_def second_def)
qed simp

text \<open>
  C36: the client of the GPS daemon in every history: it never runs into a nil pointer, and it waits 5, 10,
  20, 40 or 80 seconds after a failed attempt to connect, the time after the n-th failure in a row
  being five seconds doubled at most four times. The longest wait is 80 seconds, more than the minute
  at which the doubling is meant to stop.
\<close>

theorem gps_retries:
  "(case gcPhase (fst (gps_run jt es (gpsd_New addr))) of
      Dialing t \<Rightarrow> t \<in> {5 * second, 10 * second, 20 * second, 40 * second, 80 * second}
    | Waiting t \<Rightarrow> t \<in> {5 * second, 10 * second, 20 * second, 40 * second, 80 * second}
    | GpsPanic \<Rightarrow> False | _ \<Rightarrow> True) \<and>
   gcPhase (fst (gps_run jt (concat (replicate n [Dialled False, TimeOver])) (gpsd_New addr))) = Dialing (5 * second * 2 ^ min n 4)"
proof
  have "gps_inv (gpsd_New addr)" by (simp add: gps_inv_def gpsd_New_def)
  from gps_run_inv [OF this, of jt es]
  show "case gcPhase (fst (gps_run jt es (gpsd_New addr))) of
      Dialing t \<Rightarrow> t \<in> {5 * second, 10 * second, 20 * second, 40 * second, 80 * second}
    | Waiting t \<Rightarrow> t \<in> {5 * second, 10 * second, 20 * second, 40 * second, 80 * second}
    | GpsPanic \<Rightarrow> False | _ \<Rightarrow> True"
    unfolding gps_inv_def gps_delays_eq by (simp split: gps_phase.splits)
  have "gpsd_New addr = (gpsd_New addr)\<lparr>gcPhase := Dialing (5 * second)\<rparr>" by (simp add: gpsd_New_def)
  then show "gcPhase (fst (gps_run jt (concat (replicate n [Dialled False, TimeOver])) (gpsd_New addr))) = Dialing (5 * second * 2 ^ min n 4)"
    using gps_failures [of jt n "5 * second" "gpsd_New addr"] by (simp add: gps_delay_pow)
qed


section \<open>Positions\<close>

text \<open>A number stored in a field, where a missing or unreadable value leaves what was there.\<close>

definition float_of :: "json_tools \<Rightarrow> (string \<times> json_value) list \<Rightarrow> string \<Rightarrow> f64" where
  "float_of jt kvs n = (case map_of kvs n of Some (JvNum l) \<Rightarrow> (case jtFloat jt l of Some x \<Rightarrow> x | None \<Rightarrow> 0) | _ \<Rightarrow> 0)"

text \<open>No name matches a field by its case alone, and no value ends the decoding.\<close>

definition plain_object :: "json_tools \<Rightarrow> (string \<times> 'm field) list \<Rightarrow> (string \<times> json_value) list \<Rightarrow> bool" where
  "plain_object jt fs kvs \<longleftrightarrow> distinct (map fst kvs) \<and>
     (\<forall>(k, v) \<in> set kvs. find_field jt fs k = map_of fs k \<and> (\<forall>f m. map_of fs k = Some f \<longrightarrow> snd (store_value jt f v m)))"

lemma decode_get:
  assumes n: "map_of fs n = Some (FFloat u)" "\<And>g m. get (u g m) = g (get m)"
    and other: "\<And>k f v m. map_of fs k = Some f \<Longrightarrow> k \<noteq> n \<Longrightarrow> get (fst (fst (store_value jt f v m))) = get m"
    and kvs: "plain_object jt fs kvs"
  shows "get (fst (decode_object jt fs kvs (m, err))) =
     (case map_of kvs n of Some (JvNum l) \<Rightarrow> (case jtFloat jt l of Some x \<Rightarrow> x | None \<Rightarrow> get m) | _ \<Rightarrow> get m)"
  using kvs
proof (induction kvs arbitrary: m err)
  case (Cons kv kvs)
  obtain k v where kv: "kv = (k, v)" by fastforce
  have p: "plain_object jt fs kvs" "k \<notin> fst ` set kvs" "find_field jt fs k = map_of fs k"
    "\<And>f m. map_of fs k = Some f \<Longrightarrow> snd (store_value jt f v m)"
    using Cons.prems unfolding plain_object_def kv by auto
  note IH = Cons.IH [OF p(1)]
  show ?case
  proof (cases "map_of fs k")
    case None
    then show ?thesis using IH p(3) n(1) by (auto simp: kv)
  next
    case (Some f)
    obtain m' e where st: "store_value jt f v m = ((m', e), True)"
      using p(4) [OF Some, of m] by (cases "store_value jt f v m") auto
    have d: "decode_object jt fs (kv # kvs) (m, err) = decode_object jt fs kvs (m', if err = None then e else err)"
      by (simp add: kv p(3) Some st)
    show ?thesis
    proof (cases "k = n")
      case False
      then have g: "get m' = get m" using other [OF Some False, of v m] st by simp
      have "get (fst (decode_object jt fs kvs (m', if err = None then e else err))) =
         (case map_of (kv # kvs) n of Some (JvNum l) \<Rightarrow> (case jtFloat jt l of Some x \<Rightarrow> x | None \<Rightarrow> get m) | _ \<Rightarrow> get m)"
        using False unfolding IH g kv by simp
      then show ?thesis unfolding d .
    next
      case True
      then have "f = FFloat u" "map_of kvs n = None" using n(1) Some p(2) by (auto simp: map_of_eq_None_iff)
      then show ?thesis using st n(2) unfolding d IH
        by (cases v) (auto simp: kv True split: option.splits)
    qed
  qed
qed simp

lemma TPV_field:
  assumes "plain_object jt TPVMsg_fields kvs" "map_of TPVMsg_fields n = Some (FFloat u)" "\<And>g m. get (u g m) = g (get m)"
    and "\<And>k f v m. map_of TPVMsg_fields k = Some f \<Longrightarrow> k \<noteq> n \<Longrightarrow> get (fst (fst (store_value jt f v m))) = get m"
    and z: "get new_TPVMsg = 0"
  shows "get (fst (decode_object jt TPVMsg_fields kvs (new_TPVMsg, None))) = float_of jt kvs n"
proof -
  have "get (fst (decode_object jt TPVMsg_fields kvs (new_TPVMsg, None))) =
      (case map_of kvs n of Some (JvNum l) \<Rightarrow> (case jtFloat jt l of Some x \<Rightarrow> x | None \<Rightarrow> get new_TPVMsg) | _ \<Rightarrow> get new_TPVMsg)"
    by (rule decode_get [where u = u]) (use assms in simp_all)
  then show ?thesis unfolding z float_of_def .
qed

lemma store_cases:
  "fst (fst (store_value jt f v m)) = m \<or> (\<exists>u x. f = FStr u \<and> fst (fst (store_value jt f v m)) = u x m) \<or>
   (\<exists>u x. f = FInt u \<and> fst (fst (store_value jt f v m)) = u x m) \<or>
   (\<exists>u x. f = FFloat u \<and> fst (fst (store_value jt f v m)) = u x m) \<or>
   (\<exists>u x. f = FTime u \<and> fst (fst (store_value jt f v m)) = u x m)"
  by (cases f; cases v) (auto split: option.splits sum.splits)

lemma TPV_get:
  assumes p: "plain_object jt TPVMsg_fields kvs"
  shows "tpLat (fst (decode_object jt TPVMsg_fields kvs (new_TPVMsg, None))) = float_of jt kvs ''lat''"
    "tpLon (fst (decode_object jt TPVMsg_fields kvs (new_TPVMsg, None))) = float_of jt kvs ''lon''"
    "tpAlt (fst (decode_object jt TPVMsg_fields kvs (new_TPVMsg, None))) = float_of jt kvs ''alt''"
    "tpSpeed (fst (decode_object jt TPVMsg_fields kvs (new_TPVMsg, None))) = float_of jt kvs ''speed''"
    "tpTrack (fst (decode_object jt TPVMsg_fields kvs (new_TPVMsg, None))) = float_of jt kvs ''track''"
proof -
  have other: "tpLat (fst (fst (store_value jt f v m))) = tpLat m \<or> k = ''lat''"
      "tpLon (fst (fst (store_value jt f v m))) = tpLon m \<or> k = ''lon''"
      "tpAlt (fst (fst (store_value jt f v m))) = tpAlt m \<or> k = ''alt''"
      "tpSpeed (fst (fst (store_value jt f v m))) = tpSpeed m \<or> k = ''speed''"
      "tpTrack (fst (fst (store_value jt f v m))) = tpTrack m \<or> k = ''track''"
    if k: "map_of TPVMsg_fields k = Some f" for k f v m
    using store_cases [of jt f v m] k by (auto simp: TPVMsg_fields_def split: if_splits)
  show "tpLat (fst (decode_object jt TPVMsg_fields kvs (new_TPVMsg, None))) = float_of jt kvs ''lat''"
    using other(1) by (intro TPV_field [OF p, of _ tpLat_update]) (auto simp: TPVMsg_fields_def new_TPVMsg_def)
  show "tpLon (fst (decode_object jt TPVMsg_fields kvs (new_TPVMsg, None))) = float_of jt kvs ''lon''"
    using other(2) by (intro TPV_field [OF p, of _ tpLon_update]) (auto simp: TPVMsg_fields_def new_TPVMsg_def)
  show "tpAlt (fst (decode_object jt TPVMsg_fields kvs (new_TPVMsg, None))) = float_of jt kvs ''alt''"
    using other(3) by (intro TPV_field [OF p, of _ tpAlt_update]) (auto simp: TPVMsg_fields_def new_TPVMsg_def)
  show "tpSpeed (fst (decode_object jt TPVMsg_fields kvs (new_TPVMsg, None))) = float_of jt kvs ''speed''"
    using other(4) by (intro TPV_field [OF p, of _ tpSpeed_update]) (auto simp: TPVMsg_fields_def new_TPVMsg_def)
  show "tpTrack (fst (decode_object jt TPVMsg_fields kvs (new_TPVMsg, None))) = float_of jt kvs ''track''"
    using other(5) by (intro TPV_field [OF p, of _ tpTrack_update]) (auto simp: TPVMsg_fields_def new_TPVMsg_def)
qed

lemma decode_class:
  assumes "plain_object jt BaseMsg_fields kvs" "map_of kvs ''class'' = Some (JvStr cls)"
  shows "decode_object jt BaseMsg_fields kvs (c, None) = (cls, None)"
  using assms
proof (induction kvs arbitrary: c)
  case (Cons kv kvs)
  obtain k v where kv: "kv = (k, v)" by fastforce
  have p: "plain_object jt BaseMsg_fields kvs" "k \<notin> fst ` set kvs" "find_field jt BaseMsg_fields k = map_of BaseMsg_fields k"
    using Cons.prems(1) unfolding plain_object_def kv by auto
  show ?case
  proof (cases "k = ''class''")
    case True
    have rest: "decode_object jt BaseMsg_fields kvs (cls, None) = (cls, None)" if "''class'' \<notin> fst ` set kvs"
      using p(1) that
    proof (induction kvs)
      case (Cons kv kvs)
      then show ?case unfolding plain_object_def by (cases kv) (auto simp: BaseMsg_fields_def)
    qed simp
    then show ?thesis using True p Cons.prems(2) by (simp add: kv BaseMsg_fields_def)
  next
    case False
    then show ?thesis using p(3) Cons.IH [OF p(1)] Cons.prems(2) by (simp add: kv BaseMsg_fields_def)
  qed
qed simp

text \<open>
  C37: what a report of the GPS daemon does to the position a client sends. The position is taken from the
  report whatever its mode, and a value that is missing or that cannot be read counts as zero: a
  report without a fix, which has no coordinates, moves the client to latitude and longitude zero
  and is what it reports to the others from then on.
\<close>

theorem gps_position:
  assumes "gcPhase c = Reading" "jtParse jt line = Inr (TopObject kvs)" "map_of kvs ''class'' = Some (JvStr ''TPV'')"
    and "plain_object jt BaseMsg_fields kvs" "plain_object jt TPVMsg_fields kvs"
  shows "let app' = gps_actions_on now (snd (gps_step jt (ReadLine line) c)) app;
             ev = the (tmCotEvent (MakeMe clock app'))
         in ceLat ev = float_of jt kvs ''lat'' \<and> ceLon ev = float_of jt kvs ''lon'' \<and> ceHae ev = float_of jt kvs ''alt'' \<and>
            (map_of kvs ''lat'' = None \<and> map_of kvs ''lon'' = None \<longrightarrow> ceLat ev = 0 \<and> ceLon ev = 0)"
proof -
  obtain r err where r: "decode_object jt TPVMsg_fields kvs (new_TPVMsg, None) = (r, err)" by fastforce
  have "gps_actions_on now (snd (gps_step jt (ReadLine line) c)) app =
      app\<lparr>wcPos := Some (NewPosFull now (tpLat r) (tpLon r) (tpAlt r) (tpSpeed r) (tpTrack r))\<rparr>"
    using assms(1,2) decode_class [OF assms(4,3)] r
    by (simp add: handle_line_def json_unmarshal_def json_unmarshal_ptr_def gps_actions_on_def)
  moreover have "tpLat r = float_of jt kvs ''lat''" "tpLon r = float_of jt kvs ''lon''" "tpAlt r = float_of jt kvs ''alt''"
    using TPV_get [OF assms(5)] r by simp_all
  ultimately show ?thesis
    by (simp add: Let_def MakeMe_def set_event_def BasicMsg_def split_beta NewPosFull_def Pos_GetLat_def Pos_GetLon_def Pos_GetAlt_def float_of_def)
qed

definition example_json :: json_tools where
  "example_json = \<lparr>jtParse = (\<lambda>s. Inr (TopObject ([(''class'', JvStr ''TPV''), (''mode'', JvNum ''1'')] @
       (if s = ''fix'' then [(''lat'', JvNum ''59''), (''lon'', JvNum ''30'')] else [])))),
     jtFloat = (\<lambda>l. if l = ''59'' then Some 0x404D800000000000 else if l = ''30'' then Some 0x403E000000000000 else None),
     jtInt = (\<lambda>l. Some 1), jtTime = (\<lambda>_. Inr 0), jtFold = id\<rparr>"

text \<open>A report with a fix and then one without: the client is back at the origin.\<close>

theorem gps_position_witness:
  "let c = (gpsd_New [])\<lparr>gcPhase := Reading\<rparr>;
       app1 = gps_actions_on 5 (snd (gps_step example_json (ReadLine ''fix'') c)) (example_client ''a'' ''Alice'');
       app2 = gps_actions_on 6 (snd (gps_step example_json (ReadLine ''no fix'') c)) app1
   in ceLat (the (tmCotEvent (MakeMe (0, 0, 0) app1))) = 0x404D800000000000 \<and>
      ceLat (the (tmCotEvent (MakeMe (0, 0, 0) app2))) = 0"
proof -
  have p: "plain_object example_json BaseMsg_fields kvs" "plain_object example_json TPVMsg_fields kvs"
    if "kvs = [(''class'', JvStr ''TPV''), (''mode'', JvNum ''1'')] \<or>
        kvs = [(''class'', JvStr ''TPV''), (''mode'', JvNum ''1''), (''lat'', JvNum ''59''), (''lon'', JvNum ''30'')]" for kvs
    using that by (auto simp: plain_object_def find_field_def example_json_def BaseMsg_fields_def TPVMsg_fields_def)
  let ?c = "(gpsd_New [])\<lparr>gcPhase := Reading\<rparr>"
  show ?thesis
    using gps_position [of ?c example_json "''fix''" "[(''class'', JvStr ''TPV''), (''mode'', JvNum ''1''), (''lat'', JvNum ''59''), (''lon'', JvNum ''30'')]"
        5 "example_client ''a'' ''Alice''" "(0, 0, 0)"]
      gps_position [of ?c example_json "''no fix''" "[(''class'', JvStr ''TPV''), (''mode'', JvNum ''1'')]"
        6 "gps_actions_on 5 (snd (gps_step example_json (ReadLine ''fix'') ?c)) (example_client ''a'' ''Alice'')" "(0, 0, 0)"] p
    by (simp add: Let_def example_json_def float_of_def)
qed

end
