(* ===== verification/WebRoutes.thy ===== *)
theory WebRoutes
  imports GpsdClient HttpRoutes
begin

text \<open>
  The web server and the start of the web client: \<open>NewHttp\<close> of \<open>cmd/webclient/http_server.go\<close> and \<open>Run\<close>
  of \<open>main.go\<close>. As for the server, the router of fiber is a parameter and the WebSocket, the static
  files and the stack dump are external.
\<close>

record wc_services =
  wsTools :: wc_tools
  wsStamp :: stamp
  wsVersion :: string
  wsTypes :: json
  wsMatch :: "string \<Rightarrow> string \<Rightarrow> (string, string) smap option"
  wsStatic :: "request \<Rightarrow> response option"
  wsExternal :: "string \<Rightarrow> wc_handler"

definition getTypes :: "wc_services \<Rightarrow> wc_handler" where
  "getTypes ws rq app = (Inr (ok_body (Json (wsTypes ws))), app)"

definition wc_routes :: "wc_services \<Rightarrow> (string \<times> string \<times> wc_handler) list" where
  "wc_routes ws =
     (let wt = wsTools ws; s = wsStamp ws
      in [(''GET'', ''/'', wc_getIndexHandler), (''GET'', ''/api/config'', wc_getConfigHandler (wsVersion ws)),
          (''GET'', ''/api/types'', getTypes ws), (''POST'', ''/api/dp'', getDpHandler wt s), (''POST'', ''/api/pos'', getPosHandler wt s),
          (''GET'', ''/ws'', wsExternal ws ''ws''),
          (''GET'', ''/api/unit'', wc_getUnitsHandler wt), (''POST'', ''/api/unit'', addItemHandler wt s),
          (''GET'', ''/api/message'', getMessagesHandler), (''POST'', ''/api/message'', addMessageHandler wt s),
          (''DELETE'', ''/api/unit/:uid'', wc_deleteItemHandler wt), (''GET'', ''/stack'', wsExternal ws ''stack'')])"

definition WebServer :: "wc_services \<Rightarrow> string \<Rightarrow> wc_handler" where
  "WebServer ws meth rq app =
     (case wsStatic ws rq of
        Some r \<Rightarrow> (Inr r, app)
      | None \<Rightarrow>
          (case find (\<lambda>(m, p, h). serves m meth \<and> wsMatch ws p (rqPath rq) \<noteq> None) (wc_routes ws) of
             Some (m, p, h) \<Rightarrow> h (rq\<lparr>rqParams := the (wsMatch ws p (rqPath rq))\<rparr>) app
           | None \<Rightarrow> (Inr (status (if list_ex (\<lambda>(m, p, h). wsMatch ws p (rqPath rq) \<noteq> None) (wc_routes ws) then 405 else 404)), app)))"

text \<open>What \<open>Run\<close> starts beside the cleaner of the items.\<close>

datatype wc_activity = ServeWeb string | FollowGps GpsdClient | KeepConnected

definition wc_Run :: "WcApp \<Rightarrow> wc_activity list" where
  "wc_Run app =
     (if 0 \<le> wcWebPort app then [ServeWeb ('':'' @ Itoa (wcWebPort app))] else []) @
     (if wcGpsd app \<noteq> [] then [FollowGps (gpsd_New (wcGpsd app))] else []) @
     (if wcHost app \<noteq> [] then [KeepConnected] else [])"

section \<open>Nothing but the steps of the client\<close>

lemma wc_routes_handlers:
  "(m, p, h) \<in> set (wc_routes ws) \<Longrightarrow>
     h \<in> set (wc_handlers (wsTools ws) (wsStamp ws) (wsVersion ws)) \<or> h = getTypes ws \<or> (\<exists>n. h = wsExternal ws n)"
  by (auto simp: wc_routes_def wc_handlers_def Let_def)

text \<open>
  The web server and the GPS client do to the client only what its reachable states allow: every
  request, with any method and path and without authentication, and every history of the GPS daemon
  leads from a reachable state to a reachable state.
\<close>

theorem web_server_reachable:
  assumes "wc_reachable (wsTools ws) app0 app" "\<And>n rq app. snd (wsExternal ws n rq app) = app"
  shows "wc_reachable (wsTools ws) app0 (snd (WebServer ws meth rq app))"
proof (cases "wsStatic ws rq")
  case None
  show ?thesis
  proof (cases "find (\<lambda>(m, p, h). serves m meth \<and> wsMatch ws p (rqPath rq) \<noteq> None) (wc_routes ws)")
    case (Some r)
    obtain m p h where r: "r = (m, p, h)" by (cases r)
    have "(m, p, h) \<in> set (wc_routes ws)"
      using Some unfolding r find_Some_iff by (metis nth_mem)
    then have "wc_reachable (wsTools ws) app0 (snd (h rq' app))" for rq'
      using assms wc_routes_handlers [of m p h ws] by (auto simp: getTypes_def intro: wc_reachable.step wc_step.request)
    then show ?thesis using None Some r by (simp add: WebServer_def)
  qed (use None assms(1) in \<open>simp add: WebServer_def\<close>)
qed (use assms(1) in \<open>simp add: WebServer_def\<close>)

theorem gps_reachable:
  "wc_reachable wt app0 app \<Longrightarrow> wc_reachable wt app0 (gps_actions_on now (snd (gps_run jt es c)) app)"
proof -
  have "wc_reachable wt app0 app \<Longrightarrow> wc_reachable wt app0 (gps_actions_on now as app)" for as
  proof (induction as arbitrary: app)
    case (Cons a as)
    have "wc_reachable wt app0 (gps_action_on now a app)"
      using Cons.prems by (cases a) (auto intro: wc_reachable.step wc_step.gps)
    then show ?case using Cons.IH by (simp add: gps_actions_on_def)
  qed (simp add: gps_actions_on_def)
  then show "wc_reachable wt app0 app \<Longrightarrow> wc_reachable wt app0 (gps_actions_on now (snd (gps_run jt es c)) app)" .
qed

end
