(* ===== verification/Enrolment.thy ===== *)
theory Enrolment
  imports HttpCert
begin

text \<open>
  The files of the enrolment client (\<open>internal/client/enroll.go\<close>): the key store a received certificate is
  saved to and read from, and the profile of the server. The directory is a map from names to
  contents; encoding and decoding of PKCS12 and the errors of creating a file are parameters.
\<close>

record p12_tools =
  ptEncode :: "string \<Rightarrow> X509 \<Rightarrow> X509 list \<Rightarrow> string \<Rightarrow> string result"
  ptDecode :: "string \<Rightarrow> string \<Rightarrow> (string \<times> X509 \<times> X509 list) result"
  ptCreate :: "string \<Rightarrow> gofail option"

text \<open>What was encoded with a password is decoded with it.\<close>

definition p12_laws :: "p12_tools \<Rightarrow> bool" where
  "p12_laws pt \<longleftrightarrow> (\<forall>key cert cas pw dat. ptEncode pt key cert cas pw = Inr dat \<longrightarrow> ptDecode pt dat pw = Inr (key, cert, cas))"

definition store_name :: "Enroller \<Rightarrow> string" where
  "store_name e = enHost e @ ''_'' @ enUser e @ ''.p12''"

definition read_file :: "files \<Rightarrow> string \<Rightarrow> string result" where
  "read_file fs f = (case smLoad fs f of Some d \<Rightarrow> Inr d | None \<Rightarrow> Inl (Error (''open '' @ f @ '': no such file or directory'')))"

text \<open>The file is created before the contents are encoded: an error there leaves it empty.\<close>

definition saveP12 :: "p12_tools \<Rightarrow> Enroller \<Rightarrow> string \<Rightarrow> X509 \<Rightarrow> X509 list \<Rightarrow> files \<Rightarrow> gofail option \<times> files" where
  "saveP12 pt e key cert ca fs =
     (case ptCreate pt (store_name e) of
        Some err \<Rightarrow> (Some err, fs)
      | None \<Rightarrow>
          (let fs1 = smStore (store_name e) [] fs
           in case ptEncode pt key cert ca (enP12Password e) of
                Inl err \<Rightarrow> (Some err, fs1)
              | Inr dat \<Rightarrow> (None, smStore (store_name e) dat fs1)))"

text \<open>\<open>profile\<close>: the body of the answer of the server.\<close>

definition getProfile :: "p12_tools \<Rightarrow> Enroller \<Rightarrow> string result \<Rightarrow> files \<Rightarrow> gofail option \<times> files" where
  "getProfile pt e profile fs =
     (case profile of
        Inl err \<Rightarrow> (Some err, fs)
      | Inr body \<Rightarrow>
          (case ptCreate pt (enHost e @ ''.zip'') of
             Some err \<Rightarrow> (Some err, fs)
           | None \<Rightarrow> (None, smStore (enHost e @ ''.zip'') body fs)))"

text \<open>The answers of the server to the three requests.\<close>

record enrol_server =
  esConfig :: "(string \<times> string) list result"
  esSign :: "string \<Rightarrow> (string, string) smap result"
  esProfile :: "string result"

definition enrol ::
    "crypto \<Rightarrow> p12_tools \<Rightarrow> Enroller \<Rightarrow> time \<Rightarrow> string \<Rightarrow> enrol_server \<Rightarrow> files \<Rightarrow> (string \<times> X509 \<times> X509 list) result \<times> files" where
  "enrol c pt e now key srv fs =
     (let p12 = LoadP12 (read_file fs) (ptDecode pt) now (store_name e) (enP12Password e);
          r = GetOrEnrollCert c e p12 (esConfig srv) key (esSign srv)
      in (r, case (p12, r) of
               (Inl _, Inr (key, cert, ca)) \<Rightarrow>
                 snd (getProfile pt e (esProfile srv) (if enSave e then snd (saveP12 pt e key cert ca fs) else fs))
             | _ \<Rightarrow> fs))"


section \<open>The second start\<close>

lemma store_name_zip: "store_name e \<noteq> enHost e @ ''.zip''"
proof
  assume "store_name e = enHost e @ ''.zip''"
  then have "rev (enHost e @ ''_'' @ enUser e @ ''.p12'') = rev (enHost e @ ''.zip'')" by (simp add: store_name_def)
  then show False by simp
qed

lemma smLoad_store: "smLoad (smStore k v m) x = (if x = k then Some v else smLoad m x)"
  by (simp add: smLoad_def smStore_def update_conv')

lemma getProfile_store: "smLoad (snd (getProfile pt e profile fs)) (store_name e) = smLoad fs (store_name e)"
  by (auto simp: getProfile_def smLoad_store store_name_zip split: sum.splits option.splits)

lemma saveP12_store:
  "ptCreate pt (store_name e) = None \<Longrightarrow> ptEncode pt key cert ca (enP12Password e) = Inr dat \<Longrightarrow>
   smLoad (snd (saveP12 pt e key cert ca fs)) (store_name e) = Some dat"
  by (simp add: saveP12_def smLoad_store Let_def)

text \<open>
  C38: a client that saves its certificate enrols once. After an enrolment whose key store could be written
  the client has, at every later start up to a day before the certificate ends, the same key,
  certificate and authorities, whatever the server answers then, and leaves its files alone; from that
  day on the key store is not used.
\<close>

theorem enrol_once:
  assumes laws: "p12_laws pt" and fresh: "smLoad fs (store_name e) = None" and save: "enSave e"
    and r: "enrol c pt e now key srv fs = (Inr (k, cert, ca), fs1)"
    and written: "ptCreate pt (store_name e) = None" "ptEncode pt k cert ca (enP12Password e) = Inr dat"
  shows "(if xcNotAfter cert < now' + 24 * hour
      then fst (enrol c pt e now' key' srv' fs1) = fst (enrol c pt e now' key' srv' [])
      else enrol c pt e now' key' srv' fs1 = (Inr (k, cert, ca), fs1))"
proof -
  have p: "LoadP12 (read_file fs) (ptDecode pt) now (store_name e) (enP12Password e) =
      Inl (Error (''open '' @ store_name e @ '': no such file or directory''))"
    using fresh by (simp add: LoadP12_def read_file_def)
  have "fs1 = snd (getProfile pt e (esProfile srv) (snd (saveP12 pt e k cert ca fs)))"
    using r save unfolding enrol_def p by (auto simp: Let_def)
  then have "smLoad fs1 (store_name e) = Some dat"
    by (simp add: getProfile_store saveP12_store [OF written])
  moreover have "ptDecode pt dat (enP12Password e) = Inr (k, cert, ca)"
    using laws written(2) by (simp add: p12_laws_def)
  ultimately have l: "LoadP12 (read_file fs1) (ptDecode pt) now' (store_name e) (enP12Password e) =
      (if xcNotAfter cert < now' + minCertAge then Inl (Error ''cert is too old'') else Inr (k, cert, ca))"
    by (simp add: LoadP12_def read_file_def)
  have "LoadP12 (read_file []) (ptDecode pt) now' (store_name e) (enP12Password e) =
      Inl (Error (''open '' @ store_name e @ '': no such file or directory''))"
    by (simp add: LoadP12_def read_file_def smLoad_def)
  then show ?thesis
    unfolding enrol_def l by (auto simp: minCertAge_def GetOrEnrollCert_def mult.commute Let_def)
qed

definition example_p12 :: "string \<Rightarrow> X509 \<Rightarrow> X509 list \<Rightarrow> p12_tools" where
  "example_p12 key cert cas = \<lparr>ptEncode = (\<lambda>k c cs pw. if (k, c, cs) = (key, cert, cas) then Inr ''p12'' else Inl EOF),
     ptDecode = (\<lambda>dat pw. Inr (key, cert, cas)), ptCreate = (\<lambda>_. None)\<rparr>"

text \<open>A server that signs every request with the same certificate.\<close>

definition example_server :: enrol_server where
  "example_server = \<lparr>esConfig = Inr [(''C'', ''RU'')],
     esSign = (\<lambda>_. Inr [(''signedCert'', CertToStr example_crypto (cert_of ''bob'' ''key'' ''1'' []) False)]), esProfile = Inr ''zip''\<rparr>"

theorem enrol_once_witness:
  "let e = NewEnroller ''tak.example'' ''bob'' ''pw'' True ''secret''; cert = cert_of ''bob'' ''key'' ''1'' [];
       pt = example_p12 ''key'' cert []; fs1 = snd (enrol example_crypto pt e 0 ''key'' example_server [])
   in enrol example_crypto pt e (xcNotAfter cert - 24 * hour) ''other'' \<lparr>esConfig = Inl EOF, esSign = (\<lambda>_. Inl EOF), esProfile = Inl EOF\<rparr> fs1 =
        (Inr (''key'', cert, []), fs1)"
proof -
  let ?e = "NewEnroller ''tak.example'' ''bob'' ''pw'' True ''secret''" and ?cert = "cert_of ''bob'' ''key'' ''1'' []"
  let ?pt = "example_p12 ''key'' ?cert []"
  have pem: "pem_laws example_crypto" using example_laws .
  have "ParseCert example_crypto (CertToStr example_crypto ?cert False) = Inr ?cert"
    using ParseCert_CertToStr [OF pem] by (simp add: example_cert_of cert_of_def [THEN arg_cong [of _ _ xcRaw]])
  then have r: "enrol example_crypto ?pt ?e 0 ''key'' example_server [] =
      (Inr (''key'', ?cert, []), snd (enrol example_crypto ?pt ?e 0 ''key'' example_server []))"
    by (simp add: enrol_def LoadP12_def read_file_def smLoad_def GetOrEnrollCert_def example_server_def smRange_def Let_def)
  have "p12_laws ?pt" by (simp add: p12_laws_def example_p12_def)
  from enrol_once [OF this _ _ r, of "''p12''" "xcNotAfter ?cert - 24 * hour" "''other''" "\<lparr>esConfig = Inl EOF, esSign = (\<lambda>_. Inl EOF), esProfile = Inl EOF\<rparr>"]
  show ?thesis by (simp add: Let_def smLoad_def NewEnroller_def example_p12_def)
qed

end
