(* ===== verification/TakReplay.thy ===== *)
theory TakReplay
  imports Router CotTypes "HOL-Library.Signed_Division"
begin

text \<open>
  \<open>cmd/takreplay\<close>: reading back the message log the server writes (\<open>logMessage\<close> of \<open>Router\<close>), and
  what the dumpers do with its messages. What the program prints and sends is a list of effects.
  Formatting of times, \<open>json.Marshal\<close>, the decoders and the network are the parameter \<open>replay_tools\<close>.
\<close>

section \<open>Effects\<close>

datatype effect = Print string | Datagram string | Sleep int

record replay_tools =
  rtCodec :: codec
  rtUnescape :: "string \<Rightarrow> string"
  rtDateTime :: "time \<Rightarrow> string"
  rtRFC3339 :: "time \<Rightarrow> string"
  rtJson :: "TakMessage option \<Rightarrow> string result"
  rtDialErr :: "gofail option"

definition line_end :: string where "line_end = [CHR 0x0A]"

definition Println :: "string list \<Rightarrow> effect" where "Println ws = Print (Join ws '' '' @ line_end)"

definition dquote :: string where "dquote = [CHR 0x22]"

text \<open>\<open>fmt.Sprintf("%.0f", x)\<close>: the nearest integer, ties to even.\<close>

definition FmtF0 :: "f64 \<Rightarrow> string" where
  "FmtF0 x =
     (let sg = (if f_sign x then ''-'' else ''''); e = f_exp x; m = f_man x
      in if e = 2047 then (if m = 0 then (if f_sign x then ''-Inf'' else ''+Inf'') else ''NaN'')
         else let mant = (if e = 0 then m else 2 ^ 52 + m);
                  ex = (if e = 0 then - 1074 else int e - 1075);
                  num = mant * 2 ^ nat ex;
                  den = 2 ^ nat (- ex);
                  q = num div den; r = num mod den;
                  n = (if 2 * r > den \<or> (2 * r = den \<and> odd q) then q + 1 else q)
              in sg @ digits_of n)"

section \<open>Dumpers\<close>

record GpxDumper =
  gxName :: string
  gxPrevStale :: time
  gxHasHistory :: bool

record StatsDumper =
  sdData :: "(string, 64 word) smap"
  sdDevices :: "(string, 64 word) smap"
  sdVersions :: "(string, 64 word) smap"

record BroadcastDumper =
  bdN :: int
  bdPrev :: "CotMessage option"

type_synonym ContactsDumper = "(string, string list) smap"

datatype Dumper =
    Text_Dumper
  | Json_Dumper
  | Json2_Dumper
  | Gpx_Dumper GpxDumper
  | Stats_Dumper StatsDumper
  | Broadcast_Dumper BroadcastDumper
  | Contacts_Dumper ContactsDumper

definition text_Process :: "replay_tools \<Rightarrow> CotMessage \<Rightarrow> effect list result" where
  "text_Process rt msg =
     (let m = Some msg; start = [rtDateTime rt (GetSendTime m), GetUID m, GetType m]
      in if IsChat m then
           (case MsgToChat (rtUnescape rt) m of
              None \<Rightarrow> Inl nil_deref
            | Some c \<Rightarrow> Inr [Println (start @ [ChatMessage_String c])])
         else Inr [Println (start @ [GetCallsign m, GetMsgType (GetType m)])])"

text \<open>JSON has no NaN: the dumper replaces it in the message by -1.\<close>

definition minus_one :: f64 where "minus_one = 0xBFF0000000000000"

definition no_nan :: "f64 \<Rightarrow> f64" where "no_nan x = (if f_is_nan x then minus_one else x)"

definition json_message :: "CotMessage \<Rightarrow> TakMessage option" where
  "json_message msg =
     map_option (set_event (\<lambda>e. e\<lparr>ceCe := no_nan (ceCe e), ceLe := no_nan (ceLe e), ceHae := no_nan (ceHae e)\<rparr>))
       (GetTakMessage (Some msg))"

definition json_Process :: "replay_tools \<Rightarrow> CotMessage \<Rightarrow> effect list result" where
  "json_Process rt msg =
     (case rtJson rt (json_message msg) of Inl err \<Rightarrow> Inl err | Inr b \<Rightarrow> Inr [Println [b]])"

definition json2_Process :: "replay_tools \<Rightarrow> CotMessage \<Rightarrow> effect list result" where
  "json2_Process rt msg =
     (case rtJson rt (json_message msg) of
        Inl err \<Rightarrow> Inl err
      | Inr b \<Rightarrow> Inr [Println [b], Println [Detail_XmlDetail (CotEvent_Detail (TakMessage_CotEvent (json_message msg)))]])"

definition gpx_Start :: "GpxDumper \<Rightarrow> effect list" where
  "gpx_Start g =
     [Println [''<?xml version='' @ dquote @ ''1.0'' @ dquote @ '' encoding='' @ dquote @ ''UTF-8'' @ dquote @ ''?>''],
      Println [''<gpx'' @ line_end @ ''xmlns='' @ dquote @ ''http://www.topografix.com/GPX/1/1'' @ dquote @ line_end @
        ''version='' @ dquote @ ''1.1'' @ dquote @ line_end @ ''creator='' @ dquote @ ''takreplay'' @ dquote @ line_end @
        ''xmlns:xsi='' @ dquote @ ''http://www.w3.org/2001/XMLSchema-instance'' @ dquote @ line_end @
        ''xsi:schemaLocation='' @ dquote @
        ''http://www.topografix.com/GPX/1/1 http://www.topografix.com/GPX/1/1/gpx.xsd'' @ dquote @ ''>''],
      Print (''<metadata><name>Track 1</name></metadata>'' @ line_end),
      Print (''<trk><name>'' @ gxName g @ ''</name>'' @ line_end @ ''<trkseg>'' @ line_end)]"

definition gpx_Stop :: "effect list" where
  "gpx_Stop = [Println [''</trkseg></trk></gpx>'']]"

definition trkpt :: "replay_tools \<Rightarrow> CotMessage \<Rightarrow> effect list" where
  "trkpt rt msg =
     (let ev = cot_of (Some msg)
      in [Print (''<trkpt lat='' @ dquote @ FmtF (CotEvent_Lat ev) @ dquote @ '' lon='' @ dquote @ FmtF (CotEvent_Lon ev) @
            dquote @ ''>''),
          Print (''<time>'' @ rtRFC3339 rt (GetStartTime (Some msg)) @ ''</time>''),
          Print (''<ele>'' @ FmtF0 (CotEvent_Hae ev) @ ''</ele>''),
          Print (''<fix>'' @ FmtF0 (CotEvent_Le ev) @ ''</fix>''),
          Print (''</trkpt>'' @ line_end)])"

definition gpx_Process :: "replay_tools \<Rightarrow> CotMessage \<Rightarrow> GpxDumper \<Rightarrow> GpxDumper \<times> effect list" where
  "gpx_Process rt msg g =
     (let ev = cot_of (Some msg)
      in if ev = None \<or> (f_is_zero (CotEvent_Lat ev) \<and> f_is_zero (CotEvent_Lon ev)) then (g, [])
         else (g\<lparr>gxPrevStale := GetStaleTime (Some msg), gxHasHistory := True\<rparr>,
               (if gxHasHistory g \<and> GetStartTime (Some msg) > gxPrevStale g
                then [Println [''</trkseg>'' @ line_end @ ''<trkseg>'']] else []) @ trkpt rt msg))"

definition sortedKeys :: "(string, 'v) smap \<Rightarrow> string list" where
  "sortedKeys m = sort (map fst m)"

definition bump :: "string \<Rightarrow> (string, 64 word) smap \<Rightarrow> (string, 64 word) smap" where
  "bump k m = smStore k (case smLoad m k of Some n \<Rightarrow> n + 1 | None \<Rightarrow> 1) m"

definition stats_type :: "CotMessage \<Rightarrow> string" where
  "stats_type msg =
     (let t = GetType (Some msg) in if HasPrefix t ''a-'' \<and> length t > 5 then take 5 t else t)"

definition stats_Process :: "CotMessage \<Rightarrow> StatsDumper \<Rightarrow> StatsDumper" where
  "stats_Process msg g =
     (let g1 = g\<lparr>sdData := bump (stats_type msg) (sdData g)\<rparr>
      in case GetTakv (Some msg) of
           None \<Rightarrow> g1
         | Some v \<Rightarrow>
             (let vv = first_line (tvVersion v);
                  ver = Trim (tvPlatform v @ '' '' @ vv) '' '';
                  dev = Trim (tvDevice v @ '' ('' @ tvOs v @ '')'') '' ''
              in g1\<lparr>sdVersions := bump ver (sdVersions g1), sdDevices := bump dev (sdDevices g1)\<rparr>))"

definition stats_Stop :: "StatsDumper \<Rightarrow> effect list" where
  "stats_Stop g =
     [Println [line_end @ ''== Messages:'']] @
     map (\<lambda>(k, v). Print (k @ '' '' @ GetMsgType k @ '' '' @ Itoa (sint v) @ line_end)) (smRange (sdData g)) @
     [Println [line_end @ ''== Devices:'']] @ map (\<lambda>k. Print (k @ line_end)) (sortedKeys (sdDevices g)) @
     [Println [line_end @ ''== Versions:'']] @ map (\<lambda>k. Print (k @ line_end)) (sortedKeys (sdVersions g))"

definition contacts_Process :: "CotMessage \<Rightarrow> ContactsDumper \<Rightarrow> ContactsDumper" where
  "contacts_Process msg d =
     (if \<not> IsContact (Some msg) then d
      else let uid = GetUID (Some msg); cs = GetCallsign (Some msg)
           in case smLoad d uid of
                Some l \<Rightarrow> (if cs \<in> set l then d else smStore uid (l @ [cs]) d)
              | None \<Rightarrow> smStore uid [cs] d)"

definition contacts_Stop :: "ContactsDumper \<Rightarrow> effect list" where
  "contacts_Stop d =
     map (\<lambda>uid. Print (uid @ '': '' @ Join (case smLoad d uid of Some l \<Rightarrow> l | None \<Rightarrow> []) '', '' @ line_end)) (sortedKeys d)"

text \<open>A signed 64-bit division, which truncates and panics when the divisor is 0.\<close>

definition int64_div :: "int \<Rightarrow> int \<Rightarrow> int result" where
  "int64_div a b = (if b = 0 then Inl (Panic ''integer divide by zero'') else Inr (sint (word_of_int (a sdiv b) :: 64 word)))"

definition replay_magic :: string where "replay_magic = [CHR 0xBF, CHR 0x01, CHR 0xBF]"

definition restamp :: "time \<Rightarrow> int \<Rightarrow> TakMessage \<Rightarrow> TakMessage" where
  "restamp now d =
     set_event (\<lambda>e. e\<lparr>ceStartTime := TimeToMillis now, ceSendTime := TimeToMillis now, ceStaleTime := TimeToMillis (now + d)\<rparr>)"

definition broadcast_Process ::
    "replay_tools \<Rightarrow> time \<Rightarrow> CotMessage \<Rightarrow> BroadcastDumper \<Rightarrow> (BroadcastDumper \<times> effect list) result" where
  "broadcast_Process rt now msg d =
     (case bdPrev d of
        None \<Rightarrow> Inr (d\<lparr>bdPrev := Some msg\<rparr>, [])
      | Some prev \<Rightarrow>
          (if \<not> IsMapItem (Some msg) then Inr (d, [])
           else if cot_of (Some prev) = None then Inr (d\<lparr>bdPrev := Some msg\<rparr>, [])
           else let t = Sub (GetStartTime (Some msg)) (GetStartTime (Some prev));
                    old = Sub (GetStartTime (Some msg)) (GetStaleTime (Some msg))
                in case int64_div old (bdN d) of
                     Inl err \<Rightarrow> Inl err
                   | Inr q \<Rightarrow>
                       (let b = (case cdProtoMarshal (rtCodec rt) (map_option (restamp now q) (cmTakMessage prev)) of
                                   Inl _ \<Rightarrow> [] | Inr b \<Rightarrow> b)
                        in Inr (d\<lparr>bdPrev := Some msg\<rparr>,
                             [Datagram replay_magic, Datagram (replay_magic @ b)] @
                             (if t > 0 then
                                (case int64_div t (bdN d) of Inr s \<Rightarrow> [Sleep s] | Inl _ \<Rightarrow> []) else [])))))"

fun Process :: "replay_tools \<Rightarrow> time \<Rightarrow> CotMessage \<Rightarrow> Dumper \<Rightarrow> (Dumper \<times> effect list) result" where
  "Process rt now msg Text_Dumper = map_sum id (\<lambda>es. (Text_Dumper, es)) (text_Process rt msg)"
| "Process rt now msg Json_Dumper = map_sum id (\<lambda>es. (Json_Dumper, es)) (json_Process rt msg)"
| "Process rt now msg Json2_Dumper = map_sum id (\<lambda>es. (Json2_Dumper, es)) (json2_Process rt msg)"
| "Process rt now msg (Gpx_Dumper g) = (case gpx_Process rt msg g of (g', es) \<Rightarrow> Inr (Gpx_Dumper g', es))"
| "Process rt now msg (Stats_Dumper g) = Inr (Stats_Dumper (stats_Process msg g), [])"
| "Process rt now msg (Broadcast_Dumper d) =
     map_sum id (\<lambda>(d', es). (Broadcast_Dumper d', es)) (broadcast_Process rt now msg d)"
| "Process rt now msg (Contacts_Dumper d) = Inr (Contacts_Dumper (contacts_Process msg d), [])"

fun Dumper_Start :: "replay_tools \<Rightarrow> Dumper \<Rightarrow> (Dumper \<times> effect list) result" where
  "Dumper_Start rt (Gpx_Dumper g) = Inr (Gpx_Dumper g, gpx_Start g)"
| "Dumper_Start rt (Stats_Dumper g) = Inr (Stats_Dumper \<lparr>sdData = [], sdDevices = [], sdVersions = []\<rparr>, [])"
| "Dumper_Start rt (Broadcast_Dumper d) =
     (case rtDialErr rt of Some err \<Rightarrow> Inl err | None \<Rightarrow> Inr (Broadcast_Dumper d, []))"
| "Dumper_Start rt (Contacts_Dumper d) = Inr (Contacts_Dumper [], [])"
| "Dumper_Start rt d = Inr (d, [])"

fun Dumper_Stop :: "Dumper \<Rightarrow> effect list" where
  "Dumper_Stop (Gpx_Dumper g) = gpx_Stop"
| "Dumper_Stop (Stats_Dumper g) = stats_Stop g"
| "Dumper_Stop (Contacts_Dumper d) = contacts_Stop d"
| "Dumper_Stop d = []"

section \<open>Reading a log\<close>

text \<open>The two reads of a record: its length and its bytes, with the errors of \<open>io.ReadFull\<close>.\<close>

definition ErrUnexpectedEOF :: gofail where "ErrUnexpectedEOF = Error ''unexpected EOF''"

definition ReadFull :: "nat \<Rightarrow> string \<Rightarrow> (string \<times> string) result" where
  "ReadFull n f =
     (if n \<le> length f then Inr (take n f, drop n f) else if f = [] then Inl EOF else Inl ErrUnexpectedEOF)"

definition read_record :: "string \<Rightarrow> (string \<times> string) result" where
  "read_record f =
     (case ReadFull 2 f of
        Inl err \<Rightarrow> Inl err
      | Inr (lenBuf, f1) \<Rightarrow> ReadFull (of_char (lenBuf ! 0) + of_char (lenBuf ! 1) * 256) f1)"

lemma read_record_shorter: "read_record f = Inr (d, rest) \<Longrightarrow> length rest < length f"
  by (auto simp: read_record_def ReadFull_def split: if_splits)

text \<open>\<open>now k\<close>: the clock when the k-th message is processed.\<close>

function readFile ::
    "replay_tools \<Rightarrow> (nat \<Rightarrow> time) \<Rightarrow> string \<Rightarrow> string \<Rightarrow> string \<Rightarrow> nat \<Rightarrow> Dumper \<Rightarrow> effect list \<Rightarrow> (nat \<times> Dumper \<times> effect list) \<times> gofail" where
  "readFile rt now uid typ f k dmp out =
     (case read_record f of
        Inl err \<Rightarrow> ((k, dmp, out), err)
      | Inr (buf, rest) \<Rightarrow>
          (case cdProtoUnmarshal (rtCodec rt) buf of
             Inl err \<Rightarrow> ((k, dmp, out), err)
           | Inr m \<Rightarrow>
               (let ev = TakMessage_CotEvent (Some m)
                in if uid \<noteq> [] \<and> CotEvent_Uid ev \<noteq> uid then readFile rt now uid typ rest k dmp out
                   else if typ \<noteq> [] \<and> \<not> MatchPattern (CotEvent_Type ev) typ then readFile rt now uid typ rest k dmp out
                   else case CotFromProto (cdDecode (rtCodec rt)) (Some m) [] [] of
                          (_, Some err) \<Rightarrow> ((k, dmp, out), Error err)
                        | (msg, None) \<Rightarrow>
                            (case Process rt (now k) (the msg) dmp of
                               Inl err \<Rightarrow> ((k + 1, dmp, out), err)
                             | Inr (dmp', es) \<Rightarrow> readFile rt now uid typ rest (k + 1) dmp' (out @ es)))))"
  by pat_completeness auto
termination
  by (relation "measure (\<lambda>(rt, now, uid, typ, f, k, dmp, out). length f)") (auto dest: read_record_shorter)

declare readFile.simps [simp del]

text \<open>The dumper for a format, or what is printed before the program exits.\<close>

definition make_dumper :: "string \<Rightarrow> string \<Rightarrow> int \<Rightarrow> effect + Dumper" where
  "make_dumper format uid n =
     (if format = [] \<or> format = ''text'' then Inr Text_Dumper
      else if format = ''json'' then Inr Json_Dumper
      else if format = ''json2'' then Inr Json2_Dumper
      else if format = ''gpx'' then
        (if uid = [] then Inl (Println [''need uid to make gpx'']) else Inr (Gpx_Dumper \<lparr>gxName = uid, gxPrevStale = zero_time, gxHasHistory = False\<rparr>))
      else if format = ''stats'' then Inr (Stats_Dumper \<lparr>sdData = [], sdDevices = [], sdVersions = []\<rparr>)
      else if format = ''broadcast'' then Inr (Broadcast_Dumper \<lparr>bdN = n, bdPrev = None\<rparr>)
      else if format = ''contacts'' then Inr (Contacts_Dumper [])
      else Inl (Print (''invalid format '' @ format @ line_end)))"

text \<open>A file that cannot be opened, and a panic of a dumper, end the program.\<close>

fun replay_files ::
    "replay_tools \<Rightarrow> (nat \<Rightarrow> time) \<Rightarrow> string \<Rightarrow> string \<Rightarrow> string result list \<Rightarrow> nat \<Rightarrow> Dumper \<Rightarrow> effect list \<Rightarrow> Dumper \<times> effect list \<times> gofail option" where
  "replay_files rt now uid typ [] k dmp out = (dmp, out, None)"
| "replay_files rt now uid typ (Inl err # fs) k dmp out = (dmp, out, Some err)"
| "replay_files rt now uid typ (Inr f # fs) k dmp out =
     (case readFile rt now uid typ f k dmp out of
        ((k', dmp', out'), err) \<Rightarrow>
          (case err of
             EOF \<Rightarrow> replay_files rt now uid typ fs k' dmp' out'
           | Error e \<Rightarrow> replay_files rt now uid typ fs k' dmp' (out' @ [Println [e]])
           | Panic e \<Rightarrow> (dmp', out', Some err)))"

text \<open>The whole program: what it prints and sends, and its exit: a status, or a panic.\<close>

definition takreplay ::
    "replay_tools \<Rightarrow> (nat \<Rightarrow> time) \<Rightarrow> string \<Rightarrow> string \<Rightarrow> string \<Rightarrow> int \<Rightarrow> string result list \<Rightarrow> effect list \<times> (nat, gofail) sum" where
  "takreplay rt now format uid typ n files =
     (if files = [] then ([Println [''usage: takreplay <filename>'']], Inl 1)
      else case make_dumper format uid n of
             Inl e \<Rightarrow> ([e], Inl 1)
           | Inr dmp0 \<Rightarrow>
               (case Dumper_Start rt dmp0 of
                  Inl err \<Rightarrow> ([], Inr err)
                | Inr (dmp, es) \<Rightarrow>
                    (case replay_files rt now uid typ files 0 dmp es of
                       (dmp', out, Some err) \<Rightarrow> (out, Inr err)
                     | (dmp', out, None) \<Rightarrow> (out @ Dumper_Stop dmp', Inl 0))))"


section \<open>What is logged is replayed\<close>

text \<open>The messages of a log that pass the filters, as the dumper gets them.\<close>

definition replay_wanted :: "string \<Rightarrow> string \<Rightarrow> CotMessage \<Rightarrow> bool" where
  "replay_wanted uid typ msg \<longleftrightarrow>
     (uid = [] \<or> CotEvent_Uid (cot_of (Some msg)) = uid) \<and> (typ = [] \<or> MatchPattern (CotEvent_Type (cot_of (Some msg))) typ)"

definition replayed :: "decoder \<Rightarrow> CotMessage \<Rightarrow> CotMessage" where
  "replayed decode msg = the (fst (CotFromProto decode (cmTakMessage msg) [] []))"

fun process_all ::
    "replay_tools \<Rightarrow> (nat \<Rightarrow> time) \<Rightarrow> CotMessage list \<Rightarrow> nat \<Rightarrow> Dumper \<Rightarrow> effect list \<Rightarrow> (nat \<times> Dumper \<times> effect list) \<times> gofail" where
  "process_all rt now [] k dmp out = ((k, dmp, out), EOF)"
| "process_all rt now (msg # msgs) k dmp out =
     (case Process rt (now k) msg dmp of
        Inl err \<Rightarrow> ((k + 1, dmp, out), err)
      | Inr (dmp', es) \<Rightarrow> process_all rt now msgs (k + 1) dmp' (out @ es))"

lemma log_header_length:
  "length d < 2 ^ 32 \<Longrightarrow>
   length (log_header d) = 2 \<and> of_char (log_header d ! 0) + of_char (log_header d ! 1) * 256 = length d mod 65536"
proof -
  assume "length d < 2 ^ 32"
  then have "unat (word_of_nat (length d) :: 32 word) = length d"
    by (simp add: unat_of_nat)
  moreover have "n mod 256 + n div 256 mod 256 * 256 = n mod 65536" for n :: nat
    using mod_mult2_eq [of n 256 256] by simp
  ultimately show ?thesis
    by (simp add: log_header_def Let_def)
qed

lemma read_logged:
  assumes "length d < 2 ^ 32"
  shows "read_record (log_header d @ d @ rest) = Inr (take (length d mod 65536) d, drop (length d mod 65536) d @ rest)"
proof -
  have "length d mod 65536 \<le> length d" by simp
  then show ?thesis
    using log_header_length [OF assms] by (simp add: read_record_def ReadFull_def nth_append)
qed

text \<open>The record of a message that comes back whole.\<close>

definition loggable :: "codec \<Rightarrow> CotMessage \<Rightarrow> bool" where
  "loggable c msg \<longleftrightarrow>
     (\<exists>m d. cmTakMessage msg = Some m \<and> cdProtoMarshal c (Some m) = Inr d \<and> length d < 65536 \<and>
        cdProtoUnmarshal c d = Inr m \<and> snd (CotFromProto (cdDecode c) (Some m) [] []) = None)"

lemma logMessage_record:
  assumes "loggable (evCodec env) msg" "evOpenLog env = None"
  shows "\<exists>m d. cmTakMessage msg = Some m \<and> length d < 65536 \<and> cdProtoUnmarshal (evCodec env) d = Inr m \<and>
     snd (CotFromProto (cdDecode (evCodec env)) (Some m) [] []) = None \<and>
     logMessage env msg app = app\<lparr>apLog := apLog app @ [log_header d @ d]\<rparr>"
  using assms by (fastforce simp: loggable_def logMessage_def GetTakMessage_def)

lemma readFile_record:
  assumes "cmTakMessage msg = Some m" "length d < 65536" "cdProtoUnmarshal (rtCodec rt) d = Inr m"
    and "snd (CotFromProto (cdDecode (rtCodec rt)) (Some m) [] []) = None"
  shows "readFile rt now uid typ (log_header d @ d @ rest) k dmp out =
     (if replay_wanted uid typ msg then
        (case Process rt (now k) (replayed (cdDecode (rtCodec rt)) msg) dmp of
           Inl err \<Rightarrow> ((k + 1, dmp, out), err)
         | Inr (dmp', es) \<Rightarrow> readFile rt now uid typ rest (k + 1) dmp' (out @ es))
      else readFile rt now uid typ rest k dmp out)"
proof -
  have "read_record (log_header d @ d @ rest) = Inr (d, rest)"
    using read_logged [of d rest] assms(2) by simp
  moreover obtain m' where "CotFromProto (cdDecode (rtCodec rt)) (Some m) [] [] = (m', None)"
    using assms(4) by (metis prod.collapse)
  ultimately show ?thesis
    using assms(1,3) by (subst readFile.simps) (simp add: replay_wanted_def replayed_def GetTakMessage_def Let_def)
qed

lemma apLog_fold:
  assumes "evOpenLog env = None" "\<forall>msg \<in> set msgs. loggable (evCodec env) msg"
  shows "\<exists>recs. apLog (fold (logMessage env) msgs app) = apLog app @ recs \<and>
     (rtCodec rt = evCodec env \<longrightarrow> (\<forall>k dmp out. readFile rt now uid typ (concat recs) k dmp out =
        process_all rt now (map (replayed (cdDecode (evCodec env))) (filter (replay_wanted uid typ) msgs)) k dmp out))"
  using assms(2)
proof (induction msgs arbitrary: app)
  case Nil
  show ?case
    by (intro exI [of _ "[]"]) (subst readFile.simps, simp add: read_record_def ReadFull_def)
next
  case (Cons msg msgs)
  have "loggable (evCodec env) msg" using Cons.prems by simp
  from logMessage_record [OF this assms(1), of app] obtain m d where msg:
    "cmTakMessage msg = Some m" "length d < 65536" "cdProtoUnmarshal (evCodec env) d = Inr m"
    "snd (CotFromProto (cdDecode (evCodec env)) (Some m) [] []) = None"
    "logMessage env msg app = app\<lparr>apLog := apLog app @ [log_header d @ d]\<rparr>" by blast
  from Cons.IH [of "logMessage env msg app"] Cons.prems obtain recs where recs:
    "apLog (fold (logMessage env) msgs (logMessage env msg app)) = apLog (logMessage env msg app) @ recs"
    "rtCodec rt = evCodec env \<longrightarrow> (\<forall>k dmp out. readFile rt now uid typ (concat recs) k dmp out =
        process_all rt now (map (replayed (cdDecode (evCodec env))) (filter (replay_wanted uid typ) msgs)) k dmp out)"
    by auto
  show ?case
  proof (intro exI [of _ "(log_header d @ d) # recs"] conjI impI allI)
    show "apLog (fold (logMessage env) (msg # msgs) app) = apLog app @ (log_header d @ d) # recs"
      using recs(1) msg(5) by simp
    fix k dmp out assume c: "rtCodec rt = evCodec env"
    then show "readFile rt now uid typ (concat ((log_header d @ d) # recs)) k dmp out =
        process_all rt now (map (replayed (cdDecode (evCodec env))) (filter (replay_wanted uid typ) (msg # msgs))) k dmp out"
      using readFile_record [of msg m d rt now uid "typ" "concat recs" k dmp out] msg(1-4) recs(2)
      by (auto split: sum.splits)
  qed
qed

text \<open>
  C29: the message log. What the server has logged, record by record, \<open>takreplay\<close> reads back: the
  dumper gets exactly the logged messages that pass the filters, in their order, each rebuilt from
  its protobuf form (without sender and scope), and the file ends with \<open>EOF\<close>. This needs that every
  message encodes to less than 65536 bytes: a longer one is cut, and what was cut off is read as the
  beginning of the next record.
\<close>

theorem log_replayed:
  assumes "evOpenLog env = None" "apLog app = []" "\<forall>msg \<in> set msgs. loggable (evCodec env) msg" "rtCodec rt = evCodec env"
  shows "readFile rt now uid typ (concat (apLog (fold (logMessage env) msgs app))) 0 dmp [] =
       process_all rt now (map (replayed (cdDecode (evCodec env))) (filter (replay_wanted uid typ) msgs)) 0 dmp [] \<and>
     (65536 \<le> length d \<and> length d < 2 ^ 32 \<longrightarrow>
       read_record (log_header d @ d @ rest) = Inr (take (length d mod 65536) d, drop (length d mod 65536) d @ rest))"
  using apLog_fold [OF assms(1,3), of app rt now uid "typ"] assms(2,4) read_logged [of d rest] by auto


definition uid_message :: "string \<Rightarrow> TakMessage" where
  "uid_message uid = new_TakMessage\<lparr>tmCotEvent := Some (new_CotEvent\<lparr>ceUid := uid, ceType := ''a-f-G''\<rparr>)\<rparr>"

definition uid_codec :: codec where
  "uid_codec = example_codec\<lparr>cdProtoMarshal := \<lambda>m. Inr (CotEvent_Uid (TakMessage_CotEvent m)),
     cdProtoUnmarshal := \<lambda>s. Inr (uid_message s)\<rparr>"

definition uid_msg :: "string \<Rightarrow> CotMessage" where
  "uid_msg uid = \<lparr>cmFrom = ''alice'', cmScope = ''red'', cmTakMessage = Some (uid_message uid), cmDetail = None\<rparr>"

definition example_replay :: "codec \<Rightarrow> replay_tools" where
  "example_replay c = \<lparr>rtCodec = c, rtUnescape = id, rtDateTime = (\<lambda>_. ''now''), rtRFC3339 = (\<lambda>_. ''now''),
     rtJson = (\<lambda>_. Inr ''{}''), rtDialErr = None\<rparr>"

lemma uid_msg_loggable: "length uid < 65536 \<Longrightarrow> loggable uid_codec (uid_msg uid)"
  by (simp add: loggable_def uid_msg_def uid_codec_def uid_message_def example_codec_def CotFromProto_def DetailsFromString_def)

theorem log_replayed_witness:
  "readFile (example_replay uid_codec) (\<lambda>_. 0) ''u2'' []
      (concat (apLog (fold (logMessage (example_env\<lparr>evCodec := uid_codec\<rparr>)) [uid_msg ''u1'', uid_msg ''u2''] example_app)))
      0 (Stats_Dumper \<lparr>sdData = [], sdDevices = [], sdVersions = []\<rparr>) [] =
    ((1, Stats_Dumper \<lparr>sdData = [(''a-f-G'', 1)], sdDevices = [], sdVersions = []\<rparr>, []), EOF) \<and>
   read_record (log_header (replicate 65537 CHR ''x'') @ replicate 65537 CHR ''x'') =
     Inr ([CHR ''x''], replicate 65536 CHR ''x'')"
proof -
  let ?env = "example_env\<lparr>evCodec := uid_codec\<rparr>"
  have *: "evOpenLog ?env = None" "apLog example_app = []" "\<forall>msg \<in> set [uid_msg ''u1'', uid_msg ''u2'']. loggable (evCodec ?env) msg"
      "rtCodec (example_replay uid_codec) = evCodec ?env"
    by (simp_all add: example_env_def example_app_def NewApp_def AddClientHandler_def uid_msg_loggable example_replay_def)
  have f: "map (replayed (cdDecode (evCodec ?env))) (filter (replay_wanted ''u2'' []) [uid_msg ''u1'', uid_msg ''u2'']) =
      [replayed (cdDecode uid_codec) (uid_msg ''u2'')]"
    by (simp add: replay_wanted_def uid_msg_def uid_message_def GetTakMessage_def)
  have p: "process_all (example_replay uid_codec) (\<lambda>_. 0) [replayed (cdDecode uid_codec) (uid_msg ''u2'')] 0
      (Stats_Dumper \<lparr>sdData = [], sdDevices = [], sdVersions = []\<rparr>) [] =
    ((1, Stats_Dumper \<lparr>sdData = [(''a-f-G'', 1)], sdDevices = [], sdVersions = []\<rparr>, []), EOF)"
    by code_simp
  show ?thesis
    using log_replayed [OF *, of "\<lambda>_. 0" "''u2''" "[]" "Stats_Dumper \<lparr>sdData = [], sdDevices = [], sdVersions = []\<rparr>"
        "replicate 65537 CHR ''x''" "[]"] f p by simp
qed

section \<open>Contacts\<close>

definition contact_callsigns :: "CotMessage list \<Rightarrow> string \<Rightarrow> string list" where
  "contact_callsigns msgs uid =
     map (\<lambda>m. GetCallsign (Some m)) (filter (\<lambda>m. IsContact (Some m) \<and> GetUID (Some m) = uid) msgs)"

text \<open>The distinct elements of a list in the order of their first occurrence.\<close>

definition firsts :: "'a list \<Rightarrow> 'a list" where "firsts xs = rev (remdups (rev xs))"

lemma firsts_simps [simp]: "firsts [] = []" "firsts (xs @ [x]) = (if x \<in> set xs then firsts xs else firsts xs @ [x])"
  "set (firsts xs) = set xs"
  by (simp_all add: firsts_def)

lemma contacts_load:
  "smLoad (contacts_Process m d) uid =
     (if IsContact (Some m) \<and> GetUID (Some m) = uid
      then Some (case smLoad d uid of Some l \<Rightarrow> if GetCallsign (Some m) \<in> set l then l else l @ [GetCallsign (Some m)]
                 | None \<Rightarrow> [GetCallsign (Some m)])
      else smLoad d uid)"
  by (auto simp: contacts_Process_def Let_def smap_simps split: option.splits)

lemma contact_callsigns_snoc:
  "contact_callsigns (msgs @ [m]) uid =
     contact_callsigns msgs uid @ (if IsContact (Some m) \<and> GetUID (Some m) = uid then [GetCallsign (Some m)] else [])"
  by (simp add: contact_callsigns_def)

lemma contacts_fold:
  "smLoad (fold contacts_Process msgs []) uid =
     (if contact_callsigns msgs uid = [] then None else Some (firsts (contact_callsigns msgs uid)))"
proof (induction msgs rule: rev_induct)
  case (snoc m msgs)
  show ?case
    using snoc by (auto simp: contacts_load contact_callsigns_snoc)
qed (simp add: contact_callsigns_def)

lemma process_contacts:
  "process_all rt now msgs k (Contacts_Dumper d) out =
     ((k + length msgs, Contacts_Dumper (fold contacts_Process msgs d), out), EOF)"
  by (induction msgs arbitrary: k d) simp_all

text \<open>
  The report of contacts lists, under every uid that sent a contact message, each call sign it
  used exactly once, in the order of its first use, and no other uid.
\<close>

theorem contacts_listed:
  "\<exists>d. process_all rt now msgs 0 (Contacts_Dumper []) [] = ((length msgs, Contacts_Dumper d, []), EOF) \<and>
     smLoad d uid = (if contact_callsigns msgs uid = [] then None else Some (firsts (contact_callsigns msgs uid)))"
  by (simp add: process_contacts contacts_fold)

section \<open>Broadcasting\<close>

lemma int64_div_neg:
  assumes "- (2 ^ 63) \<le> a" "a \<le> 0" "0 < n"
  shows "\<exists>q. int64_div a n = Inr q \<and> - (2 ^ 63) \<le> q \<and> q \<le> 0"
proof -
  have q: "a sdiv n = - (- a div n)"
    using assms by (cases "a = 0") (simp_all add: signed_divide_int_def)
  have "- a div n \<le> - a" "0 \<le> - a div n"
    using assms zdiv_mono2 [of "- a" 1 n] by (simp_all add: pos_imp_zdiv_nonneg_iff)
  then have "- (2 ^ 63) \<le> a sdiv n" "a sdiv n \<le> 0" using q assms(1) by simp_all
  moreover from this have "sint (word_of_int (a sdiv n) :: 64 word) = a sdiv n"
    by (simp add: signed_of_int signed_take_bit_int_eq_self_iff)
  ultimately show ?thesis using assms(3) by (simp add: int64_div_def)
qed

text \<open>
  A replayed position is out of date when it is sent. For a log in which messages become stale
  only after they start, as every message does, the message the broadcast sends carries a stale time
  that is not after its start: the validity is computed as start minus stale.
\<close>

theorem broadcast_stale:
  assumes "bdPrev d = Some prev" "cmTakMessage prev = Some m" "tmCotEvent m = Some ev" "IsMapItem (Some msg)" "0 < bdN d"
    and "GetStartTime (Some msg) \<le> GetStaleTime (Some msg)" "0 \<le> now" "now < 2 ^ 63"
  shows "\<exists>q es. broadcast_Process rt now msg d = Inr (d\<lparr>bdPrev := Some msg\<rparr>,
       [Datagram replay_magic,
        Datagram (replay_magic @ (case cdProtoMarshal (rtCodec rt) (Some (restamp now q m)) of Inl _ \<Rightarrow> [] | Inr b \<Rightarrow> b))] @ es) \<and>
     GetStaleTime (Some (prev\<lparr>cmTakMessage := Some (restamp now q m)\<rparr>)) \<le>
       GetStartTime (Some (prev\<lparr>cmTakMessage := Some (restamp now q m)\<rparr>))"
proof -
  let ?old = "Sub (GetStartTime (Some msg)) (GetStaleTime (Some msg))"
  have "- (2 ^ 63) \<le> ?old" "?old \<le> 0" using assms(6) by (auto simp: Sub_def max_duration_def)
  then obtain q where q: "int64_div ?old (bdN d) = Inr q" "- (2 ^ 63) \<le> q" "q \<le> 0"
    using int64_div_neg assms(5) by blast
  have "(now + q) div 10 ^ 6 \<le> now div 10 ^ 6" using q(3) by (intro zdiv_mono1) simp_all
  then have "TimeFromMillis (TimeToMillis (now + q)) \<le> TimeFromMillis (TimeToMillis now)"
    using q assms(7,8) by (subst (1 2) TimeFromMillis_ToMillis) (auto simp: minus_mod_eq_div_mult)
  then have "GetStaleTime (Some (prev\<lparr>cmTakMessage := Some (restamp now q m)\<rparr>)) \<le>
       GetStartTime (Some (prev\<lparr>cmTakMessage := Some (restamp now q m)\<rparr>))"
    using assms(3) by (simp add: GetStaleTime_def GetStartTime_def GetTakMessage_def restamp_def set_event_def)
  then show ?thesis
    using assms(1-4) q(1) by (intro exI [of _ q]) (simp add: broadcast_Process_def Let_def GetTakMessage_def)
qed

definition replay_position :: "time \<Rightarrow> CotMessage" where
  "replay_position t = \<lparr>cmFrom = [], cmScope = [], cmTakMessage = Some (BasicMsg (t, t, t) ''a-f-G'' ''u1'' minute), cmDetail = None\<rparr>"

theorem broadcast_stale_witness:
  "\<exists>q es. broadcast_Process (example_replay uid_codec) (3600 * second) (replay_position (10 * second)) \<lparr>bdN = 10, bdPrev = Some (replay_position 0)\<rparr> =
     Inr (\<lparr>bdN = 10, bdPrev = Some (replay_position (10 * second))\<rparr>, [Datagram replay_magic, Datagram (replay_magic @ ''u1'')] @ es)"
proof -
  have *: "IsMapItem (Some (replay_position (10 * second)))" "GetStartTime (Some (replay_position (10 * second))) \<le> GetStaleTime (Some (replay_position (10 * second)))"
    by code_simp+
  obtain ev where ev: "tmCotEvent (BasicMsg (0, 0, 0) ''a-f-G'' ''u1'' minute) = Some ev" "ceUid ev = ''u1''"
    by (simp add: BasicMsg_def)
  show ?thesis
    using broadcast_stale [of "\<lparr>bdN = 10, bdPrev = Some (replay_position 0)\<rparr>" "replay_position 0" "BasicMsg (0, 0, 0) ''a-f-G'' ''u1'' minute" ev
        "replay_position (10 * second)" "3600 * second" "example_replay uid_codec"] * ev
    by (auto simp: replay_position_def example_replay_def uid_codec_def restamp_def set_event_def second_def)
qed

end
