(* ===== verification/MissionViewer.thy ===== *)
theory MissionViewer
  imports WebClient TakReplay
begin

text \<open>
  \<open>cmd/mm\<close>, the viewer of missions: its requests to the Marti interface (\<open>api.go\<close>), the commands
  (\<open>main.go\<close>), the colours (\<open>color.go\<close>) and the terminal interface (\<open>ui.go\<close>). Parameters: the answers of
  the server (the parsed JSON, or the body), creating a file, formatting of a time, and of \<open>gocui\<close> the
  line of a view's text under the cursor and the moves of the cursor.
\<close>

section \<open>Requests\<close>

record PackageInfo =
  pkUID :: string
  pkSubmissionDateTime :: time
  pkKeywords :: "string list"
  pkMIMEType :: string
  pkSize :: int
  pkSubmissionUser :: string
  pkPrimaryKey :: int
  pkHash :: string
  pkCreatorUID :: string
  pkScope :: string
  pkFileName :: string
  pkTool :: string
  pkExpiration :: int

text \<open>
  What is asked: the method, the URL and the arguments. A JSON answer may be \<open>null\<close> (\<open>None\<close>), and an
  answer may have no body; reading a body gives what came and perhaps an error.
\<close>

record mm_request =
  mqMethod :: string
  mqUrl :: string
  mqArgs :: "(string, string) smap"

type_synonym mm_body = "string \<times> gofail option"

record mm_remote =
  mrContacts :: "mm_request \<Rightarrow> MartiContact list result"
  mrMissions :: "mm_request \<Rightarrow> MissionDTO list option result"
  mrStrings :: "mm_request \<Rightarrow> string list option result"
  mrPackages :: "mm_request \<Rightarrow> PackageInfo list option result"
  mrBody :: "mm_request \<Rightarrow> mm_body option result"

record RemoteAPI =
  raHost :: string
  raTls :: bool

definition NewRemoteAPI :: "string \<Rightarrow> RemoteAPI" where "NewRemoteAPI host = \<lparr>raHost = host, raTls = False\<rparr>"

definition SetTLS :: "RemoteAPI \<Rightarrow> RemoteAPI" where "SetTLS r = r\<lparr>raTls := True\<rparr>"

definition mm_getURL :: "RemoteAPI \<Rightarrow> string \<Rightarrow> string" where
  "mm_getURL r path =
     (if raTls r then ''https://'' @ raHost r @ '':8443'' @ path else ''http://'' @ raHost r @ '':8080'' @ path)"

definition mm_get :: "RemoteAPI \<Rightarrow> string \<Rightarrow> mm_request" where
  "mm_get r path = \<lparr>mqMethod = ''GET'', mqUrl = mm_getURL r path, mqArgs = []\<rparr>"

definition mm_getContacts :: "mm_remote \<Rightarrow> RemoteAPI \<Rightarrow> MartiContact list result" where
  "mm_getContacts rem r = mrContacts rem (mm_get r ''/Marti/api/contacts/all'')"

definition not_null :: "'a option result \<Rightarrow> 'a result" where
  "not_null res = (case res of Inl err \<Rightarrow> Inl err | Inr None \<Rightarrow> Inl (Error ''nil'') | Inr (Some x) \<Rightarrow> Inr x)"

definition GetMissions :: "mm_remote \<Rightarrow> RemoteAPI \<Rightarrow> MissionDTO list result" where
  "GetMissions rem r = not_null (mrMissions rem (mm_get r ''/Marti/api/missions''))"

definition GetSubscriptions :: "mm_remote \<Rightarrow> RemoteAPI \<Rightarrow> string \<Rightarrow> string list result" where
  "GetSubscriptions rem r name = not_null (mrStrings rem (mm_get r (''/Marti/api/missions/'' @ name @ ''/subscriptions'')))"

definition GetSubscriptionRoles :: "mm_remote \<Rightarrow> RemoteAPI \<Rightarrow> string \<times> gofail option" where
  "GetSubscriptionRoles rem r =
     (case mrBody rem (mm_get r ''/Marti/api/groups/all'') of
        Inl err \<Rightarrow> ([], Some err)
      | Inr None \<Rightarrow> ([], None)
      | Inr (Some b) \<Rightarrow> b)"

text \<open>The body of the answer is printed; an error of reading it is dropped.\<close>

definition print_body :: "mm_body option result \<Rightarrow> gofail option \<times> effect list" where
  "print_body res = (case res of
     Inl err \<Rightarrow> (Some err, []) | Inr None \<Rightarrow> (None, []) | Inr (Some (d, err)) \<Rightarrow> (None, [Println [d]]))"

definition mm_CreateMission :: "mm_remote \<Rightarrow> RemoteAPI \<Rightarrow> string \<Rightarrow> string \<Rightarrow> gofail option \<times> effect list" where
  "mm_CreateMission rem r name uid =
     print_body (mrBody rem \<lparr>mqMethod = ''PUT'', mqUrl = mm_getURL r (''/Marti/api/missions/'' @ name),
       mqArgs = [(''creatorUid'', uid), (''tool'', ''public''), (''group'', ''__ANON__'')]\<rparr>)"

definition mm_Subscribe :: "mm_remote \<Rightarrow> RemoteAPI \<Rightarrow> string \<Rightarrow> string \<Rightarrow> gofail option \<times> effect list" where
  "mm_Subscribe rem r name uid =
     print_body (mrBody rem \<lparr>mqMethod = ''PUT'', mqUrl = mm_getURL r (''/Marti/api/missions/'' @ name @ ''/subscription''),
       mqArgs = [(''uid'', uid)]\<rparr>)"

text \<open>The answer \<open>null\<close> makes the pointer nil that is followed afterwards.\<close>

definition Search :: "mm_remote \<Rightarrow> RemoteAPI \<Rightarrow> PackageInfo list result" where
  "Search rem r = (case mrPackages rem (mm_get r ''/Marti/sync/search'') of
     Inl err \<Rightarrow> Inl err | Inr None \<Rightarrow> Inl nil_deref | Inr (Some ps) \<Rightarrow> Inr ps)"

definition mm_GetFile :: "mm_remote \<Rightarrow> RemoteAPI \<Rightarrow> string \<Rightarrow> (mm_body \<Rightarrow> files \<Rightarrow> gofail option \<times> files) \<Rightarrow> files \<Rightarrow> gofail option \<times> files" where
  "mm_GetFile rem r hash f fs =
     (case mrBody rem \<lparr>mqMethod = ''GET'', mqUrl = mm_getURL r ''/Marti/sync/content'', mqArgs = [(''hash'', hash)]\<rparr> of
        Inl err \<Rightarrow> (Some err, fs) | Inr None \<Rightarrow> (None, fs) | Inr (Some b) \<Rightarrow> f b fs)"

section \<open>Colours\<close>

definition ansi_escape :: string where "ansi_escape = [CHR 0x1B]"

definition WithColors :: "string \<Rightarrow> nat list \<Rightarrow> string" where
  "WithColors s col =
     (if col = [] then s else ansi_escape @ ''['' @ Join (map (\<lambda>v. Itoa (int v)) col) '';'' @ ''m'' @ s @ ansi_escape @ ''[0m'')"

section \<open>State\<close>

record mm_view =
  vwText :: string
  vwCursor :: nat

record mm_gui =
  guMissions :: "mm_view option"
  guMission :: "mm_view option"

record MmApp =
  mmHost :: string
  mmTls :: bool
  mmTlsCert :: "(string \<times> X509) option"
  mmCas :: "X509 list"
  mmApi :: RemoteAPI
  mmMissions :: "(string, MissionDTO) smap"
  mmGui :: "mm_gui option"

definition mm_NewApp :: "string \<Rightarrow> MmApp option" where
  "mm_NewApp connectStr =
     (let parts = Split connectStr CHR '':''
      in if length parts \<noteq> 3 then None
         else let app = \<lparr>mmHost = parts ! 0, mmTls = False, mmTlsCert = None, mmCas = [], mmApi = NewRemoteAPI [], mmMissions = [], mmGui = None\<rparr>
              in if parts ! 2 = ''tcp'' then Some app
                 else if parts ! 2 = ''ssl'' then Some (app\<lparr>mmTls := True\<rparr>)
                 else None)"

definition mm_getTLSConfig :: "bool \<Rightarrow> MmApp \<Rightarrow> wc_tls_config result" where
  "mm_getTLSConfig strict app =
     (case mmTlsCert app of
        None \<Rightarrow> Inl nil_deref
      | Some cert \<Rightarrow> Inr \<lparr>tcCert = cert, tcRootCAs = mmCas app, tcClientCAs = mmCas app, tcInsecureSkipVerify = \<not> strict\<rparr>)"

section \<open>Commands\<close>

text \<open>\<open>% -30s\<close>: padded on the right to 30 characters; the bytes 10xxxxxx do not begin a character.\<close>

definition pad_right :: "nat \<Rightarrow> string \<Rightarrow> string" where
  "pad_right n s = s @ replicate (n - length (filter (\<lambda>c. (of_char c :: nat) div 64 \<noteq> 2) s)) CHR '' ''"

definition package_line :: "PackageInfo \<Rightarrow> effect" where
  "package_line p = Println [pkUID p, pkHash p, pad_right 30 (pkFileName p), Itoa (pkSize p), pkSubmissionUser p, pkMIMEType p, Itoa (pkExpiration p)]"

text \<open>The text of an error is printed; a panic ends the program.\<close>

definition report_error :: "gofail \<Rightarrow> effect list result" where
  "report_error err = (case err of EOF \<Rightarrow> Inr [Println [''EOF'']] | Error e \<Rightarrow> Inr [Println [e]] | Panic p \<Rightarrow> Inl (Panic p))"

definition listFiles :: "mm_remote \<Rightarrow> MmApp \<Rightarrow> effect list result" where
  "listFiles rem app = (case Search rem (mmApi app) of Inl err \<Rightarrow> report_error err | Inr res \<Rightarrow> Inr (map package_line res))"

definition save_body :: "(string \<Rightarrow> gofail option) \<Rightarrow> string \<Rightarrow> mm_body \<Rightarrow> files \<Rightarrow> gofail option \<times> files" where
  "save_body create name b fs =
     (case create name of Some err \<Rightarrow> (Some err, fs) | None \<Rightarrow> (snd b, smStore name (fst b) fs))"

definition mm_getFile :: "mm_remote \<Rightarrow> (string \<Rightarrow> gofail option) \<Rightarrow> string \<Rightarrow> string \<Rightarrow> MmApp \<Rightarrow> files \<Rightarrow> effect list result \<times> files" where
  "mm_getFile rem create hash name app fs =
     (case mm_GetFile rem (mmApi app) hash (save_body create name) fs of
        (Some err, fs') \<Rightarrow> (report_error err, fs') | (None, fs') \<Rightarrow> (Inr [], fs'))"

section \<open>The terminal interface\<close>

record gocui =
  gcLine :: "string \<Rightarrow> nat \<Rightarrow> string"
  gcMove :: "int \<Rightarrow> mm_view \<Rightarrow> nat"
  gcFormat :: "time \<Rightarrow> string"

definition ft :: "gocui \<Rightarrow> time \<Rightarrow> string" where "ft g t = (if t = zero_time then [] else gcFormat g t)"

definition Fprintf :: "string \<Rightarrow> mm_view \<Rightarrow> mm_view" where "Fprintf s v = v\<lparr>vwText := vwText v @ s\<rparr>"

definition Clear :: "mm_view \<Rightarrow> mm_view" where "Clear v = v\<lparr>vwText := []\<rparr>"

definition missions_text :: "(string, MissionDTO) smap \<Rightarrow> string" where
  "missions_text ms = concat (map (\<lambda>u. mtoName u @ line_end) (sort_key mtoName (map snd (smRange ms))))"

text \<open>The interface is created after the first \<open>redraw\<close>, which therefore draws nothing.\<close>

definition redraw :: "MmApp \<Rightarrow> MmApp" where
  "redraw app =
     (case mmGui app of
        None \<Rightarrow> app
      | Some g \<Rightarrow>
          app\<lparr>mmGui := Some \<lparr>guMissions = map_option (\<lambda>v. Fprintf (missions_text (mmMissions app)) (Clear v)) (guMissions g),
            guMission = map_option Clear (guMission g)\<rparr>\<rparr>)"

text \<open>A point without details is a nil pointer.\<close>

fun points_text :: "MissionPointDTO list \<Rightarrow> string result" where
  "points_text [] = Inr []"
| "points_text (c # cs) =
     (case ptoDetails c of
        None \<Rightarrow> Inl nil_deref
      | Some d \<Rightarrow>
          (case points_text cs of
             Inl err \<Rightarrow> Inl err
           | Inr s \<Rightarrow> Inr (ptoData c @ '' '' @ mdType d @ '' '' @ mdCallsign d @ line_end @ s)))"

definition contents_text :: "ContentItemDTO list \<Rightarrow> string" where
  "contents_text cs = concat (map (\<lambda>c. daName (coData c) @ '' '' @ daMimeType (coData c) @ '' '' @ Itoa (daSize (coData c)) @ line_end) cs)"

definition mission_text :: "gocui \<Rightarrow> MissionDTO \<Rightarrow> string result" where
  "mission_text g m =
     (let head = ''FileName: '' @ mtoName m @ line_end @ ''Description: '' @ mtoDescription m @ line_end @
            ''Created: '' @ ft g (mtoCreateTime m) @ '' by '' @ mtoCreatorUID m @ line_end @ ''Token: '' @ mtoToken m @ line_end;
          tail = (if mtoContents m = [] then [] else line_end @ ''Content ('' @ Itoa (int (length (mtoContents m))) @ ''):'' @ line_end @
            contents_text (mtoContents m))
      in if mtoUids m = [] then Inr (head @ tail)
         else case points_text (mtoUids m) of
                Inl err \<Rightarrow> Inl err
              | Inr s \<Rightarrow> Inr (head @ line_end @ ''Points ('' @ Itoa (int (length (mtoUids m))) @ ''):'' @ line_end @ s @ tail))"

definition drawMission :: "gocui \<Rightarrow> MmApp \<Rightarrow> MmApp result" where
  "drawMission gc app =
     (case mmGui app of
        None \<Rightarrow> Inl nil_deref
      | Some g \<Rightarrow>
          (let name = (case guMissions g of None \<Rightarrow> [] | Some v \<Rightarrow> gcLine gc (vwText v) (vwCursor v));
               show_text = (\<lambda>s. app\<lparr>mmGui := Some (g\<lparr>guMission := map_option (\<lambda>v. Fprintf s (Clear v)) (guMission g)\<rparr>)\<rparr>)
           in if guMission g = None then Inr app
              else if name = [] then Inr (show_text ''no mission'')
              else case smLoad (mmMissions app) name of
                     None \<Rightarrow> Inr (show_text [])
                   | Some m \<Rightarrow> (case mission_text gc m of Inl err \<Rightarrow> Inl err | Inr s \<Rightarrow> Inr (show_text s))))"

definition new_view :: mm_view where "new_view = \<lparr>vwText = [], vwCursor = 0\<rparr>"

text \<open>\<open>SetView\<close> keeps a view that exists. The callbacks of a key and the layout of the screen are the steps.\<close>

definition layout :: "gocui \<Rightarrow> MmApp \<Rightarrow> MmApp result" where
  "layout gc app =
     (case mmGui app of
        None \<Rightarrow> Inl nil_deref
      | Some g \<Rightarrow>
          drawMission gc (app\<lparr>mmGui := Some
            \<lparr>guMissions = Some (case guMissions g of Some v \<Rightarrow> v | None \<Rightarrow> new_view),
             guMission = Some (case guMission g of Some v \<Rightarrow> v | None \<Rightarrow> new_view)\<rparr>\<rparr>))"

definition move_cursor :: "gocui \<Rightarrow> int \<Rightarrow> MmApp \<Rightarrow> MmApp result" where
  "move_cursor gc dy app =
     (case mmGui app of
        None \<Rightarrow> Inl nil_deref
      | Some g \<Rightarrow>
          drawMission gc (app\<lparr>mmGui := Some (g\<lparr>guMissions := map_option (\<lambda>v. v\<lparr>vwCursor := gcMove gc dy v\<rparr>) (guMissions g)\<rparr>)\<rparr>))"

definition cursorUp :: "gocui \<Rightarrow> MmApp \<Rightarrow> MmApp result" where "cursorUp gc = move_cursor gc (-1)"
definition cursorDown :: "gocui \<Rightarrow> MmApp \<Rightarrow> MmApp result" where "cursorDown gc = move_cursor gc 1"

text \<open>\<open>UI\<close> up to the main loop of \<open>gocui\<close>.\<close>

definition start_ui :: "mm_remote \<Rightarrow> MmApp \<Rightarrow> MmApp result" where
  "start_ui rem app =
     (case GetMissions rem (mmApi app) of
        Inl err \<Rightarrow> Inl (case err of EOF \<Rightarrow> Panic ''EOF'' | Error e \<Rightarrow> Panic e | Panic p \<Rightarrow> Panic p)
      | Inr ms \<Rightarrow>
          Inr ((redraw (app\<lparr>mmMissions := fold (\<lambda>m. smStore (mtoName m) m) ms (mmMissions app)\<rparr>))
            \<lparr>mmGui := Some \<lparr>guMissions = None, guMission = None\<rparr>\<rparr>))"

datatype ui_event = ELayout | EUp | EDown

fun ui_step :: "gocui \<Rightarrow> ui_event \<Rightarrow> MmApp \<Rightarrow> MmApp result" where
  "ui_step gc ELayout app = layout gc app"
| "ui_step gc EUp app = cursorUp gc app"
| "ui_step gc EDown app = cursorDown gc app"

fun ui_run :: "gocui \<Rightarrow> ui_event list \<Rightarrow> MmApp \<Rightarrow> MmApp result" where
  "ui_run gc [] app = Inr app"
| "ui_run gc (e # es) app = (case ui_step gc e app of Inl err \<Rightarrow> Inl err | Inr app' \<Rightarrow> ui_run gc es app')"

section \<open>The program\<close>

datatype mm_mode = ListFiles | GetOneFile string string | NeedArgs | StartUi

definition mm_Run :: "string \<Rightarrow> string list \<Rightarrow> MmApp \<Rightarrow> (MmApp \<times> mm_mode) result" where
  "mm_Run cmd args app =
     (let mode = (if cmd = ''files'' \<or> cmd = ''mp'' then ListFiles
                  else if cmd = ''file'' \<or> cmd = ''get'' then
                    (case args of [hash, name] \<Rightarrow> GetOneFile hash name | _ \<Rightarrow> NeedArgs)
                  else StartUi)
      in if mmTls app then
           (case mm_getTLSConfig False app of
              Inl err \<Rightarrow> Inl err
            | Inr _ \<Rightarrow> Inr (app\<lparr>mmApi := SetTLS (NewRemoteAPI (mmHost app))\<rparr>, mode))
         else Inr (app\<lparr>mmApi := NewRemoteAPI (mmHost app)\<rparr>, mode))"

definition mm_main ::
    "koanf \<Rightarrow> (bool \<Rightarrow> (string \<times> X509 \<times> X509 list) result) \<Rightarrow> string \<Rightarrow> string list \<Rightarrow> (MmApp \<times> mm_mode) result" where
  "mm_main k identity cmd args =
     (case mm_NewApp (kString k ''server_address'') of
        None \<Rightarrow> Inl nil_deref
      | Some app \<Rightarrow>
          (let enrol = (kString k ''ssl.enroll_user'' \<noteq> [])
           in if \<not> mmTls app then mm_Run cmd args app
              else if enrol \<and> kString k ''ssl.enroll_password'' = [] then Inl (Error ''no enroll_password'')
              else case identity enrol of
                     Inl err \<Rightarrow> Inl err
                   | Inr (key, cert, cas) \<Rightarrow>
                       mm_Run cmd args (app\<lparr>mmTlsCert := Some (key, cert), mmCas := MakeCertPool (map Some cas)\<rparr>)))"


section \<open>What the viewer shows\<close>

definition blank :: "MmApp \<Rightarrow> bool" where
  "blank app \<longleftrightarrow> (\<exists>v w. mmGui app = Some \<lparr>guMissions = Some v, guMission = Some w\<rparr> \<and> vwText v = [])"

definition shown :: "MmApp \<Rightarrow> string \<Rightarrow> string \<Rightarrow> bool" where
  "shown app missions mission \<longleftrightarrow>
     (\<exists>g v w. mmGui app = Some g \<and> guMissions g = Some v \<and> guMission g = Some w \<and> vwText v = missions \<and> vwText w = mission)"

lemma draw_blank:
  assumes "\<And>y. gcLine gc [] y = []" "blank app"
  shows "\<exists>app'. drawMission gc app = Inr app' \<and> blank app' \<and> shown app' [] ''no mission'' \<and> mmMissions app' = mmMissions app"
  using assms by (auto simp: blank_def shown_def drawMission_def Let_def Fprintf_def Clear_def)

lemma ui_step_blank:
  assumes gc: "\<And>y. gcLine gc [] y = []" and app: "blank app"
  shows "\<exists>app'. ui_step gc e app = Inr app' \<and> blank app' \<and> shown app' [] ''no mission'' \<and> mmMissions app' = mmMissions app"
proof -
  obtain v w where g: "mmGui app = Some \<lparr>guMissions = Some v, guMission = Some w\<rparr>" "vwText v = []"
    using app by (auto simp: blank_def)
  have b: "blank (app\<lparr>mmGui := Some \<lparr>guMissions = Some v', guMission = Some w\<rparr>\<rparr>)" if "vwText v' = []" for v'
    using that by (simp add: blank_def)
  show ?thesis
    using draw_blank [OF gc b [OF g(2)]] draw_blank [OF gc b [of "v\<lparr>vwCursor := gcMove gc dy v\<rparr>" for dy]] g
    by (cases e) (simp_all add: layout_def cursorUp_def cursorDown_def move_cursor_def)
qed

lemma ui_run_blank:
  assumes gc: "\<And>y. gcLine gc [] y = []"
  shows "blank app \<Longrightarrow> es \<noteq> [] \<Longrightarrow> \<exists>app'. ui_run gc es app = Inr app' \<and> shown app' [] ''no mission'' \<and> mmMissions app' = mmMissions app"
proof (induction es arbitrary: app)
  case (Cons e es)
  obtain app1 where s: "ui_step gc e app = Inr app1" "blank app1" "shown app1 [] ''no mission''" "mmMissions app1 = mmMissions app"
    using ui_step_blank [OF gc Cons.prems(1)] by blast
  then show ?case using Cons.IH [OF s(2)] by (cases es) auto
qed simp

lemma layout_first:
  assumes "\<And>y. gcLine gc [] y = []" "mmGui app = Some \<lparr>guMissions = None, guMission = None\<rparr>"
  shows "\<exists>app'. layout gc app = Inr app' \<and> blank app' \<and> shown app' [] ''no mission'' \<and> mmMissions app' = mmMissions app"
  using draw_blank [OF assms(1), of "app\<lparr>mmGui := Some \<lparr>guMissions = Some new_view, guMission = Some new_view\<rparr>\<rparr>"] assms(2)
  by (simp add: layout_def blank_def new_view_def)

lemma smLoad_fold_store:
  "distinct (map key xs) \<Longrightarrow> smLoad (fold (\<lambda>x. smStore (key x) x) xs m) k =
     (case find (\<lambda>x. key x = k) xs of Some x \<Rightarrow> Some x | None \<Rightarrow> smLoad m k)"
proof (induction xs arbitrary: m)
  case (Cons x xs)
  have "find (\<lambda>y. key y = key x) xs = None" using Cons.prems unfolding find_None_iff by simp (metis image_eqI)
  then show ?case using Cons by (auto simp: smLoad_def smStore_def update_conv' split: option.split)
qed simp

text \<open>
  C39: the viewer never shows a mission. The missions of the server are loaded, but the list is drawn only
  once, before the interface exists: whatever keys are pressed, the list stays empty and the details
  say \<open>no mission\<close>, although every mission of the server is in the table of the program.
\<close>

theorem viewer_blank:
  assumes "\<And>y. gcLine gc [] y = []" "mrMissions rem (mm_get (mmApi app) ''/Marti/api/missions'') = Inr (Some ms)"
    and "mmMissions app = []" "mmGui app = None" "distinct (map mtoName ms)"
  shows "\<exists>app0 app'. start_ui rem app = Inr app0 \<and> ui_run gc (ELayout # es) app0 = Inr app' \<and> shown app' [] ''no mission'' \<and>
     list_all (\<lambda>m. smLoad (mmMissions app') (mtoName m) = Some m) ms"
proof -
  define app1 where "app1 = app\<lparr>mmMissions := fold (\<lambda>m. smStore (mtoName m) m) ms []\<rparr>"
  let ?app0 = "app1\<lparr>mmGui := Some \<lparr>guMissions = None, guMission = None\<rparr>\<rparr>"
  have s: "start_ui rem app = Inr ?app0"
    using assms(2-4) by (simp add: start_ui_def GetMissions_def not_null_def redraw_def app1_def)
  obtain app2 where l: "layout gc ?app0 = Inr app2" "blank app2" "shown app2 [] ''no mission''" "mmMissions app2 = mmMissions app1"
    using layout_first [OF assms(1), of ?app0] by auto
  have "\<exists>app'. ui_run gc es app2 = Inr app' \<and> shown app' [] ''no mission'' \<and> mmMissions app' = mmMissions app1"
    using ui_run_blank [OF assms(1) l(2), of es] l by (cases es) auto
  moreover have "smLoad (mmMissions app1) (mtoName m) = Some m" if m: "m \<in> set ms" for m
  proof -
    have "find (\<lambda>x. mtoName x = mtoName m) ms = Some m"
      using m assms(5) by (induction ms) auto
    then show ?thesis using assms(5) by (simp add: app1_def smLoad_fold_store)
  qed
  ultimately show ?thesis using s l(1) by (auto simp: list_all_iff)
qed

definition example_mission :: MissionDTO where
  "example_mission = \<lparr>mtoName = ''Alpha'', mtoScope = [], mtoCreatorUID = [], mtoCreateTime = 0, mtoLastEdit = 0, mtoBaseLayer = [],
     mtoBbox = [], mtoChatRoom = [], mtoClassification = [], mtoDefaultRole = \<lparr>rlType = [], rlPermissions = []\<rparr>,
     mtoOwnerRole = \<lparr>rlType = [], rlPermissions = []\<rparr>, mtoDescription = [], mtoExpiration = 0, mtoInviteOnly = False,
     mtoKeywords = [], mtoPasswordProtected = False, mtoPath = [], mtoTool = [], mtoUids = [], mtoContents = [], mtoToken = []\<rparr>"

definition example_remote :: mm_remote where
  "example_remote = \<lparr>mrContacts = (\<lambda>_. Inl EOF), mrMissions = (\<lambda>q. if mqUrl q = ''http://tak:8080/Marti/api/missions'' then
     Inr (Some [example_mission]) else Inl EOF), mrStrings = (\<lambda>_. Inl EOF), mrPackages = (\<lambda>_. Inl EOF), mrBody = (\<lambda>_. Inl EOF)\<rparr>"

definition example_gocui :: gocui where
  "example_gocui = \<lparr>gcLine = (\<lambda>s y. if s = [] then [] else s), gcMove = (\<lambda>dy v. vwCursor v), gcFormat = (\<lambda>_. [])\<rparr>"

theorem viewer_blank_witness:
  "\<exists>app0 app'. mm_Run [] [] (the (mm_NewApp ''tak:8087:tcp'')) = Inr (the (mm_NewApp ''tak:8087:tcp'')\<lparr>mmApi := NewRemoteAPI ''tak''\<rparr>, StartUi) \<and>
     start_ui example_remote (the (mm_NewApp ''tak:8087:tcp'')\<lparr>mmApi := NewRemoteAPI ''tak''\<rparr>) = Inr app0 \<and>
     ui_run example_gocui [ELayout, EDown, EUp] app0 = Inr app' \<and> shown app' [] ''no mission'' \<and>
     smLoad (mmMissions app') ''Alpha'' = Some example_mission"
proof -
  let ?a = "the (mm_NewApp ''tak:8087:tcp'')"
  have a: "mm_NewApp ''tak:8087:tcp'' = Some \<lparr>mmHost = ''tak'', mmTls = False, mmTlsCert = None, mmCas = [], mmApi = NewRemoteAPI [],
      mmMissions = [], mmGui = None\<rparr>"
    by code_simp
  have r: "mm_Run [] [] ?a = Inr (?a\<lparr>mmApi := NewRemoteAPI ''tak''\<rparr>, StartUi)" by (simp add: a mm_Run_def)
  have "mrMissions example_remote (mm_get (mmApi (?a\<lparr>mmApi := NewRemoteAPI ''tak''\<rparr>)) ''/Marti/api/missions'') = Inr (Some [example_mission])"
    by (simp add: example_remote_def mm_get_def mm_getURL_def NewRemoteAPI_def)
  from viewer_blank [OF _ this, of example_gocui "[EDown, EUp]"]
  obtain app0 app' where "start_ui example_remote (?a\<lparr>mmApi := NewRemoteAPI ''tak''\<rparr>) = Inr app0"
      "ui_run example_gocui [ELayout, EDown, EUp] app0 = Inr app'" "shown app' [] ''no mission''"
      "list_all (\<lambda>m. smLoad (mmMissions app') (mtoName m) = Some m) [example_mission]"
    by (auto simp: example_gocui_def a)
  then show ?thesis using r by (intro exI conjI) (simp_all add: example_mission_def)
qed

end
