(* ===== verification/CoordStrings.thy ===== *)
theory CoordStrings
  imports GoRuntime
begin

text \<open>
  \<open>pkg/coord/strings.go\<close>: coordinates from text. Of Go's regular expressions the file uses
  sequences of greedy repetitions of character classes with capture groups; the matcher below
  gives the match Go's \<open>regexp\<close> prefers: the leftmost one, and of those the one a backtracking
  search that tries the longest repetition first finds first. \<open>ParseFloat\<close> and the conversion from the
  SK-42 system (\<open>sk42.go\<close>, floating-point geodesy) are parameters.
\<close>

section \<open>Regular expressions\<close>

datatype re_item = Rep "char \<Rightarrow> bool" nat "nat option" | GroupStart | GroupEnd

text \<open>The numbers of characters a repetition may take of a text, in the order of preference.\<close>

definition rep_counts :: "(char \<Rightarrow> bool) \<Rightarrow> nat \<Rightarrow> nat option \<Rightarrow> string \<Rightarrow> nat list" where
  "rep_counts p lo hi s =
     (let n = length (takeWhile p s); m = (case hi of None \<Rightarrow> n | Some h \<Rightarrow> min h n)
      in rev [lo..<Suc m])"

fun first_some :: "('a \<Rightarrow> 'b option) \<Rightarrow> 'a list \<Rightarrow> 'b option" where
  "first_some f [] = None"
| "first_some f (x # xs) = (case f x of Some y \<Rightarrow> Some y | None \<Rightarrow> first_some f xs)"

lemma first_some_cong [fundef_cong]:
  "xs = ys \<Longrightarrow> (\<And>x. x \<in> set ys \<Longrightarrow> f x = g x) \<Longrightarrow> first_some f xs = first_some g ys"
  by (induction ys arbitrary: xs) (auto split: option.split)

text \<open>\<open>cur\<close> is the text of the open group; the result are the texts of the groups.\<close>

fun match_items :: "re_item list \<Rightarrow> string \<Rightarrow> string \<Rightarrow> string list option" where
  "match_items [] s cur = Some []"
| "match_items (GroupStart # its) s cur = match_items its s []"
| "match_items (GroupEnd # its) s cur = map_option (\<lambda>gs. cur # gs) (match_items its s [])"
| "match_items (Rep p lo hi # its) s cur =
     first_some (\<lambda>n. match_items its (drop n s) (cur @ take n s)) (rep_counts p lo hi s)"

fun FindStringSubmatch :: "re_item list \<Rightarrow> string \<Rightarrow> string list option" where
  "FindStringSubmatch its s =
     (case match_items its s [] of
        Some gs \<Rightarrow> Some gs
      | None \<Rightarrow> (case s of [] \<Rightarrow> None | _ # s' \<Rightarrow> FindStringSubmatch its s'))"

declare FindStringSubmatch.simps [simp del]

section \<open>The three forms\<close>

definition re_digit :: "char \<Rightarrow> bool" where "re_digit c \<longleftrightarrow> c \<in> set ''0123456789''"

definition re_sep :: "char \<Rightarrow> bool" where
  "re_sep c \<longleftrightarrow> c \<in> set ('';, '' @ [CHR 0x09, CHR 0x0A, CHR 0x0C, CHR 0x0D])"

definition one :: "string \<Rightarrow> re_item" where "one cs = Rep (\<lambda>c. c \<in> set cs) 1 (Some 1)"
definition opt :: "string \<Rightarrow> re_item" where "opt cs = Rep (\<lambda>c. c \<in> set cs) 0 (Some 1)"
definition digits :: "nat \<Rightarrow> re_item" where "digits n = Rep re_digit n None"
definition seps :: re_item where "seps = Rep re_sep 0 None"

definition r1 :: "re_item list" where
  "r1 = [one ''xX'', opt ''='', GroupStart, digits 5, GroupEnd, seps, one ''yY'', opt ''='', GroupStart, digits 5, GroupEnd]"

definition r2 :: "re_item list" where
  "r2 = [GroupStart, opt ''-'', digits 1, one ''.'', digits 1, GroupEnd, seps,
         GroupStart, opt ''-'', digits 1, one ''.'', digits 1, GroupEnd]"

definition r3 :: "re_item list" where
  "r3 = [GroupStart, digits 1, one ''.'', digits 1, GroupEnd, GroupStart, one ''nNsS'', GroupEnd, seps,
         GroupStart, digits 1, one ''.'', digits 1, GroupEnd, GroupStart, one ''eEwW'', GroupEnd]"

section \<open>StringToLatLon\<close>

definition f_neg :: "f64 \<Rightarrow> f64" where "f_neg x = x XOR 0x8000000000000000"

definition atoi_result :: "string \<Rightarrow> int result" where
  "atoi_result s = (case Atoi s of Some i \<Rightarrow> Inr i | None \<Rightarrow> Inl (Error (''strconv.Atoi: parsing '' @ s)))"

text \<open>A text of none of the three forms gives the point zero and no error.\<close>

definition StringToLatLon :: "(string \<Rightarrow> f64 result) \<Rightarrow> (int \<Rightarrow> int \<Rightarrow> f64 \<times> f64) \<Rightarrow> string \<Rightarrow> (f64 \<times> f64) result" where
  "StringToLatLon ParseFloat Sk42_wgs s0 =
     (let s = Trim s0 ('' '' @ [CHR 0x09, CHR 0x0A, CHR 0x0D] @ ''.,'')
      in case FindStringSubmatch r1 s of
           Some res \<Rightarrow>
             (case atoi_result (res ! 0) of
                Inl err \<Rightarrow> Inl err
              | Inr x \<Rightarrow> (case atoi_result (res ! 1) of Inl err \<Rightarrow> Inl err | Inr y \<Rightarrow> Inr (Sk42_wgs x y)))
         | None \<Rightarrow>
             (case FindStringSubmatch r2 s of
                Some res \<Rightarrow>
                  (case ParseFloat (res ! 0) of
                     Inl err \<Rightarrow> Inl err
                   | Inr lat \<Rightarrow> (case ParseFloat (res ! 1) of Inl err \<Rightarrow> Inl err | Inr lon \<Rightarrow> Inr (lat, lon)))
              | None \<Rightarrow>
                  (case FindStringSubmatch r3 s of
                     Some res \<Rightarrow>
                       (case ParseFloat (res ! 0) of
                          Inl err \<Rightarrow> Inl err
                        | Inr lat0 \<Rightarrow>
                            (let lat = (if res ! 1 = ''S'' \<or> res ! 1 = ''s'' then f_neg lat0 else lat0)
                             in case ParseFloat (res ! 2) of
                                  Inl err \<Rightarrow> Inl err
                                | Inr lon0 \<Rightarrow> Inr (lat, if res ! 3 = ''W'' \<or> res ! 3 = ''w'' then f_neg lon0 else lon0)))
                   | None \<Rightarrow> Inr (0, 0))))"

section \<open>Matching\<close>

lemma rep_counts_set: "n \<in> set (rep_counts p lo hi s) \<Longrightarrow> n \<le> length (takeWhile p s)"
  by (auto simp: rep_counts_def Let_def split: option.splits)

lemma first_some_Some: "first_some f xs = Some y \<Longrightarrow> \<exists>x \<in> set xs. f x = Some y"
  by (induction xs) (auto split: option.splits)

text \<open>A repetition takes as much as it can when the rest then matches.\<close>

lemma match_greedy:
  assumes "list_all p t" "r = [] \<or> \<not> p (hd r)" "lo \<le> length t" "match_items its r (cur @ t) = Some gs"
  shows "match_items (Rep p lo None # its) (t @ r) cur = Some gs"
proof -
  have "takeWhile p (t @ r) = t" using assms(1,2) by (cases r) (auto simp: takeWhile_append list_all_iff)
  then have "rep_counts p lo None (t @ r) = length t # rev [lo..<length t]"
    using assms(3) by (simp add: rep_counts_def Let_def)
  then show ?thesis using assms(4) by simp
qed

lemma match_one: "c \<in> set cs \<Longrightarrow> match_items (one cs # its) (c # r) cur = match_items its r (cur @ [c])"
  by (simp add: one_def rep_counts_def min_def split: option.split)

lemma match_opt_none: "r = [] \<or> hd r \<notin> set cs \<Longrightarrow> match_items (opt cs # its) r cur = match_items its r cur"
  by (cases r) (simp_all add: opt_def rep_counts_def split: option.split)

lemma match_opt_some:
  "c \<in> set cs \<Longrightarrow> match_items its r (cur @ [c]) = Some gs \<Longrightarrow> match_items (opt cs # its) (c # r) cur = Some gs"
  by (simp add: opt_def rep_counts_def min_def)

text \<open>
  What a match took consists of characters of the classes, and has at least as many dots as the
  expression has items that match a dot alone.
\<close>

fun within :: "(char \<Rightarrow> bool) \<Rightarrow> re_item \<Rightarrow> bool" where
  "within P (Rep p lo hi) \<longleftrightarrow> (\<forall>c. p c \<longrightarrow> P c)"
| "within P g \<longleftrightarrow> True"

definition dots :: "string \<Rightarrow> nat" where "dots s = length (filter (\<lambda>c. c = CHR ''.'') s)"

fun dot_items :: "re_item list \<Rightarrow> nat" where
  "dot_items [] = 0"
| "dot_items (Rep p lo hi # its) = (if lo = 1 \<and> p (CHR ''.'') then Suc (dot_items its) else dot_items its)"
| "dot_items (g # its) = dot_items its"

definition dot_pure :: "re_item \<Rightarrow> bool" where
  "dot_pure it \<longleftrightarrow> (case it of Rep p lo hi \<Rightarrow> lo = 1 \<and> p (CHR ''.'') \<longrightarrow> (\<forall>c. p c \<longrightarrow> c = CHR ''.'') | _ \<Rightarrow> True)"

lemma match_dots:
  "match_items its s cur = Some gs \<Longrightarrow> list_all (within P) its \<Longrightarrow> list_all dot_pure its \<Longrightarrow> dot_items its \<le> dots (takeWhile P s)"
proof (induction its s cur arbitrary: gs rule: match_items.induct)
  case (4 p lo hi its s cur)
  have "first_some (\<lambda>n. match_items its (drop n s) (cur @ take n s)) (rep_counts p lo hi s) = Some gs"
    using "4.prems"(1) by (simp only: match_items.simps)
  from first_some_Some [OF this]
  obtain n where n: "n \<in> set (rep_counts p lo hi s)" "match_items its (drop n s) (cur @ take n s) = Some gs" by blast
  have IH: "dot_items its \<le> dots (takeWhile P (drop n s))" by (rule "4.IH" [OF n]) (use "4.prems"(2,3) in simp_all)
  have n': "n \<le> length (takeWhile p s)" by (rule rep_counts_set [OF n(1)])
  have "take n (takeWhile p s) = take n (take (length (takeWhile p s)) s)" by (subst takeWhile_eq_take) (rule refl)
  then have "take n s = take n (takeWhile p s)" using n' by (simp add: min_def)
  then have p: "c \<in> set (take n s) \<Longrightarrow> p c" for c using in_set_takeD [of c n "takeWhile p s"] set_takeWhileD [of c p s] by simp
  then have "c \<in> set (take n s) \<Longrightarrow> P c" for c using "4.prems"(2) by simp
  then have "takeWhile P (take n s @ drop n s) = take n s @ takeWhile P (drop n s)" by (rule takeWhile_append2)
  then have d: "dots (takeWhile P s) = dots (take n s) + dots (takeWhile P (drop n s))" by (simp add: dots_def)
  have "1 \<le> dots (take n s)" if "lo = 1" "p (CHR ''.'')"
  proof -
    have "1 \<le> n" using n(1) that(1) by (auto simp: rep_counts_def Let_def split: option.splits)
    have "\<forall>c. p c \<longrightarrow> c = CHR ''.''" using "4.prems"(3) that by (simp add: dot_pure_def)
    then have "filter (\<lambda>c. c = CHR ''.'') (take n s) = take n s" using p by (intro filter_True) blast
    then have "dots (take n s) = min n (length s)" by (simp only: dots_def length_take)
    moreover have "n \<le> length s" using n' length_takeWhile_le [of p s] by linarith
    ultimately show ?thesis using \<open>1 \<le> n\<close> by simp
  qed
  then have "(if lo = 1 \<and> p (CHR ''.'') then 1 else 0) \<le> dots (take n s)" by simp
  then show ?case using IH d by (auto split: if_split_asm)
qed auto

lemma find_none:
  "(\<And>u. suffix u s \<Longrightarrow> match_items its u [] = None) \<Longrightarrow> FindStringSubmatch its s = None"
proof (induction s)
  case (Cons c s)
  have "match_items its (c # s) [] = None" by (rule Cons.prems) simp
  moreover have "FindStringSubmatch its s = None" using Cons.prems by (intro Cons.IH) (simp add: suffix_ConsI)
  ultimately show ?case by (subst FindStringSubmatch.simps) simp
next
  case Nil
  show ?case using Nil [of "[]"] by (subst FindStringSubmatch.simps) simp
qed

lemma find_here: "match_items its s [] = Some gs \<Longrightarrow> FindStringSubmatch its s = Some gs"
  by (subst FindStringSubmatch.simps) simp

section \<open>Coordinates\<close>

definition decimal :: "string \<Rightarrow> bool" where
  "decimal t \<longleftrightarrow> (\<exists>a b. t = a @ ''.'' @ b \<and> a \<noteq> [] \<and> b \<noteq> [] \<and> list_all re_digit a \<and> list_all re_digit b)"

lemma decimal_chars: "decimal t \<Longrightarrow> c \<in> set t \<Longrightarrow> re_digit c \<or> c = CHR ''.''"
  by (auto simp: decimal_def list_all_iff)

lemma decimal_dots:
  assumes "decimal t"
  shows "dots t = 1"
proof -
  obtain a b where t: "t = a @ ''.'' @ b" "list_all re_digit a" "list_all re_digit b" using assms unfolding decimal_def by blast
  have "\<not> re_digit CHR ''.''" by (simp add: re_digit_def)
  then have "filter (\<lambda>c. c = CHR ''.'') u = []" if "list_all re_digit u" for u
    using that unfolding filter_empty_conv list_all_iff by blast
  then show ?thesis using t(2,3) unfolding t(1) dots_def by simp
qed

lemma match_decimal:
  assumes "decimal t" "r = [] \<or> \<not> re_digit (hd r)" "match_items its r (cur @ t) = Some gs"
  shows "match_items (digits 1 # one ''.'' # digits 1 # its) (t @ r) cur = Some gs"
proof -
  obtain a b where t: "t = a @ ''.'' @ b" "a \<noteq> []" "b \<noteq> []" "list_all re_digit a" "list_all re_digit b"
    using assms(1) unfolding decimal_def by blast
  have len: "1 \<le> length a" "1 \<le> length b" using t(2,3) by (simp_all add: Suc_le_eq)
  have "match_items its r ((cur @ a @ ''.'') @ b) = Some gs" using assms(3) unfolding t(1) by simp
  note m1 = match_greedy [OF t(5) assms(2) len(2) this]
  have "match_items (one ''.'' # digits 1 # its) (CHR ''.'' # b @ r) (cur @ a) = match_items (digits 1 # its) (b @ r) ((cur @ a) @ [CHR ''.''])"
    by (rule match_one) simp
  then have m2: "match_items (one ''.'' # digits 1 # its) (CHR ''.'' # b @ r) (cur @ a) = Some gs" using m1 unfolding digits_def append_assoc by (rule trans)
  have "\<not> re_digit (hd (CHR ''.'' # b @ r))" by (simp add: re_digit_def)
  then have "match_items (digits 1 # one ''.'' # digits 1 # its) (a @ CHR ''.'' # b @ r) cur = Some gs"
    unfolding digits_def by (intro match_greedy [OF t(4) _ len(1) m2 [unfolded digits_def]] disjI2)
  then show ?thesis unfolding t(1) by (simp only: append_assoc append_Cons append_Nil)
qed

lemma no_r1: "CHR ''x'' \<notin> set s \<Longrightarrow> CHR ''X'' \<notin> set s \<Longrightarrow> FindStringSubmatch r1 s = None"
proof (rule find_none)
  fix u
  assume "CHR ''x'' \<notin> set s" "CHR ''X'' \<notin> set s" "suffix u s"
  then have "CHR ''x'' \<notin> set u" "CHR ''X'' \<notin> set u" by (auto dest: set_mono_suffix)
  then have "rep_counts (\<lambda>c. c \<in> set ''xX'') 1 (Some 1) u = []" by (cases u) (auto simp: rep_counts_def)
  then show "match_items r1 u [] = None" by (simp add: r1_def one_def)
qed

lemma Trim_id:
  assumes "s \<noteq> []" "hd s \<notin> set cs" "last s \<notin> set cs"
  shows "Trim s cs = s"
proof -
  have "dropWhile (\<lambda>c. c \<in> set cs) s = s" using assms(1,2) by (cases s) simp_all
  moreover have "dropWhile (\<lambda>c. c \<in> set cs) (rev s) = rev s" using assms(1,3) by (cases s rule: rev_cases) simp_all
  ultimately show ?thesis by (simp add: Trim_def TrimLeft_def TrimRight_def)
qed

text \<open>Characters that stand in coordinates and those that \<open>Trim\<close> cuts off.\<close>

lemma decimal_ends:
  assumes "decimal t"
  shows "t \<noteq> []" "re_digit (hd t)" "re_digit (last t)"
proof -
  obtain a b where "t = a @ ''.'' @ b" "a \<noteq> []" "b \<noteq> []" "list_all re_digit a" "list_all re_digit b"
    using assms unfolding decimal_def by blast
  then show "t \<noteq> []" "re_digit (hd t)" "re_digit (last t)" by (cases a; cases b rule: rev_cases; simp)+
qed

lemma digit_facts:
  "re_digit c \<Longrightarrow> c \<notin> set ('' '' @ [CHR 0x09, CHR 0x0A, CHR 0x0D] @ ''.,'')"
  "re_digit c \<Longrightarrow> c \<noteq> CHR ''-'' \<and> c \<noteq> CHR ''.'' \<and> c \<noteq> CHR ''x'' \<and> c \<noteq> CHR ''X'' \<and> \<not> re_sep c"
  "re_sep c \<Longrightarrow> \<not> re_digit c \<and> c \<noteq> CHR ''-'' \<and> c \<noteq> CHR ''.'' \<and> c \<noteq> CHR ''x'' \<and> c \<noteq> CHR ''X''"
  unfolding re_digit_def re_sep_def by auto

lemma match_signed:
  assumes "m = [] \<or> m = ''-''" "decimal t" "r = [] \<or> \<not> re_digit (hd r)" "match_items its r (cur @ m @ t) = Some gs"
  shows "match_items (opt ''-'' # digits 1 # one ''.'' # digits 1 # its) (m @ t @ r) cur = Some gs"
proof (cases "m = []")
  case True
  have "hd (t @ r) \<notin> set ''-''" using decimal_ends [OF assms(2)] digit_facts(2) [of "hd t"] by simp
  then show ?thesis using match_decimal [OF assms(2,3), of its cur gs] assms(4) True
    by (simp only: append_Nil match_opt_none simp_thms)
next
  case False
  then have m: "m = ''-''" using assms(1) by simp
  have "match_items (digits 1 # one ''.'' # digits 1 # its) (t @ r) (cur @ ''-'') = Some gs"
    using match_decimal [OF assms(2,3), of its "cur @ ''-''" gs] assms(4) by (simp only: m append_assoc)
  then show ?thesis unfolding m by (simp only: append_Cons append_Nil) (rule match_opt_some, simp_all del: match_items.simps)
qed

lemma match_seps:
  assumes "list_all re_sep sp" "r \<noteq> []" "\<not> re_sep (hd r)" "match_items its r (cur @ sp) = Some gs"
  shows "match_items (seps # its) (sp @ r) cur = Some gs"
  unfolding seps_def by (rule match_greedy) (use assms in simp_all)

lemma r2_matches:
  assumes "m1 = [] \<or> m1 = ''-''" "m2 = [] \<or> m2 = ''-''" "decimal a" "decimal b" "list_all re_sep sp" "sp \<noteq> []"
  shows "FindStringSubmatch r2 (m1 @ a @ sp @ m2 @ b) = Some [m1 @ a, m2 @ b]"
proof (rule find_here)
  have "match_items [GroupEnd] [] (m2 @ b) = Some [m2 @ b]" by simp
  then have "match_items [opt ''-'', digits 1, one ''.'', digits 1, GroupEnd] (m2 @ b @ []) [] = Some [m2 @ b]"
    by (intro match_signed [OF assms(2,4)]) simp_all
  then have g2: "match_items (GroupStart # [opt ''-'', digits 1, one ''.'', digits 1, GroupEnd]) (m2 @ b) ([] @ sp) = Some [m2 @ b]" by simp
  have hd2: "m2 @ b \<noteq> []" "\<not> re_sep (hd (m2 @ b))"
    using assms(2) decimal_ends [OF assms(4)] digit_facts(2) [of "hd b"] by (auto simp: re_sep_def)
  have "match_items (seps # GroupStart # [opt ''-'', digits 1, one ''.'', digits 1, GroupEnd]) (sp @ m2 @ b) [] = Some [m2 @ b]"
    by (rule match_seps [OF assms(5) hd2 g2])
  then have g1: "match_items (GroupEnd # seps # GroupStart # [opt ''-'', digits 1, one ''.'', digits 1, GroupEnd]) (sp @ m2 @ b) ([] @ m1 @ a) = Some [m1 @ a, m2 @ b]"
    by simp
  have "\<not> re_digit (hd (sp @ m2 @ b))" using assms(5,6) digit_facts(3) [of "hd sp"] by (cases sp) simp_all
  from match_signed [OF assms(1,3) disjI2 [OF this] g1]
  show "match_items r2 (m1 @ a @ sp @ m2 @ b) [] = Some [m1 @ a, m2 @ b]" by (simp add: r2_def del: match_items.simps(4))
qed


lemma r3_matches:
  assumes "decimal a" "decimal b" "list_all re_sep sp" "h1 \<in> set ''nNsS''" "h2 \<in> set ''eEwW''"
  shows "FindStringSubmatch r3 (a @ h1 # sp @ b @ [h2]) = Some [a, [h1], b, [h2]]"
proof (rule find_here)
  have h: "\<not> re_digit h1" "\<not> re_digit h2" using assms(4,5) by (auto simp: re_digit_def)
  have "match_items [one ''eEwW'', GroupEnd] [h2] [] = Some [[h2]]" by (subst match_one [OF assms(5)]) simp
  then have "match_items (GroupEnd # GroupStart # [one ''eEwW'', GroupEnd]) [h2] ([] @ b) = Some [b, [h2]]" by simp
  from match_decimal [OF assms(2) _ this] h(2)
  have g: "match_items (GroupStart # [digits 1, one ''.'', digits 1, GroupEnd, GroupStart, one ''eEwW'', GroupEnd]) (b @ [h2]) ([] @ sp) = Some [b, [h2]]"
    by simp
  have "match_items (seps # GroupStart # [digits 1, one ''.'', digits 1, GroupEnd, GroupStart, one ''eEwW'', GroupEnd]) (sp @ b @ [h2]) [] = Some [b, [h2]]"
    using decimal_ends [OF assms(2)] digit_facts(2) [of "hd b"] by (intro match_seps [OF assms(3) _ _ g]) (cases b; simp)+
  then have "match_items (one ''nNsS'' # GroupEnd # seps # GroupStart # [digits 1, one ''.'', digits 1, GroupEnd, GroupStart, one ''eEwW'', GroupEnd])
      (h1 # sp @ b @ [h2]) [] = Some [[h1], b, [h2]]"
    by (subst match_one [OF assms(4)]) simp
  then have "match_items (GroupEnd # GroupStart # one ''nNsS'' # GroupEnd # seps # GroupStart #
      [digits 1, one ''.'', digits 1, GroupEnd, GroupStart, one ''eEwW'', GroupEnd]) (h1 # sp @ b @ [h2]) ([] @ a) = Some [a, [h1], b, [h2]]"
    by simp
  from match_decimal [OF assms(1) disjI2 this] h(1)
  show "match_items r3 (a @ h1 # sp @ b @ [h2]) [] = Some [a, [h1], b, [h2]]" by (simp add: r3_def del: match_items.simps(4))
qed

definition r2_char :: "char \<Rightarrow> bool" where "r2_char c \<longleftrightarrow> re_digit c \<or> re_sep c \<or> c = CHR ''-'' \<or> c = CHR ''.''"

lemma r2_needs_dots: "match_items r2 u [] = Some gs \<Longrightarrow> 2 \<le> dots (takeWhile r2_char u)"
proof -
  assume m: "match_items r2 u [] = Some gs"
  have "\<not> re_digit CHR ''.''" "\<not> re_sep CHR ''.''" by (simp_all add: re_digit_def re_sep_def)
  then have "list_all (within r2_char) r2" "list_all dot_pure r2" "dot_items r2 = 2"
    by (simp_all add: r2_def one_def opt_def digits_def seps_def r2_char_def dot_pure_def)
  with match_dots [OF m this(1,2)] show ?thesis by simp
qed

lemma dots_until:
  assumes "suffix v t" "list_all r2_char t" "\<not> r2_char h"
  shows "dots (takeWhile r2_char (v @ h # w)) \<le> dots t"
proof -
  obtain p where "t = p @ v" using assms(1) by (auto simp: suffix_def)
  moreover have "takeWhile r2_char (v @ h # w) = v" using assms calculation by (simp add: takeWhile_append list_all_iff)
  ultimately show ?thesis by (simp add: dots_def)
qed

lemma no_r2:
  assumes "decimal a" "decimal b" "list_all re_sep sp" "h1 \<in> set ''nNsS''" "h2 \<in> set ''eEwW''"
  shows "FindStringSubmatch r2 (a @ h1 # sp @ b @ [h2]) = None"
proof (rule find_none)
  fix u
  assume u: "suffix u (a @ h1 # sp @ b @ [h2])"
  have h: "\<not> r2_char h1" "\<not> r2_char h2" using assms(4,5) by (auto simp: r2_char_def re_digit_def re_sep_def)
  have a: "list_all r2_char a" "list_all r2_char (sp @ b)"
    using decimal_chars [OF assms(1)] decimal_chars [OF assms(2)] assms(3) by (auto simp: list_all_iff r2_char_def)
  have "dots sp = 0" using assms(3) digit_facts(3) by (auto simp: dots_def filter_empty_conv list_all_iff)
  then have d: "dots a = 1" "dots (sp @ b) = 1" using decimal_dots assms(1,2) by (simp_all add: dots_def)
  consider v where "u = v @ h1 # sp @ b @ [h2]" "suffix v a" | v where "u = v @ h2 # []" "suffix v (sp @ b)" | "u = []"
    using u by (auto simp: suffix_append suffix_Cons)
  then have "dots (takeWhile r2_char u) \<le> 1"
  proof cases
    case 1
    then show ?thesis using dots_until [OF 1(2) a(1) h(1)] d(1) by simp
  next
    case 2
    then show ?thesis using dots_until [OF 2(2) a(2) h(2)] d(2) by simp
  qed (simp add: dots_def)
  then show "match_items r2 u [] = None" using r2_needs_dots [of u] by (cases "match_items r2 u []") auto
qed

text \<open>
  C40: coordinates are read as they are written. Two decimal numbers, with or without a sign, apart by
  commas, semicolons or blanks, are latitude and longitude; with letters for the hemispheres
  the number has the opposite sign for south and west, and the blanks may be missing.
\<close>

theorem coordinates_read:
  assumes "decimal a" "decimal b" "list_all re_sep sp" "h1 \<in> set ''nNsS''" "h2 \<in> set ''eEwW''"
    and "m1 = [] \<or> m1 = ''-''" "m2 = [] \<or> m2 = ''-''" and "sp' \<noteq> []" "list_all re_sep sp'"
    and "ParseFloat a = Inr x" "ParseFloat b = Inr y" "ParseFloat (m1 @ a) = Inr x'" "ParseFloat (m2 @ b) = Inr y'"
  shows "StringToLatLon ParseFloat sk (m1 @ a @ sp' @ m2 @ b) = Inr (x', y') \<and>
     StringToLatLon ParseFloat sk (a @ h1 # sp @ b @ [h2]) =
       Inr (if h1 \<in> set ''sS'' then f_neg x else x, if h2 \<in> set ''wW'' then f_neg y else y)"
proof
  let ?cut = "'' '' @ [CHR 0x09, CHR 0x0A, CHR 0x0D] @ ''.,''"
  let ?s = "m1 @ a @ sp' @ m2 @ b" and ?t = "a @ h1 # sp @ b @ [h2]"
  note ends = decimal_ends [OF assms(1)] decimal_ends [OF assms(2)]
  have "hd ?s \<notin> set ?cut" "last ?s \<notin> set ?cut"
    using assms(6,7) ends digit_facts(1) [of "hd a"] digit_facts(1) [of "last b"] by auto
  then have s: "Trim ?s ?cut = ?s" using ends by (intro Trim_id) simp_all
  have "hd ?t \<notin> set ?cut" "last ?t \<notin> set ?cut"
    using assms(5) ends digit_facts(1) [of "hd a"] by auto
  then have t: "Trim ?t ?cut = ?t" using ends by (intro Trim_id) simp_all
  have c: "c \<noteq> CHR ''x'' \<and> c \<noteq> CHR ''X''" if "c \<in> set a \<union> set b \<union> set sp \<union> set sp'" for c
    using that decimal_chars [OF assms(1), of c] decimal_chars [OF assms(2), of c] digit_facts(2,3) [of c] assms(3,9)
    by (auto simp: list_all_iff)
  have "FindStringSubmatch r1 ?s = None" by (rule no_r1) (use c assms(6,7) in auto)
  then show "StringToLatLon ParseFloat sk ?s = Inr (x', y')"
    unfolding StringToLatLon_def s Let_def
    by (simp only: r2_matches [OF assms(6,7,1,2,9,8)] option.case nth_Cons_0 nth_Cons_Suc One_nat_def assms(12,13) sum.case)
  have "FindStringSubmatch r1 ?t = None" by (rule no_r1) (use c assms(4,5) in auto)
  then show "StringToLatLon ParseFloat sk ?t =
      Inr (if h1 \<in> set ''sS'' then f_neg x else x, if h2 \<in> set ''wW'' then f_neg y else y)"
    unfolding StringToLatLon_def t Let_def no_r2 [OF assms(1-5)] r3_matches [OF assms(1-5)]
    by (simp add: assms(10,11))
qed

theorem coordinates_read_witness:
  "StringToLatLon (\<lambda>t. if t = ''-35.14'' then Inr 7 else Inr (if t = ''51.49'' then 5 else 3)) (\<lambda>_ _. (0, 0)) ''51.49,  -35.14'' = Inr (5, 7) \<and>
   StringToLatLon (\<lambda>t. if t = ''-35.14'' then Inr 7 else Inr (if t = ''51.49'' then 5 else 3)) (\<lambda>_ _. (0, 0)) ''51.49N,35.14w'' = Inr (5, f_neg 3)"
proof -
  have "decimal ''51.49''" unfolding decimal_def by (intro exI [of _ "''51''"] exI [of _ "''49''"]) (simp add: re_digit_def)
  moreover have "decimal ''35.14''" unfolding decimal_def by (intro exI [of _ "''35''"] exI [of _ "''14''"]) (simp add: re_digit_def)
  ultimately show ?thesis
    using coordinates_read [of "''51.49''" "''35.14''" "'',''" "CHR ''N''" "CHR ''w''" "[]" "''-''" "'',  ''"
        "\<lambda>t. if t = ''-35.14'' then Inr 7 else Inr (if t = ''51.49'' then 5 else 3)" 5 3 5 7 "\<lambda>_ _. (0, 0)"]
    by (simp add: re_sep_def)
qed

text \<open>A text of another form, whole degrees for example, is the point zero.\<close>

lemma coordinates_unread: "StringToLatLon p sk ''59, 30'' = Inr (0, 0)"
proof -
  have "FindStringSubmatch r1 ''59, 30'' = None" "FindStringSubmatch r2 ''59, 30'' = None" "FindStringSubmatch r3 ''59, 30'' = None"
    "Trim ''59, 30'' ('' '' @ [CHR 0x09, CHR 0x0A, CHR 0x0D] @ ''.,'') = ''59, 30''"
    by code_simp+
  then show ?thesis by (simp add: StringToLatLon_def)
qed

end
