(* ===== verification/Logging.thy ===== *)
theory Logging
  imports HttpModel
begin

text \<open>
  \<open>pkg/log\<close>: the middleware that logs HTTP requests (\<open>fiber_logger.go\<close>) and the handler that prints the
  records of \<open>log/slog\<close> in colour (\<open>prettylog.go\<close>). The JSON handler of \<open>slog\<close> behind it, the parsing and
  printing of JSON and the form of the time are parameters.
\<close>

section \<open>Levels\<close>

definition LevelDebug :: int where "LevelDebug = -4"
definition LevelInfo :: int where "LevelInfo = 0"
definition LevelWarn :: int where "LevelWarn = 4"
definition LevelError :: int where "LevelError = 8"

lemmas slog_levels = LevelDebug_def LevelInfo_def LevelWarn_def LevelError_def

definition level_name :: "string \<Rightarrow> int \<Rightarrow> string" where
  "level_name base v = (if v = 0 then base else base @ (if 0 < v then ''+'' else []) @ Itoa v)"

definition Level_String :: "int \<Rightarrow> string" where
  "Level_String l =
     (if l < LevelInfo then level_name ''DEBUG'' (l - LevelDebug)
      else if l < LevelWarn then level_name ''INFO'' (l - LevelInfo)
      else if l < LevelError then level_name ''WARN'' (l - LevelWarn)
      else level_name ''ERROR'' (l - LevelError))"

section \<open>Requests\<close>

record LoggerConfig =
  lcName :: string
  lcHasUser :: bool
  lcLevel :: int

definition default_config :: LoggerConfig where
  "default_config = \<lparr>lcName = ''http'', lcHasUser = False, lcLevel = LevelInfo\<rparr>"

record log_line =
  llLevel :: int
  llMessage :: string
  llAttrs :: "(string \<times> string) list"

definition request_level :: "LoggerConfig \<Rightarrow> nat \<Rightarrow> int" where
  "request_level conf code = (if code < 300 then lcLevel conf else if code < 400 then LevelWarn else LevelError)"

text \<open>
  What the handlers behind the middleware leave: their result, and the status the response has at
  that time (an error sets it only later). \<open>fiber_code\<close>: the code of an error that is fiber's own.
\<close>

definition logged_status :: "(gofail \<Rightarrow> nat option) \<Rightarrow> nat \<Rightarrow> gofail option \<Rightarrow> nat" where
  "logged_status fiber_code code err =
     (case err of None \<Rightarrow> code | Some e \<Rightarrow> (case fiber_code e of Some c \<Rightarrow> c | None \<Rightarrow> code))"

record http_trace =
  htMethod :: string
  htPath :: string
  htQuery :: string
  htClient :: string
  htUser :: string
  htMillis :: int

definition request_line :: "LoggerConfig \<Rightarrow> (gofail \<Rightarrow> nat option) \<Rightarrow> http_trace \<Rightarrow> nat \<Rightarrow> gofail option \<Rightarrow> log_line" where
  "request_line conf fiber_code t code0 err =
     (let code = logged_status fiber_code code0 err
      in \<lparr>llLevel = request_level conf code,
          llMessage = Join [Itoa (int code), htMethod t, htPath t, htQuery t] '' '',
          llAttrs = [(''logger'', lcName conf)] @ (case err of None \<Rightarrow> [] | Some (Error e) \<Rightarrow> [(''error'', e)] | Some (Panic p) \<Rightarrow> [(''error'', p)]
                | Some EOF \<Rightarrow> [(''error'', ''EOF'')]) @
            [(''client'', htClient t), (''status'', Itoa (int code))] @
            (if lcHasUser conf then [(''user'', htUser t)] else []) @ [(''ms'', Itoa (htMillis t))]\<rparr>)"

text \<open>A panic passes the middleware without a line.\<close>

definition FiberLogger ::
    "LoggerConfig option \<Rightarrow> (gofail \<Rightarrow> nat option) \<Rightarrow> http_trace \<Rightarrow> 'db handler \<Rightarrow> request \<Rightarrow> 'db App \<Rightarrow>
     (response result \<times> 'db App) \<times> log_line list" where
  "FiberLogger conf0 fiber_code t next rq app =
     (let conf = (case conf0 of None \<Rightarrow> default_config | Some c \<Rightarrow> c)
      in case next rq app of
           (Inl (Panic p), app') \<Rightarrow> ((Inl (Panic p), app'), [])
         | (Inl err, app') \<Rightarrow> ((Inl err, app'), [request_line conf fiber_code t 200 (Some err)])
         | (Inr r, app') \<Rightarrow> ((Inr r, app'), [request_line conf fiber_code t (hrStatus r) None]))"

section \<open>Colours\<close>

definition colorize :: "int \<Rightarrow> string \<Rightarrow> string" where
  "colorize code v = [CHR 0x1B] @ ''['' @ Itoa code @ ''m'' @ v @ [CHR 0x1B] @ ''[0m''"

definition level_color :: "int \<Rightarrow> int" where
  "level_color l =
     (if l \<le> LevelDebug then 37 else if l \<le> LevelInfo then 92 else if l < LevelWarn then 94
      else if l < LevelError then 93 else if l \<le> LevelError + 1 then 91 else 95)"

section \<open>The handler\<close>

text \<open>An attribute: its key and its value as text, \<open>None\<close> for the value of the empty attribute.\<close>

type_synonym log_attr = "string \<times> string option"

definition empty_attr :: log_attr where "empty_attr = ([], None)"

type_synonym replacer = "(string list \<Rightarrow> log_attr \<Rightarrow> log_attr) option"

record slog_record =
  slTime :: time
  slLevel :: int
  slMessage :: string
  slAttrs :: "(string \<times> string) list"

record slog_tools =
  stInner :: "replacer \<Rightarrow> slog_record \<Rightarrow> string \<times> gofail option"
  stUnmarshal :: "string \<Rightarrow> (string, string) smap result"
  stMarshal :: "(string, string) smap \<Rightarrow> string result"
  stTimeFormat :: "time \<Rightarrow> string"

record LogHandler =
  lhReplace :: replacer
  lhBuffer :: string

definition suppressDefaults :: "replacer \<Rightarrow> replacer" where
  "suppressDefaults next =
     Some (\<lambda>groups a. if fst a = ''time'' \<or> fst a = ''level'' \<or> fst a = ''msg'' then empty_attr
           else case next of None \<Rightarrow> a | Some f \<Rightarrow> f groups a)"

definition NewHandler :: "replacer \<Rightarrow> LogHandler" where "NewHandler r = \<lparr>lhReplace = r, lhBuffer = []\<rparr>"

text \<open>The buffer is emptied on every path.\<close>

definition wrap_error :: "string \<Rightarrow> gofail \<Rightarrow> gofail" where
  "wrap_error what err = (case err of EOF \<Rightarrow> Error (what @ '': EOF'') | Error e \<Rightarrow> Error (what @ '': '' @ e) | Panic p \<Rightarrow> Panic p)"

definition computeAttrs :: "slog_tools \<Rightarrow> slog_record \<Rightarrow> LogHandler \<Rightarrow> (string, string) smap result \<times> LogHandler" where
  "computeAttrs sl r h =
     (case stInner sl (suppressDefaults (lhReplace h)) r of
        (written, err) \<Rightarrow>
          (case err of
             Some e \<Rightarrow> Inl (wrap_error (''error when calling inner handler'' @ [CHR 0x27] @ ''s Handle'') e)
           | None \<Rightarrow>
               (case stUnmarshal sl (lhBuffer h @ written) of
                  Inl e \<Rightarrow> Inl (wrap_error (''error when unmarshaling inner handler'' @ [CHR 0x27] @ ''s Handle result'') e)
                | Inr attrs \<Rightarrow> Inr attrs),
           h\<lparr>lhBuffer := []\<rparr>))"

definition replaced :: "LogHandler \<Rightarrow> log_attr \<Rightarrow> log_attr" where
  "replaced h a = (case lhReplace h of None \<Rightarrow> a | Some f \<Rightarrow> f [] a)"

definition value_text :: "log_attr \<Rightarrow> string" where
  "value_text a = (case snd a of None \<Rightarrow> ''<nil>'' | Some s \<Rightarrow> s)"

definition Handle :: "slog_tools \<Rightarrow> slog_record \<Rightarrow> LogHandler \<Rightarrow> (string option \<times> gofail option) \<times> LogHandler" where
  "Handle sl r h =
     (let part = (\<lambda>a code. let a' = replaced h a in if a' = empty_attr then [] else colorize code (value_text a'));
          level = part (''level'', Some (Level_String (slLevel r))) (level_color (slLevel r));
          timestamp = part (''time'', Some (stTimeFormat sl (slTime r))) 37;
          msg = part (''msg'', Some (slMessage r)) 97
      in case computeAttrs sl r h of
           (Inl err, h') \<Rightarrow> ((None, Some err), h')
         | (Inr attrs, h') \<Rightarrow>
             (case stMarshal sl attrs of
                Inl err \<Rightarrow> ((None, Some (wrap_error ''error when marshaling attrs'' err)), h')
              | Inr b \<Rightarrow>
                  ((Some (concat (map (\<lambda>s. if s = [] then [] else s @ '' '') [timestamp, level, msg]) @
                      (if attrs = [] then [] else colorize 90 b) @ [CHR 0x0A]), None), h')))"

fun log_all :: "slog_tools \<Rightarrow> slog_record list \<Rightarrow> LogHandler \<Rightarrow> string \<times> LogHandler" where
  "log_all sl [] h = ([], h)"
| "log_all sl (r # rs) h =
     (case Handle sl r h of
        ((out, err), h1) \<Rightarrow> (case log_all sl rs h1 of (s, h2) \<Rightarrow> ((case out of None \<Rightarrow> [] | Some o1 \<Rightarrow> o1) @ s, h2)))"

section \<open>Properties\<close>

text \<open>
  The request log stays out of the way, and does not tell failures. The middleware answers as the
  handlers behind it and leaves the state to them, with one line per request that does not panic;
  but an error that is not one of fiber's own, which the client gets as status 500, is logged with the
  status 200 at the level of a success.
\<close>

theorem request_log:
  "fst (FiberLogger conf fiber_code t next rq app) = next rq app \<and>
   (case next rq app of
      (Inl (Panic p), _) \<Rightarrow> snd (FiberLogger conf fiber_code t next rq app) = []
    | (Inl err, _) \<Rightarrow> (case fiber_code err of
          None \<Rightarrow> map llLevel (snd (FiberLogger conf fiber_code t next rq app)) = [case conf of None \<Rightarrow> LevelInfo | Some c \<Rightarrow> lcLevel c]
        | Some code \<Rightarrow> length (snd (FiberLogger conf fiber_code t next rq app)) = 1)
    | (Inr r, _) \<Rightarrow> map llLevel (snd (FiberLogger conf fiber_code t next rq app)) =
        [if 400 \<le> hrStatus r then LevelError else if 300 \<le> hrStatus r then LevelWarn
         else case conf of None \<Rightarrow> LevelInfo | Some c \<Rightarrow> lcLevel c])"
  by (auto simp: FiberLogger_def request_line_def logged_status_def request_level_def default_config_def Let_def split: sum.split gofail.split prod.split option.split)

lemma computeAttrs_buffer: "computeAttrs sl r (NewHandler f) = (res, h) \<Longrightarrow> h = NewHandler f"
  by (auto simp: computeAttrs_def NewHandler_def split: prod.splits)

lemma Handle_buffer: "snd (Handle sl r (NewHandler f)) = NewHandler f"
  by (cases "computeAttrs sl r (NewHandler f)")
    (auto simp: Handle_def Let_def dest: computeAttrs_buffer split: sum.split)

text \<open>
  The lines of the log do not mix. Whatever records are printed before, and whether printing them
  failed, a record is printed as it would be alone, and the buffer is empty again.
\<close>

theorem log_lines:
  "log_all sl rs (NewHandler f) =
     (concat (map (\<lambda>r. case fst (fst (Handle sl r (NewHandler f))) of None \<Rightarrow> [] | Some line \<Rightarrow> line) rs), NewHandler f)"
proof (induction rs)
  case (Cons r rs)
  obtain out err h where "Handle sl r (NewHandler f) = ((out, err), h)" by (metis prod.exhaust)
  with Handle_buffer [of sl r f] show ?case using Cons.IH by simp
qed simp

end
