(* ===== verification/PackageSettings.thy ===== *)
theory PackageSettings
  imports MissionPackage
begin

text \<open>
  What the settings files of \<open>mp/mission_package.go\<close> and \<open>prefs.go\<close> say: which settings can be read back
  from the text.
\<close>

section \<open>What a settings file says\<close>

text \<open>A key the client knows, without quotation marks.\<close>

definition known_key :: "string \<Rightarrow> bool" where
  "known_key k \<longleftrightarrow> GetEntry k [] \<noteq> [] \<and> CHR 0x22 \<notin> set k"

definition settings_text :: "(string, string) smap \<Rightarrow> string" where
  "settings_text m = file_Content (PrefFile ''user-profile.pref'' [(CIV_PREF, m)])"

definition key_class :: "string \<Rightarrow> string" where
  "key_class k = (if hiding_key k then ''Boolean'' else case find (\<lambda>p. pkKey p = k) prefKeys of None \<Rightarrow> [] | Some p \<Rightarrow> pkCls p)"

lemma known_entry:
  assumes "known_key k"
  shows "entry_line (k, v) = entry_xml k (key_class k) v @ lf"
proof -
  have found: "find P xs = Some p \<Longrightarrow> P p" for P and xs :: "PrefKey list" and p by (induction xs) (auto split: if_splits)
  have "entry_xml a c w \<noteq> []" for a c w by (simp add: entry_xml_def)
  then show ?thesis
    using assms found [of "\<lambda>p. pkKey p = k" prefKeys]
    by (cases "find (\<lambda>p. pkKey p = k) prefKeys")
      (auto simp: known_key_def entry_line_def GetEntry_def key_class_def PrefKey_Val_def Let_def split: if_splits)
qed

lemma split_first: "c \<notin> set a \<Longrightarrow> c \<notin> set b \<Longrightarrow> a @ c # x = b @ c # y \<longleftrightarrow> a = b \<and> x = y"
proof (induction a arbitrary: b)
  case (Cons e a)
  then show ?case by (cases b) auto
qed (auto simp: Cons_eq_append_conv)

lemma entry_line_inject:
  assumes "known_key k" "known_key k'" "CHR ''<'' \<notin> set v" "CHR ''<'' \<notin> set v'"
  shows "entry_line (k, v) @ r = entry_line (k', v') @ r' \<longleftrightarrow> k = k' \<and> v = v' \<and> r = r'"
proof -
  have form: "entry_line (a, b) @ s = ''<entry key='' @ [CHR 0x22] @ a @ CHR 0x22 # '' class='' @ [CHR 0x22] @ ''class java.lang.'' @
      key_class a @ [CHR 0x22] @ ''>'' @ b @ CHR ''<'' # ''/entry>'' @ lf @ s" if "known_key a" for a b s
    by (simp add: known_entry that entry_xml_def)
  show ?thesis
    unfolding form [OF assms(1)] form [OF assms(2)]
    using assms by (auto simp: split_first known_key_def)
qed

lemma entry_lines_inject:
  assumes "\<forall>(k, v) \<in> set m. known_key k \<and> CHR ''<'' \<notin> set v" "\<forall>(k, v) \<in> set m'. known_key k \<and> CHR ''<'' \<notin> set v"
  shows "concat (map entry_line m) @ ''</preference>'' @ r = concat (map entry_line m') @ ''</preference>'' @ r \<longleftrightarrow> m = m'"
  using assms
proof (induction m arbitrary: m')
  case Nil
  show ?case
  proof (cases m')
    case (Cons kv m'')
    obtain k v where "kv = (k, v)" by fastforce
    with Nil(2) Cons show ?thesis by (simp add: known_entry entry_xml_def)
  qed simp
next
  case (Cons kv m)
  obtain k v where kv: "kv = (k, v)" by fastforce
  show ?case
  proof (cases m')
    case Nil
    with Cons.prems kv show ?thesis by (simp add: known_entry entry_xml_def)
  next
    case (Cons kv' m'')
    obtain k' v' where kv': "kv' = (k', v')" by fastforce
    show ?thesis
      using Cons.IH [of m''] Cons.prems entry_line_inject [of k k' v v'] unfolding kv kv' \<open>m' = kv' # m''\<close> by auto
  qed
qed

text \<open>
  C8: what a settings file says. Files of known settings whose values hold no markup are equal only
  when the settings are, in order; but values are written as they are, so that one with markup in it
  can say what two settings say, another one of any value among them.
\<close>

theorem settings_faithful:
  assumes "\<forall>(k, v) \<in> set m. known_key k \<and> CHR ''<'' \<notin> set v" "\<forall>(k, v) \<in> set m'. known_key k \<and> CHR ''<'' \<notin> set v"
    and "known_key k" "known_key k'"
  shows "(settings_text m = settings_text m' \<longleftrightarrow> m = m') \<and>
     settings_text [(k, v @ ''</entry>'' @ lf @ TrimSuffix (GetEntry k' v') ''</entry>'')] = settings_text [(k, v), (k', v')]"
proof
  show "settings_text m = settings_text m' \<longleftrightarrow> m = m'"
    using entry_lines_inject [OF assms(1,2), of "''</preferences>''"]
    by (simp add: settings_text_def preference_xml_def smRange_def)
  have "GetEntry k' v' = entry_xml k' (key_class k') v'"
    using known_entry [OF assms(4), of v'] by (simp add: entry_line_def Let_def split: if_splits)
  moreover have "TrimSuffix (entry_xml k' c v') ''</entry>'' @ ''</entry>'' = entry_xml k' c v'" for c
  proof -
    have "TrimSuffix (x @ ''</entry>'') ''</entry>'' = x" for x by (simp add: TrimSuffix_def HasSuffix_def)
    moreover obtain x where "entry_xml k' c v' = x @ ''</entry>''" unfolding entry_xml_def by (metis append_assoc)
    ultimately show ?thesis by simp
  qed
  ultimately show "settings_text [(k, v @ ''</entry>'' @ lf @ TrimSuffix (GetEntry k' v') ''</entry>'')] = settings_text [(k, v), (k', v')]"
    using assms(3,4) by (simp add: settings_text_def preference_xml_def smRange_def known_entry) (simp add: entry_xml_def)
qed

theorem settings_faithful_witness:
  "settings_text [(''locationTeam'', ''Blue</entry>'' @ lf @ TrimSuffix (GetEntry ''locationCallsign'' ''x'') ''</entry>'')] =
     settings_text [(''locationTeam'', ''Blue''), (''locationCallsign'', ''x'')] \<and>
   settings_text [(''locationTeam'', ''Blue'')] \<noteq> settings_text [(''locationTeam'', ''Red'')]"
proof -
  have known: "known_key ''locationTeam''" "known_key ''locationCallsign''" by code_simp+
  then have ok: "\<forall>(k, v) \<in> set [(''locationTeam'', ''Blue'')]. known_key k \<and> CHR ''<'' \<notin> set v"
    "\<forall>(k, v) \<in> set [(''locationTeam'', ''Red'')]. known_key k \<and> CHR ''<'' \<notin> set v" by simp_all
  show ?thesis using settings_faithful [OF ok known, of "''Blue''" "''x''"] by simp
qed

end
